(* ===== verification/Prelude.thy ===== *)
theory Prelude
  imports Main "HOL-Library.Word" "HOL-Library.Monad_Syntax"
begin

text \<open>
  Shared vocabulary of the development: the machine integers of the driver (a 32-bit
  big-endian PowerPC), C pointers as 32-bit addresses with \<open>0\<close> for \<open>NULL\<close>, array
  accesses that fail out of bounds, the GCC byte-swap built-ins, big-endian byte packing,
  and singly linked lists threaded through an array, which both the descriptor table of a
  virtqueue and the in-flight table of a unit use as their free list.
\<close>

unbundle bit_operations_syntax

section \<open>Machine integers and pointers\<close>

type_synonym u8 = "8 word"
type_synonym u16 = "16 word"
type_synonym u32 = "32 word"
type_synonym u64 = "64 word"
type_synonym ptr = "32 word"

abbreviation NULL :: ptr where
  "NULL \<equiv> 0"

named_theorems bswap_simps \<open>facts that cancel byte swaps\<close>
named_theorems view_simps \<open>facts about what the device reads through shared memory\<close>

section \<open>Array accesses that fail out of bounds\<close>

text \<open>
  A C array access out of bounds is undefined behaviour; the model returns \<open>None\<close>,
  so that a theorem that an operation returns \<open>Some\<close> also says that all its accesses
  are inside the arrays.
\<close>

definition rd :: "'a list \<Rightarrow> nat \<Rightarrow> 'a option" where
  "rd xs i = (if i < length xs then Some (xs ! i) else None)"

definition wr :: "'a list \<Rightarrow> nat \<Rightarrow> 'a \<Rightarrow> 'a list option" where
  "wr xs i v = (if i < length xs then Some (xs[i := v]) else None)"

lemma rd_in [simp]: "i < length xs \<Longrightarrow> rd xs i = Some (xs ! i)"
  by (simp add: rd_def)

lemma wr_in [simp]: "i < length xs \<Longrightarrow> wr xs i v = Some (xs[i := v])"
  by (simp add: wr_def)

lemma rd_eq_Some: "rd xs i = Some v \<longleftrightarrow> i < length xs \<and> v = xs ! i"
  by (auto simp: rd_def)

lemma wr_eq_Some: "wr xs i v = Some ys \<longleftrightarrow> i < length xs \<and> ys = xs[i := v]"
  by (auto simp: wr_def)

lemma length_filter_upd_less:
  "i < length xs \<Longrightarrow> P (xs ! i) \<Longrightarrow> \<not> P v \<Longrightarrow> length (filter P (xs[i := v])) < length (filter P xs)"
  by (induction xs arbitrary: i) (auto split: nat.splits)

section \<open>Byte order\<close>

definition bswap16 :: "u16 \<Rightarrow> u16" where
  "bswap16 v = push_bit 8 v OR drop_bit 8 v"

definition bswap32 :: "u32 \<Rightarrow> u32" where
  "bswap32 v = push_bit 24 (v AND 0x000000FF) OR push_bit 8 (v AND 0x0000FF00)
     OR drop_bit 8 (v AND 0x00FF0000) OR drop_bit 24 (v AND 0xFF000000)"

definition bswap64 :: "u64 \<Rightarrow> u64" where
  "bswap64 v = push_bit 32 (ucast (bswap32 (ucast v))) OR ucast (bswap32 (ucast (drop_bit 32 v)))"

lemma byte_masks32:
  "(0xFF :: u32) = mask 8"
  "(0xFF00 :: u32) = push_bit 8 (mask 8)"
  "(0xFF0000 :: u32) = push_bit 16 (mask 8)"
  "(0xFF000000 :: u32) = push_bit 24 (mask 8)"
  by (simp_all add: mask_eq_decr_exp)

lemma bswap16_bswap16 [simp, bswap_simps]: "bswap16 (bswap16 v) = v"
  by (rule bit_word_eqI) (auto simp: bswap16_def bit_simps)

lemma bit_bswap32:
  "bit (bswap32 v) n \<longleftrightarrow> n < 32 \<and>
     bit v (if n < 8 then n + 24 else if n < 16 then n + 8 else if n < 24 then n - 8 else n - 24)"
  unfolding bswap32_def byte_masks32 by (auto simp: bit_simps add.commute)

lemma bswap32_bswap32 [simp, bswap_simps]: "bswap32 (bswap32 v) = v"
  by (rule bit_word_eqI) (auto simp: bit_bswap32)

lemma bit_bswap64:
  "bit (bswap64 v) n \<longleftrightarrow> n < 64 \<and>
     bit v (if n < 32 then (if n < 8 then n + 56 else if n < 16 then n + 40
                            else if n < 24 then n + 24 else n + 8)
            else (if n < 40 then n - 8 else if n < 48 then n - 24
                  else if n < 56 then n - 40 else n - 56))"
  unfolding bswap64_def by (auto simp: bit_simps bit_bswap32 add.commute)

lemma bswap64_bswap64 [simp, bswap_simps]: "bswap64 (bswap64 v) = v"
  by (rule bit_word_eqI) (auto simp: bit_bswap64)

section \<open>Words as indices\<close>

lemma unat_of_nat16: "n < 65536 \<Longrightarrow> unat (of_nat n :: u16) = n"
  by (simp add: unat_of_nat take_bit_nat_eq_self)

lemma unat_of_nat32: "n < 4294967296 \<Longrightarrow> unat (of_nat n :: u32) = n"
  by (simp add: unat_of_nat take_bit_nat_eq_self)

lemma unat_lt_u16: "unat (x :: u16) < 65536"
  using unsigned_less [of x] by simp

lemma unat_lt_u32: "unat (x :: u32) < 4294967296"
  using unsigned_less [of x] by simp

lemma unat_ucast_16_32 [simp]: "unat (ucast (x :: u16) :: u32) = unat x"
  using unat_lt_u16 [of x] by (simp add: unsigned_ucast_eq take_bit_nat_eq_self)

section \<open>Linked lists threaded through an array\<close>

text \<open>
  \<open>lseg enc nxt h ks e\<close>: starting at link value \<open>h\<close>, the list visits the indices
  \<open>ks\<close> in this order, and the link stored at the last one is \<open>e\<close>. A link to index
  \<open>k\<close> is stored as \<open>enc k\<close>; \<open>nxt k\<close> is the link stored at index \<open>k\<close>.
\<close>

fun lseg :: "(nat \<Rightarrow> 'l) \<Rightarrow> (nat \<Rightarrow> 'l) \<Rightarrow> 'l \<Rightarrow> nat list \<Rightarrow> 'l \<Rightarrow> bool" where
  "lseg enc nxt h [] e \<longleftrightarrow> h = e"
| "lseg enc nxt h (k # ks) e \<longleftrightarrow> h = enc k \<and> lseg enc nxt (nxt k) ks e"

lemma lseg_frame:
  assumes "\<And>k. k \<in> set ks \<Longrightarrow> nxt' k = nxt k"
  shows "lseg enc nxt' h ks e = lseg enc nxt h ks e"
  using assms by (induction ks arbitrary: h) auto

lemma lseg_frame_upd: "j \<notin> set ks \<Longrightarrow> lseg enc (nxt(j := v)) h ks e = lseg enc nxt h ks e"
  by (rule lseg_frame) auto

lemma lseg_append:
  "lseg enc nxt h (xs @ ys) e \<longleftrightarrow> (\<exists>m. lseg enc nxt h xs m \<and> lseg enc nxt m ys e)"
  by (induction xs arbitrary: h) auto

lemma lseg_push:
  "lseg enc nxt h ks e \<Longrightarrow> k \<notin> set ks \<Longrightarrow> lseg enc (nxt(k := h)) (enc k) (k # ks) e"
  by (simp add: lseg_frame_upd)

lemma lseg_drop:
  "lseg enc nxt h ks e \<Longrightarrow> n < length ks \<Longrightarrow> lseg enc nxt (enc (ks ! n)) (drop n ks) e"
proof (induction ks arbitrary: h n)
  case (Cons k ks)
  then show ?case by (cases n; cases ks) auto
qed simp

lemma lseg_upt:
  assumes "i \<le> m" and "\<And>k. i \<le> k \<Longrightarrow> k < m \<Longrightarrow> Suc k < m \<Longrightarrow> nxt k = enc (Suc k)"
    and "i < m"
  shows "lseg enc nxt (enc i) [i..<m] (nxt (m - 1))"
  using assms
proof (induction "m - i" arbitrary: i)
  case (Suc d)
  show ?case
  proof (cases "Suc i < m")
    case True
    have "lseg enc nxt (enc (Suc i)) [Suc i..<m] (nxt (m - 1))"
      by (rule Suc.hyps(1)) (use Suc True in auto)
    with True Suc.prems show ?thesis by (simp add: upt_conv_Cons)
  next
    case False
    with Suc.prems have "m = Suc i" by simp
    then show ?thesis by simp
  qed
qed simp

end
