(* ===== verification/Exec_Interface.thy ===== *)
theory Exec_Interface
  imports Prelude "HOL-Library.Multiset"
begin

text \<open>
  The operating system as the driver sees it. \<open>exec.library\<close>, the PCI library and the
  device registers are not part of the repository, so they are a parameter: a record
  \<open>kern\<close> of functions that give the result of each value-returning call from the
  history of calls so far and the call's arguments. Every call is recorded, with its
  result, in the log of the state, so that what a routine did to the outside world (memory
  it allocated, requests it replied, registers it wrote) is a value theorems speak about.
\<close>

section \<open>Calls and their log\<close>

text \<open>\<open>struct DMAEntry\<close> of the SDK: one physically contiguous piece of a buffer.\<close>

record dma_entry =
  PhysicalAddress :: u32
  BlockLength :: u32

datatype pci_event =
    OutByte u32 u8
  | OutWord u32 u16
  | OutLong u32 u32
  | InByte u32 u8
  | InWord u32 u16
  | InLong u32 u32
  | Mmio_w8 u32 u8
  | Mmio_w16 u32 u16
  | Mmio_w32 u32 u32
  | Mmio_r8 u32 u8
  | Mmio_r16 u32 u16
  | Mmio_r32 u32 u32
  | ReadConfigByte u32 u8
  | ReadConfigWord u32 u16
  | ReadConfigLong u32 u32
  | WriteConfigWord u32 u16
  | WriteConfigLong u32 u32
  | SetCapabilities u32
  | MapInterrupt u32
  | AddIntServer u32 bool
  | RemIntServer u32

datatype resource = RMem ptr | RDma ptr u32 | RObj ptr | RPort ptr | RMutex ptr | RSignal int
  | RRange ptr | RDevice ptr | RLib ptr | RIface ptr

datatype os_event =
    AllocVecTags u32 ptr             \<comment> \<open>size, result (\<open>NULL\<close> on failure)\<close>
  | FreeVec ptr
  | StartDMA ptr u32 bool u32        \<comment> \<open>address, size, \<open>DMA_ReadFromRAM\<close>, number of entries (0 on failure)\<close>
  | GetDMAList ptr u32 bool ptr
  | EndDMA ptr u32 bool bool         \<comment> \<open>address, size, \<open>DMA_ReadFromRAM\<close>, \<open>DMAF_NoModify\<close>\<close>
  | AllocDMAEntries u32 ptr          \<comment> \<open>\<open>AllocSysObjectTags(ASOT_DMAENTRY, ..)\<close>\<close>
  | FreeDMAEntries ptr
  | Acquire resource                 \<comment> \<open>ports, mutexes, signals, PCI ranges, libraries, interfaces\<close>
  | Release resource
  | ObtainSemaphore                  \<comment> \<open>\<open>io_lock\<close>\<close>
  | ReleaseSemaphore
  | MutexObtain                      \<comment> \<open>\<open>port_mutex\<close>\<close>
  | MutexRelease
  | Signal ptr u32
  | Wait u32
  | SetSignal u32
  | ReplyMsg ptr
  | PutMsg ptr ptr                   \<comment> \<open>port, message\<close>
  | GetMsg ptr ptr                   \<comment> \<open>port, message (\<open>NULL\<close> if empty)\<close>
  | RemoveNode ptr
  | CreateTask ptr
  | CopyMem ptr ptr u32              \<comment> \<open>source, destination, size\<close>
  | CacheClearE ptr u32 u32
  | DeleteLibrary
  | Pci pci_event

record kern =
  k_AllocVecTags :: "os_event list \<Rightarrow> u32 \<Rightarrow> ptr"
  k_StartDMA :: "os_event list \<Rightarrow> ptr \<Rightarrow> u32 \<Rightarrow> bool \<Rightarrow> u32"
  k_GetDMAList :: "os_event list \<Rightarrow> ptr \<Rightarrow> u32 \<Rightarrow> bool \<Rightarrow> dma_entry list"
  k_AllocDMAEntries :: "os_event list \<Rightarrow> u32 \<Rightarrow> ptr"
  k_AllocPort :: "os_event list \<Rightarrow> ptr"
  k_AllocMutex :: "os_event list \<Rightarrow> ptr"
  k_AllocSignal :: "os_event list \<Rightarrow> int"
  k_CreateTask :: "os_event list \<Rightarrow> ptr"
  k_FindTask :: "os_event list \<Rightarrow> ptr"
  k_mp_SigBit :: "ptr \<Rightarrow> nat"
  k_Wait :: "os_event list \<Rightarrow> u32 \<Rightarrow> u32"
  k_frame :: "os_event list \<Rightarrow> ptr"    \<comment> \<open>address of a buffer on the current stack frame\<close>
  k_sizeof_virtqueue :: u32          \<comment> \<open>\<open>sizeof(struct virtqueue)\<close> on the target\<close>
  k_sizeof_unit :: u32               \<comment> \<open>\<open>sizeof(struct VirtIOUSCSIDevUnit)\<close>\<close>
  k_sizeof_DriveGeometry :: u32
  k_sizeof_DriveGeometry64 :: u32
  k_sizeof_NSDeviceQueryResult :: u32
  k_sizeof_SCSICmd :: u32

record os =
  os_log :: "os_event list"
  dma_objs :: "ptr \<Rightarrow> dma_entry list"

definition os_emit :: "os_event \<Rightarrow> 'z os_scheme \<Rightarrow> 'z os_scheme" where
  "os_emit e s = s\<lparr>os_log := os_log s @ [e]\<rparr>"

definition os_AllocVecTags :: "kern \<Rightarrow> u32 \<Rightarrow> 'z os_scheme \<Rightarrow> ptr \<times> 'z os_scheme" where
  "os_AllocVecTags K n s =
     (let p = k_AllocVecTags K (os_log s) n in (p, os_emit (AllocVecTags n p) s))"

definition os_StartDMA ::
    "kern \<Rightarrow> ptr \<Rightarrow> u32 \<Rightarrow> bool \<Rightarrow> 'z os_scheme \<Rightarrow> u32 \<times> 'z os_scheme" where
  "os_StartDMA K a n f s =
     (let r = k_StartDMA K (os_log s) a n f in (r, os_emit (StartDMA a n f r) s))"

definition os_AllocDMAEntries :: "kern \<Rightarrow> u32 \<Rightarrow> 'z os_scheme \<Rightarrow> ptr \<times> 'z os_scheme" where
  "os_AllocDMAEntries K n s =
     (let p = k_AllocDMAEntries K (os_log s) n in (p, os_emit (AllocDMAEntries n p) s))"

definition os_GetDMAList ::
    "kern \<Rightarrow> ptr \<Rightarrow> u32 \<Rightarrow> bool \<Rightarrow> ptr \<Rightarrow> 'z os_scheme \<Rightarrow> 'z os_scheme" where
  "os_GetDMAList K a n f obj s =
     os_emit (GetDMAList a n f obj)
       (s\<lparr>dma_objs := (dma_objs s)(obj := k_GetDMAList K (os_log s) a n f)\<rparr>)"

lemma os_emit_simps [simp]:
  "os_log (os_emit e s) = os_log s @ [e]"
  "dma_objs (os_emit e s) = dma_objs s"
  "os.more (os_emit e s) = os.more s"
  by (simp_all add: os_emit_def)

section \<open>The resource ledger\<close>

text \<open>
  What a log leaves allocated. A release of something that is not live (a double free, an
  \<open>EndDMA\<close> without its \<open>StartDMA\<close>) makes the ledger \<open>None\<close>.
\<close>

definition give_back :: "resource \<Rightarrow> resource multiset \<Rightarrow> resource multiset option" where
  "give_back r m = (if r \<in># m then Some (m - {#r#}) else None)"

definition ledger_step :: "os_event \<Rightarrow> resource multiset \<Rightarrow> resource multiset option" where
  "ledger_step e m =
     (case e of
        AllocVecTags n p \<Rightarrow> Some (if p = NULL then m else add_mset (RMem p) m)
      | FreeVec p \<Rightarrow> give_back (RMem p) m
      | StartDMA a n f r \<Rightarrow> Some (if r = 0 then m else add_mset (RDma a n) m)
      | EndDMA a n f nm \<Rightarrow> give_back (RDma a n) m
      | AllocDMAEntries n p \<Rightarrow> Some (if p = NULL then m else add_mset (RObj p) m)
      | FreeDMAEntries p \<Rightarrow> give_back (RObj p) m
      | Acquire r \<Rightarrow> Some (add_mset r m)
      | Release r \<Rightarrow> give_back r m
      | _ \<Rightarrow> Some m)"

lemma ledger_step_simps [simp]:
  "ledger_step (AllocVecTags n p) m = Some (if p = NULL then m else add_mset (RMem p) m)"
  "ledger_step (FreeVec p) m = give_back (RMem p) m"
  "ledger_step (StartDMA a n f r) m = Some (if r = 0 then m else add_mset (RDma a n) m)"
  "ledger_step (EndDMA a n f nm) m = give_back (RDma a n) m"
  "ledger_step (AllocDMAEntries n p) m = Some (if p = NULL then m else add_mset (RObj p) m)"
  "ledger_step (FreeDMAEntries p) m = give_back (RObj p) m"
  "ledger_step (Acquire r') m = Some (add_mset r' m)"
  "ledger_step (Release r') m = give_back r' m"
  "ledger_step (GetDMAList a n f p) m = Some m"
  "ledger_step ObtainSemaphore m = Some m"
  "ledger_step ReleaseSemaphore m = Some m"
  "ledger_step MutexObtain m = Some m"
  "ledger_step MutexRelease m = Some m"
  "ledger_step (Signal p u) m = Some m"
  "ledger_step (Wait u) m = Some m"
  "ledger_step (SetSignal u) m = Some m"
  "ledger_step (ReplyMsg p) m = Some m"
  "ledger_step (PutMsg p q) m = Some m"
  "ledger_step (GetMsg p q) m = Some m"
  "ledger_step (RemoveNode p) m = Some m"
  "ledger_step (CreateTask p) m = Some m"
  "ledger_step (CopyMem p q n) m = Some m"
  "ledger_step (CacheClearE p n u) m = Some m"
  "ledger_step (Pci e) m = Some m"
  by (simp_all add: ledger_step_def)

fun ledger :: "os_event list \<Rightarrow> resource multiset \<Rightarrow> resource multiset option" where
  "ledger [] m = Some m"
| "ledger (e # es) m = (case ledger_step e m of None \<Rightarrow> None | Some m' \<Rightarrow> ledger es m')"

lemma ledger_append [simp]:
  "ledger (xs @ ys) m = (case ledger xs m of None \<Rightarrow> None | Some m' \<Rightarrow> ledger ys m')"
  by (induction xs arbitrary: m) (auto split: option.split)

lemma give_back_add [simp]: "give_back r (add_mset r m) = Some m"
  by (simp add: give_back_def)

text \<open>The requests a log has replied, in order.\<close>

definition replies :: "os_event list \<Rightarrow> ptr list" where
  "replies es = concat (map (\<lambda>e. case e of ReplyMsg p \<Rightarrow> [p] | _ \<Rightarrow> []) es)"

lemma replies_append [simp]: "replies (xs @ ys) = replies xs @ replies ys"
  by (simp add: replies_def)

lemma replies_simps [simp]:
  "replies [] = []"
  "replies (e # es) = (case e of ReplyMsg p \<Rightarrow> [p] | _ \<Rightarrow> []) @ replies es"
  by (simp_all add: replies_def)

text \<open>The requests a log has replied are counted per request.\<close>

definition reply_count :: "os_event list \<Rightarrow> ptr \<Rightarrow> nat" where
  "reply_count es p = count_list (replies es) p"

section \<open>Lock discipline\<close>

text \<open>
  Following \<open>io_lock\<close> through a log, from held or not held: \<open>None\<close> when the lock is
  obtained twice, released without being held, or held across a call that can switch tasks
  (\<open>Wait\<close>, \<open>ReplyMsg\<close>).
\<close>

definition lock_step :: "os_event \<Rightarrow> bool \<Rightarrow> bool option" where
  "lock_step e h =
     (case e of
        ObtainSemaphore \<Rightarrow> if h then None else Some True
      | ReleaseSemaphore \<Rightarrow> if h then Some False else None
      | Wait m \<Rightarrow> if h then None else Some h
      | ReplyMsg p \<Rightarrow> if h then None else Some h
      | _ \<Rightarrow> Some h)"

fun lock_run :: "os_event list \<Rightarrow> bool \<Rightarrow> bool option" where
  "lock_run [] h = Some h"
| "lock_run (e # es) h = (case lock_step e h of None \<Rightarrow> None | Some h' \<Rightarrow> lock_run es h')"

lemma lock_run_append [simp]:
  "lock_run (xs @ ys) h = (case lock_run xs h of None \<Rightarrow> None | Some h' \<Rightarrow> lock_run ys h')"
  by (induction xs arbitrary: h) (auto split: option.split)

section \<open>A sample system\<close>

text \<open>
  A system where every call succeeds: memory comes from a bump allocator and a mapping has
  one piece. It shows that the hypotheses of the properties can hold.
\<close>

definition demo_kern :: kern where
  "demo_kern =
     \<lparr>k_AllocVecTags = (\<lambda>h n. 0x100000 + 0x10000 * of_nat (length h)),
      k_StartDMA = (\<lambda>h a n f. 1),
      k_GetDMAList = (\<lambda>h a n f. [\<lparr>PhysicalAddress = a + 0x40000000, BlockLength = n\<rparr>]),
      k_AllocDMAEntries = (\<lambda>h n. 0x100000 + 0x10000 * of_nat (length h)),
      k_AllocPort = (\<lambda>h. 0x100000 + 0x10000 * of_nat (length h)),
      k_AllocMutex = (\<lambda>h. 0x100000 + 0x10000 * of_nat (length h)),
      k_AllocSignal = (\<lambda>h. int (length h mod 16) + 16),
      k_CreateTask = (\<lambda>h. 0x100000 + 0x10000 * of_nat (length h)),
      k_FindTask = (\<lambda>h. 0x8000),
      k_mp_SigBit = (\<lambda>p. 20),
      k_Wait = (\<lambda>h m. m),
      k_frame = (\<lambda>h. 0x7000),
      k_sizeof_virtqueue = 128, k_sizeof_unit = 2048,
      k_sizeof_DriveGeometry = 32, k_sizeof_DriveGeometry64 = 40,
      k_sizeof_NSDeviceQueryResult = 16, k_sizeof_SCSICmd = 30\<rparr>"

definition demo_os :: os where
  "demo_os = \<lparr>os_log = [], dma_objs = (\<lambda>_. [])\<rparr>"

end
