(* ===== verification/Slot_Pool.thy ===== *)
theory Slot_Pool
  imports Prelude
begin

text \<open>
  The interface of a pool of numbered slots: a client acquires some slots in one block,
  keeps the block while a request is outstanding and later releases it. Two components
  promise it: the descriptor table of a virtqueue (a block is a descriptor chain) and the
  in-flight table of a unit (a block is one slot). What the clients rely on (no slot is in
  two blocks, no slot is lost) is proved here once.
\<close>

locale slot_pool =
  fixes invar :: "'s \<Rightarrow> bool"
    and cap :: "'s \<Rightarrow> nat"
    and free :: "'s \<Rightarrow> nat list"
    and held :: "'s \<Rightarrow> nat list list"
    and need :: "'r \<Rightarrow> nat"
    and acquire :: "'r \<Rightarrow> 's \<Rightarrow> 's option"
    and release :: "nat list \<Rightarrow> 's \<Rightarrow> 's option"
  assumes partition:
      "invar s \<Longrightarrow> distinct (free s @ concat (held s)) \<and> set (free s @ concat (held s)) = {..<cap s}"
    and held_ne: "invar s \<Longrightarrow> [] \<notin> set (held s)"
    and acquire_ok:
      "invar s \<Longrightarrow> 0 < need r \<Longrightarrow> need r \<le> length (free s) \<Longrightarrow>
         \<exists>s'. acquire r s = Some s' \<and> invar s' \<and> cap s' = cap s
            \<and> free s' = drop (need r) (free s) \<and> held s' = take (need r) (free s) # held s"
    and release_ok:
      "invar s \<Longrightarrow> c \<in> set (held s) \<Longrightarrow>
         \<exists>s'. release c s = Some s' \<and> invar s' \<and> cap s' = cap s
            \<and> free s' = rev c @ free s \<and> held s' = remove1 c (held s)"
begin

lemma conservation:
  assumes "invar s"
  shows "length (free s) + length (concat (held s)) = cap s"
proof -
  have "card (set (free s @ concat (held s))) = length (free s @ concat (held s))"
    using partition [OF assms] distinct_card by blast
  then show ?thesis using partition [OF assms] by simp
qed

lemma free_bound: "invar s \<Longrightarrow> k \<in> set (free s) \<Longrightarrow> k < cap s"
  using partition by fastforce

lemma held_bound: "invar s \<Longrightarrow> c \<in> set (held s) \<Longrightarrow> k \<in> set c \<Longrightarrow> k < cap s"
  using partition by fastforce

lemma free_not_held: "invar s \<Longrightarrow> c \<in> set (held s) \<Longrightarrow> set (free s) \<inter> set c = {}"
  using partition by fastforce

lemma held_disjoint:
  assumes "invar s" and "c \<in> set (held s)" and "d \<in> set (held s)" and "k \<in> set c" and "k \<in> set d"
  shows "c = d"
proof (rule ccontr)
  assume "c \<noteq> d"
  with assms(2,3) have "set c \<inter> set d = {}"
    using partition [OF assms(1)] by (auto simp: distinct_concat_iff)
  with assms(4,5) show False by auto
qed

lemma all_returned:
  assumes "invar s" and "held s = []"
  shows "set (free s) = {..<cap s}"
  using partition [OF assms(1)] assms(2) by simp

text \<open>A run of the pool: any sequence of acquisitions and releases of blocks that are held.\<close>

inductive pool_run :: "'s \<Rightarrow> 's \<Rightarrow> bool" where
  stop: "pool_run s s"
| acq: "pool_run s t \<Longrightarrow> 0 < need r \<Longrightarrow> need r \<le> length (free t) \<Longrightarrow> acquire r t = Some u \<Longrightarrow> pool_run s u"
| rel: "pool_run s t \<Longrightarrow> c \<in> set (held t) \<Longrightarrow> release c t = Some u \<Longrightarrow> pool_run s u"

lemma pool_run_invar: "pool_run s t \<Longrightarrow> invar s \<Longrightarrow> invar t \<and> cap t = cap s"
proof (induction rule: pool_run.induct)
  case (acq s t r u)
  then show ?case using acquire_ok [of t r] by auto
next
  case (rel s t c u)
  then show ?case using release_ok [of t c] by auto
qed simp

lemma run_conservation:
  "pool_run s t \<Longrightarrow> invar s \<Longrightarrow> length (free t) + length (concat (held t)) = cap s"
  using pool_run_invar conservation by metis

lemma run_all_returned:
  "pool_run s t \<Longrightarrow> invar s \<Longrightarrow> held t = [] \<Longrightarrow> set (free t) = {..<cap s}"
  using pool_run_invar all_returned by metis

end

end
