(* ===== verification/Virtqueue.thy ===== *)
theory Virtqueue
  imports Exec_Interface Slot_Pool
begin

text \<open>
  The split virtqueue of \<^verbatim>\<open>src/virtio/virtqueue.c\<close> and
  \<^verbatim>\<open>include/virtio/virtqueue.h\<close>: the three rings in shared memory, the driver's
  bookkeeping beside them, and the operations that allocate a queue, publish a
  scatter-gather chain, notify the device and take back a completed chain. Ring fields are
  stored as they lie in memory: byte-swapped when the queue is modern.
\<close>

section \<open>Structures\<close>

record vring_desc =
  d_addr :: u64
  d_len :: u32
  d_flags :: u16
  d_next :: u16

record vring_indirect_desc =
  i_addr :: u64
  i_len :: u32
  i_flags :: u16
  i_next :: u16

record vring_used_elem =
  ue_id :: u32
  ue_len :: u32

record vring_sg =
  sg_addr :: u32
  sg_len :: u32

definition VRING_DESC_F_NEXT :: u16 where "VRING_DESC_F_NEXT = 1"
definition VRING_DESC_F_WRITE :: u16 where "VRING_DESC_F_WRITE = 2"
definition VRING_DESC_F_INDIRECT :: u16 where "VRING_DESC_F_INDIRECT = 4"
definition MAX_SG_ENTRIES :: u32 where "MAX_SG_ENTRIES = 64"
definition VIRTIO_PCI_VRING_ALIGN :: u32 where "VIRTIO_PCI_VRING_ALIGN = 4096"
definition VIRTIO_PCI_QUEUE_NOTIFY :: u32 where "VIRTIO_PCI_QUEUE_NOTIFY = 0x10"

definition vr16 :: "bool \<Rightarrow> u16 \<Rightarrow> u16" where
  "vr16 modern v = (if modern then bswap16 v else v)"
definition vr32 :: "bool \<Rightarrow> u32 \<Rightarrow> u32" where
  "vr32 modern v = (if modern then bswap32 v else v)"
definition vr64 :: "bool \<Rightarrow> u64 \<Rightarrow> u64" where
  "vr64 modern v = (if modern then bswap64 v else v)"

lemma vr_vr [simp, bswap_simps]:
  "vr16 m (vr16 m a) = a" "vr32 m (vr32 m b) = b" "vr64 m (vr64 m c) = c"
  by (simp_all add: vr16_def vr32_def vr64_def)

text \<open>
  \<open>avail_ring\<close> has \<open>num + 1\<close> cells: the last one is the \<open>used_event\<close> word
  that the driver writes when \<open>VIRTIO_F_EVENT_IDX\<close> is in use.
\<close>

record virtqueue =
  vq_self :: ptr                      \<comment> \<open>address of the management struct\<close>
  vq_index :: u32
  vq_num :: u32
  vq_desc_addr :: ptr                 \<comment> \<open>\<open>desc\<close> as a pointer (page aligned)\<close>
  vq_desc :: "vring_desc list"
  avail_flags :: u16
  avail_idx :: u16
  avail_ring :: "u16 list"
  used_flags :: u16
  used_idx :: u16
  used_ring :: "vring_used_elem list"
  vq_free_head :: u16
  num_free :: u16
  last_used_idx :: u16
  cookies_addr :: ptr
  cookies :: "ptr list"
  mem_block :: ptr
  mem_size :: u32
  dma_phys :: u32
  dma_entries :: u32
  avail_phys :: u32
  used_phys :: u32
  notify_addr :: u32
  vq_modern :: bool
  use_event_idx :: bool
  last_kick_avail_idx :: u16
  use_indirect :: bool
  indirect_addr :: ptr
  indirect_tables :: "ptr list"

text \<open>The OS state with the memory of the indirect descriptor tables.\<close>

record vq_os = os +
  itbl_mem :: "ptr \<Rightarrow> vring_indirect_desc list"

section \<open>Allocation\<close>

text \<open>The vring layout (legacy formula, also used for the modern queue addresses).\<close>

definition vring_desc_size :: "u32 \<Rightarrow> u32" where
  "vring_desc_size queue_size = 16 * queue_size"

definition vring_avail_size :: "u32 \<Rightarrow> u32" where
  "vring_avail_size queue_size = 2 * (3 + queue_size)"

definition page_align :: "u32 \<Rightarrow> u32" where
  "page_align a = (a + VIRTIO_PCI_VRING_ALIGN - 1) AND NOT (VIRTIO_PCI_VRING_ALIGN - 1)"

definition vring_used_offset :: "u32 \<Rightarrow> u32" where
  "vring_used_offset queue_size = page_align (vring_desc_size queue_size + vring_avail_size queue_size)"

definition vring_used_size :: "u32 \<Rightarrow> u32" where
  "vring_used_size queue_size = 2 * 3 + 8 * queue_size"

definition vring_total_mem :: "u32 \<Rightarrow> u32" where
  "vring_total_mem queue_size = vring_used_offset queue_size + vring_used_size queue_size"

definition zero_desc :: vring_desc where
  "zero_desc = \<lparr>d_addr = 0, d_len = 0, d_flags = 0, d_next = 0\<rparr>"

text \<open>
  The four allocations, each undone when a later one fails. The rings come back zeroed
  (\<open>AVT_ClearWithValue\<close>); only the free-list links are then written.
\<close>

definition vq_init ::
    "ptr \<Rightarrow> ptr \<Rightarrow> ptr \<Rightarrow> ptr \<Rightarrow> u32 \<Rightarrow> u32 \<Rightarrow> virtqueue" where
  "vq_init raw vq cks itbls queue_index queue_size =
     (let n = unat queue_size in
      \<lparr>vq_self = vq, vq_index = queue_index, vq_num = queue_size,
       vq_desc_addr = page_align raw,
       vq_desc = map (\<lambda>j. zero_desc\<lparr>d_next := (if j < n - 1 then of_nat (j + 1) else 0)\<rparr>) [0..<n],
       avail_flags = 0, avail_idx = 0, avail_ring = replicate (n + 1) 0,
       used_flags = 0, used_idx = 0, used_ring = replicate n \<lparr>ue_id = 0, ue_len = 0\<rparr>,
       vq_free_head = 0, num_free = ucast queue_size, last_used_idx = 0,
       cookies_addr = cks, cookies = replicate n NULL,
       mem_block = raw, mem_size = vring_total_mem queue_size,
       dma_phys = 0, dma_entries = 0, avail_phys = 0, used_phys = 0, notify_addr = 0,
       vq_modern = False, use_event_idx = False, last_kick_avail_idx = 0,
       use_indirect = False, indirect_addr = itbls, indirect_tables = replicate n NULL\<rparr>)"

definition VirtQueue_Allocate ::
    "kern \<Rightarrow> u32 \<Rightarrow> u32 \<Rightarrow> 'z os_scheme \<Rightarrow> virtqueue option \<times> 'z os_scheme" where
  "VirtQueue_Allocate K queue_index queue_size s0 =
     (let alloc_size = vring_total_mem queue_size + VIRTIO_PCI_VRING_ALIGN;
          (raw, s1) = os_AllocVecTags K alloc_size s0 in
      if raw = NULL then (None, s1)
      else let (vq, s2) = os_AllocVecTags K (k_sizeof_virtqueue K) s1 in
      if vq = NULL then (None, os_emit (FreeVec raw) s2)
      else let (cks, s3) = os_AllocVecTags K (4 * queue_size) s2 in
      if cks = NULL then (None, os_emit (FreeVec vq) (os_emit (FreeVec raw) s3))
      else let (itbls, s4) = os_AllocVecTags K (4 * queue_size) s3 in
      if itbls = NULL
      then (None, os_emit (FreeVec vq) (os_emit (FreeVec raw) (os_emit (FreeVec cks) s4)))
      else (Some (vq_init raw vq cks itbls queue_index queue_size), s4))"

definition VirtQueue_Free :: "virtqueue option \<Rightarrow> 'z os_scheme \<Rightarrow> 'z os_scheme" where
  "VirtQueue_Free ovq s0 =
     (case ovq of None \<Rightarrow> s0
      | Some vq \<Rightarrow>
         (let s1 = (if dma_entries vq > 0 \<and> vq_desc_addr vq \<noteq> NULL
                    then os_emit (EndDMA (vq_desc_addr vq) (mem_size vq) True True) s0 else s0);
              s2 = (if indirect_addr vq \<noteq> NULL then os_emit (FreeVec (indirect_addr vq)) s1 else s1);
              s3 = (if cookies_addr vq \<noteq> NULL then os_emit (FreeVec (cookies_addr vq)) s2 else s2);
              s4 = (if mem_block vq \<noteq> NULL then os_emit (FreeVec (mem_block vq)) s3 else s3)
          in os_emit (FreeVec (vq_self vq)) s4))"

section \<open>Publishing a chain: \<open>VirtQueue_AddBuf\<close>\<close>

text \<open>The shared tail of both paths: put the head into the available ring.\<close>

definition vq_publish :: "virtqueue \<Rightarrow> u16 \<Rightarrow> virtqueue option" where
  "vq_publish vq head =
     (if vq_num vq = 0 then None
      else do {
        let idx = vr16 (vq_modern vq) (avail_idx vq);
        ring \<leftarrow> wr (avail_ring vq) (unat idx mod unat (vq_num vq)) (vr16 (vq_modern vq) head);
        Some (vq\<lparr>avail_ring := ring, avail_idx := vr16 (vq_modern vq) (idx + 1)\<rparr>)
      })"

text \<open>The flags of entry \<open>n\<close>; \<open>follows\<close> says that another entry follows.\<close>

definition sg_flags :: "nat \<Rightarrow> nat \<Rightarrow> bool \<Rightarrow> u16" where
  "sg_flags out_num n follows =
     (if out_num \<le> n then VRING_DESC_F_WRITE else 0) OR (if follows then VRING_DESC_F_NEXT else 0)"

definition itbl_fill :: "bool \<Rightarrow> vring_sg list \<Rightarrow> nat \<Rightarrow> vring_indirect_desc list" where
  "itbl_fill modern sgs out_num =
     map (\<lambda>n. \<lparr>i_addr = vr64 modern (ucast (sg_addr (sgs ! n))),
                i_len = vr32 modern (sg_len (sgs ! n)),
                i_flags = vr16 modern (sg_flags out_num n (n < length sgs - 1)),
                i_next = vr16 modern (of_nat (n + 1))\<rparr>) [0..<length sgs]"

text \<open>
  Build and DMA-map an indirect table: \<open>Some (table, physical address, size)\<close>, or
  \<open>None\<close> with everything released again.
\<close>

definition itbl_setup ::
    "kern \<Rightarrow> bool \<Rightarrow> vring_sg list \<Rightarrow> nat \<Rightarrow> 'z vq_os_scheme
      \<Rightarrow> (ptr \<times> u32 \<times> u32) option \<times> 'z vq_os_scheme" where
  "itbl_setup K modern sgs out_num s0 =
     (let itbl_size = 16 * of_nat (length sgs);
          (itbl, s1) = os_AllocVecTags K itbl_size s0 in
      if itbl = NULL then (None, s1)
      else let s2 = s1\<lparr>itbl_mem := (itbl_mem s1)(itbl := itbl_fill modern sgs out_num)\<rparr>;
               (ents, s3) = os_StartDMA K itbl itbl_size True s2 in
      if ents = 0 then (None, os_emit (FreeVec itbl) s3)
      else let (obj, s4) = os_AllocDMAEntries K ents s3 in
      if obj = NULL
      then (None, os_emit (FreeVec itbl) (os_emit (EndDMA itbl itbl_size True True) s4))
      else let s5 = os_GetDMAList K itbl itbl_size True obj s4;
               phys = (case dma_objs s5 obj of [] \<Rightarrow> 0 | e # _ \<Rightarrow> PhysicalAddress e)
           in (Some (itbl, phys, itbl_size), os_emit (FreeDMAEntries obj) s5))"

text \<open>The loop of the direct path, over the entries still to be written.\<close>

fun add_direct ::
    "bool \<Rightarrow> nat \<Rightarrow> nat \<Rightarrow> u16 \<Rightarrow> vring_sg list \<Rightarrow> vring_desc list \<Rightarrow> (vring_desc list \<times> u16) option" where
  "add_direct modern out_num n idx [] ds = Some (ds, idx)"
| "add_direct modern out_num n idx (g # gs) ds =
     do {
       d \<leftarrow> rd ds (unat idx);
       let next_idx = d_next d;
       let d' = \<lparr>d_addr = vr64 modern (ucast (sg_addr g)), d_len = vr32 modern (sg_len g),
                 d_flags = vr16 modern (sg_flags out_num n (gs \<noteq> [])), d_next = next_idx\<rparr>;
       if gs \<noteq> []
       then add_direct modern out_num (n + 1) next_idx gs
              (ds[unat idx := d'\<lparr>d_next := vr16 modern next_idx\<rparr>])
       else Some (ds[unat idx := d'], next_idx)
     }"

definition add_buf_direct ::
    "virtqueue \<Rightarrow> vring_sg list \<Rightarrow> nat \<Rightarrow> ptr \<Rightarrow> virtqueue option" where
  "add_buf_direct vq sgs out_num cookie =
     do {
       let head = vq_free_head vq;
       (ds, fh) \<leftarrow> add_direct (vq_modern vq) out_num 0 head sgs (vq_desc vq);
       cks \<leftarrow> wr (cookies vq) (unat head) cookie;
       its \<leftarrow> wr (indirect_tables vq) (unat head) NULL;
       vq_publish (vq\<lparr>vq_desc := ds, vq_free_head := fh,
                      num_free := num_free vq - of_nat (length sgs),
                      cookies := cks, indirect_tables := its\<rparr>) head
     }"

definition add_buf_indirect ::
    "virtqueue \<Rightarrow> ptr \<Rightarrow> u32 \<Rightarrow> u32 \<Rightarrow> ptr \<Rightarrow> virtqueue option" where
  "add_buf_indirect vq itbl phys itbl_size cookie =
     do {
       let head = vq_free_head vq;
       let m = vq_modern vq;
       d \<leftarrow> rd (vq_desc vq) (unat head);
       let next_head = d_next d;
       ds \<leftarrow> wr (vq_desc vq) (unat head)
               \<lparr>d_addr = vr64 m (ucast phys), d_len = vr32 m itbl_size,
                d_flags = vr16 m VRING_DESC_F_INDIRECT, d_next = 0\<rparr>;
       cks \<leftarrow> wr (cookies vq) (unat head) cookie;
       its \<leftarrow> wr (indirect_tables vq) (unat head) itbl;
       vq_publish (vq\<lparr>vq_desc := ds, vq_free_head := next_head, num_free := num_free vq - 1,
                      cookies := cks, indirect_tables := its\<rparr>) head
     }"

text \<open>
  \<open>True\<close> stands for the return value 0, \<open>False\<close> for -1. The caller's array must hold
  at least \<open>out_num + in_num\<close> entries.
\<close>

definition VirtQueue_AddBuf ::
    "kern \<Rightarrow> virtqueue \<Rightarrow> vring_sg list \<Rightarrow> u32 \<Rightarrow> u32 \<Rightarrow> ptr \<Rightarrow> 'z vq_os_scheme
      \<Rightarrow> (bool \<times> virtqueue \<times> 'z vq_os_scheme) option" where
  "VirtQueue_AddBuf K vq sg out_num in_num cookie s =
     (let total = out_num + in_num in
      if (if use_indirect vq \<and> 1 < total then num_free vq < 1 else ucast (num_free vq) < total)
      then Some (False, vq, s)
      else if length sg < unat total then None
      else let sgs = take (unat total) sg in
        if use_indirect vq \<and> 1 < total
        then (case itbl_setup K (vq_modern vq) sgs (unat out_num) s of
                (Some (itbl, phys, itbl_size), s') \<Rightarrow>
                   map_option (\<lambda>vq'. (True, vq', s')) (add_buf_indirect vq itbl phys itbl_size cookie)
              | (None, s') \<Rightarrow>
                   if ucast (num_free vq) < total then Some (False, vq, s')
                   else map_option (\<lambda>vq'. (True, vq', s')) (add_buf_direct vq sgs (unat out_num) cookie))
        else map_option (\<lambda>vq'. (True, vq', s)) (add_buf_direct vq sgs (unat out_num) cookie))"

section \<open>Notifying the device: \<open>VirtQueue_Kick\<close>\<close>

definition VirtQueue_Kick :: "virtqueue \<Rightarrow> u32 \<Rightarrow> 'z os_scheme \<Rightarrow> 'z os_scheme" where
  "VirtQueue_Kick vq iobase s =
     (if vq_modern vq
      then os_emit (Pci (Mmio_w16 (notify_addr vq) (ucast (vq_index vq)))) s
      else os_emit (Pci (OutWord (iobase + VIRTIO_PCI_QUEUE_NOTIFY) (ucast (vq_index vq)))) s)"

section \<open>Taking back a completed chain: \<open>VirtQueue_GetBuf\<close>\<close>

text \<open>
  The \<open>while (1)\<close> walk over a direct chain. It stops even on a corrupt, cyclic chain,
  because every visited descriptor loses its \<open>NEXT\<close> flag.
\<close>

definition has_next :: "bool \<Rightarrow> vring_desc \<Rightarrow> bool" where
  "has_next modern d \<longleftrightarrow> vr16 modern (d_flags d) AND VRING_DESC_F_NEXT \<noteq> 0"

lemma has_next_zero: "d_flags d = 0 \<Longrightarrow> \<not> has_next m d"
  by (auto simp: has_next_def vr16_def bswap16_def)

function free_chain ::
    "bool \<Rightarrow> vring_desc list \<Rightarrow> u16 \<Rightarrow> u16 \<Rightarrow> nat \<Rightarrow> (vring_desc list \<times> u16 \<times> nat) option" where
  "free_chain modern ds fh idx freed =
     (if unat idx < length ds
      then (let d = ds ! unat idx;
                next = vr16 modern (d_next d);
                ds' = ds[unat idx := \<lparr>d_addr = 0, d_len = 0, d_flags = 0, d_next = fh\<rparr>]
            in if has_next modern d
               then free_chain modern ds' idx next (freed + 1)
               else Some (ds', idx, freed + 1))
      else None)"
  by pat_completeness auto
termination
  by (relation "measure (\<lambda>(m, ds, fh, idx, freed). length (filter (has_next m) ds))")
     (auto intro!: length_filter_upd_less simp: has_next_zero)

declare free_chain.simps [simp del]

text \<open>The result is the cookie (\<open>NULL\<close> for none) and the value stored through \<open>len_out\<close>, if any.\<close>

definition VirtQueue_GetBuf ::
    "virtqueue \<Rightarrow> 'z os_scheme \<Rightarrow> (ptr \<times> u32 option \<times> virtqueue \<times> 'z os_scheme) option" where
  "VirtQueue_GetBuf vq s =
     (let m = vq_modern vq in
      if last_used_idx vq = vr16 m (used_idx vq) then Some (NULL, None, vq, s)
      else if vq_num vq = 0 then None
      else do {
        ue \<leftarrow> rd (used_ring vq) (unat (last_used_idx vq) mod unat (vq_num vq));
        let desc_id = vr32 m (ue_id ue);
        let written = vr32 m (ue_len ue);
        if vq_num vq \<le> desc_id
        then Some (NULL, None, vq\<lparr>last_used_idx := last_used_idx vq + 1\<rparr>, s)
        else do {
          cookie \<leftarrow> rd (cookies vq) (unat desc_id);
          cks \<leftarrow> wr (cookies vq) (unat desc_id) NULL;
          itbl \<leftarrow> rd (indirect_tables vq) (unat desc_id);
          its \<leftarrow> wr (indirect_tables vq) (unat desc_id) NULL;
          let idx = (ucast desc_id :: u16);
          (ds, fh, freed, s') \<leftarrow>
            (if itbl \<noteq> NULL
             then do {
               d \<leftarrow> rd (vq_desc vq) (unat idx);
               let s' = os_emit (FreeVec itbl) (os_emit (EndDMA itbl (vr32 m (d_len d)) True True) s);
               ds \<leftarrow> wr (vq_desc vq) (unat idx)
                      \<lparr>d_addr = 0, d_len = 0, d_flags = 0, d_next = vq_free_head vq\<rparr>;
               Some (ds, idx, 1, s')
             }
             else do {
               (ds, fh, freed) \<leftarrow> free_chain m (vq_desc vq) (vq_free_head vq) idx 0;
               Some (ds, fh, freed, s)
             });
          let lui = last_used_idx vq + 1;
          ring \<leftarrow> (if use_event_idx vq
                  then wr (avail_ring vq) (unat (vq_num vq)) (vr16 m lui)
                  else Some (avail_ring vq));
          Some (cookie, Some written,
                vq\<lparr>cookies := cks, indirect_tables := its, vq_desc := ds, vq_free_head := fh,
                   num_free := num_free vq + of_nat freed, last_used_idx := lui,
                   avail_ring := ring\<rparr>, s')
        }
      })"

end
