(* ===== verification/Virtqueue_Inv.thy ===== *)
theory Virtqueue_Inv
  imports Virtqueue
begin

text \<open>
  The invariant of a virtqueue and the effect of its operations on it. The ghost values are
  the free list \<open>fl\<close> (descriptor indices, next to be handed out first) and the list \<open>os\<close> of
  outstanding requests: the descriptor chain each occupies, its cookie, and what the device
  reads when it follows the chain.
\<close>

section \<open>What the device reads\<close>

type_synonym view = "(u64 \<times> u32 \<times> bool) list"
type_synonym outst = "(nat list \<times> ptr \<times> view) list"

definition dev_desc :: "bool \<Rightarrow> vring_desc \<Rightarrow> u64 \<times> u32 \<times> bool" where
  "dev_desc m d = (vr64 m (d_addr d), vr32 m (d_len d), vr16 m (d_flags d) AND VRING_DESC_F_WRITE \<noteq> 0)"

definition sg_view :: "nat \<Rightarrow> nat \<Rightarrow> vring_sg list \<Rightarrow> view" where
  "sg_view out_num n sgs =
     map (\<lambda>i. (ucast (sg_addr (sgs ! i)), sg_len (sgs ! i), out_num \<le> n + i)) [0..<length sgs]"

definition is_direct :: "bool \<Rightarrow> vring_desc \<Rightarrow> bool" where
  "is_direct m d \<longleftrightarrow> vr16 m (d_flags d) AND VRING_DESC_F_INDIRECT = 0"

fun dchain :: "bool \<Rightarrow> vring_desc list \<Rightarrow> nat list \<Rightarrow> bool" where
  "dchain m ds [] \<longleftrightarrow> False"
| "dchain m ds [k] \<longleftrightarrow> is_direct m (ds ! k) \<and> \<not> has_next m (ds ! k)"
| "dchain m ds (k # k' # ks) \<longleftrightarrow> is_direct m (ds ! k) \<and> has_next m (ds ! k)
     \<and> vr16 m (d_next (ds ! k)) = of_nat k' \<and> dchain m ds (k' # ks)"

lemma dchain_frame: "(\<And>k. k \<in> set ks \<Longrightarrow> ds' ! k = ds ! k) \<Longrightarrow> dchain m ds' ks = dchain m ds ks"
  by (induction m ds ks rule: dchain.induct) auto

lemma sg_view_Cons:
  "sg_view out_num n (g # gs) = (ucast (sg_addr g), sg_len g, out_num \<le> n) # sg_view out_num (Suc n) gs"
  by (simp add: sg_view_def upt_conv_Cons map_Suc_upt [symmetric] del: upt_Suc map_Suc_upt)

lemma sg_view_Nil [simp]: "sg_view out_num n [] = []"
  by (simp add: sg_view_def)

lemma sg_flags_bits [simp]:
  "sg_flags o1 n f AND VRING_DESC_F_NEXT = 0 \<longleftrightarrow> \<not> f"
  "sg_flags o1 n f AND VRING_DESC_F_WRITE = 0 \<longleftrightarrow> \<not> o1 \<le> n"
  "sg_flags o1 n f AND VRING_DESC_F_INDIRECT = 0"
  by (cases f; cases "o1 \<le> n";
      simp add: sg_flags_def VRING_DESC_F_NEXT_def VRING_DESC_F_WRITE_def
        VRING_DESC_F_INDIRECT_def)+

lemma add_direct_spec:
  assumes "lseg of_nat (\<lambda>k. d_next (ds ! k)) h ks e" and "length ks = length gs" and "gs \<noteq> []"
    and "distinct ks" and "set ks \<subseteq> {..<length ds}" and "length ds \<le> 65535"
  shows "\<exists>ds'. add_direct m out_num n h gs ds = Some (ds', e)
           \<and> length ds' = length ds \<and> dchain m ds' ks
           \<and> map (\<lambda>k. dev_desc m (ds' ! k)) ks = sg_view out_num n gs
           \<and> (\<forall>k. k \<notin> set ks \<longrightarrow> ds' ! k = ds ! k)"
  using assms
proof (induction gs arbitrary: ds h ks n)
  case (Cons g gs)
  from Cons.prems obtain k ks' where ks: "ks = k # ks'" by (cases ks) auto
  from Cons.prems ks have k: "k < length ds" and h: "h = of_nat k" by auto
  with Cons.prems have uk: "unat h = k" by (simp add: unat_of_nat16)
  show ?case
  proof (cases "gs = []")
    case True
    with Cons.prems ks k h uk show ?thesis
      by (auto simp: dev_desc_def has_next_def is_direct_def sg_view_Cons)
  next
    case False
    with Cons.prems ks obtain k' ks'' where ks': "ks' = k' # ks''" by (cases ks') auto
    define ds1 where "ds1 = ds[k := \<lparr>d_addr = vr64 m (ucast (sg_addr g)), d_len = vr32 m (sg_len g),
      d_flags = vr16 m (sg_flags out_num n True), d_next = vr16 m (d_next (ds ! k))\<rparr>]"
    have other: "ds1 ! j = ds ! j" if "j \<noteq> k" for j using that by (simp add: ds1_def)
    have seg: "lseg of_nat (\<lambda>k. d_next (ds1 ! k)) (d_next (ds ! k)) ks' e"
      using Cons.prems(1,4) ks by (subst lseg_frame [of _ _ "\<lambda>k. d_next (ds ! k)"]) (auto intro!: arg_cong [of _ _ d_next] other)
    from Cons.IH [OF seg, of "Suc n"] Cons.prems False ks obtain ds' where
      ds': "add_direct m out_num (Suc n) (d_next (ds ! k)) gs ds1 = Some (ds', e)"
        "length ds' = length ds" "dchain m ds' ks'"
        "map (\<lambda>k. dev_desc m (ds' ! k)) ks' = sg_view out_num (Suc n) gs"
        "\<forall>k. k \<notin> set ks' \<longrightarrow> ds' ! k = ds1 ! k"
      by (auto simp: ds1_def)
    have nk: "d_next (ds ! k) = of_nat k'" using Cons.prems(1) ks ks' by simp
    have "ds' ! k = ds1 ! k" using ds'(5) Cons.prems(4) ks by simp
    then have at: "ds' ! k = \<lparr>d_addr = vr64 m (ucast (sg_addr g)), d_len = vr32 m (sg_len g),
      d_flags = vr16 m (sg_flags out_num n True), d_next = vr16 m (d_next (ds ! k))\<rparr>"
      using k by (simp add: ds1_def)
    have "add_direct m out_num n h (g # gs) ds = Some (ds', e)"
      using ds'(1) False k uk by (simp add: ds1_def)
    moreover have "dchain m ds' ks"
      using ds'(3) nk by (simp add: ks ks' at has_next_def is_direct_def)
    moreover have "map (\<lambda>k. dev_desc m (ds' ! k)) ks = sg_view out_num n (g # gs)"
      using ds'(4) by (simp add: ks at dev_desc_def sg_view_Cons)
    moreover have "\<forall>j. j \<notin> set ks \<longrightarrow> ds' ! j = ds ! j"
      using ds'(5) other ks by auto
    ultimately show ?thesis using ds'(2) by blast
  qed
qed simp

lemma free_chain_spec:
  assumes "dchain m ds c" and "distinct c" and "set c \<subseteq> {..<length ds}" and "length ds \<le> 65535"
  shows "\<exists>ds'. free_chain m ds fh (of_nat (hd c)) freed = Some (ds', of_nat (last c), freed + length c)
           \<and> length ds' = length ds
           \<and> (\<forall>k. k \<notin> set c \<longrightarrow> ds' ! k = ds ! k)
           \<and> lseg of_nat (\<lambda>k. d_next (ds' ! k)) (of_nat (last c)) (rev c) fh"
  using assms
proof (induction c arbitrary: ds fh freed)
  case (Cons k c)
  then have k: "k < length ds" and uk: "unat (of_nat k :: u16) = k"
    by (auto simp: unat_of_nat16)
  define ds1 where "ds1 = ds[k := \<lparr>d_addr = 0, d_len = 0, d_flags = 0, d_next = fh\<rparr>]"
  have other: "ds1 ! j = ds ! j" if "j \<noteq> k" for j using that by (simp add: ds1_def)
  show ?case
  proof (cases c)
    case Nil
    with Cons.prems k uk show ?thesis
      by (intro exI [of _ ds1]) (auto simp: ds1_def free_chain.simps [of m ds])
  next
    case (Cons k' c')
    have ch1: "dchain m ds1 c"
    proof (subst dchain_frame [of _ _ ds])
      show "ds1 ! j = ds ! j" if "j \<in> set c" for j
        using that \<open>distinct (k # c)\<close> by (intro other) auto
      show "dchain m ds c" using \<open>dchain m ds (k # c)\<close> Cons by simp
    qed
    from Cons.IH [OF ch1, of "of_nat k" "freed + 1"] \<open>distinct (k # c)\<close> \<open>set (k # c) \<subseteq> _\<close> \<open>length ds \<le> _\<close>
    obtain ds' where ds':
      "free_chain m ds1 (of_nat k) (of_nat (hd c)) (freed + 1) = Some (ds', of_nat (last c), freed + 1 + length c)"
      "length ds' = length ds" "\<forall>j. j \<notin> set c \<longrightarrow> ds' ! j = ds1 ! j"
      "lseg of_nat (\<lambda>k. d_next (ds' ! k)) (of_nat (last c)) (rev c) (of_nat k)"
      by (auto simp: ds1_def)
    have "ds' ! k = ds1 ! k" using ds'(3) \<open>distinct (k # c)\<close> by simp
    then have "d_next (ds' ! k) = fh" using k by (simp add: ds1_def)
    with ds'(4) have "lseg of_nat (\<lambda>k. d_next (ds' ! k)) (of_nat (last (k # c))) (rev (k # c)) fh"
      using Cons by (simp add: lseg_append)
    moreover have "free_chain m ds fh (of_nat (hd (k # c))) freed = Some (ds', of_nat (last (k # c)), freed + length (k # c))"
      using ds'(1) k uk \<open>dchain m ds (k # c)\<close> Cons
      by (subst free_chain.simps) (simp add: ds1_def [symmetric])
    ultimately show ?thesis using ds'(2,3) other by (intro exI [of _ ds']) auto
  qed
qed simp


section \<open>The invariant\<close>

text \<open>
  An outstanding request keeps its cookie at its head descriptor. Without an indirect table
  its descriptors are chained by the \<open>NEXT\<close> flag in the order of \<open>c\<close> and the device
  reads \<open>v\<close>; with one it occupies a single descriptor.
\<close>

fun chain_ok :: "virtqueue \<Rightarrow> nat list \<times> ptr \<times> view \<Rightarrow> bool" where
  "chain_ok vq (c, ck, v) \<longleftrightarrow>
     c \<noteq> [] \<and> cookies vq ! hd c = ck \<and>
     (if indirect_tables vq ! hd c = NULL
      then dchain (vq_modern vq) (vq_desc vq) c
        \<and> map (\<lambda>k. dev_desc (vq_modern vq) (vq_desc vq ! k)) c = v
      else length c = 1)"

definition vq_shape :: "virtqueue \<Rightarrow> nat \<Rightarrow> bool" where
  "vq_shape vq n \<longleftrightarrow> 0 < n \<and> n \<le> 65535 \<and> unat (vq_num vq) = n \<and> length (vq_desc vq) = n
     \<and> length (cookies vq) = n \<and> length (indirect_tables vq) = n
     \<and> length (avail_ring vq) = n + 1 \<and> length (used_ring vq) = n"

definition chains :: "outst \<Rightarrow> nat list" where
  "chains os = concat (map fst os)"

definition vq_inv :: "virtqueue \<Rightarrow> nat list \<Rightarrow> outst \<Rightarrow> bool" where
  "vq_inv vq fl os \<longleftrightarrow>
     vq_shape vq (unat (vq_num vq)) \<and> num_free vq = of_nat (length fl)
     \<and> (\<exists>e. lseg of_nat (\<lambda>k. d_next (vq_desc vq ! k)) (vq_free_head vq) fl e)
     \<and> distinct (fl @ chains os) \<and> set (fl @ chains os) = {..<unat (vq_num vq)}
     \<and> (\<forall>x \<in> set os. chain_ok vq x)"

lemma vq_inv_length:
  assumes "vq_inv vq fl os"
  shows "length fl + length (chains os) = unat (vq_num vq)"
proof -
  have "card (set (fl @ chains os)) = length (fl @ chains os)"
    using assms distinct_card unfolding vq_inv_def by blast
  then show ?thesis using assms by (simp add: vq_inv_def)
qed

lemma vq_inv_free:
  assumes "vq_inv vq fl os"
  shows "unat (num_free vq) = length fl" and "length fl \<le> 65535"
proof -
  show "length fl \<le> 65535"
    using vq_inv_length [OF assms] assms by (auto simp: vq_inv_def vq_shape_def)
  then show "unat (num_free vq) = length fl"
    using assms by (simp add: vq_inv_def unat_of_nat16)
qed

lemma chains_simps [simp]: "chains [] = []" "chains ((c, r) # os) = c @ chains os"
  by (simp_all add: chains_def)

lemma in_chains: "(c, r) \<in> set os \<Longrightarrow> set c \<subseteq> set (chains os)"
  by (force simp: chains_def)

section \<open>Adding and removing an outstanding request\<close>

text \<open>The fields that no driver operation on the rings changes.\<close>

definition vq_frame :: "virtqueue \<Rightarrow> virtqueue \<Rightarrow> bool" where
  "vq_frame vq vq' \<longleftrightarrow> vq_num vq' = vq_num vq \<and> vq_modern vq' = vq_modern vq
     \<and> used_idx vq' = used_idx vq \<and> used_ring vq' = used_ring vq
     \<and> use_event_idx vq' = use_event_idx vq \<and> use_indirect vq' = use_indirect vq
     \<and> vq_index vq' = vq_index vq \<and> notify_addr vq' = notify_addr vq"

text \<open>Taking the block \<open>c\<close> off the front of the free list.\<close>

lemma vq_inv_take:
  assumes inv: "vq_inv vq (c @ fl') os" and cne: "c \<noteq> []"
    and sh: "vq_shape vq' (unat (vq_num vq))" and fr: "vq_modern vq' = vq_modern vq"
    and nf: "num_free vq' = num_free vq - of_nat (length c)"
    and seg: "lseg of_nat (\<lambda>k. d_next (vq_desc vq ! k)) (vq_free_head vq') fl' e"
    and ds: "\<And>k. k \<notin> set c \<Longrightarrow> vq_desc vq' ! k = vq_desc vq ! k"
    and ck: "\<And>k. k \<noteq> hd c \<Longrightarrow> cookies vq' ! k = cookies vq ! k"
    and it: "\<And>k. k \<noteq> hd c \<Longrightarrow> indirect_tables vq' ! k = indirect_tables vq ! k"
    and new: "chain_ok vq' (c, cookie, v)"
  shows "vq_inv vq' fl' ((c, cookie, v) # os)"
  unfolding vq_inv_def
proof (intro conjI)
  have dist: "distinct (c @ fl' @ chains os)"
    and sub: "set (c @ fl' @ chains os) = {..<unat (vq_num vq)}"
    using inv by (auto simp: vq_inv_def)
  have num: "unat (vq_num vq') = unat (vq_num vq)" using sh by (simp add: vq_shape_def)
  show "vq_shape vq' (unat (vq_num vq'))" using sh num by simp
  show "num_free vq' = of_nat (length fl')" using inv nf by (simp add: vq_inv_def)
  have "lseg of_nat (\<lambda>k. d_next (vq_desc vq' ! k)) (vq_free_head vq') fl' e"
    using seg dist
    by (subst lseg_frame [of _ _ "\<lambda>k. d_next (vq_desc vq ! k)"])
       (auto intro!: arg_cong [of _ _ d_next] ds simp: disjoint_iff)
  then show "\<exists>e. lseg of_nat (\<lambda>k. d_next (vq_desc vq' ! k)) (vq_free_head vq') fl' e" ..
  show "distinct (fl' @ chains ((c, cookie, v) # os))" using dist by auto
  show "set (fl' @ chains ((c, cookie, v) # os)) = {..<unat (vq_num vq')}"
    using sub num by auto
  show "\<forall>x\<in>set ((c, cookie, v) # os). chain_ok vq' x"
  proof (intro ballI, elim set_ConsD [THEN disjE])
    fix x assume x: "x \<in> set os"
    obtain d k w where xd: "x = (d, k, w)" by (cases x)
    have ok: "chain_ok vq x" using inv x by (simp add: vq_inv_def)
    have dd: "set d \<inter> set c = {}" using dist in_chains [of d "(k, w)" os] x xd by auto
    have "hd d \<in> set d" using ok xd by simp
    with dd cne have hne: "hd d \<noteq> hd c" by (metis disjoint_iff hd_in_set)
    have "vq_desc vq' ! j = vq_desc vq ! j" if "j \<in> set d" for j using that dd ds by blast
    then show "chain_ok vq' x"
      using ok hne ck it fr dchain_frame [of d "vq_desc vq'" "vq_desc vq" "vq_modern vq"]
      by (auto simp: xd)
  qed (use new in simp)
qed

lemma take_facts:
  assumes inv: "vq_inv vq fl os" and t: "0 < t" "t \<le> length fl"
  obtains e e1 where "lseg of_nat (\<lambda>k. d_next (vq_desc vq ! k)) (vq_free_head vq) (take t fl) e1"
    and "lseg of_nat (\<lambda>k. d_next (vq_desc vq ! k)) e1 (drop t fl) e"
    and "take t fl \<noteq> []" and "distinct (take t fl)" and "set (take t fl) \<subseteq> {..<unat (vq_num vq)}"
    and "hd (take t fl) = hd fl" and "hd fl < unat (vq_num vq)" and "unat (vq_free_head vq) = hd fl"
proof -
  obtain e where "lseg of_nat (\<lambda>k. d_next (vq_desc vq ! k)) (vq_free_head vq) (take t fl @ drop t fl) e"
    using inv by (auto simp: vq_inv_def)
  then obtain e1 where seg: "lseg of_nat (\<lambda>k. d_next (vq_desc vq ! k)) (vq_free_head vq) (take t fl) e1"
      "lseg of_nat (\<lambda>k. d_next (vq_desc vq ! k)) e1 (drop t fl) e"
    unfolding lseg_append by blast
  have sub: "set fl \<subseteq> {..<unat (vq_num vq)}" and d: "distinct fl" and sh: "unat (vq_num vq) \<le> 65535"
    using inv by (auto simp: vq_inv_def vq_shape_def)
  have ne: "take t fl \<noteq> []" "hd (take t fl) = hd fl" using t by (auto simp: hd_take)
  have hl: "hd fl < unat (vq_num vq)" using sub t by (cases fl) auto
  have "vq_free_head vq = of_nat (hd fl)" using seg(1) ne by (cases "take t fl") auto
  with hl sh have "unat (vq_free_head vq) = hd fl" by (simp add: unat_of_nat16)
  moreover have "set (take t fl) \<subseteq> {..<unat (vq_num vq)}" using sub set_take_subset by fastforce
  ultimately show ?thesis using that seg ne d hl by auto
qed

definition published :: "virtqueue \<Rightarrow> nat \<Rightarrow> virtqueue \<Rightarrow> bool" where
  "published vq h vq' \<longleftrightarrow>
     (let m = vq_modern vq; i = vr16 m (avail_idx vq) in
      avail_idx vq' = vr16 m (i + 1)
      \<and> avail_ring vq' = (avail_ring vq)[unat i mod unat (vq_num vq) := vr16 m (of_nat h)])"

lemma vq_publish_spec:
  assumes "vq_shape vq n" and "unat h = k"
  shows "\<exists>vq'. vq_publish vq h = Some vq' \<and> vq_shape vq' n \<and> published vq k vq' \<and> vq_frame vq vq'
     \<and> last_used_idx vq' = last_used_idx vq \<and> vq_desc vq' = vq_desc vq \<and> vq_free_head vq' = vq_free_head vq
     \<and> num_free vq' = num_free vq \<and> cookies vq' = cookies vq \<and> indirect_tables vq' = indirect_tables vq"
proof -
  have "vq_num vq \<noteq> 0" using assms by (auto simp: vq_shape_def)
  moreover have "unat (vr16 (vq_modern vq) (avail_idx vq)) mod n < length (avail_ring vq)"
    using assms by (simp add: vq_shape_def less_Suc_eq)
  moreover have "h = of_nat k" using assms(2) by auto
  ultimately show ?thesis
    using assms by (auto simp: vq_publish_def vq_shape_def Let_def published_def vq_frame_def)
qed

lemma add_buf_direct_spec:
  assumes inv: "vq_inv vq fl os" and ne: "sgs \<noteq> []" and fits: "length sgs \<le> length fl"
  shows "\<exists>vq'. add_buf_direct vq sgs out_num cookie = Some vq'
     \<and> vq_inv vq' (drop (length sgs) fl) ((take (length sgs) fl, cookie, sg_view out_num 0 sgs) # os)
     \<and> published vq (hd fl) vq' \<and> vq_frame vq vq' \<and> last_used_idx vq' = last_used_idx vq
     \<and> indirect_tables vq' ! hd fl = NULL"
proof -
  define t where "t = length sgs"
  define c where "c = take t fl"
  define m where "m = vq_modern vq"
  have t: "0 < t" "t \<le> length fl" using ne fits by (auto simp: t_def)
  obtain e e1 where seg: "lseg of_nat (\<lambda>k. d_next (vq_desc vq ! k)) (vq_free_head vq) c e1"
      "lseg of_nat (\<lambda>k. d_next (vq_desc vq ! k)) e1 (drop t fl) e"
    and c: "c \<noteq> []" "distinct c" "set c \<subseteq> {..<unat (vq_num vq)}" "hd c = hd fl"
    and hd: "hd fl < unat (vq_num vq)" "unat (vq_free_head vq) = hd fl"
    using take_facts [OF inv t] unfolding c_def by blast
  have sh: "vq_shape vq (unat (vq_num vq))" using inv by (simp add: vq_inv_def)
  obtain ds' where ds': "add_direct m out_num 0 (vq_free_head vq) sgs (vq_desc vq) = Some (ds', e1)"
      "length ds' = length (vq_desc vq)" "dchain m ds' c"
      "map (\<lambda>k. dev_desc m (ds' ! k)) c = sg_view out_num 0 sgs"
      "\<forall>k. k \<notin> set c \<longrightarrow> ds' ! k = vq_desc vq ! k"
    using add_direct_spec [OF seg(1), of sgs m out_num 0] c sh ne t by (auto simp: vq_shape_def c_def t_def)
  define vq1 where "vq1 = vq\<lparr>vq_desc := ds', vq_free_head := e1, num_free := num_free vq - of_nat t,
      cookies := (cookies vq)[hd fl := cookie], indirect_tables := (indirect_tables vq)[hd fl := NULL]\<rparr>"
  have sh1: "vq_shape vq1 (unat (vq_num vq))" using sh ds'(2) by (simp add: vq_shape_def vq1_def)
  obtain vq' where pub: "vq_publish vq1 (vq_free_head vq) = Some vq'"
    and vq': "vq_shape vq' (unat (vq_num vq))" "published vq1 (hd fl) vq'" "vq_frame vq1 vq'"
      "last_used_idx vq' = last_used_idx vq1" "vq_desc vq' = vq_desc vq1" "vq_free_head vq' = vq_free_head vq1"
      "num_free vq' = num_free vq1" "cookies vq' = cookies vq1" "indirect_tables vq' = indirect_tables vq1"
    using vq_publish_spec [OF sh1 hd(2)] by blast
  have "add_buf_direct vq sgs out_num cookie = Some vq'"
    using ds'(1) pub hd sh
    by (simp add: add_buf_direct_def m_def vq_shape_def vq1_def t_def Let_def)
  moreover have "vq_inv vq' (drop t fl) ((c, cookie, sg_view out_num 0 sgs) # os)"
  proof (rule vq_inv_take [where e = e])
    show "vq_inv vq (c @ drop t fl) os" using inv by (simp add: c_def)
    show "chain_ok vq' (c, cookie, sg_view out_num 0 sgs)"
      using c hd sh ds' vq' by (auto simp: vq1_def vq_shape_def m_def vq_frame_def)
    show "num_free vq' = num_free vq - of_nat (length c)" using vq' t by (simp add: vq1_def c_def)
  qed (use vq' seg c ds' in \<open>auto simp: vq1_def vq_frame_def\<close>)
  moreover have "published vq (hd fl) vq'" "vq_frame vq vq'" "last_used_idx vq' = last_used_idx vq"
    "indirect_tables vq' ! hd fl = NULL"
    using vq' hd sh by (auto simp: vq1_def published_def vq_frame_def vq_shape_def)
  ultimately show ?thesis by (auto simp: t_def c_def)
qed

lemma add_buf_indirect_spec:
  assumes inv: "vq_inv vq fl os" and ne: "fl \<noteq> []" and itbl: "itbl \<noteq> NULL"
  shows "\<exists>vq'. add_buf_indirect vq itbl phys isz cookie = Some vq'
     \<and> vq_inv vq' (tl fl) (([hd fl], cookie, v) # os)
     \<and> published vq (hd fl) vq' \<and> vq_frame vq vq' \<and> last_used_idx vq' = last_used_idx vq
     \<and> dev_desc (vq_modern vq) (vq_desc vq' ! hd fl) = (ucast phys, isz, False)
     \<and> vr16 (vq_modern vq) (d_flags (vq_desc vq' ! hd fl)) = VRING_DESC_F_INDIRECT
     \<and> indirect_tables vq' ! hd fl = itbl"
proof -
  have t: "0 < (1::nat)" "1 \<le> length fl" using ne by (cases fl; simp)+
  have tk: "take 1 fl = [hd fl]" "drop 1 fl = tl fl" using ne by (cases fl; simp)+
  obtain e e1 where seg: "lseg of_nat (\<lambda>k. d_next (vq_desc vq ! k)) (vq_free_head vq) [hd fl] e1"
      "lseg of_nat (\<lambda>k. d_next (vq_desc vq ! k)) e1 (tl fl) e"
    and hd: "hd fl < unat (vq_num vq)" "unat (vq_free_head vq) = hd fl"
    using take_facts [OF inv t] unfolding tk by blast
  have sh: "vq_shape vq (unat (vq_num vq))" using inv by (simp add: vq_inv_def)
  define d' where "d' = \<lparr>d_addr = vr64 (vq_modern vq) (ucast phys), d_len = vr32 (vq_modern vq) isz,
      d_flags = vr16 (vq_modern vq) VRING_DESC_F_INDIRECT, d_next = 0\<rparr>"
  define vq1 where "vq1 = vq\<lparr>vq_desc := (vq_desc vq)[hd fl := d'], vq_free_head := e1, num_free := num_free vq - 1,
      cookies := (cookies vq)[hd fl := cookie], indirect_tables := (indirect_tables vq)[hd fl := itbl]\<rparr>"
  have sh1: "vq_shape vq1 (unat (vq_num vq))" using sh by (simp add: vq_shape_def vq1_def)
  obtain vq' where pub: "vq_publish vq1 (vq_free_head vq) = Some vq'"
    and vq': "vq_shape vq' (unat (vq_num vq))" "published vq1 (hd fl) vq'" "vq_frame vq1 vq'"
      "last_used_idx vq' = last_used_idx vq1" "vq_desc vq' = vq_desc vq1" "vq_free_head vq' = vq_free_head vq1"
      "num_free vq' = num_free vq1" "cookies vq' = cookies vq1" "indirect_tables vq' = indirect_tables vq1"
    using vq_publish_spec [OF sh1 hd(2)] by blast
  have e1: "d_next (vq_desc vq ! hd fl) = e1" using seg(1) by simp
  have "add_buf_indirect vq itbl phys isz cookie = Some vq'"
    using pub hd sh e1
    by (simp add: add_buf_indirect_def vq_shape_def vq1_def d'_def Let_def)
  moreover have "vq_inv vq' (tl fl) (([hd fl], cookie, v) # os)"
  proof (rule vq_inv_take [where e = e])
    show "vq_inv vq ([hd fl] @ tl fl) os" using inv ne by simp
    show "chain_ok vq' ([hd fl], cookie, v)"
      using hd sh vq' itbl by (auto simp: vq1_def vq_shape_def vq_frame_def)
  qed (use vq' seg in \<open>auto simp: vq1_def vq_frame_def\<close>)
  moreover have "published vq (hd fl) vq'" "vq_frame vq vq'" "last_used_idx vq' = last_used_idx vq"
    using vq' by (auto simp: vq1_def published_def vq_frame_def)
  moreover have "dev_desc (vq_modern vq) (vq_desc vq' ! hd fl) = (ucast phys, isz, False)"
    "vr16 (vq_modern vq) (d_flags (vq_desc vq' ! hd fl)) = VRING_DESC_F_INDIRECT"
    "indirect_tables vq' ! hd fl = itbl"
    using hd sh vq' by (auto simp: vq1_def vq_shape_def dev_desc_def d'_def VRING_DESC_F_INDIRECT_def
        VRING_DESC_F_WRITE_def)
  ultimately show ?thesis by blast
qed

text \<open>Putting the block \<open>c\<close> back on the front of the free list, in reverse.\<close>

lemma mset_chains_remove1:
  "(c, r) \<in> set os \<Longrightarrow> mset (chains os) = mset c + mset (chains (remove1 (c, r) os))"
proof (induction os)
  case (Cons x os)
  then show ?case by (cases x; cases "x = (c, r)") auto
qed simp

lemma vq_inv_give:
  assumes inv: "vq_inv vq fl os" and x: "(c, ck, v) \<in> set os"
    and sh: "vq_shape vq' (unat (vq_num vq))" and fr: "vq_modern vq' = vq_modern vq"
    and nf: "num_free vq' = num_free vq + of_nat (length c)"
    and seg: "\<exists>e. lseg of_nat (\<lambda>k. d_next (vq_desc vq' ! k)) (vq_free_head vq') (rev c @ fl) e"
    and ds: "\<And>k. k \<notin> set c \<Longrightarrow> vq_desc vq' ! k = vq_desc vq ! k"
    and ck: "\<And>k. k \<noteq> hd c \<Longrightarrow> cookies vq' ! k = cookies vq ! k"
    and it: "\<And>k. k \<noteq> hd c \<Longrightarrow> indirect_tables vq' ! k = indirect_tables vq ! k"
  shows "vq_inv vq' (rev c @ fl) (remove1 (c, ck, v) os)"
  unfolding vq_inv_def
proof (intro conjI)
  let ?os = "remove1 (c, ck, v) os"
  have num: "unat (vq_num vq') = unat (vq_num vq)" using sh by (simp add: vq_shape_def)
  have ms: "mset ((rev c @ fl) @ chains ?os) = mset (fl @ chains os)"
    using mset_chains_remove1 [OF x] by simp
  show "vq_shape vq' (unat (vq_num vq'))" using sh num by simp
  show "num_free vq' = of_nat (length (rev c @ fl))" using inv nf by (simp add: vq_inv_def)
  show "\<exists>e. lseg of_nat (\<lambda>k. d_next (vq_desc vq' ! k)) (vq_free_head vq') (rev c @ fl) e" by (rule seg)
  have dist: "distinct ((rev c @ fl) @ chains ?os)"
    using mset_eq_imp_distinct_iff [OF ms] inv by (simp add: vq_inv_def)
  then show "distinct ((rev c @ fl) @ chains ?os)" .
  show "set ((rev c @ fl) @ chains ?os) = {..<unat (vq_num vq')}"
    using mset_eq_setD [OF ms] inv num by (simp add: vq_inv_def)
  show "\<forall>y\<in>set ?os. chain_ok vq' y"
  proof
    fix y assume y: "y \<in> set ?os"
    obtain d k w where yd: "y = (d, k, w)" by (cases y)
    have ok: "chain_ok vq y" using inv y notin_set_remove1 by (force simp: vq_inv_def)
    have dd: "set d \<inter> set c = {}" using dist in_chains [of d "(k, w)" ?os] y yd by auto
    have cne: "c \<noteq> []" using inv x by (fastforce simp: vq_inv_def)
    have "hd d \<in> set d" using ok yd by simp
    with dd cne have hne: "hd d \<noteq> hd c" by (metis disjoint_iff hd_in_set)
    have "vq_desc vq' ! j = vq_desc vq ! j" if "j \<in> set d" for j using that dd ds by blast
    then show "chain_ok vq' y"
      using ok hne ck it fr dchain_frame [of d "vq_desc vq'" "vq_desc vq" "vq_modern vq"]
      by (auto simp: yd)
  qed
qed

end
