(* ===== verification/Virtqueue_Ops.thy ===== *)
theory Virtqueue_Ops
  imports Virtqueue_Inv
begin

text \<open>
  Allocation and completion of a virtqueue against its invariant: a fresh queue satisfies
  it, the allocations of a queue balance with those its release gives back, and taking back
  a completed chain returns the cookie it was submitted with and frees exactly its
  descriptors.
\<close>

section \<open>A fresh queue\<close>

lemma vq_init_sel [simp]:
  "vq_num (vq_init raw self cks its i q) = q"
  "vq_index (vq_init raw self cks its i q) = i"
  "vq_free_head (vq_init raw self cks its i q) = 0"
  "length (vq_desc (vq_init raw self cks its i q)) = unat q"
  "cookies (vq_init raw self cks its i q) = replicate (unat q) NULL"
  "indirect_tables (vq_init raw self cks its i q) = replicate (unat q) NULL"
  "avail_ring (vq_init raw self cks its i q) = replicate (unat q + 1) 0"
  "length (used_ring (vq_init raw self cks its i q)) = unat q"
  "num_free (vq_init raw self cks its i q) = of_nat (unat q)"
  "avail_idx (vq_init raw self cks its i q) = 0"
  "used_idx (vq_init raw self cks its i q) = 0"
  "last_used_idx (vq_init raw self cks its i q) = 0"
  "vq_modern (vq_init raw self cks its i q) = False"
  "use_indirect (vq_init raw self cks its i q) = False"
  "use_event_idx (vq_init raw self cks its i q) = False"
  "dma_entries (vq_init raw self cks its i q) = 0"
  by (simp_all add: vq_init_def Let_def)

lemma vq_init_next:
  "Suc k < unat q \<Longrightarrow> d_next (vq_desc (vq_init raw self cks its i q) ! k) = of_nat (Suc k)"
  by (auto simp: vq_init_def Let_def)

lemma vq_init_inv:
  assumes "0 < unat q" and "unat q \<le> 65535"
  shows "vq_inv (vq_init raw self cks its i q) [0..<unat q] []"
proof -
  let ?vq = "vq_init raw self cks its i q"
  have "lseg of_nat (\<lambda>k. d_next (vq_desc ?vq ! k)) (of_nat 0) [0..<unat q] (d_next (vq_desc ?vq ! (unat q - 1)))"
    by (rule lseg_upt) (use assms vq_init_next in auto)
  then have "\<exists>e. lseg of_nat (\<lambda>k. d_next (vq_desc ?vq ! k)) (vq_free_head ?vq) [0..<unat q] e"
    by auto
  with assms show ?thesis unfolding vq_inv_def vq_shape_def by (simp add: atLeast0LessThan)
qed

lemma VirtQueue_Allocate_log:
  assumes "VirtQueue_Allocate K i q s = (r, s')"
  obtains new where "os_log s' = os_log s @ new" and "dma_objs s' = dma_objs s"
    and "r = None \<Longrightarrow> ledger new m = Some m"
    and "\<And>vq. r = Some vq \<Longrightarrow>
        vq = vq_init (mem_block vq) (vq_self vq) (cookies_addr vq) (indirect_addr vq) i q
        \<and> mem_block vq \<noteq> NULL \<and> cookies_addr vq \<noteq> NULL \<and> indirect_addr vq \<noteq> NULL \<and> vq_self vq \<noteq> NULL
        \<and> ledger new m = Some (m + {#RMem (mem_block vq), RMem (vq_self vq), RMem (cookies_addr vq), RMem (indirect_addr vq)#})"
proof -
  have "\<exists>new. os_log s' = os_log s @ new \<and> dma_objs s' = dma_objs s \<and> (r = None \<longrightarrow> ledger new m = Some m)
    \<and> (\<forall>vq. r = Some vq \<longrightarrow>
        vq = vq_init (mem_block vq) (vq_self vq) (cookies_addr vq) (indirect_addr vq) i q
        \<and> mem_block vq \<noteq> NULL \<and> cookies_addr vq \<noteq> NULL \<and> indirect_addr vq \<noteq> NULL \<and> vq_self vq \<noteq> NULL
        \<and> ledger new m = Some (m + {#RMem (mem_block vq), RMem (vq_self vq), RMem (cookies_addr vq), RMem (indirect_addr vq)#}))"
    using assms
    by (auto simp: VirtQueue_Allocate_def os_AllocVecTags_def Let_def give_back_def vq_init_def
        add_mset_commute split: if_splits)
  then show ?thesis using that by blast
qed


lemma VirtQueue_Free_ledger:
  assumes "mem_block vq \<noteq> NULL" "cookies_addr vq \<noteq> NULL" "indirect_addr vq \<noteq> NULL"
  shows "\<exists>new. os_log (VirtQueue_Free (Some vq) s) = os_log s @ new
     \<and> ledger new (m + {#RMem (mem_block vq), RMem (vq_self vq), RMem (cookies_addr vq), RMem (indirect_addr vq)#}
         + (if dma_entries vq > 0 \<and> vq_desc_addr vq \<noteq> NULL then {#RDma (vq_desc_addr vq) (mem_size vq)#} else {#})) = Some m"
  using assms by (auto simp: VirtQueue_Free_def Let_def give_back_def)

section \<open>Completion\<close>

lemma ucast_of_nat_32_16: "k < 65536 \<Longrightarrow> (ucast (of_nat k :: u32) :: u16) = of_nat k"
  by (rule word_unat_eq_iff [THEN iffD2])
     (simp add: unat_of_nat16 unsigned_ucast_eq unat_of_nat32 take_bit_nat_eq_self)

definition used_entry :: "virtqueue \<Rightarrow> vring_used_elem" where
  "used_entry vq = used_ring vq ! (unat (last_used_idx vq) mod unat (vq_num vq))"

definition used_id :: "virtqueue \<Rightarrow> u32" where
  "used_id vq = vr32 (vq_modern vq) (ue_id (used_entry vq))"

definition used_len :: "virtqueue \<Rightarrow> u32" where
  "used_len vq = vr32 (vq_modern vq) (ue_len (used_entry vq))"

definition pending :: "virtqueue \<Rightarrow> bool" where
  "pending vq \<longleftrightarrow> last_used_idx vq \<noteq> vr16 (vq_modern vq) (used_idx vq)"

lemma GetBuf_empty [simp]: "\<not> pending vq \<Longrightarrow> VirtQueue_GetBuf vq s = Some (NULL, None, vq, s)"
  by (simp add: VirtQueue_GetBuf_def pending_def Let_def)

lemma GetBuf_bad_id:
  assumes "vq_shape vq n" and "pending vq" and "vq_num vq \<le> used_id vq"
  shows "VirtQueue_GetBuf vq s = Some (NULL, None, vq\<lparr>last_used_idx := last_used_idx vq + 1\<rparr>, s)"
  using assms
  by (auto simp: VirtQueue_GetBuf_def pending_def Let_def used_id_def used_entry_def vq_shape_def)

lemma vq_inv_chain_ok: "vq_inv vq fl os \<Longrightarrow> x \<in> set os \<Longrightarrow> chain_ok vq x"
  unfolding vq_inv_def by blast

lemma GetBuf_spec:
  assumes inv: "vq_inv vq fl os" and x: "(c, ck, v) \<in> set os"
    and pend: "pending vq" and ent: "used_id vq = of_nat (hd c)"
  shows "\<exists>vq'. VirtQueue_GetBuf vq s = Some (ck, Some (used_len vq), vq',
            if indirect_tables vq ! hd c = NULL then s
            else os_emit (FreeVec (indirect_tables vq ! hd c))
                   (os_emit (EndDMA (indirect_tables vq ! hd c)
                      (vr32 (vq_modern vq) (d_len (vq_desc vq ! hd c))) True True) s))
     \<and> vq_inv vq' (rev c @ fl) (remove1 (c, ck, v) os)
     \<and> last_used_idx vq' = last_used_idx vq + 1 \<and> vq_frame vq vq' \<and> avail_idx vq' = avail_idx vq
     \<and> avail_ring vq' = (if use_event_idx vq
          then (avail_ring vq)[unat (vq_num vq) := vr16 (vq_modern vq) (last_used_idx vq + 1)]
          else avail_ring vq)"
proof -
  define n where "n = unat (vq_num vq)"
  define m where "m = vq_modern vq"
  define h where "h = hd c"
  have sh: "vq_shape vq n" using inv by (simp add: vq_inv_def n_def)
  have ok: "chain_ok vq (c, ck, v)" using inv x by (rule vq_inv_chain_ok)
  then have cne: "c \<noteq> []" by simp
  have csub: "set c \<subseteq> {..<n}" and dc: "distinct c"
  proof -
    have "distinct (chains os)" "set (chains os) \<subseteq> {..<n}" using inv by (auto simp: vq_inv_def n_def)
    moreover have "mset (chains os) = mset c + mset (chains (remove1 (c, ck, v) os))"
      using mset_chains_remove1 [OF x] .
    ultimately show "set c \<subseteq> {..<n}" "distinct c"
      using in_chains [OF x] mset_eq_imp_distinct_iff [of "chains os" "c @ chains (remove1 (c, ck, v) os)"]
      by auto
  qed
  have hn: "h < n" using cne csub hd_in_set [of c] by (auto simp: h_def simp del: hd_in_set)
  have nb: "n \<le> 65535" using sh by (simp add: vq_shape_def)
  have uh: "unat (used_id vq) = h" using ent hn nb by (simp add: unat_of_nat32 h_def)
  have lt: "\<not> vq_num vq \<le> used_id vq" using uh hn by (simp add: word_le_nat_alt n_def)
  have uc: "(ucast (used_id vq) :: u16) = of_nat h" using ent hn nb by (simp add: ucast_of_nat_32_16 h_def)
  have u16: "unat (of_nat h :: u16) = h" using hn nb by (simp add: unat_of_nat16)
  obtain e where seg: "lseg of_nat (\<lambda>k. d_next (vq_desc vq ! k)) (vq_free_head vq) fl e"
    using inv by (auto simp: vq_inv_def)
  have disj: "set c \<inter> set fl = {}" using inv in_chains [OF x] by (auto simp: vq_inv_def)
  define ring where "ring = (if use_event_idx vq
          then (avail_ring vq)[n := vr16 m (last_used_idx vq + 1)] else avail_ring vq)"
  define its where "its = indirect_tables vq ! h"
  define s' where "s' = (if its = NULL then s
       else os_emit (FreeVec its) (os_emit (EndDMA its (vr32 m (d_len (vq_desc vq ! h))) True True) s))"
  obtain ds fh where walk:
      "(if its \<noteq> NULL
        then Some ((vq_desc vq)[h := \<lparr>d_addr = 0, d_len = 0, d_flags = 0, d_next = vq_free_head vq\<rparr>],
                   of_nat h, 1)
        else free_chain m (vq_desc vq) (vq_free_head vq) (of_nat h) 0) = Some (ds, fh, length c)"
      and lds: "length ds = n" and ods: "\<forall>k. k \<notin> set c \<longrightarrow> ds ! k = vq_desc vq ! k"
      and lsg: "lseg of_nat (\<lambda>k. d_next (ds ! k)) fh (rev c) (vq_free_head vq)"
  proof (cases "its = NULL")
    case True
    then have dch: "dchain m (vq_desc vq) c" using ok by (simp add: its_def h_def m_def)
    show ?thesis
      using free_chain_spec [OF dch dc, of "vq_free_head vq" 0] csub sh that True
      by (auto simp: vq_shape_def h_def)
  next
    case False
    then have "length c = 1" using ok by (auto simp: its_def h_def)
    then have "c = [h]" using cne by (cases c) (auto simp: h_def)
    with False hn sh show ?thesis by (intro that) (auto simp: vq_shape_def)
  qed
  define vq' where "vq' = vq\<lparr>cookies := (cookies vq)[h := NULL], indirect_tables := (indirect_tables vq)[h := NULL],
      vq_desc := ds, vq_free_head := fh, num_free := num_free vq + of_nat (length c),
      last_used_idx := last_used_idx vq + 1, avail_ring := ring\<rparr>"
  have get: "VirtQueue_GetBuf vq s = Some (ck, Some (used_len vq), vq', s')"
  proof -
    have pos: "unat (last_used_idx vq) mod n < n" "vq_num vq \<noteq> 0"
      using sh by (auto simp: vq_shape_def)
    have id: "vr32 (vq_modern vq) (ue_id (used_ring vq ! (unat (last_used_idx vq) mod n))) = used_id vq"
      and ln: "vr32 (vq_modern vq) (ue_len (used_ring vq ! (unat (last_used_idx vq) mod n))) = used_len vq"
      by (simp_all add: used_id_def used_len_def used_entry_def n_def)
    have ckh: "cookies vq ! h = ck" using ok by (simp add: h_def)
    note base = pending_def Let_def id ln uh uc u16 vq_shape_def ckh its_def [symmetric] vq'_def s'_def
      m_def ring_def VirtQueue_GetBuf_def
    show ?thesis
    proof (cases "its = NULL")
      case True
      then show ?thesis
        using pend pos sh lt hn walk by (cases "use_event_idx vq") (simp_all add: base)
    next
      case False
      with walk have "ds = (vq_desc vq)[h := \<lparr>d_addr = 0, d_len = 0, d_flags = 0, d_next = vq_free_head vq\<rparr>]"
        and "fh = of_nat h" and "length c = 1" by auto
      with False show ?thesis
        using pend pos sh lt hn by (cases "use_event_idx vq") (simp_all add: base)
    qed
  qed
  have lr: "length ring = n + 1" using sh by (simp add: ring_def vq_shape_def)
  have "vq_inv vq' (rev c @ fl) (remove1 (c, ck, v) os)"
  proof (rule vq_inv_give [OF inv x])
    show "vq_shape vq' (unat (vq_num vq))"
      using sh lds lr by (simp add: vq'_def vq_shape_def n_def)
    have "lseg of_nat (\<lambda>k. d_next (ds ! k)) (vq_free_head vq) fl e"
      using seg disj ods by (subst lseg_frame [of _ _ "\<lambda>k. d_next (vq_desc vq ! k)"]) auto
    with lsg show "\<exists>e. lseg of_nat (\<lambda>k. d_next (vq_desc vq' ! k)) (vq_free_head vq') (rev c @ fl) e"
      by (auto simp: vq'_def lseg_append)
  qed (use ods in \<open>auto simp: vq'_def h_def\<close>)
  then show ?thesis using get
    by (auto simp: vq'_def vq_frame_def s'_def its_def h_def m_def ring_def n_def)
qed

end
