(* ===== verification/Virtqueue_Layout.thy ===== *)
theory Virtqueue_Layout
  imports Virtqueue_Ops
begin

text \<open>
  The memory layout that \<^verbatim>\<open>VirtQueue_Allocate\<close> computes (alignment, no overlap of the
  rings, everything inside the allocation, no 32-bit wrap-around) and the available ring as
  a queue whose 16-bit index wraps around.
\<close>

section \<open>Layout\<close>

lemma page_align_unat:
  assumes "unat a + 4095 < 4294967296"
  shows "unat (page_align a) = (unat a + 4095) div 4096 * 4096"
proof -
  have m: "(VIRTIO_PCI_VRING_ALIGN - 1 :: u32) = mask 12"
    by (simp add: VIRTIO_PCI_VRING_ALIGN_def mask_eq_decr_exp)
  have e: "a + VIRTIO_PCI_VRING_ALIGN - 1 = a + 4095"
    by (simp add: VIRTIO_PCI_VRING_ALIGN_def)
  have u: "unat (a + 4095) = unat a + 4095" using assms by (simp add: unat_word_ariths)
  have "page_align a = push_bit 12 (drop_bit 12 (a + 4095))"
    unfolding page_align_def m e by (rule bit_word_eqI) (auto simp: bit_simps)
  also have "unat \<dots> = take_bit 32 (push_bit 12 (drop_bit 12 (unat a + 4095)))"
    by (simp only: unsigned_push_bit_eq unsigned_drop_bit_eq u) (use assms in \<open>simp add: take_bit_nat_eq_self\<close>)
  also have "\<dots> = (unat a + 4095) div 4096 * 4096"
    using assms by (simp add: push_bit_eq_mult drop_bit_eq_div take_bit_nat_eq_self)
  finally show ?thesis .
qed

lemma page_align_facts:
  assumes "unat a + 4095 < 4294967296"
  shows "4096 dvd unat (page_align a)" and "unat a \<le> unat (page_align a)"
    and "unat (page_align a) \<le> unat a + 4095"
  using page_align_unat [OF assms] by auto

lemma vring_sizes_unat:
  assumes "unat q \<le> 32768"
  shows "unat (vring_desc_size q) = 16 * unat q"
    and "unat (vring_avail_size q) = 6 + 2 * unat q"
    and "unat (vring_used_size q) = 6 + 8 * unat q"
    and "unat (vring_desc_size q + vring_avail_size q) = 18 * unat q + 6"
  using assms
  by (simp_all add: vring_desc_size_def vring_avail_size_def vring_used_size_def unat_word_ariths)

lemma vring_used_offset_facts:
  assumes "unat q \<le> 32768"
  shows "4096 dvd unat (vring_used_offset q)" and "18 * unat q + 6 \<le> unat (vring_used_offset q)"
    and "unat (vring_used_offset q) \<le> 18 * unat q + 4101"
  using page_align_facts [of "vring_desc_size q + vring_avail_size q"] vring_sizes_unat [OF assms] assms
  by (simp_all add: vring_used_offset_def)

lemma vring_total_mem_unat:
  assumes "unat q \<le> 32768"
  shows "unat (vring_total_mem q) = unat (vring_used_offset q) + 6 + 8 * unat q"
  using vring_used_offset_facts [OF assms] vring_sizes_unat [OF assms] assms
  by (simp add: vring_total_mem_def unat_word_ariths)

lemma vring_layout:
  assumes q: "0 < unat q" "unat q \<le> 32768"
    and room: "unat raw + unat (vring_total_mem q + VIRTIO_PCI_VRING_ALIGN) < 4294967296"
  shows "unat raw \<le> unat (page_align raw) \<and> 4096 dvd unat (page_align raw)
    \<comment> \<open>descriptor table, then available ring with its \<open>used_event\<close> word, then the used ring\<close>
    \<and> unat (vring_desc_size q) = 16 * unat q
    \<and> unat (vring_desc_size q) + (4 + 2 * unat q + 2) \<le> unat (vring_used_offset q)
    \<and> 4096 dvd unat (vring_used_offset q)
    \<and> unat (vring_used_offset q) + (4 + 8 * unat q + 2) \<le> unat (vring_total_mem q)
    \<and> unat (page_align raw) + unat (vring_total_mem q)
        \<le> unat raw + unat (vring_total_mem q + VIRTIO_PCI_VRING_ALIGN)"
proof -
  have tot: "unat (vring_total_mem q + VIRTIO_PCI_VRING_ALIGN) = unat (vring_total_mem q) + 4096"
    using vring_total_mem_unat [OF q(2)] vring_used_offset_facts [OF q(2)] q
    by (simp add: unat_word_ariths VIRTIO_PCI_VRING_ALIGN_def)
  show ?thesis
    using page_align_facts [of raw] vring_used_offset_facts [of q] vring_total_mem_unat [of q] vring_sizes_unat [of q] q room tot
    by simp
qed

section \<open>The available ring as a queue\<close>

text \<open>The heads the device has not read yet, when it has read up to index \<open>d\<close>.\<close>

definition avail_heads :: "virtqueue \<Rightarrow> u16 \<Rightarrow> u16 list" where
  "avail_heads vq d =
     (let m = vq_modern vq; i = vr16 m (avail_idx vq) in
      map (\<lambda>k. vr16 m (avail_ring vq ! (unat (d + of_nat k) mod unat (vq_num vq)))) [0..<unat (i - d)])"

lemma mod_ring_inj:
  assumes "n dvd 65536" and "k < k'" and "k' < k + n" and "k' < 65536"
  shows "unat (d + of_nat k :: u16) mod n \<noteq> unat (d + of_nat k') mod n"
proof
  have u: "unat (d + of_nat j :: u16) mod n = (unat d + j) mod n" for j
    using assms(1) by (simp add: unat_word_ariths unat_of_nat take_bit_eq_mod mod_mod_cancel mod_simps)
  assume "unat (d + of_nat k :: u16) mod n = unat (d + of_nat k') mod n"
  then have "(unat d + k') mod n = (unat d + k) mod n" unfolding u by simp
  then have "n dvd (unat d + k') - (unat d + k)" by (rule mod_eq_dvd_iff_nat [THEN iffD1, rotated]) (use assms in simp)
  then have "n dvd k' - k" by simp
  with assms show False by (auto dest: dvd_imp_le)
qed

lemma avail_heads_publish:
  assumes sh: "vq_shape vq n" and n: "n dvd 65536" and p: "published vq h vq'" and fr: "vq_frame vq vq'"
    and room: "unat (vr16 (vq_modern vq) (avail_idx vq) - d) < n"
  shows "avail_heads vq' d = avail_heads vq d @ [of_nat h]"
proof -
  define m where "m = vq_modern vq"
  define i where "i = vr16 m (avail_idx vq)"
  define u where "u = unat (i - d)"
  have un: "u < n" "n \<le> 65535" using room sh by (auto simp: u_def i_def m_def vq_shape_def)
  have id: "i = d + of_nat u" by (simp add: u_def)
  have s1: "unat (i + 1 - d) = Suc u"
  proof -
    have "i + 1 - d = of_nat (Suc u)" by (simp add: id)
    then show ?thesis using un unat_of_nat16 [of "Suc u"] by (simp only: \<open>i + 1 - d = of_nat (Suc u)\<close>)
  qed
  have m': "vq_modern vq' = m" "vq_num vq' = vq_num vq" using fr by (simp_all add: vq_frame_def m_def)
  have num: "unat (vq_num vq) = n" using sh by (simp add: vq_shape_def)
  have ring: "avail_ring vq' = (avail_ring vq)[unat i mod n := vr16 m (of_nat h)]"
    and idx: "vr16 m (avail_idx vq') = i + 1"
    using p num by (simp_all add: published_def i_def m_def Let_def)
  have old: "avail_ring vq' ! (unat (d + of_nat k) mod n) = avail_ring vq ! (unat (d + of_nat k) mod n)"
    if "k < u" for k
    using mod_ring_inj [OF n, of k u d] that un by (simp add: ring id)
  have new: "avail_ring vq' ! (unat i mod n) = vr16 m (of_nat h)"
    using sh un by (auto simp: ring vq_shape_def less_Suc_eq)
  show ?thesis
    unfolding avail_heads_def Let_def m' m_def [symmetric] i_def [symmetric] num idx s1
    using old new by (simp add: u_def [symmetric] id [symmetric])
qed

end
