(* ===== verification/Virtqueue_AddBuf.thy ===== *)
theory Virtqueue_AddBuf
  imports Virtqueue_Ops
begin

text \<open>
  Submission: what the device reads when it follows the head that
  \<^verbatim>\<open>VirtQueue_AddBuf\<close> published, for a direct chain and for an indirect table, and the
  outcome of the operation on each of its paths.
\<close>

section \<open>Publishing\<close>

text \<open>The device's reading of an indirect table: from entry 0 along the \<open>NEXT\<close> links.\<close>

fun itbl_walk :: "bool \<Rightarrow> vring_indirect_desc list \<Rightarrow> nat \<Rightarrow> nat \<Rightarrow> view" where
  "itbl_walk m tbl 0 i = []"
| "itbl_walk m tbl (Suc fuel) i =
     (if i < length tbl
      then (let d = tbl ! i; f = vr16 m (i_flags d) in
            (vr64 m (i_addr d), vr32 m (i_len d), f AND VRING_DESC_F_WRITE \<noteq> 0)
            # (if f AND VRING_DESC_F_NEXT \<noteq> 0 then itbl_walk m tbl fuel (unat (vr16 m (i_next d))) else []))
      else [])"

text \<open>The device's reading of a direct chain.\<close>

fun vring_walk :: "bool \<Rightarrow> vring_desc list \<Rightarrow> nat \<Rightarrow> nat \<Rightarrow> view" where
  "vring_walk m ds 0 k = []"
| "vring_walk m ds (Suc fuel) k =
     (if k < length ds
      then dev_desc m (ds ! k)
           # (if has_next m (ds ! k) then vring_walk m ds fuel (unat (vr16 m (d_next (ds ! k)))) else [])
      else [])"

lemma vring_walk_dchain:
  assumes "dchain m ds c" and "set c \<subseteq> {..<length ds}" and "length ds \<le> 65535" and "length c \<le> fuel"
  shows "vring_walk m ds fuel (hd c) = map (\<lambda>k. dev_desc m (ds ! k)) c"
  using assms
proof (induction m ds c arbitrary: fuel rule: dchain.induct)
  case (2 m ds k)
  then show ?case by (cases fuel) auto
next
  case (3 m ds k k' ks)
  then show ?case by (cases fuel) (auto simp: unat_of_nat16)
qed simp

lemma itbl_walk_fill:
  assumes "length sgs \<le> 65535" and "i < length sgs" and "length sgs - i \<le> fuel"
  shows "itbl_walk m (itbl_fill m sgs out_num) fuel i = sg_view out_num i (drop i sgs)"
  using assms(2,3)
proof (induction fuel arbitrary: i)
  case (Suc fuel)
  have next_le: "unat (of_nat (Suc i) :: u16) = Suc i" if "Suc i < length sgs"
    using that assms(1) by (intro unat_of_nat16) simp
  have d: "drop i sgs = sgs ! i # drop (Suc i) sgs" using Suc.prems by (simp add: Cons_nth_drop_Suc)
  show ?case
  proof (cases "Suc i < length sgs")
    case True
    with Suc.IH [of "Suc i"] Suc.prems next_le [OF True] show ?thesis
      by (simp add: d sg_view_Cons itbl_fill_def Let_def del: of_nat_Suc)
  next
    case False
    then have "\<not> i < length sgs - Suc 0" by simp
    with Suc.prems False show ?thesis
      by (simp add: d sg_view_Cons itbl_fill_def Let_def)
  qed
qed simp

lemma sum_u32:
  assumes "unat (a :: u32) + unat b < 4294967296"
  shows "unat (a + b) = unat a + unat b"
  using assms by (simp add: unat_word_ariths)

lemma AddBuf_full:
  assumes inv: "vq_inv vq fl os" and nov: "unat o1 + unat i1 < 4294967296"
    and full: "if use_indirect vq \<and> 1 < unat o1 + unat i1 then fl = [] else length fl < unat o1 + unat i1"
  shows "VirtQueue_AddBuf K vq sg o1 i1 cookie s = Some (False, vq, s)"
  using assms vq_inv_free [OF inv] sum_u32 [OF nov]
  by (auto simp: VirtQueue_AddBuf_def Let_def word_less_nat_alt split: if_splits)

lemma AddBuf_direct:
  assumes inv: "vq_inv vq fl os" and nov: "unat o1 + unat i1 < 4294967296"
    and t: "0 < unat o1 + unat i1" "unat o1 + unat i1 \<le> length sg" "unat o1 + unat i1 \<le> length fl"
    and dir: "if use_indirect vq \<and> 1 < unat o1 + unat i1
      then itbl_setup K (vq_modern vq) (take (unat o1 + unat i1) sg) (unat o1) s = (None, s') else s' = s"
  shows "\<exists>vq'. VirtQueue_AddBuf K vq sg o1 i1 cookie s = Some (True, vq', s')
     \<and> vq_inv vq' (drop (unat o1 + unat i1) fl)
         ((take (unat o1 + unat i1) fl, cookie, sg_view (unat o1) 0 (take (unat o1 + unat i1) sg)) # os)
     \<and> published vq (hd fl) vq' \<and> vq_frame vq vq' \<and> last_used_idx vq' = last_used_idx vq
     \<and> indirect_tables vq' ! hd fl = NULL"
proof -
  let ?t = "unat o1 + unat i1"
  have "take ?t sg \<noteq> []" "length (take ?t sg) = ?t" using t by auto
  then obtain vq' where "add_buf_direct vq (take ?t sg) (unat o1) cookie = Some vq'"
      "vq_inv vq' (drop ?t fl) ((take ?t fl, cookie, sg_view (unat o1) 0 (take ?t sg)) # os)"
      "published vq (hd fl) vq'" "vq_frame vq vq'" "last_used_idx vq' = last_used_idx vq"
      "indirect_tables vq' ! hd fl = NULL"
    using add_buf_direct_spec [OF inv, of "take ?t sg" "unat o1" cookie] t by auto
  moreover have "fl \<noteq> []" using t by auto
  ultimately show ?thesis
    using dir t vq_inv_free [OF inv] sum_u32 [OF nov]
    by (auto simp: VirtQueue_AddBuf_def Let_def word_less_nat_alt split: if_splits)
qed

lemma itbl_setup_spec:
  assumes "itbl_setup K md sgs o1 s = (r, s')"
  obtains new where "os_log s' = os_log s @ new"
    and "r = None \<Longrightarrow> ledger new m = Some m"
    and "\<And>itbl phys isz. r = Some (itbl, phys, isz) \<Longrightarrow>
        itbl \<noteq> NULL \<and> isz = 16 * of_nat (length sgs) \<and> itbl_mem s' itbl = itbl_fill md sgs o1
        \<and> ledger new m = Some (m + {#RMem itbl, RDma itbl isz#})"
proof -
  have "\<exists>new. os_log s' = os_log s @ new \<and> (r = None \<longrightarrow> ledger new m = Some m)
    \<and> (\<forall>itbl phys isz. r = Some (itbl, phys, isz) \<longrightarrow>
        itbl \<noteq> NULL \<and> isz = 16 * of_nat (length sgs) \<and> itbl_mem s' itbl = itbl_fill md sgs o1
        \<and> ledger new m = Some (m + {#RMem itbl, RDma itbl isz#}))"
    using assms
    by (auto simp: itbl_setup_def os_AllocVecTags_def os_StartDMA_def os_AllocDMAEntries_def os_GetDMAList_def
        os_emit_def Let_def give_back_def add_mset_commute split: if_splits)
  then show ?thesis using that by blast
qed

text \<open>Every outcome of the indirect path: a table, the fallback to a direct chain, or failure.\<close>

lemma AddBuf_indirect:
  assumes inv: "vq_inv vq fl os" and nov: "unat o1 + unat i1 < 4294967296"
    and t: "1 < unat o1 + unat i1" "unat o1 + unat i1 \<le> length sg" and ne: "fl \<noteq> []"
    and ind: "use_indirect vq"
    and su: "itbl_setup K (vq_modern vq) (take (unat o1 + unat i1) sg) (unat o1) s = (Some (itbl, phys, isz), s')"
  shows "\<exists>vq'. VirtQueue_AddBuf K vq sg o1 i1 cookie s = Some (True, vq', s')
     \<and> vq_inv vq' (tl fl) (([hd fl], cookie, v) # os)
     \<and> published vq (hd fl) vq' \<and> vq_frame vq vq' \<and> last_used_idx vq' = last_used_idx vq
     \<and> dev_desc (vq_modern vq) (vq_desc vq' ! hd fl) = (ucast phys, isz, False)
     \<and> vr16 (vq_modern vq) (d_flags (vq_desc vq' ! hd fl)) = VRING_DESC_F_INDIRECT
     \<and> indirect_tables vq' ! hd fl = itbl"
proof -
  have "itbl \<noteq> NULL" by (rule itbl_setup_spec [OF su]) blast
  from add_buf_indirect_spec [OF inv ne this, of phys isz cookie v] obtain vq' where
    vq': "add_buf_indirect vq itbl phys isz cookie = Some vq'"
      "vq_inv vq' (tl fl) (([hd fl], cookie, v) # os)" "published vq (hd fl) vq'" "vq_frame vq vq'"
      "last_used_idx vq' = last_used_idx vq"
      "dev_desc (vq_modern vq) (vq_desc vq' ! hd fl) = (ucast phys, isz, False)"
      "vr16 (vq_modern vq) (d_flags (vq_desc vq' ! hd fl)) = VRING_DESC_F_INDIRECT"
      "indirect_tables vq' ! hd fl = itbl" by blast
  have nf: "\<not> num_free vq < 1"
    using vq_inv_free [OF inv] ne by (simp add: word_less_nat_alt)
  have sm: "unat (o1 + i1) = unat o1 + unat i1" "1 < o1 + i1"
    using sum_u32 [OF nov] t by (simp_all add: word_less_nat_alt)
  show ?thesis
    using vq' nf sm ind su t by (simp add: VirtQueue_AddBuf_def Let_def)
qed

text \<open>What the device finds at the head of a submitted chain.\<close>

definition dev_reads :: "virtqueue \<Rightarrow> (u32 \<Rightarrow> vring_indirect_desc list) \<Rightarrow> nat \<Rightarrow> view" where
  "dev_reads vq itbl_at h =
     (let m = vq_modern vq; d = vq_desc vq ! h in
      if vr16 m (d_flags d) AND VRING_DESC_F_INDIRECT \<noteq> 0
      then itbl_walk m (itbl_at (ucast (vr64 m (d_addr d)))) (unat (vr32 m (d_len d)) div 16) 0
      else vring_walk m (vq_desc vq) (unat (vq_num vq)) h)"


lemma dev_reads_direct:
  assumes inv: "vq_inv vq fl os" and x: "(c, ck, v) \<in> set os" and it: "indirect_tables vq ! hd c = NULL"
  shows "dev_reads vq itbl_at (hd c) = v"
proof -
  have ok: "chain_ok vq (c, ck, v)" using inv x by (rule vq_inv_chain_ok)
  then have c: "dchain (vq_modern vq) (vq_desc vq) c" "c \<noteq> []"
      "map (\<lambda>k. dev_desc (vq_modern vq) (vq_desc vq ! k)) c = v" using it by auto
  have sub: "set c \<subseteq> {..<unat (vq_num vq)}" using in_chains [OF x] inv by (auto simp: vq_inv_def)
  have "length (chains os) \<le> unat (vq_num vq)" using vq_inv_length [OF inv] by simp
  moreover have "length c \<le> length (chains os)" using x by (induction os) auto
  ultimately have "vring_walk (vq_modern vq) (vq_desc vq) (unat (vq_num vq)) (hd c) = v"
    using vring_walk_dchain [OF c(1), of "unat (vq_num vq)"] c(3) sub inv
    by (auto simp: vq_inv_def vq_shape_def)
  moreover have "is_direct (vq_modern vq) (vq_desc vq ! hd c)"
    using c(1,2) by (cases "(vq_modern vq, vq_desc vq, c)" rule: dchain.cases) auto
  ultimately show ?thesis by (simp add: dev_reads_def is_direct_def)
qed

lemma unat_16_mult: "n \<le> 65535 \<Longrightarrow> unat (16 * of_nat n :: u32) = 16 * n"
  using unat_of_nat32 [of "16 * n"] by simp

lemma ucast_64_32: "(ucast (ucast (p :: u32) :: u64) :: u32) = p"
  by (rule bit_word_eqI) (simp add: bit_simps)

lemma dev_reads_indirect:
  assumes "dev_desc (vq_modern vq) (vq_desc vq ! h) = (ucast (phys :: u32), 16 * of_nat (length sgs), False)"
    and "vr16 (vq_modern vq) (d_flags (vq_desc vq ! h)) = VRING_DESC_F_INDIRECT"
    and "itbl_at phys = itbl_fill (vq_modern vq) sgs o1" and "sgs \<noteq> []" and "length sgs \<le> 65535"
  shows "dev_reads vq itbl_at h = sg_view o1 0 sgs"
  using assms itbl_walk_fill [of sgs 0 "length sgs" "vq_modern vq" o1]
  by (simp add: dev_reads_def dev_desc_def VRING_DESC_F_INDIRECT_def unat_16_mult Let_def ucast_64_32)

lemma AddBuf_ok:
  assumes inv: "vq_inv vq fl os"
    and t: "0 < unat o1 + unat i1" "unat o1 + unat i1 \<le> length sg" "unat o1 + unat i1 \<le> length fl"
  shows "\<exists>vq' s' c. VirtQueue_AddBuf K vq sg o1 i1 cookie s = Some (True, vq', s')
     \<and> c \<noteq> [] \<and> c @ drop (length c) fl = fl \<and> published vq (hd c) vq' \<and> vq_frame vq vq' \<and> last_used_idx vq' = last_used_idx vq
     \<and> vq_inv vq' (drop (length c) fl)
          ((c, cookie, sg_view (unat o1) 0 (take (unat o1 + unat i1) sg)) # os)
     \<and> dev_reads vq' (\<lambda>_. itbl_mem s' (indirect_tables vq' ! hd c)) (hd c)
         = sg_view (unat o1) 0 (take (unat o1 + unat i1) sg)"
proof -
  let ?t = "unat o1 + unat i1"
  let ?sgs = "take ?t sg" let ?v = "sg_view (unat o1) 0 (take ?t sg)"
  have nov: "?t < 4294967296" and small: "?t \<le> 65535" using t vq_inv_free(2) [OF inv] by auto
  have fl: "fl \<noteq> []" using t by auto
  obtain r s' where su: "itbl_setup K (vq_modern vq) ?sgs (unat o1) s = (r, s')"
    by (cases "itbl_setup K (vq_modern vq) ?sgs (unat o1) s")
  show ?thesis
  proof (cases "use_indirect vq \<and> 1 < ?t \<and> r \<noteq> None")
    case True
    then obtain itbl phys isz where r: "r = Some (itbl, phys, isz)" by auto
    obtain vq' where vq': "VirtQueue_AddBuf K vq sg o1 i1 cookie s = Some (True, vq', s')"
      "vq_inv vq' (tl fl) (([hd fl], cookie, ?v) # os)" "published vq (hd fl) vq'" "vq_frame vq vq'"
      "last_used_idx vq' = last_used_idx vq"
      "dev_desc (vq_modern vq) (vq_desc vq' ! hd fl) = (ucast phys, isz, False)"
      "vr16 (vq_modern vq) (d_flags (vq_desc vq' ! hd fl)) = VRING_DESC_F_INDIRECT"
      "indirect_tables vq' ! hd fl = itbl"
      using AddBuf_indirect [OF inv nov _ t(2) fl _ su [unfolded r], of cookie ?v] True by blast
    have tab: "isz = 16 * of_nat (length ?sgs)" "itbl_mem s' itbl = itbl_fill (vq_modern vq) ?sgs (unat o1)"
      by (rule itbl_setup_spec [OF su], use r in blast)+
    have m: "vq_modern vq' = vq_modern vq" using vq'(4) by (simp add: vq_frame_def)
    have ln: "?sgs \<noteq> []" "length ?sgs \<le> 65535" using t small by auto
    have "dev_reads vq' (\<lambda>_. itbl_mem s' itbl) (hd fl) = ?v"
      using vq'(6,7) m tab by (intro dev_reads_indirect [of _ _ phys, OF _ _ _ ln]) auto
    with vq' fl show ?thesis by (intro exI [of _ vq'] exI [of _ s'] exI [of _ "[hd fl]"]) (simp add: drop_Suc)
  next
    case False
    define s'' where "s'' = (if use_indirect vq \<and> 1 < ?t then s' else s)"
    have "if use_indirect vq \<and> 1 < ?t
      then itbl_setup K (vq_modern vq) ?sgs (unat o1) s = (None, s'') else s'' = s"
      using False su by (cases r) (auto simp: s''_def)
    from AddBuf_direct [OF inv nov t this, of cookie] obtain vq' where vq':
      "VirtQueue_AddBuf K vq sg o1 i1 cookie s = Some (True, vq', s'')"
      "vq_inv vq' (drop ?t fl) ((take ?t fl, cookie, ?v) # os)" "published vq (hd fl) vq'"
      "vq_frame vq vq'" "last_used_idx vq' = last_used_idx vq" "indirect_tables vq' ! hd fl = NULL" by blast
    have "hd (take ?t fl) = hd fl" using t by (simp add: hd_take)
    with dev_reads_direct [OF vq'(2), of "take ?t fl" cookie ?v] vq'(6)
    have "dev_reads vq' (\<lambda>_. itbl_mem s'' (indirect_tables vq' ! hd fl)) (hd fl) = ?v" by simp
    with vq' t fl \<open>hd (take ?t fl) = hd fl\<close> show ?thesis
      by (intro exI [of _ vq'] exI [of _ s''] exI [of _ "take ?t fl"]) (auto simp: min_def)
  qed
qed

end
