(* ===== verification/Virtqueue_Pool.thy ===== *)
theory Virtqueue_Pool
  imports Virtqueue_AddBuf
begin

text \<open>
  The virtqueue with its device as a pool of descriptors: submissions acquire a chain,
  completions by the device in any order release one. The interface \<open>slot_pool\<close> is
  interpreted on \<^verbatim>\<open>VirtQueue_AddBuf\<close> and \<^verbatim>\<open>VirtQueue_GetBuf\<close>.
\<close>

section \<open>The descriptor table as a slot pool\<close>

text \<open>
  The device's side of a completion: it writes the used element for the chain with head
  \<open>h\<close> and advances the used index.
\<close>

definition dev_complete :: "nat \<Rightarrow> u32 \<Rightarrow> virtqueue \<Rightarrow> virtqueue" where
  "dev_complete h len vq =
     (let m = vq_modern vq; i = vr16 m (used_idx vq) in
      vq\<lparr>used_ring := (used_ring vq)[unat i mod unat (vq_num vq) :=
             \<lparr>ue_id = vr32 m (of_nat h), ue_len = vr32 m len\<rparr>],
         used_idx := vr16 m (i + 1)\<rparr>)"

type_synonym vq_state = "virtqueue \<times> nat list \<times> outst"

record vq_request =
  r_out :: "vring_sg list"
  r_in :: "vring_sg list"
  r_cookie :: ptr

fun vqp_inv :: "vq_state \<Rightarrow> bool" where
  "vqp_inv (vq, fl, os) \<longleftrightarrow> vq_inv vq fl os \<and> \<not> use_indirect vq \<and> \<not> pending vq"

fun vqp_free :: "vq_state \<Rightarrow> nat list" where "vqp_free (vq, fl, os) = fl"
fun vqp_held :: "vq_state \<Rightarrow> nat list list" where "vqp_held (vq, fl, os) = map fst os"
fun vqp_cap :: "vq_state \<Rightarrow> nat" where "vqp_cap (vq, fl, os) = unat (vq_num vq)"

definition vqp_need :: "vq_request \<Rightarrow> nat" where
  "vqp_need r = length (r_out r) + length (r_in r)"

text \<open>A submission, and the device's completion of a chain followed by its collection.\<close>

fun vqp_acquire :: "kern \<Rightarrow> unit vq_os_scheme \<Rightarrow> vq_request \<Rightarrow> vq_state \<Rightarrow> vq_state option" where
  "vqp_acquire K s r (vq, fl, os) =
     (case VirtQueue_AddBuf K vq (r_out r @ r_in r) (of_nat (length (r_out r))) (of_nat (length (r_in r)))
             (r_cookie r) s of
        Some (True, vq', _) \<Rightarrow>
          Some (vq', drop (vqp_need r) fl,
                (take (vqp_need r) fl, r_cookie r, sg_view (length (r_out r)) 0 (r_out r @ r_in r)) # os)
      | _ \<Rightarrow> None)"

fun vqp_release :: "unit vq_os_scheme \<Rightarrow> u32 \<Rightarrow> nat list \<Rightarrow> vq_state \<Rightarrow> vq_state option" where
  "vqp_release s len c (vq, fl, os) =
     (case VirtQueue_GetBuf (dev_complete (hd c) len vq) s of
        Some (ck, _, vq', _) \<Rightarrow>
          (case filter (\<lambda>x. fst x = c) os of
             x # _ \<Rightarrow> if fst (snd x) = ck then Some (vq', rev c @ fl, remove1 x os) else None
           | [] \<Rightarrow> None)
      | None \<Rightarrow> None)"

lemma dev_complete_facts:
  assumes inv: "vq_inv vq fl os" and np: "\<not> pending vq"
  shows "vq_inv (dev_complete h len vq) fl os" and "pending (dev_complete h len vq)"
    and "used_id (dev_complete h len vq) = of_nat h" and "used_len (dev_complete h len vq) = len"
    and "indirect_tables (dev_complete h len vq) = indirect_tables vq"
    and "use_indirect (dev_complete h len vq) = use_indirect vq"
    and "vq_num (dev_complete h len vq) = vq_num vq"
    and "last_used_idx (dev_complete h len vq) + 1 = vr16 (vq_modern vq) (used_idx (dev_complete h len vq))"
    and "vq_modern (dev_complete h len vq) = vq_modern vq"
proof -
  have sh: "vq_shape vq (unat (vq_num vq))" using inv by (simp add: vq_inv_def)
  have ok: "\<forall>x\<in>set os. chain_ok (dev_complete h len vq) x"
  proof
    fix x assume "x \<in> set os"
    with inv have "chain_ok vq x" by (rule vq_inv_chain_ok)
    then show "chain_ok (dev_complete h len vq) x" by (cases x) (auto simp: dev_complete_def Let_def)
  qed
  show "vq_inv (dev_complete h len vq) fl os"
    using inv sh ok unfolding vq_inv_def vq_shape_def by (auto simp: dev_complete_def Let_def)
  have lu: "last_used_idx vq = vr16 (vq_modern vq) (used_idx vq)" using np by (simp add: pending_def)
  then show "pending (dev_complete h len vq)"
    by (simp add: pending_def dev_complete_def Let_def)
  have "unat (last_used_idx vq) mod unat (vq_num vq) < length (used_ring vq)"
    using sh by (simp add: vq_shape_def)
  then show "used_id (dev_complete h len vq) = of_nat h" "used_len (dev_complete h len vq) = len"
    using lu by (simp_all add: used_id_def used_len_def used_entry_def dev_complete_def Let_def)
qed (use np in \<open>auto simp: dev_complete_def Let_def pending_def\<close>)

lemma remove1_fst:
  assumes "distinct (concat (map fst os))" and "[] \<notin> fst ` set os" and "x \<in> set os"
  shows "map fst (remove1 x os) = remove1 (fst x) (map fst os)"
  using assms
proof (induction os)
  case (Cons y os)
  show ?case
  proof (cases "x = y")
    case False
    with Cons.prems have xo: "x \<in> set os" by simp
    have "fst x \<noteq> fst y"
    proof
      assume eq: "fst x = fst y"
      have "set (fst x) \<subseteq> set (concat (map fst os))" using xo by auto
      moreover have "set (fst y) \<inter> set (concat (map fst os)) = {}" using Cons.prems(1) by simp
      ultimately have "fst y = []" using eq by (metis inf.absorb1 set_empty)
      with Cons.prems(2) show False by (metis image_eqI list.set_intros(1))
    qed
    with Cons xo False show ?thesis by auto
  qed simp
qed simp

lemma filter_fst:
  assumes "distinct (concat (map fst os))" and "x \<in> set os" and "fst x \<noteq> []"
  shows "\<exists>ys. filter (\<lambda>y. fst y = fst x) os = x # ys"
  using assms
proof (induction os)
  case (Cons y os)
  show ?case
  proof (cases "x = y")
    case False
    with Cons.prems have xo: "x \<in> set os" by simp
    then have "set (fst x) \<subseteq> set (concat (map fst os))" by auto
    moreover have "set (fst y) \<inter> set (concat (map fst os)) = {}" using Cons.prems(1) by simp
    ultimately have "fst y \<noteq> fst x" using Cons.prems(3) by (metis inf.absorb1 set_empty)
    with Cons xo show ?thesis by auto
  qed simp
qed simp

lemma vqp_partition:
  "vqp_inv s \<Longrightarrow> distinct (vqp_free s @ concat (vqp_held s)) \<and> set (vqp_free s @ concat (vqp_held s)) = {..<vqp_cap s}"
  by (cases s) (auto simp: vq_inv_def chains_def)

lemma vqp_held_ne: "vqp_inv s \<Longrightarrow> [] \<notin> set (vqp_held s)"
proof (cases s)
  case (fields vq fl os)
  assume "vqp_inv s"
  then have "vqp_inv (vq, fl, os)" using fields by simp
  then have ok: "chain_ok vq x" if "x \<in> set os" for x
    using fields by (auto intro!: vq_inv_chain_ok [OF _ that])
  have "fst x \<noteq> []" if "x \<in> set os" for x using ok [OF that] by (cases x) auto
  then have "\<forall>y\<in>set (map fst os). y \<noteq> []" by simp
  then have "[] \<notin> set (map fst os)" by blast
  then show ?thesis using fields by simp
qed

lemma vqp_acquire_ok:
  assumes "vqp_inv s" and "0 < vqp_need r" and "vqp_need r \<le> length (vqp_free s)"
  shows "\<exists>s'. vqp_acquire K w r s = Some s' \<and> vqp_inv s' \<and> vqp_cap s' = vqp_cap s
     \<and> vqp_free s' = drop (vqp_need r) (vqp_free s) \<and> vqp_held s' = take (vqp_need r) (vqp_free s) # vqp_held s"
proof -
  obtain vq fl os where s: "s = (vq, fl, os)" by (cases s)
  let ?o = "of_nat (length (r_out r)) :: u32" and ?i = "of_nat (length (r_in r)) :: u32"
  have inv: "vq_inv vq fl os" and ni: "\<not> use_indirect vq" and np: "\<not> pending vq" using assms(1) s by auto
  have small: "vqp_need r \<le> 65535" using assms(3) s vq_inv_free(2) [OF inv] by simp
  have u: "unat ?o = length (r_out r)" "unat ?i = length (r_in r)"
    using small by (auto simp: vqp_need_def intro!: unat_of_nat32)
  have t: "unat ?o + unat ?i = vqp_need r" by (simp only: u vqp_need_def)
  have tk: "take (vqp_need r) (r_out r @ r_in r) = r_out r @ r_in r" by (simp add: vqp_need_def)
  obtain vq' where vq': "VirtQueue_AddBuf K vq (r_out r @ r_in r) ?o ?i (r_cookie r) w = Some (True, vq', w)"
      "vq_inv vq' (drop (vqp_need r) fl)
         ((take (vqp_need r) fl, r_cookie r, sg_view (length (r_out r)) 0 (r_out r @ r_in r)) # os)"
      "vq_frame vq vq'" "last_used_idx vq' = last_used_idx vq" "indirect_tables vq' ! hd fl = NULL"
    using AddBuf_direct [OF inv, of ?o ?i "r_out r @ r_in r" K w w "r_cookie r", unfolded t tk u]
      assms(2,3) ni small s by (auto simp: vqp_need_def)
  have "use_indirect vq' = use_indirect vq" "pending vq' = pending vq" "vq_num vq' = vq_num vq"
    using vq'(3,4) by (simp_all add: vq_frame_def pending_def)
  with vq'(1,2) ni np s show ?thesis by simp
qed

lemma vqp_release_ok:
  assumes "vqp_inv s" and "c \<in> set (vqp_held s)"
  shows "\<exists>s'. vqp_release w len c s = Some s' \<and> vqp_inv s' \<and> vqp_cap s' = vqp_cap s
     \<and> vqp_free s' = rev c @ vqp_free s \<and> vqp_held s' = remove1 c (vqp_held s)"
proof -
  obtain vq fl os where s: "s = (vq, fl, os)" by (cases s)
  have inv: "vq_inv vq fl os" and ni: "\<not> use_indirect vq" and np: "\<not> pending vq" using assms(1) s by auto
  obtain ck v where x: "(c, ck, v) \<in> set os" using assms(2) s by auto
  have ok: "chain_ok vq (c, ck, v)" using inv x by (rule vq_inv_chain_ok)
  then have cne: "c \<noteq> []" by simp
  define vqd where "vqd = dev_complete (hd c) len vq"
  note dc = dev_complete_facts [OF inv np, of "hd c" len, folded vqd_def]
  obtain vq' w' where g: "VirtQueue_GetBuf vqd w = Some (ck, Some (used_len vqd), vq', w')"
      "vq_inv vq' (rev c @ fl) (remove1 (c, ck, v) os)"
      "last_used_idx vq' = last_used_idx vqd + 1" "vq_frame vqd vq'"
    using GetBuf_spec [OF dc(1) x dc(2,3), of w] by blast
  have dis: "distinct (concat (map fst os))" using inv by (simp add: vq_inv_def chains_def)
  have ne: "[] \<notin> fst ` set os" using vqp_held_ne [OF assms(1)] s by simp
  obtain ys where fi: "filter (\<lambda>y. fst y = c) os = (c, ck, v) # ys"
    using filter_fst [OF dis x] cne by auto
  have "\<not> pending vq'" "use_indirect vq' = use_indirect vq" "vq_num vq' = vq_num vq"
    using g(3,4) dc(5-9) by (auto simp: pending_def vq_frame_def)
  with g(1,2) fi ni s remove1_fst [OF dis ne x] show ?thesis by (simp add: vqd_def)
qed

interpretation vqp: slot_pool vqp_inv vqp_cap vqp_free vqp_held vqp_need "vqp_acquire K w" "vqp_release w len"
  for K :: kern and w :: "unit vq_os_scheme" and len :: u32
  by unfold_locales (rule vqp_partition vqp_held_ne vqp_acquire_ok vqp_release_ok; assumption)+

text \<open>
  A run of the queue: submissions, and completions by the device in any order, each followed
  by the driver's collection of it. A submission that does not fit is refused.
\<close>

datatype vq_op = Sub vq_request | Fin nat u32

fun vq_op_step :: "kern \<Rightarrow> unit vq_os_scheme \<Rightarrow> vq_op \<Rightarrow> vq_state \<Rightarrow> vq_state option" where
  "vq_op_step K w (Sub r) (vq, fl, os) =
     (if 0 < vqp_need r \<and> vqp_need r \<le> length fl then vqp_acquire K w r (vq, fl, os)
      else Some (vq, fl, os))"
| "vq_op_step K w (Fin i len) (vq, fl, os) =
     (if i < length os then vqp_release w len (fst (os ! i)) (vq, fl, os) else Some (vq, fl, os))"

fun vq_run :: "kern \<Rightarrow> unit vq_os_scheme \<Rightarrow> vq_op list \<Rightarrow> vq_state \<Rightarrow> vq_state option" where
  "vq_run K w [] s = Some s"
| "vq_run K w (p # ps) s = vq_op_step K w p s \<bind> vq_run K w ps"

lemma vq_op_step_ok:
  assumes "vqp_inv s"
  shows "\<exists>s'. vq_op_step K w p s = Some s' \<and> vqp_inv s' \<and> vqp_cap s' = vqp_cap s"
proof -
  obtain vq fl os where s: "s = (vq, fl, os)" by (cases s)
  show ?thesis
  proof (cases p)
    case (Sub r)
    show ?thesis
    proof (cases "0 < vqp_need r \<and> vqp_need r \<le> length (vqp_free s)")
      case True
      with vqp.acquire_ok [OF assms, of r K w] Sub s show ?thesis by auto
    qed (use Sub s assms in auto)
  next
    case (Fin i len)
    show ?thesis
    proof (cases "i < length os")
      case True
      then have "fst (os ! i) \<in> set (vqp_held s)" using s by simp
      with vqp.release_ok [OF assms, of "fst (os ! i)" w len] Fin s True show ?thesis by auto
    qed (use Fin s assms in auto)
  qed
qed

lemma vq_run_ok:
  assumes "vqp_inv s"
  shows "\<exists>s'. vq_run K w ps s = Some s' \<and> vqp_inv s' \<and> vqp_cap s' = vqp_cap s"
  using assms
proof (induction ps arbitrary: s)
  case (Cons p ps)
  obtain s1 where "vq_op_step K w p s = Some s1" "vqp_inv s1" "vqp_cap s1 = vqp_cap s"
    using vq_op_step_ok [OF Cons.prems] by blast
  with Cons.IH [of s1] show ?case by auto
qed simp

end
