(* ===== verification/Virtqueue_Props.thy ===== *)
theory Virtqueue_Props
  imports Virtqueue_Layout Virtqueue_Pool
begin

text \<open>
  The properties of the virtqueue, each with a witness on a queue of four descriptors.
\<close>

section \<open>Sample values\<close>

definition demo_vq :: virtqueue where
  "demo_vq = vq_init 0x100000 0x200000 0x300000 0x400000 2 4"

definition demo_vos :: vq_os where
  "demo_vos = os.extend demo_os \<lparr>itbl_mem = (\<lambda>_. [])\<rparr>"

definition demo_sgs :: "vring_sg list" where
  "demo_sgs = [\<lparr>sg_addr = 0x5000, sg_len = 51\<rparr>, \<lparr>sg_addr = 0x6000, sg_len = 512\<rparr>, \<lparr>sg_addr = 0x7000, sg_len = 108\<rparr>]"

lemma demo_vq_inv: "vq_inv demo_vq [0, 1, 2, 3] []"
proof -
  have "[0..<unat (4 :: u32)] = [0, 1, 2, 3]" by code_simp
  then show ?thesis
    using vq_init_inv [of 4 "0x100000" "0x200000" "0x300000" "0x400000" 2] by (simp add: demo_vq_def)
qed

lemma demo_vq_idle: "\<not> pending demo_vq"
  by (simp add: pending_def demo_vq_def vr16_def)

section \<open>Submission\<close>



text \<open>
  C5. When the free list is too short, VirtQueue_AddBuf returns -1 and changes neither the
  queue nor the system.
\<close>

lemma AddBuf_rejects_when_full:
  assumes "vq_inv vq fl os" and "unat o1 + unat i1 < 4294967296"
    and "if use_indirect vq \<and> 1 < unat o1 + unat i1 then fl = [] else length fl < unat o1 + unat i1"
  shows "VirtQueue_AddBuf K vq sg o1 i1 cookie s = Some (False, vq, s)"
  using assms by (rule AddBuf_full)

lemma AddBuf_rejects_when_full_witness:
  "VirtQueue_AddBuf demo_kern demo_vq demo_sgs 3 2 0x9000 demo_vos = Some (False, demo_vq, demo_vos)"
  by (rule AddBuf_rejects_when_full [OF demo_vq_inv]) (simp_all add: demo_vq_def)

section \<open>Completion\<close>

text \<open>
  C2. When the device completes an outstanding chain, VirtQueue_GetBuf returns the cookie
  the chain was submitted with and the length the device wrote, gives exactly the
  descriptors of the chain back to the free list, keeps the invariant, leaves the used ring
  drained, and with EVENT_IDX leaves used_event equal to the device's used index, so the
  next completion interrupts.
\<close>

lemma GetBuf_returns_cookie:
  assumes "vq_inv vq fl os" and "(c, ck, v) \<in> set os" and "\<not> pending vq"
  shows "\<exists>vq' s'. VirtQueue_GetBuf (dev_complete (hd c) len vq) s = Some (ck, Some len, vq', s')
     \<and> vq_inv vq' (rev c @ fl) (remove1 (c, ck, v) os)
     \<and> \<not> pending vq'
     \<and> (use_event_idx vq \<longrightarrow>
          avail_ring vq' ! unat (vq_num vq) = used_idx vq')"
proof -
  have sh: "vq_shape vq (unat (vq_num vq))" using assms(1) by (simp add: vq_inv_def)
  note dc = dev_complete_facts [OF assms(1,3), of "hd c" len]
  have fr: "avail_ring (dev_complete (hd c) len vq) = avail_ring vq"
    "use_event_idx (dev_complete (hd c) len vq) = use_event_idx vq"
    by (simp_all add: dev_complete_def Let_def)
  from GetBuf_spec [OF dc(1) assms(2) dc(2,3), of s] show ?thesis
    using dc(4-9) fr sh by (auto simp: pending_def vq_frame_def vq_shape_def)
qed

lemma GetBuf_returns_cookie_witness:
  "\<exists>vq1 w1 vq2 w2. VirtQueue_AddBuf demo_kern demo_vq demo_sgs 2 1 0x9000 demo_vos = Some (True, vq1, w1)
     \<and> VirtQueue_GetBuf (dev_complete 0 108 vq1) w1 = Some (0x9000, Some 108, vq2, w2)
     \<and> vq_inv vq2 [2, 1, 0, 3] []"
proof -
  obtain vq1 where a: "VirtQueue_AddBuf demo_kern demo_vq demo_sgs 2 1 0x9000 demo_vos = Some (True, vq1, demo_vos)"
    "vq_inv vq1 [3] [([0, 1, 2], 0x9000, sg_view 2 0 demo_sgs)]" "vq_frame demo_vq vq1"
    "last_used_idx vq1 = last_used_idx demo_vq"
    using AddBuf_direct [OF demo_vq_inv, of 2 1 demo_sgs demo_kern demo_vos demo_vos "0x9000"]
    by (auto simp: demo_sgs_def demo_vq_def)
  have np: "\<not> pending vq1" using a(3,4) by (simp add: pending_def vq_frame_def demo_vq_def vr16_def bswap16_def)
  from GetBuf_returns_cookie [OF a(2) _ np, of "[0,1,2]" "0x9000" "sg_view 2 0 demo_sgs" 108 demo_vos]
  obtain vq2 w2 where "VirtQueue_GetBuf (dev_complete 0 108 vq1) demo_vos = Some (0x9000, Some 108, vq2, w2)"
      "vq_inv vq2 [2, 1, 0, 3] []" by auto
  with a(1) show ?thesis by blast
qed

section \<open>Runs\<close>



section \<open>Layout, resources, ring order\<close>

text \<open>
  C6. For queue sizes up to 32768 the rings computed by VirtQueue_Allocate are page aligned,
  do not overlap (the event words included), lie inside the allocation, and no 32-bit sum
  wraps around.
\<close>

lemma vring_layout_ok:
  assumes "0 < unat q" and "unat q \<le> 32768"
    and "unat raw + unat (vring_total_mem q + VIRTIO_PCI_VRING_ALIGN) < 4294967296"
  shows "unat raw \<le> unat (page_align raw) \<and> 4096 dvd unat (page_align raw)
    \<and> unat (vring_desc_size q) = 16 * unat q
    \<and> unat (vring_desc_size q) + (4 + 2 * unat q + 2) \<le> unat (vring_used_offset q)
    \<and> 4096 dvd unat (vring_used_offset q)
    \<and> unat (vring_used_offset q) + (4 + 8 * unat q + 2) \<le> unat (vring_total_mem q)
    \<and> unat (page_align raw) + unat (vring_total_mem q)
        \<le> unat raw + unat (vring_total_mem q + VIRTIO_PCI_VRING_ALIGN)"
  using assms by (rule vring_layout)

lemma vring_layout_ok_witness:
  "unat (page_align 0x100234) + unat (vring_total_mem 128)
     \<le> unat (0x100234 :: u32) + unat (vring_total_mem 128 + VIRTIO_PCI_VRING_ALIGN)"
proof -
  have "vring_total_mem 128 + VIRTIO_PCI_VRING_ALIGN = (9222 :: u32)"
    by (simp add: vring_total_mem_def vring_used_offset_def vring_desc_size_def vring_avail_size_def
        vring_used_size_def page_align_def VIRTIO_PCI_VRING_ALIGN_def)
  then show ?thesis using vring_layout_ok [of 128 "0x100234"] by simp
qed

text \<open>
  C7. VirtQueue_Allocate followed by VirtQueue_Free leaves nothing allocated and frees
  nothing twice, whichever of the four allocations fails.
\<close>

lemma Allocate_Free_balance:
  "\<exists>new. os_log (VirtQueue_Free (fst (VirtQueue_Allocate K i q s)) (snd (VirtQueue_Allocate K i q s)))
           = os_log s @ new \<and> ledger new m = Some m"
proof -
  obtain r s' where a: "VirtQueue_Allocate K i q s = (r, s')" by (cases "VirtQueue_Allocate K i q s")
  from VirtQueue_Allocate_log [OF a, of m] obtain new where new: "os_log s' = os_log s @ new"
    and n: "r = None \<Longrightarrow> ledger new m = Some m"
    and sm: "\<And>vq. r = Some vq \<Longrightarrow>
        vq = vq_init (mem_block vq) (vq_self vq) (cookies_addr vq) (indirect_addr vq) i q
        \<and> mem_block vq \<noteq> NULL \<and> cookies_addr vq \<noteq> NULL \<and> indirect_addr vq \<noteq> NULL \<and> vq_self vq \<noteq> NULL
        \<and> ledger new m = Some (m + {#RMem (mem_block vq), RMem (vq_self vq), RMem (cookies_addr vq), RMem (indirect_addr vq)#})"
    by metis
  show ?thesis
  proof (cases r)
    case None
    then show ?thesis using new n a by (simp add: VirtQueue_Free_def)
  next
    case (Some vq)
    then have "dma_entries vq = 0" using sm [of vq] by (metis vq_init_sel(16))
    with VirtQueue_Free_ledger [of vq s' m] Some sm [of vq] new a show ?thesis by force
  qed
qed

text \<open>
  C4. With a queue size that divides 65536, a submission appends its head to the heads the
  device has not read yet, whatever the 16-bit index is, also when it wraps around.
\<close>

lemma avail_ring_fifo:
  assumes "vq_inv vq fl os" and "0 < unat o1 + unat i1" and "unat o1 + unat i1 \<le> length sg"
    and "unat o1 + unat i1 \<le> length fl" and "unat (vq_num vq) dvd 65536"
    and "unat (vr16 (vq_modern vq) (avail_idx vq) - d) < unat (vq_num vq)"
  shows "\<exists>vq' s'. VirtQueue_AddBuf K vq sg o1 i1 cookie s = Some (True, vq', s')
     \<and> avail_heads vq' d = avail_heads vq d @ [of_nat (hd fl)]"
proof -
  obtain vq' s' c where a: "VirtQueue_AddBuf K vq sg o1 i1 cookie s = Some (True, vq', s')"
      "c \<noteq> []" "c @ drop (length c) fl = fl" "published vq (hd c) vq'" "vq_frame vq vq'"
    using AddBuf_ok [OF assms(1-4), of K cookie s] by blast
  have "hd c = hd fl" using a(2,3) by (metis hd_append2)
  moreover have "vq_shape vq (unat (vq_num vq))" using assms(1) by (simp add: vq_inv_def)
  ultimately show ?thesis using a avail_heads_publish [OF _ assms(5) _ _ assms(6)] by metis
qed

lemma avail_ring_fifo_witness:
  "\<exists>vq' s'. VirtQueue_AddBuf demo_kern (demo_vq\<lparr>avail_idx := 65535\<rparr>) demo_sgs 2 1 0x9000 demo_vos = Some (True, vq', s')
     \<and> avail_heads vq' 65534 = [0, 0]"
proof -
  let ?vq = "demo_vq\<lparr>avail_idx := 65535\<rparr>"
  have inv: "vq_inv ?vq [0, 1, 2, 3] []"
    using demo_vq_inv unfolding vq_inv_def vq_shape_def by simp
  have "avail_heads ?vq 65534 = [0]"
    by (simp add: avail_heads_def demo_vq_def Let_def vr16_def)
  with avail_ring_fifo [OF inv, of 2 1 demo_sgs 65534 demo_kern "0x9000" demo_vos]
  show ?thesis by (simp add: demo_sgs_def demo_vq_def vr16_def)
qed

text \<open>
  C8. A used entry whose descriptor index is out of range is consumed and changes nothing
  else; the caller sees NULL, as for an empty ring.
\<close>

lemma GetBuf_skips_bad_id:
  assumes "vq_shape vq n" and "pending vq" and "vq_num vq \<le> used_id vq"
  shows "VirtQueue_GetBuf vq s = Some (NULL, None, vq\<lparr>last_used_idx := last_used_idx vq + 1\<rparr>, s)"
  using assms by (rule GetBuf_bad_id)

lemma GetBuf_skips_bad_id_witness:
  "VirtQueue_GetBuf (dev_complete 7 0 demo_vq) demo_vos
     = Some (NULL, None, (dev_complete 7 0 demo_vq)\<lparr>last_used_idx := 1\<rparr>, demo_vos)"
proof (rule GetBuf_skips_bad_id [where n = 4, THEN trans])
  note dc = dev_complete_facts [OF demo_vq_inv demo_vq_idle, of 7 0]
  have n: "unat (vq_num (dev_complete 7 0 demo_vq)) = 4" unfolding dc(7) by (simp add: demo_vq_def)
  show "vq_shape (dev_complete 7 0 demo_vq) 4" using dc(1) n by (simp add: vq_inv_def)
  show "vq_num (dev_complete 7 0 demo_vq) \<le> used_id (dev_complete 7 0 demo_vq)"
    unfolding dc(3,7) by (simp add: demo_vq_def)
  show "pending (dev_complete 7 0 demo_vq)" by (rule dc(2))
qed (simp add: dev_complete_def demo_vq_def Let_def)

end
