(* ===== verification/Scsi_Cmd.thy ===== *)
theory Scsi_Cmd
  imports Virtqueue_Pool
begin

text \<open>
  The request and response structures of a SCSI command
  (\<^verbatim>\<open>include/virtio/virtio_scsi_cmd.h\<close>), the translation of a device response to an
  AmigaOS error (\<^verbatim>\<open>map_scsi_error\<close>) and the error codes. Error codes and command numbers
  are constants of the SDK headers, so they are values of datatypes here; only their
  identity matters to the code.
\<close>

section \<open>Errors\<close>

text \<open>\<open>NO_ERROR\<close> is the value 0 of \<open>io_Error\<close>.\<close>

datatype io_err =
    NO_ERROR
  | IOERR_OPENFAIL
  | IOERR_ABORTED
  | IOERR_NOCMD
  | IOERR_BADLENGTH
  | IOERR_BADADDRESS
  | IOERR_SELFTEST
  | TDERR_NotSpecified
  | TDERR_BadSecHdr
  | TDERR_WriteProt
  | TDERR_DiskChanged
  | TDERR_NoMem
  | TDERR_BadDriveType
  | HFERR_BadStatus
  | HFERR_DMA

section \<open>Structures\<close>

definition VIRTIO_SCSI_CDB_SIZE :: nat where "VIRTIO_SCSI_CDB_SIZE = 32"
definition VIRTIO_SCSI_SENSE_SIZE :: nat where "VIRTIO_SCSI_SENSE_SIZE = 96"
definition VIRTIO_SCSI_S_OK :: u8 where "VIRTIO_SCSI_S_OK = 0"
definition VIRTIO_SCSI_S_SIMPLE :: u8 where "VIRTIO_SCSI_S_SIMPLE = 0"
definition SAM2_SINGLE_LEVEL_LUN :: u8 where "SAM2_SINGLE_LEVEL_LUN = 0x40"

text \<open>The sizes of the packed structures.\<close>

definition sizeof_req_cmd :: u32 where "sizeof_req_cmd = 8 + 8 + 1 + 1 + 1 + 32"
definition sizeof_resp_cmd :: u32 where "sizeof_resp_cmd = 4 + 4 + 2 + 1 + 1 + 96"

record virtio_scsi_req_cmd =
  rq_lun :: "u8 list"
  rq_id :: u64
  rq_task_attr :: u8
  rq_prio :: u8
  rq_crn :: u8
  rq_cdb :: "u8 list"

record virtio_scsi_resp_cmd =
  rs_sense_len :: u32
  rs_residual :: u32
  rs_status_qualifier :: u16
  rs_status :: u8
  rs_response :: u8
  rs_sense :: "u8 list"

definition virtio_scsi_resp_residual :: "bool \<Rightarrow> virtio_scsi_resp_cmd \<Rightarrow> u32" where
  "virtio_scsi_resp_residual modern resp =
     (let v = rs_residual resp in
      if modern
      then push_bit 24 (v AND 0x000000FF) OR push_bit 8 (v AND 0x0000FF00)
             OR drop_bit 8 (v AND 0x00FF0000) OR drop_bit 24 (v AND 0xFF000000)
      else v)"

definition virtio_scsi_set_lun :: "u8 \<Rightarrow> u16 \<Rightarrow> u8 list" where
  "virtio_scsi_set_lun target lun_id =
     [1, target, ucast (drop_bit 8 lun_id) OR SAM2_SINGLE_LEVEL_LUN, ucast (lun_id AND 0xFF), 0, 0, 0, 0]"

text \<open>The CDB field: up to 32 bytes copied, the rest zeroed.\<close>

definition cdb_field :: "u8 list \<Rightarrow> u8 list" where
  "cdb_field cdb =
     (let copy_len = min (length cdb) VIRTIO_SCSI_CDB_SIZE in
      take copy_len cdb @ replicate (VIRTIO_SCSI_CDB_SIZE - copy_len) 0)"

section \<open>Errors of the device\<close>

definition map_scsi_error :: "u8 \<Rightarrow> u8 \<Rightarrow> u8 \<Rightarrow> io_err" where
  "map_scsi_error virtio_resp scsi_status sense_key =
     (if virtio_resp \<noteq> VIRTIO_SCSI_S_OK then TDERR_NotSpecified
      else if scsi_status = 0 then NO_ERROR
      else if scsi_status \<noteq> 2 then HFERR_BadStatus
      else let k = sense_key AND 0x0F in
        if k = 0x00 then NO_ERROR
        else if k = 0x01 then NO_ERROR
        else if k = 0x02 then TDERR_BadDriveType
        else if k = 0x03 then TDERR_BadSecHdr
        else if k = 0x04 then TDERR_BadDriveType
        else if k = 0x05 then IOERR_NOCMD
        else if k = 0x06 then TDERR_DiskChanged
        else if k = 0x07 then TDERR_WriteProt
        else if k = 0x0B then TDERR_NotSpecified
        else HFERR_BadStatus)"

section \<open>Facts\<close>

lemma length_cdb_field [simp]: "length (cdb_field cdb) = 32"
  by (simp add: cdb_field_def VIRTIO_SCSI_CDB_SIZE_def Let_def min_def)

lemma cdb_field_nth:
  "i < 32 \<Longrightarrow> cdb_field cdb ! i = (if i < length cdb then cdb ! i else 0)"
  by (auto simp: cdb_field_def VIRTIO_SCSI_CDB_SIZE_def Let_def min_def nth_append)

lemma residual_vr32: "virtio_scsi_resp_residual m resp = vr32 m (rs_residual resp)"
  by (simp add: virtio_scsi_resp_residual_def vr32_def bswap32_def Let_def)

lemma bit_0x40:
  "bit (64 :: u8) k \<longleftrightarrow> k = 6" "bit (64 :: u16) k \<longleftrightarrow> k = 6" "bit (64 :: nat) k \<longleftrightarrow> k = 6"
  "bit (64 :: int) k \<longleftrightarrow> k = 6"
  using bit_exp_iff [of 6 k, where ?'a = u8] bit_exp_iff [of 6 k, where ?'a = u16]
    bit_exp_iff [of 6 k, where ?'a = nat] bit_exp_iff [of 6 k, where ?'a = int]
  by auto

lemma set_lun_decode:
  assumes "lun < 0x4000"
  shows "virtio_scsi_set_lun t lun ! 1 = t
    \<and> push_bit 8 (ucast (virtio_scsi_set_lun t lun ! 2 AND 0x3F)) OR ucast (virtio_scsi_set_lun t lun ! 3) = lun
    \<and> virtio_scsi_set_lun t lun ! 2 AND 0xC0 = 0x40"
proof -
  have "unat lun < 2 ^ 14" using assms by (simp add: word_less_nat_alt)
  then have "take_bit 14 (unat lun) = unat lun" by (simp add: take_bit_nat_eq_self)
  then have hi: "n < 14" if "bit lun n" for n
    using that bit_unsigned_iff [where ?'a = nat, of lun n] by (metis bit_imp_le_length bit_take_bit_iff bit_unsigned_iff possible_bit_nat)
  have m: "(0x3F :: u8) = mask 6" "(0xFF :: u16) = mask 8" "(0xC0 :: u8) = push_bit 6 (mask 2)"
    "SAM2_SINGLE_LEVEL_LUN = 64"
    by (simp_all add: mask_eq_decr_exp SAM2_SINGLE_LEVEL_LUN_def)
  have "push_bit 8 (ucast ((ucast (drop_bit 8 lun) OR 64 :: u8) AND mask 6) :: u16) OR ucast (ucast (lun AND mask 8) :: u8) = lun"
    by (rule bit_word_eqI) (auto simp: bit_simps bit_0x40 dest: hi)
  moreover have "(ucast (drop_bit 8 lun) OR 64 :: u8) AND push_bit 6 (mask 2) = 64"
    by (rule bit_word_eqI) (auto simp: bit_simps bit_0x40 dest: hi)
  ultimately show ?thesis
    unfolding virtio_scsi_set_lun_def m by simp
qed

end
