(* ===== verification/Device_State.thy ===== *)
theory Device_State
  imports Scsi_Cmd
begin

text \<open>
  The state the I/O path works on (\<^verbatim>\<open>include/virtioscsi.h\<close>): the device base
  \<^verbatim>\<open>struct VirtIOSCSIBase\<close>, the units \<^verbatim>\<open>struct VirtIOUSCSIDevUnit\<close> with their
  in-flight tables, the I/O requests, the request and response buffers and the byte memory
  that data is transferred from and to. Structures live at addresses, so that two pointers
  to the same structure see each other's writes.
\<close>

section \<open>I/O requests\<close>

datatype command =
    CMD_READ | CMD_WRITE | CMD_UPDATE | CMD_CLEAR | CMD_STOP | CMD_START | CMD_FLUSH
  | TD_MOTOR | TD_SEEK | TD_FORMAT | TD_REMOVE | TD_CHANGENUM | TD_CHANGESTATE | TD_PROTSTATUS
  | TD_GETDRIVETYPE | TD_GETNUMTRACKS | TD_ADDCHANGEINT | TD_REMCHANGEINT | TD_GETGEOMETRY | TD_EJECT
  | TD_READ64 | TD_WRITE64 | TD_SEEK64 | TD_FORMAT64
  | ETD_READ | ETD_WRITE | ETD_MOTOR | ETD_SEEK | ETD_FORMAT | ETD_UPDATE | ETD_CLEAR
  | HD_SCSICMD
  | NSCMD_DEVICEQUERY | NSCMD_TD_READ64 | NSCMD_TD_WRITE64 | NSCMD_TD_SEEK64 | NSCMD_TD_FORMAT64
  | NSCMD_TD_GETGEOMETRY64 | NSCMD_TD_CHANGEUNIT | NSCMD_TD_ADDSTATCALLBACK | NSCMD_TD_REMSTATCALLBACK
  | NSCMD_ETD_READ64 | NSCMD_ETD_WRITE64 | NSCMD_ETD_SEEK64 | NSCMD_ETD_FORMAT64
  | OTHER_CMD u16

record ioreq =
  io_Device :: ptr
  io_Unit :: ptr
  io_Command :: command
  io_Quick :: bool                   \<comment> \<open>\<open>IOF_QUICK\<close> in \<open>io_Flags\<close>\<close>
  io_Error :: io_err
  io_Actual :: u32
  io_Length :: u32
  io_Data :: ptr
  io_Offset :: u32

section \<open>Structures of the callers\<close>

text \<open>
  \<^verbatim>\<open>struct DriveGeometry\<close>, \<^verbatim>\<open>DriveGeometry64\<close>, \<^verbatim>\<open>NSDeviceQueryResult\<close> and
  \<^verbatim>\<open>SCSICmd\<close> of the SDK: the fields the driver reads and writes.
\<close>

record drive_geometry =
  dg_SectorSize :: u32
  dg_TotalSectors :: u32
  dg_Cylinders :: u32
  dg_CylSectors :: u32
  dg_Heads :: u32
  dg_TrackSectors :: u32
  dg_BufMemType :: u32
  dg_DeviceType :: u8
  dg_Flags :: u8

record drive_geometry64 =
  dg64_SectorSize :: u32
  dg64_TotalSectors :: u64
  dg64_BufMemTags :: ptr
  dg64_DeviceType :: u8
  dg64_Flags :: u8

record nsd_query_result =
  DevQueryFormat :: u32
  SizeAvailable :: u32
  DeviceType_trackdisk :: bool        \<comment> \<open>\<open>NSDEVTYPE_TRACKDISK\<close>\<close>
  DeviceSubType :: u16
  SupportedCommands :: "command list"

record scsi_cmd =
  scsi_Data :: ptr
  scsi_Length :: u32
  scsi_Actual :: u32
  scsi_Command :: ptr
  scsi_CmdLength :: u16
  scsi_CmdActual :: u16
  scsi_Autosense :: bool              \<comment> \<open>\<open>SCSIF_AUTOSENSE\<close> in \<open>scsi_Flags\<close>\<close>
  scsi_Status :: u8
  scsi_SenseData :: ptr
  scsi_SenseLength :: u16
  scsi_SenseActual :: u16

section \<open>Units\<close>

definition MAX_UNITS :: nat where "MAX_UNITS = 8"
definition MAX_INFLIGHT :: nat where "MAX_INFLIGHT = 16"
definition BOUNCE_BUF_SIZE :: u32 where "BOUNCE_BUF_SIZE = 65536"

record inflight_slot =
  if_ioreq :: ptr                    \<comment> \<open>\<open>NULL\<close> = slot free\<close>
  if_cookie :: ptr
  if_dma_addr :: ptr
  if_dma_size :: u32
  if_dma_flags :: bool               \<comment> \<open>\<open>DMA_ReadFromRAM\<close>\<close>
  if_dma_list :: ptr
  if_dma_num_entries :: u32
  if_buf_slot :: u32
  if_using_bounce :: bool
  if_is_write :: bool

text \<open>The arrays of a unit have \<open>MAX_INFLIGHT\<close> elements.\<close>

record devunit =
  unit_MsgPort_ready :: bool         \<comment> \<open>\<open>NT_MSGPORT\<close>, \<open>PA_IGNORE\<close>, no \<open>mp_SigTask\<close>, empty list\<close>
  unit_active :: bool                \<comment> \<open>\<open>UNITF_ACTIVE\<close> in \<open>unit_flags\<close>\<close>
  unit_OpenCnt :: u16
  unit_num :: u32
  target_id :: u32
  lun_id :: u32
  open_count :: u32
  total_blocks :: u64
  block_size :: u32
  geometry_valid :: bool
  rdb_phys_cyls :: u32
  rdb_phys_sectors :: u32
  rdb_phys_heads :: u32
  rdb_geometry_valid :: bool
  changeint_req :: ptr
  remove_req :: ptr
  change_count :: u32
  media_present :: bool
  unit_task :: ptr
  io_port :: ptr
  io_port_mask :: u32
  task_shutdown :: bool
  isr_bit :: int                     \<comment> \<open>the local variable of \<open>UnitTask_Entry\<close>, while the task runs\<close>
  shutdown_exit_task :: ptr
  shutdown_exit_mask :: u32
  port_mutex :: ptr
  io_wait_task :: ptr
  io_signal_mask :: u32
  io_cookie :: ptr
  req_buf :: ptr
  resp_buf :: ptr
  dma_req_list :: ptr
  dma_req_entries :: u32
  dma_resp_list :: ptr
  dma_resp_entries :: u32
  doio_pending_cookie :: ptr
  doio_pending_written :: u32
  free_head :: int
  inflight_next :: "int list"
  inflight_count :: u32
  inflight :: "inflight_slot list"
  req_bufs :: "ptr list"
  resp_bufs :: "ptr list"
  dma_req_lists :: "ptr list"
  dma_req_entries_arr :: "u32 list"
  dma_resp_lists :: "ptr list"
  dma_resp_entries_arr :: "u32 list"
  bounce_bufs :: "ptr list"
  bounce_dma_phys :: "u32 list"
  bounce_dma_entries :: "u32 list"
  data_dma_pool :: "ptr list"

section \<open>The device base and the memories\<close>

text \<open>
  \<open>vqs\<close> has three queues (0 control, 1 event, 2 request) and \<open>units\<close> has
  \<open>MAX_UNITS\<close> entries, \<open>NULL\<close> for none. \<open>bar0_physical\<close> is the field
  \<open>Physical\<close> of the range \<open>bar0\<close> points to.
\<close>

record world = vq_os +
  w_mem :: "ptr \<Rightarrow> u8"
  req_mem :: "ptr \<Rightarrow> virtio_scsi_req_cmd"
  resp_mem :: "ptr \<Rightarrow> virtio_scsi_resp_cmd"
  ioreqs :: "ptr \<Rightarrow> ioreq"
  unit_mem :: "ptr \<Rightarrow> devunit"
  port_msgs :: "ptr \<Rightarrow> ptr list"
  geom_mem :: "ptr \<Rightarrow> drive_geometry"
  geom64_mem :: "ptr \<Rightarrow> drive_geometry64"
  nsq_mem :: "ptr \<Rightarrow> nsd_query_result"
  scsi_mem :: "ptr \<Rightarrow> scsi_cmd"
  pciDevice :: ptr
  bar0 :: ptr
  bar0_physical :: u32
  bar4 :: ptr
  modern_mode :: bool
  common_cfg_base :: u32
  notify_cfg_base :: u32
  notify_off_mult :: u32
  isr_cfg_base :: u32
  device_cfg_base :: u32
  vqs :: "virtqueue option list"
  units :: "ptr list"
  occupied_count :: u32
  active_units_mask :: u8
  irq_number :: u32
  irq_installed :: bool
  lib_OpenCnt :: u16
  lib_DelExp :: bool
  dev_SegList :: ptr
  ExpansionBase :: ptr
  IPCI :: ptr
  UtilityBase :: ptr
  IUtility :: ptr

definition upd_unit :: "ptr \<Rightarrow> (devunit \<Rightarrow> devunit) \<Rightarrow> 'z world_scheme \<Rightarrow> 'z world_scheme" where
  "upd_unit p f w = w\<lparr>unit_mem := (unit_mem w)(p := f (unit_mem w p))\<rparr>"

definition upd_ioreq :: "ptr \<Rightarrow> (ioreq \<Rightarrow> ioreq) \<Rightarrow> 'z world_scheme \<Rightarrow> 'z world_scheme" where
  "upd_ioreq p f w = w\<lparr>ioreqs := (ioreqs w)(p := f (ioreqs w p))\<rparr>"

text \<open>Writing to one slot of the in-flight table.\<close>

definition upd_slot ::
    "ptr \<Rightarrow> nat \<Rightarrow> (inflight_slot \<Rightarrow> inflight_slot) \<Rightarrow> 'z world_scheme \<Rightarrow> 'z world_scheme option" where
  "upd_slot p s f w =
     do {
       x \<leftarrow> rd (inflight (unit_mem w p)) s;
       Some (upd_unit p (\<lambda>u. u\<lparr>inflight := (inflight u)[s := f x]\<rparr>) w)
     }"

definition requestq :: "'z world_scheme \<Rightarrow> virtqueue option" where
  "requestq w = (case rd (vqs w) 2 of Some (Some vq) \<Rightarrow> Some vq | _ \<Rightarrow> None)"

definition set_requestq :: "virtqueue \<Rightarrow> 'z world_scheme \<Rightarrow> 'z world_scheme" where
  "set_requestq vq w = w\<lparr>vqs := (vqs w)[2 := Some vq]\<rparr>"

text \<open>\<open>CopyMem\<close> on the byte memory.\<close>

definition copy_mem :: "ptr \<Rightarrow> ptr \<Rightarrow> u32 \<Rightarrow> (ptr \<Rightarrow> u8) \<Rightarrow> ptr \<Rightarrow> u8" where
  "copy_mem src dst n m = (\<lambda>a. if a - dst < n then m (src + (a - dst)) else m a)"

definition os_CopyMem :: "ptr \<Rightarrow> ptr \<Rightarrow> u32 \<Rightarrow> 'z world_scheme \<Rightarrow> 'z world_scheme" where
  "os_CopyMem src dst n w = os_emit (CopyMem src dst n) (w\<lparr>w_mem := copy_mem src dst n (w_mem w)\<rparr>)"

definition iobase_of :: "'z world_scheme \<Rightarrow> u32" where
  "iobase_of w = (if bar0 w \<noteq> NULL then bar0_physical w else 0)"

text \<open>The unit's bit of \<open>active_units_mask\<close>.\<close>

definition unit_bit :: "u32 \<Rightarrow> u8" where
  "unit_bit n = push_bit (unat n) 1"

section \<open>Facts about the accessors\<close>

lemma os_emit_world [simp]:
  "itbl_mem (os_emit e w) = itbl_mem w"
  "w_mem (os_emit e w1) = w_mem w1" "req_mem (os_emit e w1) = req_mem w1" "resp_mem (os_emit e w1) = resp_mem w1"
  "ioreqs (os_emit e w1) = ioreqs w1" "unit_mem (os_emit e w1) = unit_mem w1" "port_msgs (os_emit e w1) = port_msgs w1"
  "vqs (os_emit e w1) = vqs w1" "units (os_emit e w1) = units w1" "occupied_count (os_emit e w1) = occupied_count w1"
  "active_units_mask (os_emit e w1) = active_units_mask w1" "irq_installed (os_emit e w1) = irq_installed w1"
  "requestq (os_emit e w1) = requestq w1" "iobase_of (os_emit e w1) = iobase_of w1"
  "pciDevice (os_emit e w1) = pciDevice w1"
  by (simp_all add: os_emit_def requestq_def iobase_of_def)

lemma upd_unit_simps [simp]:
  "os_log (upd_unit p f w) = os_log w" "dma_objs (upd_unit p f w) = dma_objs w"
  "itbl_mem (upd_unit p f w) = itbl_mem w" "w_mem (upd_unit p f w) = w_mem w"
  "req_mem (upd_unit p f w) = req_mem w" "resp_mem (upd_unit p f w) = resp_mem w"
  "ioreqs (upd_unit p f w) = ioreqs w" "port_msgs (upd_unit p f w) = port_msgs w"
  "vqs (upd_unit p f w) = vqs w" "units (upd_unit p f w) = units w"
  "occupied_count (upd_unit p f w) = occupied_count w" "active_units_mask (upd_unit p f w) = active_units_mask w"
  "irq_installed (upd_unit p f w) = irq_installed w" "requestq (upd_unit p f w) = requestq w"
  "pciDevice (upd_unit p f w) = pciDevice w"
  "unit_mem (upd_unit p f w) = (unit_mem w)(p := f (unit_mem w p))"
  by (simp_all add: upd_unit_def requestq_def)

lemma upd_ioreq_simps [simp]:
  "os_log (upd_ioreq p g w) = os_log w" "dma_objs (upd_ioreq p g w) = dma_objs w"
  "itbl_mem (upd_ioreq p g w) = itbl_mem w" "w_mem (upd_ioreq p g w) = w_mem w"
  "req_mem (upd_ioreq p g w) = req_mem w" "resp_mem (upd_ioreq p g w) = resp_mem w"
  "unit_mem (upd_ioreq p g w) = unit_mem w" "port_msgs (upd_ioreq p g w) = port_msgs w"
  "vqs (upd_ioreq p g w) = vqs w" "units (upd_ioreq p g w) = units w"
  "occupied_count (upd_ioreq p g w) = occupied_count w" "active_units_mask (upd_ioreq p g w) = active_units_mask w"
  "irq_installed (upd_ioreq p g w) = irq_installed w" "requestq (upd_ioreq p g w) = requestq w"
  "pciDevice (upd_ioreq p g w) = pciDevice w"
  "ioreqs (upd_ioreq p g w) = (ioreqs w)(p := g (ioreqs w p))"
  by (simp_all add: upd_ioreq_def requestq_def)

lemma set_requestq_simps [simp]:
  "os_log (set_requestq vq w) = os_log w" "dma_objs (set_requestq vq w) = dma_objs w"
  "itbl_mem (set_requestq vq w) = itbl_mem w" "w_mem (set_requestq vq w) = w_mem w"
  "req_mem (set_requestq vq w) = req_mem w" "resp_mem (set_requestq vq w) = resp_mem w"
  "unit_mem (set_requestq vq w) = unit_mem w" "ioreqs (set_requestq vq w) = ioreqs w"
  "port_msgs (set_requestq vq w) = port_msgs w" "units (set_requestq vq w) = units w"
  "occupied_count (set_requestq vq w) = occupied_count w"
  "active_units_mask (set_requestq vq w) = active_units_mask w"
  "irq_installed (set_requestq vq w) = irq_installed w" "pciDevice (set_requestq vq w) = pciDevice w"
  by (simp_all add: set_requestq_def)

lemma requestq_set [simp]: "requestq w \<noteq> None \<Longrightarrow> requestq (set_requestq vq w) = Some vq"
  by (auto simp: requestq_def set_requestq_def rd_def split: option.splits if_splits)

end
