(* ===== verification/Pipeline.thy ===== *)
theory Pipeline
  imports Device_State
begin

text \<open>
  The asynchronous I/O pipeline of \<^verbatim>\<open>src/virtio/virtio_scsi_io.c\<close>: submitting a block
  I/O request into a free in-flight slot, notifying the device, and completing requests.
  \<open>None\<close> stands for undefined behaviour (an access outside an array, a \<open>NULL\<close>
  dereference); a function that returns \<open>Some\<close> has none.
\<close>

section \<open>DMA of the data buffer\<close>

record DMABuffer =
  db_addr :: ptr
  db_size :: u32
  db_flags :: bool
  db_list :: ptr
  db_num_entries :: u32

definition no_dma :: DMABuffer where
  "no_dma = \<lparr>db_addr = NULL, db_size = 0, db_flags = False, db_list = NULL, db_num_entries = 0\<rparr>"

definition cleanup_dma :: "DMABuffer \<Rightarrow> 'z os_scheme \<Rightarrow> 'z os_scheme" where
  "cleanup_dma db w =
     (if db_num_entries db > 0
      then os_emit (EndDMA (db_addr db) (db_size db) (db_flags db) False)
             (if db_list db \<noteq> NULL then os_emit (FreeDMAEntries (db_list db)) w else w)
      else w)"

text \<open>The buffer is prepared in every case; the boolean tells whether it could be mapped.\<close>

definition prepare_dma ::
    "kern \<Rightarrow> ptr \<Rightarrow> u32 \<Rightarrow> bool \<Rightarrow> 'z os_scheme \<Rightarrow> bool \<times> DMABuffer \<times> 'z os_scheme" where
  "prepare_dma K addr sz flags w0 =
     (let db = \<lparr>db_addr = addr, db_size = sz, db_flags = flags, db_list = NULL, db_num_entries = 0\<rparr> in
      if sz = 0 then (True, db, w0)
      else let (entries, w1) = os_StartDMA K addr sz flags w0 in
      if entries = 0 then (False, db, w1)
      else let (lst, w2) = os_AllocDMAEntries K entries w1 in
      if lst = NULL then (False, db, os_emit (EndDMA addr sz flags True) w2)
      else (True, db\<lparr>db_list := lst, db_num_entries := entries\<rparr>, os_GetDMAList K addr sz flags lst w2))"

section \<open>Scatter-gather lists\<close>

text \<open>
  The local array \<^verbatim>\<open>sg[MAX_SG_ENTRIES]\<close> is filled from the front; writing past its
  end is undefined.
\<close>

definition sg_append :: "vring_sg list \<Rightarrow> vring_sg list \<Rightarrow> vring_sg list option" where
  "sg_append sg xs = (if length sg + length xs \<le> unat MAX_SG_ENTRIES then Some (sg @ xs) else None)"

text \<open>The first \<open>n\<close> entries of a DMA list, as scatter-gather entries.\<close>

definition dma_read :: "'z os_scheme \<Rightarrow> ptr \<Rightarrow> u32 \<Rightarrow> vring_sg list option" where
  "dma_read w p n =
     (let es = dma_objs w p in
      if unat n \<le> length es
      then Some (map (\<lambda>e. \<lparr>sg_addr = PhysicalAddress e, sg_len = BlockLength e\<rparr>) (take (unat n) es))
      else None)"

section \<open>Submitting: \<open>VirtIOSCSI_Submit\<close>\<close>

datatype submit_rc = Submitted | NoSlot | HardErr io_err

text \<open>Pop a slot off the unit's free list, under \<open>io_lock\<close>.\<close>

definition submit_pop_slot :: "ptr \<Rightarrow> world \<Rightarrow> (nat option \<times> world) option" where
  "submit_pop_slot up w0 =
     (let w = os_emit ObtainSemaphore w0; u = unit_mem w up; slot = free_head u in
      if 0 \<le> slot
      then do {
        nx \<leftarrow> rd (inflight_next u) (nat slot);
        Some (Some (nat slot), os_emit ReleaseSemaphore (upd_unit up (\<lambda>u. u\<lparr>free_head := nx\<rparr>) w))
      }
      else Some (None, os_emit ReleaseSemaphore w))"

definition submit_release_slot :: "ptr \<Rightarrow> nat \<Rightarrow> world \<Rightarrow> world option" where
  "submit_release_slot up slot w0 =
     (let w = os_emit ObtainSemaphore w0; u = unit_mem w up in
      do {
        nx \<leftarrow> wr (inflight_next u) slot (free_head u);
        Some (os_emit ReleaseSemaphore
                (upd_unit up (\<lambda>u. u\<lparr>inflight_next := nx, free_head := int slot\<rparr>) w))
      })"

definition slot_id :: "u32 \<Rightarrow> nat \<Rightarrow> u64" where
  "slot_id num slot = push_bit 16 (ucast num) OR of_nat slot"

definition fill_req :: "u32 \<Rightarrow> u32 \<Rightarrow> u64 \<Rightarrow> u8 list \<Rightarrow> virtio_scsi_req_cmd" where
  "fill_req target lun ident cdb =
     \<lparr>rq_lun = virtio_scsi_set_lun (ucast target) (ucast lun), rq_id = ident,
      rq_task_attr = VIRTIO_SCSI_S_SIMPLE, rq_prio = 0, rq_crn = 0, rq_cdb = cdb_field cdb\<rparr>"

definition reset_resp :: "virtio_scsi_resp_cmd \<Rightarrow> virtio_scsi_resp_cmd" where
  "reset_resp r = r\<lparr>rs_response := 0, rs_status := 0, rs_residual := 0\<rparr>"

definition submit_fill :: "ptr \<Rightarrow> nat \<Rightarrow> u8 list \<Rightarrow> world \<Rightarrow> world option" where
  "submit_fill up slot cdb w =
     (let u = unit_mem w up in
      do {
        req_cmd \<leftarrow> rd (req_bufs u) slot;
        resp_cmd \<leftarrow> rd (resp_bufs u) slot;
        Some (w\<lparr>resp_mem := (resp_mem w)(resp_cmd := reset_resp (resp_mem w resp_cmd)),
                req_mem := (req_mem w)(req_cmd :=
                  fill_req (target_id u) (lun_id u) (slot_id (unit_num u) slot) cdb)\<rparr>)
      })"

definition CACRF_ClearD :: u32 where "CACRF_ClearD = 0x0800"
definition CACRF_InvalidateD :: u32 where "CACRF_InvalidateD = 0x8000"

text \<open>
  Map the data buffer: bounce buffer, direct DMA, or no data. \<open>Some e\<close> means that
  the request failed with \<open>e\<close> and the slot has been released.
\<close>

definition submit_map ::
    "kern \<Rightarrow> ptr \<Rightarrow> nat \<Rightarrow> ptr \<Rightarrow> u32 \<Rightarrow> bool \<Rightarrow> world \<Rightarrow> (io_err option \<times> world) option" where
  "submit_map K up slot data data_len is_write w0 =
     do {
       w1 \<leftarrow> upd_slot up slot (\<lambda>f. f\<lparr>if_is_write := is_write, if_using_bounce := False\<rparr>) w0;
       let u = unit_mem w1 up;
       if data \<noteq> NULL \<and> data_len > 0 \<and> data_len \<le> BOUNCE_BUF_SIZE
       then do {
         bounce \<leftarrow> rd (bounce_bufs u) slot;
         let w2 = (if is_write
                   then os_emit (CacheClearE bounce data_len CACRF_ClearD) (os_CopyMem data bounce data_len w1)
                   else w1);
         w3 \<leftarrow> upd_slot up slot (\<lambda>f. f\<lparr>if_using_bounce := True, if_dma_addr := data,
                 if_dma_size := data_len, if_dma_flags := False, if_dma_list := NULL,
                 if_dma_num_entries := 0\<rparr>) w2;
         Some (None, w3)
       }
       else if data \<noteq> NULL \<and> data_len > 0
       then let (entries, w2) = os_StartDMA K data data_len is_write w1 in
         if entries = 0 then map_option (Pair (Some HFERR_DMA)) (submit_release_slot up slot w2)
         else do {
           dlist \<leftarrow> rd (data_dma_pool u) slot;
           if dlist = NULL \<or> entries > MAX_SG_ENTRIES
           then map_option (Pair (Some HFERR_DMA))
                  (submit_release_slot up slot (os_emit (EndDMA data data_len is_write True) w2))
           else do {
             w3 \<leftarrow> upd_slot up slot (\<lambda>f. f\<lparr>if_dma_addr := data, if_dma_size := data_len,
                     if_dma_flags := is_write, if_dma_list := dlist, if_dma_num_entries := entries\<rparr>)
                     (os_GetDMAList K data data_len is_write dlist w2);
             Some (None, w3)
           }
         }
       else do {
         w2 \<leftarrow> upd_slot up slot (\<lambda>f. f\<lparr>if_dma_addr := NULL, if_dma_size := 0, if_dma_flags := False,
                 if_dma_list := NULL, if_dma_num_entries := 0\<rparr>) w1;
         Some (None, w2)
       }
     }"

text \<open>
  The descriptor chain: request header, data to the device, response header, data from the
  device. The result is the array with \<open>out_num\<close> and \<open>in_num\<close>.
\<close>

definition submit_sg :: "ptr \<Rightarrow> nat \<Rightarrow> bool \<Rightarrow> world \<Rightarrow> (vring_sg list \<times> u32 \<times> u32) option" where
  "submit_sg up slot is_write w =
     (let u = unit_mem w up in
      do {
        f \<leftarrow> rd (inflight u) slot;
        req_dma \<leftarrow> rd (dma_req_lists u) slot;
        req_ent \<leftarrow> rd (dma_req_entries_arr u) slot;
        resp_dma \<leftarrow> rd (dma_resp_lists u) slot;
        resp_ent \<leftarrow> rd (dma_resp_entries_arr u) slot;
        req \<leftarrow> dma_read w req_dma req_ent;
        resp \<leftarrow> dma_read w resp_dma resp_ent;
        sg \<leftarrow> sg_append [] req;
        if if_using_bounce f
        then do {
          bphys \<leftarrow> rd (bounce_dma_phys u) slot;
          let b = [\<lparr>sg_addr = bphys, sg_len = if_dma_size f\<rparr>];
          if is_write
          then do {
            sg \<leftarrow> sg_append sg b;
            sg \<leftarrow> sg_append sg resp;
            Some (sg, req_ent + 1, resp_ent)
          }
          else do {
            sg \<leftarrow> sg_append sg resp;
            sg \<leftarrow> sg_append sg b;
            Some (sg, req_ent, resp_ent + 1)
          }
        }
        else do {
          dl \<leftarrow> dma_read w (if_dma_list f) (if_dma_num_entries f);
          if is_write
          then do {
            sg \<leftarrow> sg_append sg dl;
            sg \<leftarrow> sg_append sg resp;
            Some (sg, req_ent + if_dma_num_entries f, resp_ent)
          }
          else do {
            sg \<leftarrow> sg_append sg resp;
            sg \<leftarrow> sg_append sg dl;
            Some (sg, req_ent, resp_ent + if_dma_num_entries f)
          }
        }
      })"

text \<open>Undo the data mapping of a slot that could not be submitted, and release the slot.\<close>

definition submit_rollback :: "ptr \<Rightarrow> nat \<Rightarrow> world \<Rightarrow> world option" where
  "submit_rollback up slot w =
     do {
       f \<leftarrow> rd (inflight (unit_mem w up)) slot;
       w' \<leftarrow> (if if_dma_list f \<noteq> NULL
              then upd_slot up slot (\<lambda>f. f\<lparr>if_dma_list := NULL, if_dma_num_entries := 0\<rparr>)
                     (os_emit (EndDMA (if_dma_addr f) (if_dma_size f) (if_dma_flags f) True) w)
              else Some w);
       submit_release_slot up slot w'
     }"

text \<open>Enter the request into the table and the ring.\<close>

definition submit_queue ::
    "kern \<Rightarrow> ptr \<Rightarrow> nat \<Rightarrow> ptr \<Rightarrow> vring_sg list \<Rightarrow> u32 \<Rightarrow> u32 \<Rightarrow> world \<Rightarrow> (submit_rc \<times> world) option" where
  "submit_queue K up slot ior sg out_num in_num w0 =
     do {
       req_cmd \<leftarrow> rd (req_bufs (unit_mem w0 up)) slot;
       w1 \<leftarrow> upd_slot up slot (\<lambda>f. f\<lparr>if_ioreq := ior, if_cookie := req_cmd, if_buf_slot := of_nat slot\<rparr>) w0;
       let w2 = os_emit ObtainSemaphore w1;
       vq \<leftarrow> requestq w2;
       (ok, vq', w3) \<leftarrow> VirtQueue_AddBuf K vq sg out_num in_num req_cmd w2;
       if \<not> ok
       then do {
         w4 \<leftarrow> upd_slot up slot (\<lambda>f. f\<lparr>if_ioreq := NULL, if_cookie := NULL\<rparr>)
                 (os_emit ReleaseSemaphore w3);
         w5 \<leftarrow> submit_rollback up slot w4;
         Some (HardErr TDERR_NotSpecified, w5)
       }
       else let w4 = set_requestq vq' w3;
                w5 = w4\<lparr>occupied_count := occupied_count w4 + 1\<rparr>;
                w6 = upd_unit up (\<lambda>u. u\<lparr>inflight_count := inflight_count u + 1\<rparr>) w5;
                w7 = w6\<lparr>active_units_mask := active_units_mask w6 OR unit_bit (unit_num (unit_mem w6 up))\<rparr>
            in Some (Submitted, os_emit ReleaseSemaphore w7)
     }"

definition VirtIOSCSI_Submit ::
    "kern \<Rightarrow> ptr \<Rightarrow> ptr \<Rightarrow> u8 list \<Rightarrow> bool \<Rightarrow> world \<Rightarrow> (submit_rc \<times> world) option" where
  "VirtIOSCSI_Submit K up ior cdb is_write w0 =
     do {
       (os, w1) \<leftarrow> submit_pop_slot up w0;
       case os of
         None \<Rightarrow> Some (NoSlot, w1)
       | Some slot \<Rightarrow>
           do {
             w2 \<leftarrow> submit_fill up slot cdb w1;
             (err, w3) \<leftarrow> submit_map K up slot (io_Data (ioreqs w2 ior)) (io_Length (ioreqs w2 ior)) is_write w2;
             case err of
               Some e \<Rightarrow> Some (HardErr e, w3)
             | None \<Rightarrow>
                 do {
                   (sg, out_num, in_num) \<leftarrow> submit_sg up slot is_write w3;
                   if MAX_SG_ENTRIES < out_num + in_num
                   then do {
                     w4 \<leftarrow> submit_rollback up slot w3;
                     Some (HardErr HFERR_DMA, w4)
                   }
                   else submit_queue K up slot ior sg out_num in_num w3
                 }
           }
     }"

section \<open>Notifying: \<open>VirtIOSCSI_Kick\<close>\<close>

definition VirtIOSCSI_Kick :: "world \<Rightarrow> world" where
  "VirtIOSCSI_Kick w =
     (case requestq w of
        None \<Rightarrow> w
      | Some vq \<Rightarrow>
          if pciDevice w = NULL then w
          else os_emit ReleaseSemaphore (VirtQueue_Kick vq (iobase_of w) (os_emit ObtainSemaphore w)))"

section \<open>Completing: \<open>complete_inflight_slot\<close>\<close>

text \<open>The result fields of the request, from the response the device wrote.\<close>

definition completion_result :: "bool \<Rightarrow> virtio_scsi_resp_cmd \<Rightarrow> u32 \<Rightarrow> (io_err \<times> u32) option" where
  "completion_result modern resp len =
     do {
       key \<leftarrow> rd (rs_sense resp) 2;
       let e = map_scsi_error (rs_response resp) (rs_status resp) (key AND 0x0F);
       Some (e, if e \<noteq> NO_ERROR then 0
                else let residual = virtio_scsi_resp_residual modern resp in
                     if residual > len then 0 else len - residual)
     }"

text \<open>Bounce read-back of a successful read.\<close>

definition complete_readback :: "inflight_slot \<Rightarrow> ptr \<Rightarrow> io_err \<Rightarrow> u32 \<Rightarrow> world \<Rightarrow> world" where
  "complete_readback f bounce e actual w =
     (if if_using_bounce f \<and> \<not> if_is_write f \<and> e = NO_ERROR \<and> actual > 0
      then os_CopyMem bounce (if_dma_addr f) actual (os_emit (CacheClearE bounce actual CACRF_InvalidateD) w)
      else w)"

text \<open>Release of the mapping of a direct transfer.\<close>

definition complete_unmap :: "ptr \<Rightarrow> nat \<Rightarrow> inflight_slot \<Rightarrow> world \<Rightarrow> world option" where
  "complete_unmap up slot f w =
     (if if_dma_list f \<noteq> NULL
      then upd_slot up slot (\<lambda>f. f\<lparr>if_dma_list := NULL, if_dma_num_entries := 0\<rparr>)
             (os_emit (EndDMA (if_dma_addr f) (if_dma_size f) (if_dma_flags f) False) w)
      else Some w)"

text \<open>Return of the slot and the counters, under \<open>io_lock\<close>.\<close>

definition complete_counters :: "ptr \<Rightarrow> world \<Rightarrow> world" where
  "complete_counters up w =
     (let w1 = w\<lparr>occupied_count := (if occupied_count w > 0 then occupied_count w - 1 else occupied_count w)\<rparr>;
          n = inflight_count (unit_mem w1 up) in
      if n > 0
      then (upd_unit up (\<lambda>u. u\<lparr>inflight_count := n - 1\<rparr>) w1)
             \<lparr>active_units_mask := (if n - 1 = 0
                then active_units_mask w1 AND NOT (unit_bit (unit_num (unit_mem w1 up)))
                else active_units_mask w1)\<rparr>
      else w1)"

definition complete_free :: "ptr \<Rightarrow> nat \<Rightarrow> world \<Rightarrow> world option" where
  "complete_free up slot w0 =
     do {
       w1 \<leftarrow> upd_slot up slot (\<lambda>f. f\<lparr>if_ioreq := NULL, if_cookie := NULL\<rparr>) (os_emit ObtainSemaphore w0);
       nx \<leftarrow> wr (inflight_next (unit_mem w1 up)) slot (free_head (unit_mem w1 up));
       Some (os_emit ReleaseSemaphore
               (complete_counters up
                  (upd_unit up (\<lambda>u. u\<lparr>inflight_next := nx, free_head := int slot\<rparr>) w1)))
     }"

definition complete_inflight_slot :: "ptr \<Rightarrow> nat \<Rightarrow> world \<Rightarrow> world option" where
  "complete_inflight_slot up slot w =
     do {
       f \<leftarrow> rd (inflight (unit_mem w up)) slot;
       resp_cmd \<leftarrow> rd (resp_bufs (unit_mem w up)) slot;
       bounce \<leftarrow> rd (bounce_bufs (unit_mem w up)) slot;
       vq \<leftarrow> requestq w;
       if if_ioreq f = NULL then None
       else do {
         (e, actual) \<leftarrow> completion_result (vq_modern vq) (resp_mem w resp_cmd) (io_Length (ioreqs w (if_ioreq f)));
         w1 \<leftarrow> complete_unmap up slot f
                (complete_readback f bounce e actual
                  (upd_ioreq (if_ioreq f) (\<lambda>r. r\<lparr>io_Error := e, io_Actual := actual\<rparr>) w));
         w2 \<leftarrow> complete_free up slot w1;
         Some (os_emit (ReplyMsg (if_ioreq f)) w2)
       }
     }"

section \<open>What completion leaves alone\<close>

lemma upd_slot_frame:
  "upd_slot p s f w = Some w' \<Longrightarrow> vqs w' = vqs w \<and> os_log w' = os_log w \<and> units w' = units w
     \<and> ioreqs w' = ioreqs w \<and> req_mem w' = req_mem w \<and> resp_mem w' = resp_mem w \<and> w_mem w' = w_mem w
     \<and> occupied_count w' = occupied_count w \<and> active_units_mask w' = active_units_mask w
     \<and> dma_objs w' = dma_objs w \<and> itbl_mem w' = itbl_mem w \<and> irq_installed w' = irq_installed w
     \<and> pciDevice w' = pciDevice w \<and> port_msgs w' = port_msgs w"
  by (auto simp: upd_slot_def bind_eq_Some_conv)

lemma os_CopyMem_simps [simp]:
  "vqs (os_CopyMem a b n w) = vqs w" "units (os_CopyMem a b n w) = units w"
  "unit_mem (os_CopyMem a b n w) = unit_mem w" "ioreqs (os_CopyMem a b n w) = ioreqs w"
  "req_mem (os_CopyMem a b n w) = req_mem w" "resp_mem (os_CopyMem a b n w) = resp_mem w"
  "os_log (os_CopyMem a b n w) = os_log w @ [CopyMem a b n]"
  "w_mem (os_CopyMem a b n w) = copy_mem a b n (w_mem w)"
  "occupied_count (os_CopyMem a b n w) = occupied_count w"
  "active_units_mask (os_CopyMem a b n w) = active_units_mask w"
  "dma_objs (os_CopyMem a b n w) = dma_objs w" "itbl_mem (os_CopyMem a b n w) = itbl_mem w"
  "requestq (os_CopyMem a b n w) = requestq w"
  by (simp_all add: os_CopyMem_def requestq_def)

lemma complete_vqs:
  assumes "complete_inflight_slot up slot w = Some w'"
  shows "vqs w' = vqs w \<and> units w' = units w \<and> req_mem w' = req_mem w"
proof -
  have rb: "vqs (complete_readback f b e a w) = vqs w \<and> units (complete_readback f b e a w) = units w
      \<and> req_mem (complete_readback f b e a w) = req_mem w" for f b e a w
    by (simp add: complete_readback_def)
  have un: "vqs w' = vqs w \<and> units w' = units w \<and> req_mem w' = req_mem w"
    if "complete_unmap up slot f w = Some w'" for f w w'
    using that by (auto simp: complete_unmap_def dest!: upd_slot_frame split: if_splits)
  have co: "vqs (complete_counters up w) = vqs w \<and> units (complete_counters up w) = units w
      \<and> req_mem (complete_counters up w) = req_mem w" for w
    by (simp add: complete_counters_def Let_def)
  have fr: "vqs w' = vqs w \<and> units w' = units w \<and> req_mem w' = req_mem w"
    if "complete_free up slot w = Some w'" for w w'
    using that by (auto simp: complete_free_def bind_eq_Some_conv co dest!: upd_slot_frame)
  show ?thesis
    using assms unfolding complete_inflight_slot_def
    by (auto simp: bind_eq_Some_conv rb dest!: un fr split: if_splits)
qed

end
