(* ===== verification/Harvest.thy ===== *)
theory Harvest
  imports Pipeline
begin

text \<open>
  Draining the used ring: \<^verbatim>\<open>VirtIOSCSI_Harvest\<close> and the synchronous
  \<^verbatim>\<open>VirtIOSCSI_DoIO\<close>, with the routing of a completion to its slot, the hand-over of
  another unit's synchronous completion, and interrupt coalescing.
\<close>

section \<open>Routing a completion\<close>

text \<open>
  The slot that a cookie belongs to, decoded from the \<open>id\<close> field of the request header it
  points to. \<open>lookup\<close> gives the unit for a unit number.
\<close>

definition decode_slot :: "(nat \<Rightarrow> ptr option) \<Rightarrow> ptr \<Rightarrow> world \<Rightarrow> (ptr \<times> nat) option option" where
  "decode_slot lookup cookie w =
     (let ident = rq_id (req_mem w cookie);
          cu = unat (ucast (drop_bit 16 ident) :: u32);
          cs = unat (ucast (ident AND 0xFFFF) :: u32) in
      if cs < MAX_INFLIGHT \<and> cu < MAX_UNITS
      then do {
        tgt \<leftarrow> lookup cu;
        if tgt = NULL then Some None
        else do {
          f \<leftarrow> rd (inflight (unit_mem w tgt)) cs;
          Some (if if_cookie f = cookie \<and> if_ioreq f \<noteq> NULL then Some (tgt, cs) else None)
        }
      }
      else Some None)"

text \<open>The unit whose synchronous request a cookie is.\<close>

definition find_doio_owner :: "ptr \<Rightarrow> world \<Rightarrow> ptr option" where
  "find_doio_owner cookie w =
     (case filter (\<lambda>p. p \<noteq> NULL \<and> req_buf (unit_mem w p) = cookie) (take MAX_UNITS (units w)) of
        p # _ \<Rightarrow> Some p
      | [] \<Rightarrow> None)"

definition stash_doio :: "ptr \<Rightarrow> ptr \<Rightarrow> u32 \<Rightarrow> world \<Rightarrow> world" where
  "stash_doio p cookie written w =
     (let w1 = upd_unit p (\<lambda>u. u\<lparr>doio_pending_cookie := cookie, doio_pending_written := written\<rparr>) w;
          u = unit_mem w1 p in
      if io_wait_task u \<noteq> NULL then os_emit (Signal (io_wait_task u) (io_signal_mask u)) w1 else w1)"

lemma stash_doio_frame:
  "vqs (stash_doio p c n w) = vqs w \<and> units (stash_doio p c n w) = units w \<and> req_mem (stash_doio p c n w) = req_mem w"
  by (simp add: stash_doio_def Let_def)

section \<open>Draining\<close>

text \<open>How many completions the ring holds that have not been taken.\<close>

definition ring_todo :: "world \<Rightarrow> nat" where
  "ring_todo w =
     (case requestq w of None \<Rightarrow> 0
      | Some vq \<Rightarrow> unat (vr16 (vq_modern vq) (used_idx vq) - last_used_idx vq))"

text \<open>\<open>VirtQueue_GetBuf\<close> on the request queue; \<open>io_lock\<close> is held around it.\<close>

definition getbuf :: "world \<Rightarrow> (ptr \<times> u32 option \<times> world) option" where
  "getbuf w =
     do {
       vq \<leftarrow> requestq w;
       (cookie, len, vq', w') \<leftarrow> VirtQueue_GetBuf vq w;
       Some (cookie, len, set_requestq vq' w')
     }"

lemma GetBuf_progress:
  assumes "VirtQueue_GetBuf vq s = Some (ck, l, vq', s')" and "ck \<noteq> NULL"
  shows "last_used_idx vq \<noteq> vr16 (vq_modern vq) (used_idx vq)" and "last_used_idx vq' = last_used_idx vq + 1"
    and "used_idx vq' = used_idx vq" and "vq_modern vq' = vq_modern vq"
  using assms
  by (auto simp: VirtQueue_GetBuf_def Let_def bind_eq_Some_conv split: if_splits)


lemma u16_gap: "(a :: u16) \<noteq> b \<Longrightarrow> unat (b - (a + 1)) < unat (b - a)"
proof -
  assume "a \<noteq> b"
  then have "b - a \<noteq> 0" by simp
  then have "unat (b - a - 1) = unat (b - a) - 1" "0 < unat (b - a)"
    by (simp_all only: unat_minus_one unat_gt_0 not_False_eq_True)
  moreover have "b - (a + 1) = b - a - 1" by simp
  ultimately show ?thesis by (simp only:)
qed

lemma getbuf_progress:
  assumes "getbuf w = Some (ck, l, w1)" and "ck \<noteq> NULL" and "vqs w2 = vqs w1"
  shows "ring_todo w2 < ring_todo w"
proof -
  from assms(1) obtain vq vq' w' where vq: "requestq w = Some vq" "VirtQueue_GetBuf vq w = Some (ck, l, vq', w')"
    "w1 = set_requestq vq' w'" by (auto simp: getbuf_def bind_eq_Some_conv)
  have "vqs w' = vqs w" using vq(2)
    by (auto simp: VirtQueue_GetBuf_def Let_def bind_eq_Some_conv split: if_splits)
  then have "requestq w' \<noteq> None" using vq(1) by (auto simp: requestq_def)
  then have "requestq w2 = Some vq'" using vq(3) assms(3) requestq_set [of w' vq'] by (simp add: requestq_def)
  with vq(1) GetBuf_progress [OF vq(2) assms(2)] show ?thesis
    by (simp add: ring_todo_def u16_gap)
qed

section \<open>\<open>VirtIOSCSI_Harvest\<close>\<close>

definition harvest_one :: "ptr \<Rightarrow> ptr \<Rightarrow> u32 \<Rightarrow> world \<Rightarrow> world option" where
  "harvest_one up cookie written w =
     do {
       hit \<leftarrow> decode_slot (\<lambda>cu. if of_nat cu = unit_num (unit_mem w up) then Some up else rd (units w) cu) cookie w;
       case hit of
         Some (t, s) \<Rightarrow> complete_inflight_slot t s w
       | None \<Rightarrow>
           (case find_doio_owner cookie w of
              Some p \<Rightarrow> Some (stash_doio p cookie written w)
            | None \<Rightarrow> Some w)
     }"

lemma harvest_one_vqs: "harvest_one up ck n w = Some w' \<Longrightarrow> vqs w' = vqs w"
  by (auto simp: harvest_one_def bind_eq_Some_conv stash_doio_frame dest: complete_vqs split: option.splits prod.splits)

function harvest_loop :: "ptr \<Rightarrow> world \<Rightarrow> world option" where
  "harvest_loop up w =
     (case getbuf w of
        None \<Rightarrow> None
      | Some (cookie, len, w1) \<Rightarrow>
          if cookie = NULL then Some w1
          else (case len of
                  None \<Rightarrow> None
                | Some written \<Rightarrow>
                   (case harvest_one up cookie written (os_emit ReleaseSemaphore w1) of
                      None \<Rightarrow> None
                    | Some w2 \<Rightarrow> harvest_loop up (os_emit ObtainSemaphore w2))))"
  by pat_completeness auto
termination
  by (relation "measure (\<lambda>(up, w). ring_todo w)") (auto dest!: harvest_one_vqs intro: getbuf_progress)

declare harvest_loop.simps [simp del]

definition harvest_coalesce :: "world \<Rightarrow> world option" where
  "harvest_coalesce w =
     do {
       vq \<leftarrow> requestq w;
       if use_event_idx vq
       then let occupied = (ucast (occupied_count w) :: u16) in
         if 2 \<le> occupied
         then do {
           ring \<leftarrow> wr (avail_ring vq) (unat (vq_num vq))
                    (vr16 (vq_modern vq) (last_used_idx vq + (occupied - 1)));
           Some (set_requestq (vq\<lparr>avail_ring := ring\<rparr>) w)
         }
         else Some w
       else Some w
     }"

definition VirtIOSCSI_Harvest :: "ptr \<Rightarrow> world \<Rightarrow> world option" where
  "VirtIOSCSI_Harvest up w =
     do {
       w1 \<leftarrow> harvest_loop up (os_emit ObtainSemaphore w);
       w2 \<leftarrow> harvest_coalesce w1;
       Some (os_emit ReleaseSemaphore w2)
     }"

section \<open>\<open>VirtIOSCSI_DoIO\<close>: waiting for the completion\<close>

text \<open>A completion that is not the caller's own: complete its slot, or stash it for its owner.\<close>

definition doio_forward :: "ptr \<Rightarrow> u32 \<Rightarrow> world \<Rightarrow> world option" where
  "doio_forward cookie written w0 =
     (let w = os_emit ReleaseSemaphore w0 in
      do {
        hit \<leftarrow> decode_slot (rd (units w)) cookie w;
        w1 \<leftarrow> (case hit of
                Some (t, s) \<Rightarrow> complete_inflight_slot t s w
              | None \<Rightarrow>
                  Some (os_emit ReleaseSemaphore
                    (case find_doio_owner cookie w of
                       Some p \<Rightarrow> stash_doio p cookie written (os_emit ObtainSemaphore w)
                     | None \<Rightarrow> os_emit ObtainSemaphore w)));
        Some (os_emit ObtainSemaphore w1)
      })"

lemma doio_forward_vqs: "doio_forward ck n w = Some w' \<Longrightarrow> vqs w' = vqs w"
  by (auto simp: doio_forward_def Let_def bind_eq_Some_conv stash_doio_frame dest!: complete_vqs
      split: option.splits prod.splits)

text \<open>The inner loop, with \<open>io_lock\<close> held: \<open>Some written\<close> when the own completion was found.\<close>

function doio_drain :: "ptr \<Rightarrow> world \<Rightarrow> (u32 option \<times> world) option" where
  "doio_drain own w =
     (case getbuf w of
        None \<Rightarrow> None
      | Some (c, len, w1) \<Rightarrow>
          if c = NULL then Some (None, w1)
          else (case len of
                  None \<Rightarrow> None
                | Some n \<Rightarrow>
                    if c = own then Some (Some n, w1)
                    else (case doio_forward c n w1 of
                            None \<Rightarrow> None
                          | Some w2 \<Rightarrow> doio_drain own w2)))"
  by pat_completeness auto
termination
  by (relation "measure (\<lambda>(own, w). ring_todo w)") (auto dest!: doio_forward_vqs intro: getbuf_progress)

declare doio_drain.simps [simp del]

text \<open>
  The outer loop with its retry counter. \<open>dev\<close> is what the device and the other tasks do
  while the task waits.
\<close>

fun doio_wait :: "(world \<Rightarrow> world) \<Rightarrow> ptr \<Rightarrow> u32 \<Rightarrow> ptr \<Rightarrow> nat \<Rightarrow> world \<Rightarrow> (u32 option \<times> world) option" where
  "doio_wait dev up sig_mask own 0 w = Some (None, w)"
| "doio_wait dev up sig_mask own (Suc retries) w =
     (let u = unit_mem w up in
      if doio_pending_cookie u = own
      then Some (Some (doio_pending_written u),
                 upd_unit up (\<lambda>u. u\<lparr>doio_pending_cookie := NULL, doio_pending_written := 0\<rparr>) w)
      else do {
        (r, w1) \<leftarrow> doio_drain own w;
        case r of
          Some n \<Rightarrow> Some (Some n, w1)
        | None \<Rightarrow>
            doio_wait dev up sig_mask own retries
              (os_emit ObtainSemaphore (dev (os_emit (Wait sig_mask) (os_emit ReleaseSemaphore w1))))
      })"

text \<open>The polling fallback: it takes any completion for its own.\<close>

fun doio_poll :: "(world \<Rightarrow> world) \<Rightarrow> nat \<Rightarrow> world \<Rightarrow> (u32 option \<times> world) option" where
  "doio_poll dev 0 w = Some (None, w)"
| "doio_poll dev (Suc n) w =
     do {
       (c, len, w1) \<leftarrow> getbuf w;
       if c = NULL then doio_poll dev n (dev w1)
       else map_option (\<lambda>l. (Some l, w1)) len
     }"

end
