(* ===== verification/Sync_IO.thy ===== *)
theory Sync_IO
  imports Harvest
begin

text \<open>
  The synchronous path \<^verbatim>\<open>VirtIOSCSI_DoIO\<close>: one request is submitted and waited for,
  with up to three attempts. Every caller passes status and residual variables it has set to
  0; they are results here. \<open>dev\<close> is what the device and the other tasks do while this
  task waits.
\<close>

section \<open>Buffers\<close>

text \<open>Discovery (no unit) uses buffers of its own; a unit has permanently mapped ones.\<close>

record doio_bufs =
  dq_req :: ptr
  dq_resp :: ptr
  dq_temp :: bool
  dq_db_req :: DMABuffer
  dq_db_resp :: DMABuffer

definition zero_req :: virtio_scsi_req_cmd where
  "zero_req = \<lparr>rq_lun = replicate 8 0, rq_id = 0, rq_task_attr = 0, rq_prio = 0, rq_crn = 0,
               rq_cdb = replicate VIRTIO_SCSI_CDB_SIZE 0\<rparr>"

definition zero_resp :: virtio_scsi_resp_cmd where
  "zero_resp = \<lparr>rs_sense_len = 0, rs_residual = 0, rs_status_qualifier = 0, rs_status = 0,
                rs_response = 0, rs_sense = replicate VIRTIO_SCSI_SENSE_SIZE 0\<rparr>"

definition free_if :: "ptr \<Rightarrow> 'z os_scheme \<Rightarrow> 'z os_scheme" where
  "free_if p w = (if p \<noteq> NULL then os_emit (FreeVec p) w else w)"

definition doio_setup :: "kern \<Rightarrow> ptr \<Rightarrow> world \<Rightarrow> (io_err + doio_bufs) \<times> world" where
  "doio_setup K up w0 =
     (if up = NULL
      then let (req, w1) = os_AllocVecTags K sizeof_req_cmd w0;
               (resp, w2) = os_AllocVecTags K sizeof_resp_cmd w1 in
        if req = NULL \<or> resp = NULL then (Inl TDERR_NoMem, free_if resp (free_if req w2))
        else let w3 = w2\<lparr>req_mem := (req_mem w2)(req := zero_req), resp_mem := (resp_mem w2)(resp := zero_resp)\<rparr>;
                 (ok1, db1, w4) = prepare_dma K req sizeof_req_cmd True w3 in
          if \<not> ok1 then (Inl HFERR_DMA, os_emit (FreeVec resp) (os_emit (FreeVec req) w4))
          else let (ok2, db2, w5) = prepare_dma K resp sizeof_resp_cmd False w4 in
            if \<not> ok2
            then (Inl HFERR_DMA, os_emit (FreeVec resp) (os_emit (FreeVec req) (cleanup_dma db1 w5)))
            else (Inr \<lparr>dq_req = req, dq_resp = resp, dq_temp = True, dq_db_req = db1, dq_db_resp = db2\<rparr>, w5)
      else (Inr \<lparr>dq_req = req_buf (unit_mem w0 up), dq_resp = resp_buf (unit_mem w0 up), dq_temp = False,
                 dq_db_req = no_dma, dq_db_resp = no_dma\<rparr>, w0))"

section \<open>One attempt\<close>

definition doio_fill :: "doio_bufs \<Rightarrow> u32 \<Rightarrow> u32 \<Rightarrow> u8 list \<Rightarrow> world \<Rightarrow> world" where
  "doio_fill b target lun cdb w =
     w\<lparr>resp_mem := (resp_mem w)(dq_resp b := reset_resp (resp_mem w (dq_resp b))),
       req_mem := (req_mem w)(dq_req b := fill_req target lun 1 cdb)\<rparr>"

definition doio_map ::
    "kern \<Rightarrow> ptr \<Rightarrow> u32 \<Rightarrow> bool \<Rightarrow> world \<Rightarrow> DMABuffer option \<times> world" where
  "doio_map K data data_len is_write w =
     (if data \<noteq> NULL \<and> data_len > 0
      then let (ok, db, w1) = prepare_dma K data data_len is_write w in (if ok then Some db else None, w1)
      else (Some no_dma, w))"

definition doio_sg ::
    "ptr \<Rightarrow> doio_bufs \<Rightarrow> DMABuffer \<Rightarrow> bool \<Rightarrow> world \<Rightarrow> (vring_sg list \<times> u32 \<times> u32) option" where
  "doio_sg up b db is_write w =
     (let u = unit_mem w up;
          req_dma_list = (if dq_temp b then db_list (dq_db_req b) else dma_req_list u);
          req_entries = (if dq_temp b then db_num_entries (dq_db_req b) else dma_req_entries u);
          resp_dma_list = (if dq_temp b then db_list (dq_db_resp b) else dma_resp_list u);
          resp_entries = (if dq_temp b then db_num_entries (dq_db_resp b) else dma_resp_entries u) in
      do {
        req \<leftarrow> dma_read w req_dma_list req_entries;
        resp \<leftarrow> dma_read w resp_dma_list resp_entries;
        dl \<leftarrow> dma_read w (db_list db) (db_num_entries db);
        sg \<leftarrow> sg_append [] req;
        if is_write
        then do {
          sg \<leftarrow> sg_append sg dl;
          sg \<leftarrow> sg_append sg resp;
          Some (sg, req_entries + db_num_entries db, resp_entries)
        }
        else do {
          sg \<leftarrow> sg_append sg resp;
          sg \<leftarrow> sg_append sg dl;
          Some (sg, req_entries, resp_entries + db_num_entries db)
        }
      })"

text \<open>Queue the chain, mark the unit active and notify the device.\<close>

definition doio_submit ::
    "kern \<Rightarrow> ptr \<Rightarrow> doio_bufs \<Rightarrow> DMABuffer \<Rightarrow> vring_sg list \<Rightarrow> u32 \<Rightarrow> u32 \<Rightarrow> world \<Rightarrow> (bool \<times> world) option" where
  "doio_submit K up b db sg out_num in_num w0 =
     do {
       let w1 = os_emit ObtainSemaphore w0;
       vq \<leftarrow> requestq w1;
       (ok, vq', w2) \<leftarrow> VirtQueue_AddBuf K vq sg out_num in_num (dq_req b) w1;
       if \<not> ok then Some (False, cleanup_dma db (os_emit ReleaseSemaphore w2))
       else let w3 = set_requestq vq' w2;
                w4 = (if up \<noteq> NULL
                      then w3\<lparr>active_units_mask := active_units_mask w3 OR unit_bit (unit_num (unit_mem w3 up))\<rparr>
                      else w3)
            in Some (True, os_emit ReleaseSemaphore (VirtQueue_Kick vq' (iobase_of w4) w4))
     }"

definition DOIO_RETRIES :: nat where "DOIO_RETRIES = 50"
definition DOIO_POLLS :: nat where "DOIO_POLLS = 500000"

text \<open>Wait for the completion: \<open>Some written\<close>, or \<open>None\<close> for a timeout.\<close>

definition doio_completion ::
    "(world \<Rightarrow> world) \<Rightarrow> ptr \<Rightarrow> doio_bufs \<Rightarrow> world \<Rightarrow> (u32 option \<times> world) option" where
  "doio_completion dev up b w =
     (if irq_installed w \<and> up \<noteq> NULL
      then let sig_mask = io_signal_mask (unit_mem w up);
               w1 = upd_unit up (\<lambda>u. u\<lparr>io_cookie := 1\<rparr>) w in
        do {
          (r, w2) \<leftarrow> doio_wait dev up sig_mask (dq_req b) DOIO_RETRIES (os_emit ObtainSemaphore w1);
          Some (r, os_emit (SetSignal sig_mask) (os_emit ReleaseSemaphore w2))
        }
      else doio_poll dev DOIO_POLLS w)"

text \<open>
  The verdict on a completed attempt: the result, or \<open>None\<close> for another attempt, with the
  status and residual variables of the caller.
\<close>

definition doio_response ::
    "bool \<Rightarrow> virtio_scsi_resp_cmd \<Rightarrow> u32 \<Rightarrow> nat \<Rightarrow> u8 \<Rightarrow> u32 \<Rightarrow> (io_err option \<times> u8 \<times> u32) option" where
  "doio_response modern resp data_len tries st0 res0 =
     (if rs_response resp \<noteq> VIRTIO_SCSI_S_OK then Some (Some TDERR_NotSpecified, 0, res0)
      else let st = rs_status resp;
               residual = virtio_scsi_resp_residual modern resp;
               res = (if residual > data_len then data_len else residual) in
        if st = 2
        then (if tries > 0 then Some (None, st, res)
              else do {
                key \<leftarrow> rd (rs_sense resp) 2;
                Some (Some (map_scsi_error (rs_response resp) st (key AND 0x0F)), st, res)
              })
        else if st = 0 then Some (Some NO_ERROR, st, res)
        else Some (Some (map_scsi_error (rs_response resp) st 0xFF), st, res))"

section \<open>The attempts\<close>

type_synonym doio_result = "io_err \<times> u8 \<times> u32"

text \<open>\<open>tries\<close> is the counter before its decrement; \<open>result\<close>, \<open>st\<close>, \<open>res\<close> are the variables.\<close>

fun doio_tries ::
    "kern \<Rightarrow> (world \<Rightarrow> world) \<Rightarrow> ptr \<Rightarrow> doio_bufs \<Rightarrow> u32 \<Rightarrow> u32 \<Rightarrow> u8 list \<Rightarrow> ptr \<Rightarrow> u32 \<Rightarrow> bool
      \<Rightarrow> nat \<Rightarrow> doio_result \<Rightarrow> world \<Rightarrow> (doio_result \<times> world) option" where
  "doio_tries K dev up b target lun cdb data data_len is_write 0 r w = Some (r, w)"
| "doio_tries K dev up b target lun cdb data data_len is_write (Suc tries) (result, st, res) w0 =
     (let w1 = doio_fill b target lun cdb w0;
          (odb, w2) = doio_map K data data_len is_write w1 in
      case odb of
        None \<Rightarrow> Some ((HFERR_DMA, st, res), w2)
      | Some db \<Rightarrow>
          do {
            (sg, out_num, in_num) \<leftarrow> doio_sg up b db is_write w2;
            if MAX_SG_ENTRIES < out_num + in_num then Some ((HFERR_DMA, st, res), cleanup_dma db w2)
            else do {
              (ok, w3) \<leftarrow> doio_submit K up b db sg out_num in_num w2;
              if \<not> ok then Some ((TDERR_NotSpecified, st, res), w3)
              else do {
                (got, w4) \<leftarrow> doio_completion dev up b (dev w3);
                let w5 = (if got \<noteq> None \<or> \<not> dq_temp b then cleanup_dma db w4 else w4);
                if got = None then Some ((IOERR_SELFTEST, st, res), w5)
                else do {
                  vq \<leftarrow> requestq w5;
                  (verdict, st', res') \<leftarrow>
                    doio_response (vq_modern vq) (resp_mem w5 (dq_resp b)) data_len tries st res;
                  case verdict of
                    None \<Rightarrow> doio_tries K dev up b target lun cdb data data_len is_write tries
                             (result, st', res') w5
                  | Some e \<Rightarrow> Some ((e, st', res'), w5)
                }
              }
            }
          })"

text \<open>
  The end: temporary buffers are released, except after a timeout, when the device may still
  write to them; the unit's active bit is cleared when its pipeline is idle.
\<close>

definition doio_finish :: "ptr \<Rightarrow> doio_bufs \<Rightarrow> io_err \<Rightarrow> world \<Rightarrow> world" where
  "doio_finish up b result w =
     (let w1 = (if dq_temp b \<and> result \<noteq> IOERR_SELFTEST
                then os_emit (FreeVec (dq_req b)) (os_emit (FreeVec (dq_resp b))
                       (cleanup_dma (dq_db_req b) (cleanup_dma (dq_db_resp b) w)))
                else w) in
      if up \<noteq> NULL \<and> inflight_count (unit_mem w1 up) = 0
      then let w2 = os_emit ObtainSemaphore w1;
               w3 = (if inflight_count (unit_mem w2 up) = 0
                     then w2\<lparr>active_units_mask := active_units_mask w2
                                AND NOT (unit_bit (unit_num (unit_mem w2 up)))\<rparr>
                     else w2)
           in os_emit ReleaseSemaphore w3
      else w1)"

definition VirtIOSCSI_DoIO ::
    "kern \<Rightarrow> (world \<Rightarrow> world) \<Rightarrow> ptr \<Rightarrow> u32 \<Rightarrow> u32 \<Rightarrow> u8 list \<Rightarrow> ptr \<Rightarrow> u32 \<Rightarrow> bool
      \<Rightarrow> world \<Rightarrow> (doio_result \<times> world) option" where
  "VirtIOSCSI_DoIO K dev up target lun cdb data data_len is_write w0 =
     (if requestq w0 = None \<or> pciDevice w0 = NULL then Some ((TDERR_NotSpecified, 0, 0), w0)
      else case doio_setup K up w0 of
             (Inl e, w1) \<Rightarrow> Some ((e, 0, 0), w1)
           | (Inr b, w1) \<Rightarrow>
               do {
                 ((result, st, res), w2) \<leftarrow>
                   doio_tries K dev up b target lun cdb data data_len is_write 3 (TDERR_NotSpecified, 0, 0) w1;
                 Some ((result, st, res), doio_finish up b result w2)
               })"

end
