(* ===== verification/Cdb.thy ===== *)
theory Cdb
  imports Sync_IO
begin

text \<open>
  Command descriptor blocks (\<^verbatim>\<open>src/scsi_cdb_helpers.c\<close>): the builders, big-endian
  fields, and the decoding that a SCSI target applies to them.
\<close>

section \<open>Big-endian fields\<close>

definition be32 :: "u8 \<Rightarrow> u8 \<Rightarrow> u8 \<Rightarrow> u8 \<Rightarrow> u32" where
  "be32 a b c d = push_bit 24 (ucast a) OR push_bit 16 (ucast b) OR push_bit 8 (ucast c) OR ucast d"

definition be64 :: "u8 \<Rightarrow> u8 \<Rightarrow> u8 \<Rightarrow> u8 \<Rightarrow> u8 \<Rightarrow> u8 \<Rightarrow> u8 \<Rightarrow> u8 \<Rightarrow> u64" where
  "be64 a b c d e f g h =
     push_bit 56 (ucast a) OR push_bit 48 (ucast b) OR push_bit 40 (ucast c) OR push_bit 32 (ucast d)
     OR push_bit 24 (ucast e) OR push_bit 16 (ucast f) OR push_bit 8 (ucast g) OR ucast h"

definition be16 :: "u8 \<Rightarrow> u8 \<Rightarrow> u16" where
  "be16 a b = push_bit 8 (ucast a) OR ucast b"

text \<open>Reading a big-endian longword from a buffer of \<open>length buf\<close> bytes.\<close>

definition be32_at :: "u8 list \<Rightarrow> nat \<Rightarrow> u32 option" where
  "be32_at buf i =
     do {
       a \<leftarrow> rd buf i; b \<leftarrow> rd buf (i + 1); c \<leftarrow> rd buf (i + 2); d \<leftarrow> rd buf (i + 3);
       Some (be32 a b c d)
     }"

section \<open>Builders\<close>

definition make_read_capacity16_cdb :: "u8 list" where
  "make_read_capacity16_cdb = (replicate 16 0)[0 := 0x9E, 1 := 0x10, 13 := 32]"

definition make_read10_cdb :: "u32 \<Rightarrow> u16 \<Rightarrow> u8 list" where
  "make_read10_cdb lba blocks =
     [0x28, 0, ucast (drop_bit 24 lba AND 0xFF), ucast (drop_bit 16 lba AND 0xFF),
      ucast (drop_bit 8 lba AND 0xFF), ucast (lba AND 0xFF), 0,
      ucast (drop_bit 8 blocks AND 0xFF), ucast (blocks AND 0xFF), 0]"

definition make_write10_cdb :: "u32 \<Rightarrow> u16 \<Rightarrow> u8 list" where
  "make_write10_cdb lba blocks =
     [0x2A, 0, ucast (drop_bit 24 lba AND 0xFF), ucast (drop_bit 16 lba AND 0xFF),
      ucast (drop_bit 8 lba AND 0xFF), ucast (lba AND 0xFF), 0,
      ucast (drop_bit 8 blocks AND 0xFF), ucast (blocks AND 0xFF), 0]"

definition make_read16_cdb :: "u64 \<Rightarrow> u32 \<Rightarrow> u8 list" where
  "make_read16_cdb lba blocks =
     [0x88, 0, ucast (drop_bit 56 lba AND 0xFF), ucast (drop_bit 48 lba AND 0xFF),
      ucast (drop_bit 40 lba AND 0xFF), ucast (drop_bit 32 lba AND 0xFF),
      ucast (drop_bit 24 lba AND 0xFF), ucast (drop_bit 16 lba AND 0xFF),
      ucast (drop_bit 8 lba AND 0xFF), ucast (lba AND 0xFF),
      ucast (drop_bit 24 blocks AND 0xFF), ucast (drop_bit 16 blocks AND 0xFF),
      ucast (drop_bit 8 blocks AND 0xFF), ucast (blocks AND 0xFF), 0, 0]"

definition make_write16_cdb :: "u64 \<Rightarrow> u32 \<Rightarrow> u8 list" where
  "make_write16_cdb lba blocks =
     [0x8A, 0, ucast (drop_bit 56 lba AND 0xFF), ucast (drop_bit 48 lba AND 0xFF),
      ucast (drop_bit 40 lba AND 0xFF), ucast (drop_bit 32 lba AND 0xFF),
      ucast (drop_bit 24 lba AND 0xFF), ucast (drop_bit 16 lba AND 0xFF),
      ucast (drop_bit 8 lba AND 0xFF), ucast (lba AND 0xFF),
      ucast (drop_bit 24 blocks AND 0xFF), ucast (drop_bit 16 blocks AND 0xFF),
      ucast (drop_bit 8 blocks AND 0xFF), ucast (blocks AND 0xFF), 0, 0]"

definition unpack_io64_offset :: "u32 \<Rightarrow> u32 \<Rightarrow> u64" where
  "unpack_io64_offset actual offset = push_bit 32 (ucast actual) OR ucast offset"

text \<open>
  The CDB of a block transfer: direction, first block and block count decide the command.
\<close>

definition effective_blksz :: "devunit \<Rightarrow> u32" where
  "effective_blksz u = (if geometry_valid u \<and> block_size u \<noteq> 0 then block_size u else 512)"

definition block_range :: "u32 \<Rightarrow> u64 \<Rightarrow> u32 \<Rightarrow> u64 \<times> u32" where
  "block_range blksz offset64 len =
     (offset64 div ucast blksz, if len div blksz = 0 then 1 else len div blksz)"

definition block_cdb :: "bool \<Rightarrow> u64 \<Rightarrow> u32 \<Rightarrow> u8 list" where
  "block_cdb is_write lba blocks =
     (if lba > 0xFFFFFFFF \<or> blocks > 0xFFFF
      then (if is_write then make_write16_cdb lba blocks else make_read16_cdb lba blocks)
      else (if is_write then make_write10_cdb (ucast lba) (ucast blocks)
            else make_read10_cdb (ucast lba) (ucast blocks)))"

section \<open>What a target decodes\<close>

datatype scsi_dir = Read | Write

definition target_decode :: "u8 list \<Rightarrow> (scsi_dir \<times> u64 \<times> u32) option" where
  "target_decode c =
     (if c ! 0 = 0x28 then Some (Read, ucast (be32 (c ! 2) (c ! 3) (c ! 4) (c ! 5)), ucast (be16 (c ! 7) (c ! 8)))
      else if c ! 0 = 0x2A then Some (Write, ucast (be32 (c ! 2) (c ! 3) (c ! 4) (c ! 5)), ucast (be16 (c ! 7) (c ! 8)))
      else if c ! 0 = 0x88
      then Some (Read, be64 (c ! 2) (c ! 3) (c ! 4) (c ! 5) (c ! 6) (c ! 7) (c ! 8) (c ! 9),
                 be32 (c ! 10) (c ! 11) (c ! 12) (c ! 13))
      else if c ! 0 = 0x8A
      then Some (Write, be64 (c ! 2) (c ! 3) (c ! 4) (c ! 5) (c ! 6) (c ! 7) (c ! 8) (c ! 9),
                 be32 (c ! 10) (c ! 11) (c ! 12) (c ! 13))
      else None)"

lemma mask_FF: "(0xFF :: 'a::len word) = mask 8"
  by (simp add: mask_eq_decr_exp)

lemma ucast_byte: "ucast (ucast (x AND mask 8) :: u8) = take_bit 8 (x :: 'a::len word)"
  by (rule bit_word_eqI) (auto simp: bit_simps)

lemma byte_join:
  "push_bit m (take_bit 8 (drop_bit m x)) OR take_bit m x = take_bit (m + 8) (x :: 'a::len word)"
  by (rule bit_word_eqI) (auto simp: bit_simps)

lemma take_bit_all: "LENGTH('a) \<le> m \<Longrightarrow> take_bit m (x :: 'a::len word) = x"
  by (rule bit_word_eqI) (auto simp: bit_simps)

lemma be32_bytes:
  "be32 (ucast (drop_bit 24 x AND 0xFF)) (ucast (drop_bit 16 x AND 0xFF))
        (ucast (drop_bit 8 x AND 0xFF)) (ucast (x AND 0xFF)) = (x :: u32)"
  using byte_join [of 8 x] byte_join [of 16 x] byte_join [of 24 x]
  by (simp add: mask_FF be32_def ucast_byte take_bit_all)

lemma be16_bytes: "be16 (ucast (drop_bit 8 x AND 0xFF)) (ucast (x AND 0xFF)) = (x :: u16)"
  using byte_join [of 8 x] by (simp add: mask_FF be16_def ucast_byte take_bit_all)

lemma be64_bytes:
  "be64 (ucast (drop_bit 56 x AND 0xFF)) (ucast (drop_bit 48 x AND 0xFF))
        (ucast (drop_bit 40 x AND 0xFF)) (ucast (drop_bit 32 x AND 0xFF))
        (ucast (drop_bit 24 x AND 0xFF)) (ucast (drop_bit 16 x AND 0xFF))
        (ucast (drop_bit 8 x AND 0xFF)) (ucast (x AND 0xFF)) = (x :: u64)"
  using byte_join [of 8 x] byte_join [of 16 x] byte_join [of 24 x] byte_join [of 32 x] byte_join [of 40 x]
    byte_join [of 48 x] byte_join [of 56 x]
  by (simp add: mask_FF be64_def ucast_byte take_bit_all)

lemma ucast_ucast_small:
  assumes "x \<le> (0xFFFFFFFF :: u64)"
  shows "ucast (ucast x :: u32) = x"
proof (rule word_unat_eq_iff [THEN iffD2])
  have "unat x < 2 ^ 32" using assms by (simp add: word_le_nat_alt)
  then show "unat (ucast (ucast x :: u32) :: u64) = unat x"
    by (simp add: unsigned_ucast_eq unsigned_take_bit_eq take_bit_nat_eq_self)
qed

lemma ucast_ucast_small16:
  assumes "x \<le> (0xFFFF :: u32)"
  shows "ucast (ucast x :: u16) = x"
proof (rule word_unat_eq_iff [THEN iffD2])
  have "unat x < 2 ^ 16" using assms by (simp add: word_le_nat_alt)
  then show "unat (ucast (ucast x :: u16) :: u32) = unat x"
    by (simp add: unsigned_ucast_eq unsigned_take_bit_eq take_bit_nat_eq_self)
qed

lemma block_cdb_decode:
  "target_decode (block_cdb isw lba blocks) = Some (if isw then Write else Read, lba, blocks)"
  by (auto simp: block_cdb_def target_decode_def make_write16_cdb_def make_read16_cdb_def
      make_write10_cdb_def make_read10_cdb_def be32_bytes be16_bytes be64_bytes ucast_ucast_small
      ucast_ucast_small16 not_less)

lemma length_block_cdb: "length (block_cdb isw lba blocks) = 10 \<or> length (block_cdb isw lba blocks) = 16"
  by (simp add: block_cdb_def make_write16_cdb_def make_read16_cdb_def make_write10_cdb_def make_read10_cdb_def)

lemma unpack_io64: "unat (unpack_io64_offset hi lo) = unat hi * 4294967296 + unat lo"
proof -
  have "unpack_io64_offset hi lo = push_bit 32 (ucast hi) + ucast lo"
    unfolding unpack_io64_offset_def
    by (rule sym, rule disjunctive_add) (auto simp: bit_simps dest: bit_imp_le_length)
  moreover have "unat (ucast hi :: u64) = unat hi" "unat (ucast lo :: u64) = unat lo"
    using unat_lt_u32 [of hi] unat_lt_u32 [of lo] by (simp_all add: unsigned_ucast_eq take_bit_nat_eq_self)
  ultimately show ?thesis using unat_lt_u32 [of hi] unat_lt_u32 [of lo]
    by (simp add: unat_word_ariths push_bit_eq_mult)
qed

end
