(* ===== verification/Geometry.thy ===== *)
theory Geometry
  imports Cdb
begin

text \<open>
  Disk geometry: the cached capacity (\<^verbatim>\<open>ensure_geometry_cached\<close>), the RDB probe
  (\<^verbatim>\<open>ensure_rdb_geometry_cached\<close>) and the commands that report geometry
  (\<^verbatim>\<open>TD_GETGEOMETRY\<close>, \<^verbatim>\<open>TD_GETNUMTRACKS\<close>, \<^verbatim>\<open>NSCMD_TD_GETGEOMETRY64\<close>).
\<close>

section \<open>Byte buffers\<close>

definition mem_bytes :: "(ptr \<Rightarrow> u8) \<Rightarrow> ptr \<Rightarrow> nat \<Rightarrow> u8 list" where
  "mem_bytes m a n = map (\<lambda>i. m (a + of_nat i)) [0..<n]"

definition mem_fill :: "ptr \<Rightarrow> u8 list \<Rightarrow> (ptr \<Rightarrow> u8) \<Rightarrow> ptr \<Rightarrow> u8" where
  "mem_fill a bs m = (\<lambda>x. if unat (x - a) < length bs then bs ! unat (x - a) else m x)"

definition upd_mem :: "ptr \<Rightarrow> u8 list \<Rightarrow> world \<Rightarrow> world" where
  "upd_mem a bs w = w\<lparr>w_mem := mem_fill a bs (w_mem w)\<rparr>"

section \<open>Capacity\<close>

text \<open>What the responses of READ CAPACITY (10) and (16) say.\<close>

definition parse_cap10 :: "u8 list \<Rightarrow> u32 \<times> u32" where
  "parse_cap10 c = (be32 (c ! 0) (c ! 1) (c ! 2) (c ! 3), be32 (c ! 4) (c ! 5) (c ! 6) (c ! 7))"

definition parse_cap16 :: "u8 list \<Rightarrow> u64 \<times> u32" where
  "parse_cap16 c =
     (be64 (c ! 0) (c ! 1) (c ! 2) (c ! 3) (c ! 4) (c ! 5) (c ! 6) (c ! 7),
      be32 (c ! 8) (c ! 9) (c ! 10) (c ! 11))"

text \<open>A read of \<open>n\<close> bytes into a zeroed buffer at \<open>a\<close>.\<close>

definition read_into ::
    "kern \<Rightarrow> (world \<Rightarrow> world) \<Rightarrow> ptr \<Rightarrow> u8 list \<Rightarrow> ptr \<Rightarrow> u32 \<Rightarrow> world \<Rightarrow> (doio_result \<times> u8 list \<times> world) option" where
  "read_into K dev up cdb a n w0 =
     do {
       let u = unit_mem w0 up;
       (r, w1) \<leftarrow> VirtIOSCSI_DoIO K dev up (target_id u) (lun_id u) cdb a n False
                   (upd_mem a (replicate (unat n) 0) w0);
       Some (r, mem_bytes (w_mem w1) a (unat n), w1)
     }"

definition set_capacity :: "u64 \<Rightarrow> u32 \<Rightarrow> devunit \<Rightarrow> devunit" where
  "set_capacity nblocks blksz u = u\<lparr>block_size := blksz, total_blocks := nblocks, geometry_valid := True\<rparr>"

definition ensure_geometry_cached ::
    "kern \<Rightarrow> (world \<Rightarrow> world) \<Rightarrow> ptr \<Rightarrow> world \<Rightarrow> (io_err \<times> world) option" where
  "ensure_geometry_cached K dev up w0 =
     (if up = NULL \<or> geometry_valid (unit_mem w0 up) then Some (NO_ERROR, w0)
      else do {
        ((rc, scsi_status, _), cap10, w1) \<leftarrow>
          read_into K dev up [0x25, 0, 0, 0, 0, 0, 0, 0, 0, 0] (k_frame K (os_log w0)) 8 w0;
        if rc \<noteq> NO_ERROR then Some (rc, w1)
        else if scsi_status \<noteq> 0 then Some (HFERR_BadStatus, w1)
        else let (last_lba10, bs) = parse_cap10 cap10 in
        if last_lba10 = 0xFFFFFFFF
        then do {
          ((rc, scsi_status, _), cap16, w2) \<leftarrow>
            read_into K dev up make_read_capacity16_cdb (k_frame K (os_log w1)) 32 w1;
          if rc \<noteq> NO_ERROR then Some (rc, w2)
          else if scsi_status \<noteq> 0 then Some (HFERR_BadStatus, w2)
          else let (last_lba64, bs) = parse_cap16 cap16 in
            Some (NO_ERROR, upd_unit up (set_capacity (last_lba64 + 1) bs) w2)
        }
        else Some (NO_ERROR, upd_unit up (set_capacity (ucast last_lba10 + 1) bs) w1)
      })"

section \<open>The RDB probe\<close>

definition rdsk_signature :: "u8 list" where "rdsk_signature = [0x52, 0x44, 0x53, 0x4B]"
definition part_signature :: "u8 list" where "part_signature = [0x50, 0x41, 0x52, 0x54]"

text \<open>The sum of the first \<open>n\<close> longwords; \<open>None\<close> if they do not lie in the buffer.\<close>

fun rdb_sum :: "u8 list \<Rightarrow> nat \<Rightarrow> u32 option" where
  "rdb_sum buf 0 = Some 0"
| "rdb_sum buf (Suc n) = do { s \<leftarrow> rdb_sum buf n; x \<leftarrow> be32_at buf (n * 4); Some (s + x) }"

text \<open>
  The checks on block 0: \<open>Some (Some (cyls, sectors, heads))\<close> if it is a valid RDB header,
  \<open>Some None\<close> if it is not.
\<close>

definition parse_rdsk :: "u8 list \<Rightarrow> u64 \<Rightarrow> (u32 \<times> u32 \<times> u32) option option" where
  "parse_rdsk buf nblocks =
     do {
       b0 \<leftarrow> rd buf 0; b1 \<leftarrow> rd buf 1; b2 \<leftarrow> rd buf 2; b3 \<leftarrow> rd buf 3;
       if [b0, b1, b2, b3] \<noteq> rdsk_signature then Some None
       else do {
         summed_longs \<leftarrow> be32_at buf 0x04;
         if summed_longs = 0 \<or> summed_longs > 128 then Some None
         else do {
           cksum \<leftarrow> rdb_sum buf (unat summed_longs);
           if cksum \<noteq> 0 then Some None
           else do {
             cyls \<leftarrow> be32_at buf 0x40;
             sectors \<leftarrow> be32_at buf 0x44;
             heads \<leftarrow> be32_at buf 0x48;
             if cyls = 0 \<or> sectors = 0 \<or> heads = 0
                \<or> (ucast cyls :: u64) * ucast sectors * ucast heads > nblocks
             then Some None
             else Some (Some (cyls, sectors, heads))
           }
         }
       }
     }"

text \<open>The shape that the first partition block declares, when it has the same product.\<close>

definition parse_part :: "u8 list \<Rightarrow> u32 \<Rightarrow> u32 \<Rightarrow> (u32 \<times> u32) option option" where
  "parse_part pbuf sectors heads =
     do {
       b0 \<leftarrow> rd pbuf 0; b1 \<leftarrow> rd pbuf 1; b2 \<leftarrow> rd pbuf 2; b3 \<leftarrow> rd pbuf 3;
       if [b0, b1, b2, b3] \<noteq> part_signature then Some None
       else do {
         surfaces \<leftarrow> be32_at pbuf (128 + 12);
         blkpt \<leftarrow> be32_at pbuf (128 + 20);
         if surfaces > 0 \<and> blkpt > 0 \<and> surfaces * blkpt = sectors * heads
         then Some (Some (surfaces, blkpt)) else Some None
       }
     }"

definition clear_rdb :: "devunit \<Rightarrow> devunit" where
  "clear_rdb u = u\<lparr>rdb_geometry_valid := False, rdb_phys_cyls := 0, rdb_phys_sectors := 0, rdb_phys_heads := 0\<rparr>"

text \<open>Follow the partition list of a valid RDB.\<close>

definition rdb_partition ::
    "kern \<Rightarrow> (world \<Rightarrow> world) \<Rightarrow> ptr \<Rightarrow> u8 list \<Rightarrow> u32 \<Rightarrow> u32 \<Rightarrow> u32 \<Rightarrow> world \<Rightarrow> world option" where
  "rdb_partition K dev up buf bs sectors heads w0 =
     do {
       part_block \<leftarrow> be32_at buf 0x1C;
       if part_block \<noteq> 0xFFFFFFFF \<and> part_block > 0 \<and> ucast part_block < total_blocks (unit_mem w0 up)
       then let (pbuf, w1) = os_AllocVecTags K bs w0 in
         if pbuf = NULL then Some w1
         else do {
           ((prc, ss, _), bytes, w2) \<leftarrow> read_into K dev up (make_read10_cdb part_block 1) pbuf bs w1;
           w3 \<leftarrow> (if prc = NO_ERROR \<and> ss = 0
                  then do {
                    p \<leftarrow> parse_part bytes sectors heads;
                    Some (case p of
                            Some (surfaces, blkpt) \<Rightarrow>
                              upd_unit up (\<lambda>u. u\<lparr>rdb_phys_heads := surfaces, rdb_phys_sectors := blkpt\<rparr>) w2
                          | None \<Rightarrow> w2)
                  }
                  else Some w2);
           Some (os_emit (FreeVec pbuf) w3)
         }
       else Some w0
     }"

definition rdb_probe :: "kern \<Rightarrow> (world \<Rightarrow> world) \<Rightarrow> ptr \<Rightarrow> world \<Rightarrow> world option" where
  "rdb_probe K dev up w0 =
     (let u = unit_mem w0 up;
          bs = (if block_size u \<noteq> 0 then block_size u else 512);
          (buf, w1) = os_AllocVecTags K bs w0 in
      if buf = NULL then Some w1
      else do {
        ((rc, scsi_status, _), bytes, w2) \<leftarrow> read_into K dev up (make_read10_cdb 0 1) buf bs w1;
        if rc \<noteq> NO_ERROR \<or> scsi_status \<noteq> 0 then Some (os_emit (FreeVec buf) w2)
        else do {
          hdr \<leftarrow> parse_rdsk bytes (total_blocks (unit_mem w2 up));
          case hdr of
            None \<Rightarrow> Some (os_emit (FreeVec buf) w2)
          | Some (cyls, sectors, heads) \<Rightarrow>
              do {
                w3 \<leftarrow> rdb_partition K dev up bytes bs sectors heads
                       (upd_unit up (\<lambda>u. u\<lparr>rdb_phys_cyls := cyls, rdb_phys_sectors := sectors,
                          rdb_phys_heads := heads, rdb_geometry_valid := True\<rparr>) w2);
                Some (os_emit (FreeVec buf) w3)
              }
        }
      })"

definition ensure_rdb_geometry_cached ::
    "kern \<Rightarrow> (world \<Rightarrow> world) \<Rightarrow> ptr \<Rightarrow> world \<Rightarrow> (io_err \<times> world) option" where
  "ensure_rdb_geometry_cached K dev up w0 =
     (if up = NULL then Some (NO_ERROR, w0)
      else do {
        let w1 = upd_unit up clear_rdb w0;
        (rc, w2) \<leftarrow> (if geometry_valid (unit_mem w1 up) then Some (NO_ERROR, w1)
                     else ensure_geometry_cached K dev up w1);
        if rc \<noteq> NO_ERROR then Some (rc, w2)
        else map_option (Pair NO_ERROR) (rdb_probe K dev up w2)
      })"

section \<open>Reporting\<close>

text \<open>The largest power of two up to 256 that divides the block count: \<open>(t, cyl_sectors)\<close>.\<close>

fun chs_split :: "nat \<Rightarrow> u64 \<Rightarrow> u32 \<Rightarrow> u64 \<times> u32" where
  "chs_split 0 t cs = (t, cs)"
| "chs_split (Suc fuel) t cs =
     (if t AND 1 = 0 \<and> cs < 256 then chs_split fuel (drop_bit 1 t) (push_bit 1 cs) else (t, cs))"

definition clamp32 :: "u64 \<Rightarrow> u32" where
  "clamp32 x = (if x > 0xFFFFFFFF then 0xFFFFFFFF else ucast x)"

definition MEMF_PUBLIC_LOCAL :: u32 where "MEMF_PUBLIC_LOCAL = 0x101"

definition geometry_of :: "u64 \<Rightarrow> u32 \<Rightarrow> drive_geometry" where
  "geometry_of nblocks blksz =
     (let (t, cyl_sectors) = chs_split 9 nblocks 1;
          cylinders = (if clamp32 t = 0 then 1 else clamp32 t) in
      \<lparr>dg_SectorSize = blksz, dg_TotalSectors = clamp32 nblocks, dg_Cylinders = cylinders,
       dg_CylSectors = cyl_sectors, dg_Heads = cyl_sectors, dg_TrackSectors = 1,
       dg_BufMemType = MEMF_PUBLIC_LOCAL, dg_DeviceType = 0, dg_Flags = 0\<rparr>)"

definition zero_geom :: drive_geometry where
  "zero_geom = \<lparr>dg_SectorSize = 0, dg_TotalSectors = 0, dg_Cylinders = 0, dg_CylSectors = 0, dg_Heads = 0,
     dg_TrackSectors = 0, dg_BufMemType = 0, dg_DeviceType = 0, dg_Flags = 0\<rparr>"

definition zero_geom64 :: drive_geometry64 where
  "zero_geom64 = \<lparr>dg64_SectorSize = 0, dg64_TotalSectors = 0, dg64_BufMemTags = NULL,
     dg64_DeviceType = 0, dg64_Flags = 0\<rparr>"

definition Handle_TD_GetGeometry ::
    "kern \<Rightarrow> (world \<Rightarrow> world) \<Rightarrow> ptr \<Rightarrow> world \<Rightarrow> world option" where
  "Handle_TD_GetGeometry K dev ior w0 =
     (let r = ioreqs w0 ior; geom = io_Data r; up = io_Unit r;
          w1 = (if geom \<noteq> NULL \<and> k_sizeof_DriveGeometry K \<le> io_Length r
                then w0\<lparr>geom_mem := (geom_mem w0)(geom := zero_geom)\<rparr> else w0) in
      if io_Length r < k_sizeof_DriveGeometry K
      then Some (upd_ioreq ior (\<lambda>r. r\<lparr>io_Error := IOERR_BADLENGTH\<rparr>) w1)
      else do {
        (rc, w2) \<leftarrow> ensure_geometry_cached K dev up w1;
        if rc \<noteq> NO_ERROR then Some (upd_ioreq ior (\<lambda>r. r\<lparr>io_Actual := 0, io_Error := rc\<rparr>) w2)
        else if up \<noteq> NULL \<and> geometry_valid (unit_mem w2 up)
        then (if geom = NULL then None
              else let u = unit_mem w2 up in
                Some (upd_ioreq ior (\<lambda>r. r\<lparr>io_Error := NO_ERROR, io_Actual := k_sizeof_DriveGeometry K\<rparr>)
                  (w2\<lparr>geom_mem := (geom_mem w2)(geom := geometry_of (total_blocks u) (block_size u))\<rparr>)))
        else Some (upd_ioreq ior (\<lambda>r. r\<lparr>io_Error := HFERR_BadStatus\<rparr>) w2)
      })"

definition Handle_TD_GetNumTracks ::
    "kern \<Rightarrow> (world \<Rightarrow> world) \<Rightarrow> ptr \<Rightarrow> world \<Rightarrow> world option" where
  "Handle_TD_GetNumTracks K dev ior w0 =
     do {
       let up = io_Unit (ioreqs w0 ior);
       w1 \<leftarrow> (if up \<noteq> NULL \<and> \<not> geometry_valid (unit_mem w0 up)
              then map_option snd (ensure_geometry_cached K dev up w0) else Some w0);
       (cylinders, w2) \<leftarrow>
         (if up \<noteq> NULL \<and> geometry_valid (unit_mem w1 up)
          then do {
            w2 \<leftarrow> map_option snd (ensure_rdb_geometry_cached K dev up w1);
            let u = unit_mem w2 up;
            Some (if rdb_geometry_valid u then rdb_phys_cyls u
                  else if clamp32 (total_blocks u) = 0 then 1 else clamp32 (total_blocks u), w2)
          }
          else Some (32768, w1));
       Some (upd_ioreq ior (\<lambda>r. r\<lparr>io_Error := NO_ERROR, io_Actual := cylinders\<rparr>) w2)
     }"

definition Handle_NS_TD_GetGeometry64 ::
    "kern \<Rightarrow> (world \<Rightarrow> world) \<Rightarrow> ptr \<Rightarrow> world \<Rightarrow> world option" where
  "Handle_NS_TD_GetGeometry64 K dev ior w0 =
     (let r = ioreqs w0 ior; geom = io_Data r; up = io_Unit r;
          w1 = (if geom \<noteq> NULL \<and> k_sizeof_DriveGeometry64 K \<le> io_Length r
                then w0\<lparr>geom64_mem := (geom64_mem w0)(geom := zero_geom64)\<rparr> else w0) in
      if io_Length r < k_sizeof_DriveGeometry64 K
      then Some (upd_ioreq ior (\<lambda>r. r\<lparr>io_Error := IOERR_BADLENGTH\<rparr>) w1)
      else do {
        (rc, w2) \<leftarrow> ensure_geometry_cached K dev up w1;
        if rc \<noteq> NO_ERROR then Some (upd_ioreq ior (\<lambda>r. r\<lparr>io_Actual := 0, io_Error := rc\<rparr>) w2)
        else if up \<noteq> NULL \<and> geometry_valid (unit_mem w2 up)
        then (if geom = NULL then None
              else let u = unit_mem w2 up in
                Some (upd_ioreq ior (\<lambda>r. r\<lparr>io_Actual := k_sizeof_DriveGeometry64 K, io_Error := NO_ERROR\<rparr>)
                  (w2\<lparr>geom64_mem := (geom64_mem w2)(geom :=
                     \<lparr>dg64_SectorSize = block_size u, dg64_TotalSectors = total_blocks u,
                      dg64_BufMemTags = NULL, dg64_DeviceType = 0, dg64_Flags = 0\<rparr>)\<rparr>)))
        else Some (upd_ioreq ior (\<lambda>r. r\<lparr>io_Actual := 0, io_Error := HFERR_BadStatus\<rparr>) w2)
      })"

end
