(* ===== verification/Commands.thy ===== *)
theory Commands
  imports Geometry
begin

text \<open>
  The command handlers that run in the unit task, besides block I/O and geometry: the SCSI
  pass-through \<^verbatim>\<open>HD_SCSICMD\<close> (\<^verbatim>\<open>src/scsi_cmds/\<close>), the new-style
  device commands (\<^verbatim>\<open>src/ns_cmds/\<close>) and the trivial ones
  (\<^verbatim>\<open>src/exec_cmds/cmd_stubs.c\<close>, \<^verbatim>\<open>cmd_update.c\<close>).
  \<open>ior\<close> is the address of the request, \<open>sc\<close> that of the \<^verbatim>\<open>struct SCSICmd\<close>.
\<close>

section \<open>Trivial commands\<close>

definition Handle_CMD_Success :: "ptr \<Rightarrow> 'z world_scheme \<Rightarrow> 'z world_scheme" where
  "Handle_CMD_Success ior w = upd_ioreq ior (\<lambda>r. r\<lparr>io_Error := NO_ERROR, io_Actual := 0\<rparr>) w"

definition Handle_CMD_Update :: "ptr \<Rightarrow> 'z world_scheme \<Rightarrow> 'z world_scheme" where
  "Handle_CMD_Update ior w = upd_ioreq ior (\<lambda>r. r\<lparr>io_Error := NO_ERROR\<rparr>) w"

section \<open>SCSI commands\<close>

definition upd_scsi :: "ptr \<Rightarrow> (scsi_cmd \<Rightarrow> scsi_cmd) \<Rightarrow> 'z world_scheme \<Rightarrow> 'z world_scheme" where
  "upd_scsi sc f w = w\<lparr>scsi_mem := (scsi_mem w)(sc := f (scsi_mem w sc))\<rparr>"

text \<open>Status, error and length of a command that is refused with \<open>CHECK CONDITION\<close>.\<close>

definition ILLEGAL_REQUEST :: u8 where "ILLEGAL_REQUEST = 5"

definition sense_bytes :: "u8 \<Rightarrow> u8 \<Rightarrow> u8 \<Rightarrow> u8 list" where
  "sense_bytes sense_key asc ascq =
     (replicate 18 0)[0 := 0x70, 2 := sense_key, 7 := 10, 12 := asc, 13 := ascq]"

definition FillAutoSense :: "ptr \<Rightarrow> u8 \<Rightarrow> u8 \<Rightarrow> u8 \<Rightarrow> world \<Rightarrow> world" where
  "FillAutoSense sc sense_key asc ascq w0 =
     (let w = upd_scsi sc (\<lambda>s. s\<lparr>scsi_SenseActual := 0\<rparr>) w0; s = scsi_mem w sc in
      if \<not> scsi_Autosense s then w
      else if scsi_SenseData s = NULL \<or> scsi_SenseLength s < 18 then w
      else upd_scsi sc (\<lambda>s. s\<lparr>scsi_SenseActual := 18\<rparr>)
             (upd_mem (scsi_SenseData s) (sense_bytes sense_key asc ascq) w))"

text \<open>Pass the caller's CDB to the device.\<close>

definition scsi_doio ::
    "kern \<Rightarrow> (world \<Rightarrow> world) \<Rightarrow> ptr \<Rightarrow> ptr \<Rightarrow> ptr \<Rightarrow> u32 \<Rightarrow> bool \<Rightarrow> world \<Rightarrow> (doio_result \<times> world) option" where
  "scsi_doio K dev ior sc data len is_write w =
     (let up = io_Unit (ioreqs w ior); s = scsi_mem w sc in
      if up = NULL then None
      else VirtIOSCSI_DoIO K dev up (target_id (unit_mem w up)) (lun_id (unit_mem w up))
             (mem_bytes (w_mem w) (scsi_Command s) (unat (scsi_CmdLength s))) data len is_write w)"

definition scsi_transfer ::
    "kern \<Rightarrow> (world \<Rightarrow> world) \<Rightarrow> ptr \<Rightarrow> ptr \<Rightarrow> bool \<Rightarrow> world \<Rightarrow> world option" where
  "scsi_transfer K dev ior sc is_write w0 =
     do {
       ((rc, scsi_status, residual), w1) \<leftarrow>
         scsi_doio K dev ior sc (scsi_Data (scsi_mem w0 sc)) (scsi_Length (scsi_mem w0 sc)) is_write w0;
       let actual = scsi_Length (scsi_mem w1 sc) - residual;
       Some (upd_ioreq ior (\<lambda>r. r\<lparr>io_Actual := actual, io_Error := rc\<rparr>)
               (upd_scsi sc (\<lambda>s. s\<lparr>scsi_Status := scsi_status, scsi_Actual := actual\<rparr>) w1))
     }"

definition Handle_SCSI_TestUnitReady :: "kern \<Rightarrow> (world \<Rightarrow> world) \<Rightarrow> ptr \<Rightarrow> ptr \<Rightarrow> world \<Rightarrow> world option" where
  "Handle_SCSI_TestUnitReady K dev ior sc w0 =
     do {
       ((rc, scsi_status, residual), w1) \<leftarrow> scsi_doio K dev ior sc NULL 0 False w0;
       Some (upd_ioreq ior (\<lambda>r. r\<lparr>io_Actual := 0, io_Error := rc\<rparr>)
               (upd_scsi sc (\<lambda>s. s\<lparr>scsi_Status := scsi_status, scsi_Actual := 0\<rparr>) w1))
     }"

definition Handle_SCSI_ReadCapacity10 :: "kern \<Rightarrow> (world \<Rightarrow> world) \<Rightarrow> ptr \<Rightarrow> ptr \<Rightarrow> world \<Rightarrow> world option" where
  "Handle_SCSI_ReadCapacity10 K dev ior sc w =
     (if scsi_Length (scsi_mem w sc) < 8
      then Some (upd_ioreq ior (\<lambda>r. r\<lparr>io_Error := HFERR_BadStatus\<rparr>) (upd_scsi sc (\<lambda>s. s\<lparr>scsi_Status := 2\<rparr>) w))
      else scsi_transfer K dev ior sc False w)"

definition handle_scsi_rw10 :: "kern \<Rightarrow> (world \<Rightarrow> world) \<Rightarrow> ptr \<Rightarrow> ptr \<Rightarrow> bool \<Rightarrow> world \<Rightarrow> world option" where
  "handle_scsi_rw10 K dev ior sc is_write w = scsi_transfer K dev ior sc is_write w"

section \<open>INQUIRY\<close>

text \<open>Decimal output of \<^verbatim>\<open>SNPrintf("%lu")\<close>.\<close>

fun dec_digits :: "nat \<Rightarrow> u8 list" where
  "dec_digits n = (if n < 10 then [0x30 + of_nat n] else dec_digits (n div 10) @ [0x30 + of_nat (n mod 10)])"

declare dec_digits.simps [simp del]

definition ascii :: "string \<Rightarrow> u8 list" where
  "ascii s = map (\<lambda>c. of_nat (of_char c)) s"

definition vpd_serial :: "u32 \<Rightarrow> u8 list" where
  "vpd_serial target = ascii ''VIRTIOSCSI-T'' @ dec_digits (unat target)"

definition vpd_ident :: "u32 \<Rightarrow> u8 list" where
  "vpd_ident target = ascii ''QEMU    virtioscsi      T'' @ dec_digits (unat target)"

definition bad_status :: "ptr \<Rightarrow> ptr \<Rightarrow> world \<Rightarrow> world" where
  "bad_status ior sc w =
     upd_ioreq ior (\<lambda>r. r\<lparr>io_Actual := 0, io_Error := HFERR_BadStatus\<rparr>)
       (upd_scsi sc (\<lambda>s. s\<lparr>scsi_Status := 2, scsi_Actual := 0\<rparr>) w)"

text \<open>\<open>Inl\<close> when the buffer is too small: the request has then been failed.\<close>

definition vpd_begin :: "ptr \<Rightarrow> ptr \<Rightarrow> u8 \<Rightarrow> u32 \<Rightarrow> world \<Rightarrow> world + world" where
  "vpd_begin ior sc page_code needed w =
     (let s = scsi_mem w sc in
      if scsi_Length s < needed \<or> scsi_Data s = NULL then Inl (bad_status ior sc w)
      else Inr (upd_mem (scsi_Data s) [0, page_code] (upd_mem (scsi_Data s) (replicate (unat needed) 0) w)))"

definition vpd_finish :: "ptr \<Rightarrow> ptr \<Rightarrow> u32 \<Rightarrow> world \<Rightarrow> world" where
  "vpd_finish ior sc total_len w =
     upd_ioreq ior (\<lambda>r. r\<lparr>io_Actual := total_len, io_Error := NO_ERROR\<rparr>)
       (upd_scsi sc (\<lambda>s. s\<lparr>scsi_Status := 0, scsi_Actual := total_len\<rparr>) w)"

definition vpd_illegal_page :: "ptr \<Rightarrow> ptr \<Rightarrow> world \<Rightarrow> world" where
  "vpd_illegal_page ior sc w =
     (let w1 = upd_ioreq ior (\<lambda>r. r\<lparr>io_Actual := 0\<rparr>)
                 (upd_scsi sc (\<lambda>s. s\<lparr>scsi_Status := 2, scsi_Actual := 0\<rparr>) w);
          s = scsi_mem w1 sc;
          w2 = (if scsi_Autosense s \<and> scsi_SenseData s \<noteq> NULL \<and> 18 \<le> scsi_SenseLength s
                then upd_scsi sc (\<lambda>s. s\<lparr>scsi_SenseActual := 18\<rparr>)
                       (upd_mem (scsi_SenseData s) (sense_bytes ILLEGAL_REQUEST 0x24 0x00) w1)
                else w1)
      in upd_ioreq ior (\<lambda>r. r\<lparr>io_Error := HFERR_BadStatus\<rparr>) w2)"

text \<open>A page: the header, then \<open>body\<close> from byte 3 (the page length) on.\<close>

definition vpd_page :: "ptr \<Rightarrow> ptr \<Rightarrow> u8 \<Rightarrow> u32 \<Rightarrow> u8 list \<Rightarrow> world \<Rightarrow> world" where
  "vpd_page ior sc page_code nbytes body w =
     (case vpd_begin ior sc page_code nbytes w of
        Inl w1 \<Rightarrow> w1
      | Inr w1 \<Rightarrow> vpd_finish ior sc nbytes (upd_mem (scsi_Data (scsi_mem w1 sc) + 3) body w1))"

definition inquiry_evpd :: "scsi_cmd \<Rightarrow> (ptr \<Rightarrow> u8) \<Rightarrow> bool" where
  "inquiry_evpd s m \<longleftrightarrow> 2 \<le> scsi_CmdLength s \<and> m (scsi_Command s + 1) AND 1 \<noteq> 0"

definition inquiry_page :: "scsi_cmd \<Rightarrow> (ptr \<Rightarrow> u8) \<Rightarrow> u8" where
  "inquiry_page s m = (if 3 \<le> scsi_CmdLength s then m (scsi_Command s + 2) else 0)"

definition Handle_SCSI_Inquiry :: "kern \<Rightarrow> (world \<Rightarrow> world) \<Rightarrow> ptr \<Rightarrow> ptr \<Rightarrow> world \<Rightarrow> world option" where
  "Handle_SCSI_Inquiry K dev ior sc w =
     (let s = scsi_mem w sc; up = io_Unit (ioreqs w ior); pgcode = inquiry_page s (w_mem w) in
      if scsi_Length s < 5 then Some (bad_status ior sc w)
      else if \<not> inquiry_evpd s (w_mem w) then scsi_transfer K dev ior sc False w
      else if pgcode = 0x00 then Some (vpd_page ior sc 0x00 7 [3, 0x00, 0x80, 0x83] w)
      else if pgcode = 0x80
      then if up = NULL then None
           else let serial = vpd_serial (target_id (unit_mem w up)); slen = (of_nat (length serial) :: u32) in
             Some (vpd_page ior sc 0x80 (4 + slen) (ucast slen # serial) w)
      else if pgcode = 0x83
      then if up = NULL then None
           else let ident = vpd_ident (target_id (unit_mem w up)); idlen = (of_nat (length ident) :: u32);
                    desig_len = 4 + idlen in
             Some (vpd_page ior sc 0x83 (4 + desig_len)
                     ([ucast desig_len, 0x02, 0x01, 0x00, ucast idlen] @ ident) w)
      else Some (vpd_illegal_page ior sc w))"

section \<open>LOG SENSE\<close>

text \<open>The bytes of a log page that are transferred, or \<open>None\<close> for an unknown page.\<close>

definition log_page :: "u8 \<Rightarrow> u8 list option" where
  "log_page page_code =
     (if page_code = 0x00 then Some [0x00, 0x00, 0x00, 0x02, 0x00, 0x2F]
      else if page_code = 0x2F
      then let attr = ascii ''VirtIO Dummy OK''; transfer_len = 16 + length attr in
        Some ([0x2F, 0x00, 0x00, of_nat (transfer_len - 4), 0x00, 0x00, 0x03, 0x04, 0x00, 0x00, 0, 0,
               0x80, 0x00, 0x03, of_nat (length attr)] @ attr)
      else None)"

definition Handle_SCSI_LogSense :: "kern \<Rightarrow> ptr \<Rightarrow> ptr \<Rightarrow> world \<Rightarrow> world" where
  "Handle_SCSI_LogSense K ior sc w =
     (let s = scsi_mem w sc; cdb = scsi_Command s; m = w_mem w;
          page_code = m (cdb + 2) AND 0x3F;
          allocation_length = be16 (m (cdb + 7)) (m (cdb + 8)) in
      if scsi_Data s = NULL \<or> allocation_length = 0
      then Handle_CMD_Success ior (upd_scsi sc (\<lambda>s. s\<lparr>scsi_Actual := 0\<rparr>) w)
      else case log_page page_code of
        None \<Rightarrow>
          let w1 = upd_ioreq ior (\<lambda>r. r\<lparr>io_Error := HFERR_BadStatus\<rparr>) (upd_scsi sc (\<lambda>s. s\<lparr>scsi_Status := 2\<rparr>) w)
          in if scsi_Status (scsi_mem w1 sc) = 0 then Handle_CMD_Success ior w1 else w1
      | Some page \<Rightarrow>
          if scsi_Status s = 0
          then let transfer_len = min (length page) (unat allocation_length) in
            Handle_CMD_Success ior
              (upd_scsi sc (\<lambda>s. s\<lparr>scsi_Actual := of_nat transfer_len\<rparr>)
                (os_emit (CopyMem (k_frame K (os_log w)) (scsi_Data s) (of_nat transfer_len))
                  (upd_mem (scsi_Data s) (take transfer_len page) w)))
          else w)"

section \<open>ATA PASS-THROUGH\<close>

definition smart_attrs :: "u8 list list" where
  "smart_attrs =
     [[1, 0x0B, 0x00, 100, 100, 0, 0, 0, 0, 0, 0, 0],
      [9, 0x03, 0x00, 100, 100, 0x01, 0x00, 0, 0, 0, 0, 0],
      [12, 0x03, 0x00, 100, 100, 0x01, 0x00, 0, 0, 0, 0, 0],
      [194, 0x02, 0x00, 120, 120, 0x1E, 0, 0, 0, 0x1E, 0, 0],
      [197, 0x00, 0x00, 100, 100, 0, 0, 0, 0, 0, 0, 0],
      [198, 0x00, 0x00, 100, 100, 0, 0, 0, 0, 0, 0, 0]]"

definition smart_block :: "u8 list" where
  "smart_block =
     (let attrs = concat smart_attrs in
      ([0x06, 0x00] @ attrs @ replicate (510 - length attrs) 0)[510 := 0xC0])"

definition Handle_SCSI_ATAPassthrough :: "ptr \<Rightarrow> ptr \<Rightarrow> world \<Rightarrow> world" where
  "Handle_SCSI_ATAPassthrough ior sc w =
     (let s = scsi_mem w sc; cdb = scsi_Command s; m = w_mem w;
          ata_cmd = (if m cdb = 0x85 then m (cdb + 14) else m (cdb + 9));
          refuse = upd_ioreq ior (\<lambda>r. r\<lparr>io_Error := HFERR_BadStatus\<rparr>)
                     (upd_scsi sc (\<lambda>s. s\<lparr>scsi_Status := 2, scsi_Actual := 0\<rparr>) w) in
      if ata_cmd \<noteq> 0xB0 then refuse
      else if scsi_Data s = NULL \<or> scsi_Length s < 512 then refuse
      else Handle_CMD_Success ior
             (upd_scsi sc (\<lambda>s. s\<lparr>scsi_Actual := 512, scsi_Status := 0\<rparr>) (upd_mem (scsi_Data s) smart_block w)))"

section \<open>\<open>HD_SCSICMD\<close>\<close>

definition SCSI_LOG_SENSE :: u8 where "SCSI_LOG_SENSE = 0x4D"

definition scsi_dispatch :: "kern \<Rightarrow> (world \<Rightarrow> world) \<Rightarrow> ptr \<Rightarrow> ptr \<Rightarrow> u8 \<Rightarrow> world \<Rightarrow> world option" where
  "scsi_dispatch K dev ior sc opcode w =
     (if opcode = 0x00 then Handle_SCSI_TestUnitReady K dev ior sc w
      else if opcode = 0x12 then Handle_SCSI_Inquiry K dev ior sc w
      else if opcode = 0x25 then Handle_SCSI_ReadCapacity10 K dev ior sc w
      else if opcode = 0x28 then handle_scsi_rw10 K dev ior sc False w
      else if opcode = 0x2A then handle_scsi_rw10 K dev ior sc True w
      else if opcode = SCSI_LOG_SENSE then Some (Handle_SCSI_LogSense K ior sc w)
      else if opcode = 0x85 \<or> opcode = 0xA1 then Some (Handle_SCSI_ATAPassthrough ior sc w)
      else Some (upd_ioreq ior (\<lambda>r. r\<lparr>io_Error := HFERR_BadStatus\<rparr>)
                   (FillAutoSense sc ILLEGAL_REQUEST 0x20 0x00 (upd_scsi sc (\<lambda>s. s\<lparr>scsi_Status := 2\<rparr>) w))))"

definition Parse_SCSI_Command :: "kern \<Rightarrow> (world \<Rightarrow> world) \<Rightarrow> ptr \<Rightarrow> world \<Rightarrow> world option" where
  "Parse_SCSI_Command K dev ior w =
     (let r = ioreqs w ior; sc = io_Data r; s = scsi_mem w sc in
      if io_Data r = NULL \<or> io_Length r < k_sizeof_SCSICmd K
      then Some (upd_ioreq ior (\<lambda>r. r\<lparr>io_Error := IOERR_BADLENGTH\<rparr>) w)
      else if scsi_Command s = NULL \<or> scsi_CmdLength s = 0
      then Some (upd_ioreq ior (\<lambda>r. r\<lparr>io_Error := HFERR_BadStatus\<rparr>) w)
      else scsi_dispatch K dev ior sc (w_mem w (scsi_Command s))
             (upd_scsi sc (\<lambda>s. s\<lparr>scsi_Status := 0, scsi_CmdActual := scsi_CmdLength s, scsi_SenseActual := 0\<rparr>) w))"

section \<open>New-style device commands\<close>

definition supported_commands :: "command list" where
  "supported_commands =
     [CMD_READ, CMD_WRITE, CMD_UPDATE, CMD_CLEAR, CMD_FLUSH, CMD_START, CMD_STOP,
      TD_MOTOR, TD_SEEK, TD_FORMAT, TD_REMOVE, TD_CHANGENUM, TD_CHANGESTATE, TD_PROTSTATUS, TD_GETDRIVETYPE,
      TD_GETNUMTRACKS, TD_ADDCHANGEINT, TD_REMCHANGEINT, TD_GETGEOMETRY, TD_EJECT,
      TD_READ64, TD_WRITE64, TD_SEEK64, TD_FORMAT64,
      ETD_READ, ETD_WRITE, ETD_MOTOR, ETD_SEEK, ETD_FORMAT, ETD_UPDATE, ETD_CLEAR,
      HD_SCSICMD,
      NSCMD_DEVICEQUERY, NSCMD_TD_READ64, NSCMD_TD_WRITE64, NSCMD_TD_SEEK64, NSCMD_TD_FORMAT64,
      NSCMD_TD_GETGEOMETRY64,
      NSCMD_TD_CHANGEUNIT, NSCMD_TD_ADDSTATCALLBACK, NSCMD_TD_REMSTATCALLBACK,
      NSCMD_ETD_READ64, NSCMD_ETD_WRITE64, NSCMD_ETD_SEEK64, NSCMD_ETD_FORMAT64]"

definition Handle_NS_DeviceQuery :: "kern \<Rightarrow> ptr \<Rightarrow> world \<Rightarrow> world option" where
  "Handle_NS_DeviceQuery K ior w =
     (let r = ioreqs w ior; res = io_Data r in
      if io_Length r < k_sizeof_NSDeviceQueryResult K
      then Some (upd_ioreq ior (\<lambda>r. r\<lparr>io_Actual := 0, io_Error := IOERR_BADLENGTH\<rparr>) w)
      else if res = NULL then None
      else Some (upd_ioreq ior (\<lambda>r. r\<lparr>io_Actual := k_sizeof_NSDeviceQueryResult K, io_Error := NO_ERROR\<rparr>)
             (w\<lparr>nsq_mem := (nsq_mem w)(res :=
                \<lparr>DevQueryFormat = 0, SizeAvailable = k_sizeof_NSDeviceQueryResult K,
                 DeviceType_trackdisk = True, DeviceSubType = 0, SupportedCommands = supported_commands\<rparr>)\<rparr>)))"

definition Handle_NS_TD_IO64 :: "kern \<Rightarrow> (world \<Rightarrow> world) \<Rightarrow> ptr \<Rightarrow> world \<Rightarrow> world option" where
  "Handle_NS_TD_IO64 K dev ior w0 =
     (let r = ioreqs w0 ior; offset64 = unpack_io64_offset (io_Actual r) (io_Offset r);
          len = io_Length r; data = io_Data r; up = io_Unit r in
      if data = NULL \<or> len = 0 then Some (upd_ioreq ior (\<lambda>r. r\<lparr>io_Error := IOERR_BADADDRESS\<rparr>) w0)
      else let u = unit_mem w0 up;
               blksz = (if up \<noteq> NULL then effective_blksz u else 512);
               (lba, blocks) = block_range blksz offset64 len;
               is_write = (io_Command r \<noteq> NSCMD_TD_READ64) in
        if up = NULL then None
        else do {
          ((rc, scsi_status, residual), w1) \<leftarrow>
            VirtIOSCSI_DoIO K dev up (target_id u) (lun_id u) (block_cdb is_write lba blocks) data len is_write w0;
          Some (if rc \<noteq> NO_ERROR then upd_ioreq ior (\<lambda>r. r\<lparr>io_Error := rc, io_Actual := 0\<rparr>) w1
                else upd_ioreq ior (\<lambda>r. r\<lparr>io_Error := NO_ERROR, io_Actual := len - residual\<rparr>) w1)
        })"

definition ns_noop_cmds :: "command list" where
  "ns_noop_cmds = [NSCMD_TD_SEEK64, NSCMD_ETD_SEEK64, NSCMD_TD_CHANGEUNIT, NSCMD_TD_ADDSTATCALLBACK,
     NSCMD_TD_REMSTATCALLBACK]"

definition ns_io64_cmds :: "command list" where
  "ns_io64_cmds = [NSCMD_TD_FORMAT64, NSCMD_TD_READ64, NSCMD_TD_WRITE64, NSCMD_ETD_FORMAT64,
     NSCMD_ETD_READ64, NSCMD_ETD_WRITE64]"

definition Parse_NS_Command :: "kern \<Rightarrow> (world \<Rightarrow> world) \<Rightarrow> ptr \<Rightarrow> world \<Rightarrow> world option" where
  "Parse_NS_Command K dev ior w =
     (let c = io_Command (ioreqs w ior) in
      if c = NSCMD_DEVICEQUERY then Handle_NS_DeviceQuery K ior w
      else if c \<in> set ns_noop_cmds then Some (Handle_CMD_Success ior w)
      else if c = NSCMD_TD_GETGEOMETRY64 then Handle_NS_TD_GetGeometry64 K dev ior w
      else if c \<in> set ns_io64_cmds then Handle_NS_TD_IO64 K dev ior w
      else Some (upd_ioreq ior (\<lambda>r. r\<lparr>io_Error := IOERR_NOCMD\<rparr>) w))"

end
