(* ===== verification/Unit_Task.thy ===== *)
theory Unit_Task
  imports Commands
begin

text \<open>
  The per-unit task of \<^verbatim>\<open>src/unit_task.c\<close>: the buffers a unit owns while it is
  open, the dispatch of requests, the event loop, the drain at shutdown, and the hand-shakes
  of start and shutdown. The arrays of a unit have \<open>MAX_INFLIGHT\<close> elements and every
  index here is below it.
\<close>

section \<open>Request and response buffers\<close>

definition set_req :: "ptr \<Rightarrow> nat \<Rightarrow> ptr \<Rightarrow> world \<Rightarrow> world" where
  "set_req up s p = upd_unit up (req_bufs_update (\<lambda>xs. xs[s := p]))"
definition set_resp :: "ptr \<Rightarrow> nat \<Rightarrow> ptr \<Rightarrow> world \<Rightarrow> world" where
  "set_resp up s p = upd_unit up (resp_bufs_update (\<lambda>xs. xs[s := p]))"
definition set_req_ents :: "ptr \<Rightarrow> nat \<Rightarrow> u32 \<Rightarrow> world \<Rightarrow> world" where
  "set_req_ents up s n = upd_unit up (dma_req_entries_arr_update (\<lambda>xs. xs[s := n]))"
definition set_resp_ents :: "ptr \<Rightarrow> nat \<Rightarrow> u32 \<Rightarrow> world \<Rightarrow> world" where
  "set_resp_ents up s n = upd_unit up (dma_resp_entries_arr_update (\<lambda>xs. xs[s := n]))"
definition set_req_list :: "ptr \<Rightarrow> nat \<Rightarrow> ptr \<Rightarrow> world \<Rightarrow> world" where
  "set_req_list up s p = upd_unit up (dma_req_lists_update (\<lambda>xs. xs[s := p]))"
definition set_resp_list :: "ptr \<Rightarrow> nat \<Rightarrow> ptr \<Rightarrow> world \<Rightarrow> world" where
  "set_resp_list up s p = upd_unit up (dma_resp_lists_update (\<lambda>xs. xs[s := p]))"
definition set_bounce :: "ptr \<Rightarrow> nat \<Rightarrow> ptr \<Rightarrow> world \<Rightarrow> world" where
  "set_bounce up s p = upd_unit up (bounce_bufs_update (\<lambda>xs. xs[s := p]))"
definition set_bounce_ents :: "ptr \<Rightarrow> nat \<Rightarrow> u32 \<Rightarrow> world \<Rightarrow> world" where
  "set_bounce_ents up s n = upd_unit up (bounce_dma_entries_update (\<lambda>xs. xs[s := n]))"
definition set_bounce_phys :: "ptr \<Rightarrow> nat \<Rightarrow> u32 \<Rightarrow> world \<Rightarrow> world" where
  "set_bounce_phys up s n = upd_unit up (bounce_dma_phys_update (\<lambda>xs. xs[s := n]))"
definition set_pool :: "ptr \<Rightarrow> nat \<Rightarrow> ptr \<Rightarrow> world \<Rightarrow> world" where
  "set_pool up s p = upd_unit up (data_dma_pool_update (\<lambda>xs. xs[s := p]))"

text \<open>The label \<^verbatim>\<open>fail_resp\<close>.\<close>

definition slot_fail_resp :: "ptr \<Rightarrow> nat \<Rightarrow> ptr \<Rightarrow> ptr \<Rightarrow> world \<Rightarrow> world" where
  "slot_fail_resp up s req resp w =
     set_req up s NULL (os_emit (FreeVec req) (set_resp up s NULL (os_emit (FreeVec resp) w)))"

text \<open>Undo the mapping of the request buffer: with or without its DMA entry list.\<close>

definition slot_undo_req :: "ptr \<Rightarrow> nat \<Rightarrow> ptr \<Rightarrow> world \<Rightarrow> world" where
  "slot_undo_req up s req w = set_req_ents up s 0 (os_emit (EndDMA req sizeof_req_cmd True True) w)"

definition slot_undo_req_list :: "ptr \<Rightarrow> nat \<Rightarrow> ptr \<Rightarrow> ptr \<Rightarrow> world \<Rightarrow> world" where
  "slot_undo_req_list up s req rl w =
     slot_undo_req up s req (set_req_list up s NULL (os_emit (FreeDMAEntries rl) w))"

definition alloc_slot_dma :: "kern \<Rightarrow> ptr \<Rightarrow> nat \<Rightarrow> ptr \<Rightarrow> ptr \<Rightarrow> world \<Rightarrow> bool \<times> world" where
  "alloc_slot_dma K up s req resp w0 =
     (let (re, w1) = os_StartDMA K req sizeof_req_cmd True w0; w1 = set_req_ents up s re w1 in
      if re = 0 then (False, slot_fail_resp up s req resp w1)
      else let (rl, w2) = os_AllocDMAEntries K re w1; w2 = set_req_list up s rl w2 in
      if rl = NULL then (False, slot_fail_resp up s req resp (slot_undo_req up s req w2))
      else let (pe, w3) = os_StartDMA K resp sizeof_resp_cmd False (os_GetDMAList K req sizeof_req_cmd True rl w2);
               w3 = set_resp_ents up s pe w3 in
      if pe = 0 then (False, slot_fail_resp up s req resp (slot_undo_req_list up s req rl w3))
      else let (pl, w4) = os_AllocDMAEntries K pe w3; w4 = set_resp_list up s pl w4 in
      if pl = NULL
      then (False, slot_fail_resp up s req resp (slot_undo_req_list up s req rl
              (set_resp_ents up s 0 (os_emit (EndDMA resp sizeof_resp_cmd False True) w4))))
      else (True, os_GetDMAList K resp sizeof_resp_cmd False pl w4))"

definition alloc_one_slot :: "kern \<Rightarrow> ptr \<Rightarrow> nat \<Rightarrow> world \<Rightarrow> bool \<times> world" where
  "alloc_one_slot K up s w0 =
     (let (req, w1) = os_AllocVecTags K sizeof_req_cmd w0; w1 = set_req up s req w1 in
      if req = NULL then (False, w1)
      else let w1 = w1\<lparr>req_mem := (req_mem w1)(req := zero_req)\<rparr>;
               (resp, w2) = os_AllocVecTags K sizeof_resp_cmd w1; w2 = set_resp up s resp w2 in
      if resp = NULL then (False, set_req up s NULL (os_emit (FreeVec req) w2))
      else alloc_slot_dma K up s req resp (w2\<lparr>resp_mem := (resp_mem w2)(resp := zero_resp)\<rparr>))"

definition free_one_slot :: "ptr \<Rightarrow> nat \<Rightarrow> world \<Rightarrow> world" where
  "free_one_slot up s w0 =
     (let u = unit_mem w0 up; req = req_bufs u ! s; resp = resp_bufs u ! s;
          rl = dma_req_lists u ! s; pl = dma_resp_lists u ! s;
          w1 = (if pl \<noteq> NULL then set_resp_list up s NULL (os_emit (FreeDMAEntries pl) w0) else w0);
          w2 = (if dma_resp_entries_arr u ! s > 0 \<and> resp \<noteq> NULL
                then set_resp_ents up s 0 (os_emit (EndDMA resp sizeof_resp_cmd False True) w1) else w1);
          w3 = (if rl \<noteq> NULL then set_req_list up s NULL (os_emit (FreeDMAEntries rl) w2) else w2);
          w4 = (if dma_req_entries_arr u ! s > 0 \<and> req \<noteq> NULL then slot_undo_req up s req w3 else w3);
          w5 = (if resp \<noteq> NULL then set_resp up s NULL (os_emit (FreeVec resp) w4) else w4)
      in if req \<noteq> NULL then set_req up s NULL (os_emit (FreeVec req) w5) else w5)"

section \<open>Bounce buffers\<close>

text \<open>\<open>None\<close>: the DMA list has no first entry.\<close>

definition alloc_one_bounce :: "kern \<Rightarrow> ptr \<Rightarrow> nat \<Rightarrow> world \<Rightarrow> (bool \<times> world) option" where
  "alloc_one_bounce K up s w0 =
     (let (b, w1) = os_AllocVecTags K BOUNCE_BUF_SIZE w0; w1 = set_bounce up s b w1 in
      if b = NULL then Some (False, w1)
      else let w1 = upd_mem b (replicate (unat BOUNCE_BUF_SIZE) 0) w1;
               (entries, w2) = os_StartDMA K b BOUNCE_BUF_SIZE True w1 in
      if entries = 0 then Some (False, set_bounce up s NULL (os_emit (FreeVec b) w2))
      else let (tmp, w3) = os_AllocDMAEntries K entries (set_bounce_ents up s entries w2) in
      if tmp = NULL
      then Some (False, set_bounce up s NULL (os_emit (FreeVec b)
             (set_bounce_ents up s 0 (os_emit (EndDMA b BOUNCE_BUF_SIZE True True) w3))))
      else let w4 = os_GetDMAList K b BOUNCE_BUF_SIZE True tmp w3 in
        do {
          e \<leftarrow> rd (dma_objs w4 tmp) 0;
          Some (True, set_bounce_ents up s 0 (os_emit (EndDMA b BOUNCE_BUF_SIZE True True)
                  (os_emit (FreeDMAEntries tmp) (set_bounce_phys up s (PhysicalAddress e) w4))))
        })"

definition free_one_bounce :: "ptr \<Rightarrow> nat \<Rightarrow> world \<Rightarrow> world" where
  "free_one_bounce up s w0 =
     (let b = bounce_bufs (unit_mem w0 up) ! s;
          w1 = (if bounce_dma_entries (unit_mem w0 up) ! s > 0 \<and> b \<noteq> NULL
                then set_bounce_phys up s 0 (set_bounce_ents up s 0
                       (os_emit (EndDMA b BOUNCE_BUF_SIZE True True) w0))
                else w0)
      in if b \<noteq> NULL then set_bounce up s NULL (os_emit (FreeVec b) w1) else w1)"

section \<open>All buffers of a unit\<close>

definition free_one_pool :: "ptr \<Rightarrow> nat \<Rightarrow> world \<Rightarrow> world" where
  "free_one_pool up s w =
     (let p = data_dma_pool (unit_mem w up) ! s in
      if p \<noteq> NULL then set_pool up s NULL (os_emit (FreeDMAEntries p) w) else w)"

text \<open>Free the slots of a list of indices, in order.\<close>

fun free_slots :: "ptr \<Rightarrow> nat list \<Rightarrow> world \<Rightarrow> world" where
  "free_slots up [] w = w"
| "free_slots up (s # ss) w = free_slots up ss (free_one_slot up s (free_one_bounce up s (free_one_pool up s w)))"

text \<open>One iteration of the allocation loop; on failure everything allocated so far is freed.\<close>

definition preallocate_slot :: "kern \<Rightarrow> ptr \<Rightarrow> nat \<Rightarrow> world \<Rightarrow> (bool \<times> world) option" where
  "preallocate_slot K up s w0 =
     (let (ok, w1) = alloc_one_slot K up s w0 in
      if \<not> ok then Some (False, free_slots up [0..<s] w1)
      else do {
        (ok2, w2) \<leftarrow> alloc_one_bounce K up s w1;
        if \<not> ok2 then Some (False, free_slots up [0..<s] (free_one_slot up s w2))
        else let (p, w3) = os_AllocDMAEntries K MAX_SG_ENTRIES w2; w3 = set_pool up s p w3 in
          if p = NULL
          then Some (False, free_slots up [0..<s] (free_one_slot up s (free_one_bounce up s w3)))
          else Some (True, w3)
      })"

fun preallocate_slots :: "kern \<Rightarrow> ptr \<Rightarrow> nat list \<Rightarrow> world \<Rightarrow> (bool \<times> world) option" where
  "preallocate_slots K up [] w = Some (True, w)"
| "preallocate_slots K up (s # ss) w =
     do {
       (ok, w1) \<leftarrow> preallocate_slot K up s w;
       if ok then preallocate_slots K up ss w1 else Some (False, w1)
     }"

definition init_free_list :: "int list" where
  "init_free_list = map (\<lambda>s. int s + 1) [0..<MAX_INFLIGHT - 1] @ [-1]"

definition alias_slot0 :: "devunit \<Rightarrow> devunit" where
  "alias_slot0 u = u\<lparr>req_buf := req_bufs u ! 0, resp_buf := resp_bufs u ! 0,
     dma_req_list := dma_req_lists u ! 0, dma_req_entries := dma_req_entries_arr u ! 0,
     dma_resp_list := dma_resp_lists u ! 0, dma_resp_entries := dma_resp_entries_arr u ! 0\<rparr>"

definition preallocate_unit_dma :: "kern \<Rightarrow> ptr \<Rightarrow> world \<Rightarrow> (bool \<times> world) option" where
  "preallocate_unit_dma K up w0 =
     do {
       (ok, w1) \<leftarrow> preallocate_slots K up [0..<MAX_INFLIGHT]
                    (upd_unit up (\<lambda>u. u\<lparr>inflight_next := init_free_list, free_head := 0\<rparr>) w0);
       Some (if ok then (True, upd_unit up alias_slot0 w1) else (False, w1))
     }"

definition free_unit_dma :: "ptr \<Rightarrow> world \<Rightarrow> world" where
  "free_unit_dma up w =
     upd_unit up (\<lambda>u. u\<lparr>req_buf := NULL, resp_buf := NULL, dma_req_list := NULL, dma_req_entries := 0,
         dma_resp_list := NULL, dma_resp_entries := 0, free_head := -1\<rparr>)
       (free_slots up [0..<MAX_INFLIGHT] w)"

section \<open>Dispatch\<close>

definition submit_block_io ::
    "kern \<Rightarrow> (world \<Rightarrow> world) \<Rightarrow> ptr \<Rightarrow> ptr \<Rightarrow> u64 \<Rightarrow> bool \<Rightarrow> world \<Rightarrow> (bool \<times> world) option" where
  "submit_block_io K dev up ior offset64 is_write w0 =
     (let u = unit_mem w0 up; r = ioreqs w0 ior;
          (lba, blocks) = block_range (effective_blksz u) offset64 (io_Length r);
          cdb = block_cdb is_write lba blocks in
      do {
        (rc, w1) \<leftarrow> VirtIOSCSI_Submit K up ior cdb is_write w0;
        case rc of
          Submitted \<Rightarrow> Some (True, w1)
        | NoSlot \<Rightarrow>
            do {
              ((sync_rc, scsi_status, residual), w2) \<leftarrow>
                VirtIOSCSI_DoIO K dev up (target_id (unit_mem w1 up)) (lun_id (unit_mem w1 up)) cdb
                  (io_Data (ioreqs w1 ior)) (io_Length (ioreqs w1 ior)) is_write w1;
              Some (False,
                if sync_rc \<noteq> NO_ERROR then upd_ioreq ior (\<lambda>r. r\<lparr>io_Error := sync_rc, io_Actual := 0\<rparr>) w2
                else upd_ioreq ior (\<lambda>r. r\<lparr>io_Error := NO_ERROR, io_Actual := io_Length r - residual\<rparr>) w2)
            }
        | HardErr e \<Rightarrow> Some (False, upd_ioreq ior (\<lambda>r. r\<lparr>io_Error := e, io_Actual := 0\<rparr>) w1)
      })"

definition rd32_cmds :: "command list" where "rd32_cmds = [CMD_READ, ETD_READ]"
definition wr32_cmds :: "command list" where "wr32_cmds = [CMD_WRITE, TD_FORMAT, ETD_FORMAT, ETD_WRITE]"
definition rd64_cmds :: "command list" where "rd64_cmds = [TD_READ64, NSCMD_TD_READ64, NSCMD_ETD_READ64]"
definition wr64_cmds :: "command list" where
  "wr64_cmds = [TD_WRITE64, TD_FORMAT64, NSCMD_TD_WRITE64, NSCMD_TD_FORMAT64, NSCMD_ETD_WRITE64, NSCMD_ETD_FORMAT64]"
definition flush_cmds :: "command list" where "flush_cmds = [CMD_UPDATE, CMD_FLUSH, ETD_UPDATE]"
definition nsd_noop_cmds :: "command list" where
  "nsd_noop_cmds = [NSCMD_TD_SEEK64, NSCMD_TD_CHANGEUNIT, NSCMD_TD_ADDSTATCALLBACK, NSCMD_TD_REMSTATCALLBACK,
     NSCMD_ETD_SEEK64]"

text \<open>The switch; the boolean tells whether the request was submitted.\<close>

definition dispatch_switch ::
    "kern \<Rightarrow> (world \<Rightarrow> world) \<Rightarrow> ptr \<Rightarrow> ptr \<Rightarrow> world \<Rightarrow> (bool \<times> world) option" where
  "dispatch_switch K dev up ior w =
     (let r = ioreqs w ior; c = io_Command r; offset64 = unpack_io64_offset (io_Actual r) (io_Offset r) in
      if c \<in> set rd32_cmds then submit_block_io K dev up ior (ucast (io_Offset r)) False w
      else if c \<in> set wr32_cmds then submit_block_io K dev up ior (ucast (io_Offset r)) True w
      else if c \<in> set rd64_cmds then submit_block_io K dev up ior offset64 False w
      else if c \<in> set wr64_cmds then submit_block_io K dev up ior offset64 True w
      else if c \<in> set flush_cmds then Some (False, Handle_CMD_Update ior w)
      else if c = TD_GETGEOMETRY then map_option (Pair False) (Handle_TD_GetGeometry K dev ior w)
      else if c = TD_GETNUMTRACKS then map_option (Pair False) (Handle_TD_GetNumTracks K dev ior w)
      else if c = HD_SCSICMD then map_option (Pair False) (Parse_SCSI_Command K dev ior w)
      else if c = NSCMD_TD_GETGEOMETRY64 then map_option (Pair False) (Handle_NS_TD_GetGeometry64 K dev ior w)
      else if c \<in> set nsd_noop_cmds then Some (False, upd_ioreq ior (\<lambda>r. r\<lparr>io_Error := NO_ERROR\<rparr>) w)
      else Some (False, upd_ioreq ior (\<lambda>r. r\<lparr>io_Error := IOERR_NOCMD\<rparr>) w))"

definition UnitTask_Dispatch ::
    "kern \<Rightarrow> (world \<Rightarrow> world) \<Rightarrow> ptr \<Rightarrow> ptr \<Rightarrow> world \<Rightarrow> (bool \<times> world) option" where
  "UnitTask_Dispatch K dev up ior w =
     do {
       (submitted, w1) \<leftarrow> dispatch_switch K dev up ior w;
       Some (submitted, if submitted then w1 else os_emit (ReplyMsg ior) w1)
     }"

section \<open>The event loop\<close>

definition SIGBREAKF_CTRL_C :: u32 where "SIGBREAKF_CTRL_C = 0x1000"

definition os_GetMsg :: "ptr \<Rightarrow> world \<Rightarrow> ptr \<times> world" where
  "os_GetMsg port w =
     (case port_msgs w port of
        [] \<Rightarrow> (NULL, os_emit (GetMsg port NULL) w)
      | m # ms \<Rightarrow> (m, os_emit (GetMsg port m) (w\<lparr>port_msgs := (port_msgs w)(port := ms)\<rparr>)))"

definition locked_GetMsg :: "ptr \<Rightarrow> world \<Rightarrow> ptr \<times> world" where
  "locked_GetMsg port w = (let (m, w1) = os_GetMsg port (os_emit MutexObtain w) in (m, os_emit MutexRelease w1))"

text \<open>
  Draining the port: requests may keep arriving while one is dispatched, so the loop need not
  end; \<open>None\<close> then.
\<close>

partial_function (option) dispatch_msgs ::
    "kern \<Rightarrow> (world \<Rightarrow> world) \<Rightarrow> ptr \<Rightarrow> bool \<Rightarrow> world \<Rightarrow> (bool \<times> world) option" where
  "dispatch_msgs K dev up need_kick w =
     (let (ior, w1) = locked_GetMsg (io_port (unit_mem w up)) w in
      if ior = NULL then Some (need_kick, w1)
      else do {
        (submitted, w2) \<leftarrow> UnitTask_Dispatch K dev up ior w1;
        dispatch_msgs K dev up (need_kick \<or> submitted) w2
      })"

text \<open>One turn of the loop after \<open>Wait\<close> returned \<open>sigs\<close>, without the break check.\<close>

definition unit_task_turn ::
    "kern \<Rightarrow> (world \<Rightarrow> world) \<Rightarrow> ptr \<Rightarrow> u32 \<Rightarrow> world \<Rightarrow> world option" where
  "unit_task_turn K dev up sigs w =
     do {
       w1 \<leftarrow> (if sigs AND io_signal_mask (unit_mem w up) \<noteq> 0 then VirtIOSCSI_Harvest up w else Some w);
       if sigs AND io_port_mask (unit_mem w1 up) \<noteq> 0
       then do {
         (need_kick, w2) \<leftarrow> dispatch_msgs K dev up False w1;
         Some (if need_kick then VirtIOSCSI_Kick w2 else w2)
       }
       else Some w1
     }"

text \<open>\<open>dev\<close> is what the device and the other tasks do while the task waits.\<close>

partial_function (option) unit_task_loop ::
    "kern \<Rightarrow> (world \<Rightarrow> world) \<Rightarrow> ptr \<Rightarrow> u32 \<Rightarrow> world \<Rightarrow> world option" where
  "unit_task_loop K dev up wait_mask w =
     (if task_shutdown (unit_mem w up) then Some w
      else let w1 = dev (os_emit (Wait wait_mask) w); sigs = k_Wait K (os_log w1) wait_mask in
        if sigs AND SIGBREAKF_CTRL_C \<noteq> 0 then Some w1
        else do {
          w2 \<leftarrow> unit_task_turn K dev up sigs w1;
          unit_task_loop K dev up wait_mask w2
        })"

definition unit_wait_mask :: "devunit \<Rightarrow> u32" where
  "unit_wait_mask u = io_port_mask u OR io_signal_mask u OR SIGBREAKF_CTRL_C"

section \<open>Initialisation of the task\<close>

text \<open>Creating the port and the mutex, and the signal bit for the interrupt handler.\<close>

definition unit_task_init :: "kern \<Rightarrow> ptr \<Rightarrow> ptr \<Rightarrow> u32 \<Rightarrow> world \<Rightarrow> bool \<times> world" where
  "unit_task_init K up parent ready_mask w0 =
     (let self = k_FindTask K (os_log w0);
          port = k_AllocPort K (os_log w0);
          w1 = upd_unit up (\<lambda>u. u\<lparr>io_port := port\<rparr>) w0 in
      if port = NULL then (False, os_emit (Signal parent ready_mask) w1)
      else let w1 = os_emit (Acquire (RPort port)) w1;
               mutex = k_AllocMutex K (os_log w1);
               w2 = upd_unit up (\<lambda>u. u\<lparr>port_mutex := mutex\<rparr>) w1 in
      if mutex = NULL
      then (False, os_emit (Signal parent ready_mask)
              (upd_unit up (\<lambda>u. u\<lparr>io_port := NULL\<rparr>) (os_emit (Release (RPort port)) w2)))
      else let w2 = upd_unit up (\<lambda>u. u\<lparr>io_port_mask := push_bit (k_mp_SigBit K port) 1, unit_task := self,
                      task_shutdown := False\<rparr>) (os_emit (Acquire (RMutex mutex)) w2);
               ib = k_AllocSignal K (os_log w2) in
      if ib < 0
      then (False, upd_unit up (\<lambda>u. u\<lparr>io_port := NULL, io_port_mask := 0, unit_task := NULL\<rparr>)
              (os_emit (Release (RPort port))
                (upd_unit up (\<lambda>u. u\<lparr>port_mutex := NULL\<rparr>)
                  (os_emit (Release (RMutex mutex)) (os_emit (Signal parent ready_mask) w2)))))
      else (True, os_emit (Signal parent ready_mask)
              (upd_unit up (\<lambda>u. u\<lparr>isr_bit := ib, io_signal_mask := push_bit (nat ib) 1, io_wait_task := self,
                 io_cookie := 1\<rparr>) (os_emit (Acquire (RSignal ib)) w2))))"

section \<open>Shutdown of the task\<close>

definition Reply_Held_Async_Reqs :: "ptr \<Rightarrow> io_err \<Rightarrow> world \<Rightarrow> world" where
  "Reply_Held_Async_Reqs up err w0 =
     (if up = NULL then w0
      else let c = changeint_req (unit_mem w0 up);
               w1 = (if c \<noteq> NULL
                     then upd_unit up (\<lambda>u. u\<lparr>changeint_req := NULL\<rparr>)
                            (os_emit (ReplyMsg c) (upd_ioreq c (\<lambda>r. r\<lparr>io_Error := err\<rparr>) w0))
                     else w0);
               r = remove_req (unit_mem w1 up) in
        if r \<noteq> NULL
        then upd_unit up (\<lambda>u. u\<lparr>remove_req := NULL\<rparr>)
               (os_emit (ReplyMsg r) (upd_ioreq r (\<lambda>r. r\<lparr>io_Error := err\<rparr>) w1))
        else w1)"

text \<open>Abort one in-flight slot; the counters are not touched.\<close>

definition drain_slot :: "ptr \<Rightarrow> nat \<Rightarrow> world \<Rightarrow> world option" where
  "drain_slot up s w =
     do {
       f \<leftarrow> rd (inflight (unit_mem w up)) s;
       if if_ioreq f \<noteq> NULL
       then do {
         w1 \<leftarrow> upd_slot up s (\<lambda>f. f\<lparr>if_ioreq := NULL, if_cookie := NULL\<rparr>)
                 (os_emit (ReplyMsg (if_ioreq f)) (upd_ioreq (if_ioreq f) (\<lambda>r. r\<lparr>io_Error := IOERR_ABORTED\<rparr>) w));
         if if_dma_list f \<noteq> NULL
         then upd_slot up s (\<lambda>f. f\<lparr>if_dma_list := NULL, if_dma_num_entries := 0\<rparr>)
                (os_emit (EndDMA (if_dma_addr f) (if_dma_size f) (if_dma_flags f) True) w1)
         else Some w1
       }
       else Some w
     }"

fun drain_slots :: "ptr \<Rightarrow> nat list \<Rightarrow> world \<Rightarrow> world option" where
  "drain_slots up [] w = Some w"
| "drain_slots up (s # ss) w = do { w1 \<leftarrow> drain_slot up s w; drain_slots up ss w1 }"

text \<open>Abort the requests still in the port's queue, here given as a list.\<close>

fun abort_msgs :: "ptr \<Rightarrow> ptr list \<Rightarrow> world \<Rightarrow> world" where
  "abort_msgs port [] w = snd (locked_GetMsg port w)"
| "abort_msgs port (m # ms) w =
     (let (ior, w1) = locked_GetMsg port w in
      if ior = NULL then w1
      else abort_msgs port ms (os_emit (ReplyMsg ior) (upd_ioreq ior (\<lambda>r. r\<lparr>io_Error := IOERR_ABORTED\<rparr>) w1)))"

definition drain_port :: "ptr \<Rightarrow> world \<Rightarrow> world" where
  "drain_port port w = abort_msgs port (port_msgs w port) w"

definition unit_task_teardown :: "ptr \<Rightarrow> world \<Rightarrow> world" where
  "unit_task_teardown up w0 =
     (let ib = isr_bit (unit_mem w0 up);
          w1 = os_emit (Release (RSignal ib))
                 (upd_unit up (\<lambda>u. u\<lparr>io_wait_task := NULL, io_cookie := NULL, io_signal_mask := 0\<rparr>) w0);
          port = io_port (unit_mem w1 up);
          w2 = upd_unit up (\<lambda>u. u\<lparr>io_port := NULL, io_port_mask := 0\<rparr>) w1;
          mutex = port_mutex (unit_mem w2 up);
          w3 = (if mutex \<noteq> NULL
                then upd_unit up (\<lambda>u. u\<lparr>port_mutex := NULL\<rparr>) (os_emit (Release (RMutex mutex)) w2)
                else w2);
          w4 = os_emit (Release (RPort port)) w3;
          exit_task = shutdown_exit_task (unit_mem w4 up);
          exit_mask = shutdown_exit_mask (unit_mem w4 up);
          w5 = upd_unit up (\<lambda>u. u\<lparr>unit_task := NULL\<rparr>) w4
      in if exit_task \<noteq> NULL
         then os_emit (Signal exit_task (if exit_mask \<noteq> 0 then exit_mask else SIGBREAKF_CTRL_C)) w5
         else w5)"

definition unit_task_exit :: "ptr \<Rightarrow> world \<Rightarrow> world option" where
  "unit_task_exit up w =
     do {
       w1 \<leftarrow> drain_slots up [0..<MAX_INFLIGHT] w;
       Some (unit_task_teardown up
               (Reply_Held_Async_Reqs up IOERR_ABORTED (drain_port (io_port (unit_mem w1 up)) w1)))
     }"

text \<open>The whole body of the task, from its creation to its end.\<close>

definition UnitTask_Entry ::
    "kern \<Rightarrow> (world \<Rightarrow> world) \<Rightarrow> ptr \<Rightarrow> ptr \<Rightarrow> u32 \<Rightarrow> world \<Rightarrow> world option" where
  "UnitTask_Entry K dev up parent ready_mask w0 =
     (let (ok, w1) = unit_task_init K up parent ready_mask w0 in
      if \<not> ok then Some w1
      else do {
        w2 \<leftarrow> unit_task_loop K dev up (unit_wait_mask (unit_mem w1 up)) w1;
        unit_task_exit up w2
      })"

section \<open>Starting and stopping a unit task\<close>

text \<open>
  The task that opens or closes the unit waits for the unit task. While it waits, the unit
  task runs its exit path (after \<open>dev\<close>, whatever it and the device do before it sees the
  break signal), so the shared state changes as that path says.
\<close>

definition UnitTask_Shutdown :: "kern \<Rightarrow> (world \<Rightarrow> world) \<Rightarrow> ptr \<Rightarrow> world \<Rightarrow> world option" where
  "UnitTask_Shutdown K dev up w0 =
     (if unit_task (unit_mem w0 up) = NULL then Some w0
      else let sb = k_AllocSignal K (os_log w0);
               mask = (if 0 \<le> sb then push_bit (nat sb) 1 else 0);
               w1 = (if 0 \<le> sb then os_emit (Acquire (RSignal sb)) w0 else w0);
               self = k_FindTask K (os_log w1);
               w2 = upd_unit up (\<lambda>u. u\<lparr>shutdown_exit_task := self, shutdown_exit_mask := mask,
                      task_shutdown := True\<rparr>) w1;
               w3 = os_emit (Signal (unit_task (unit_mem w2 up)) SIGBREAKF_CTRL_C) w2 in
        do {
          w4 \<leftarrow> unit_task_exit up (dev w3);
          let w5 = (if mask \<noteq> 0 then os_emit (Release (RSignal sb)) (os_emit (Wait mask) w4)
                    else os_emit (Wait SIGBREAKF_CTRL_C) w4);
          Some (free_unit_dma up
                  (upd_unit up (\<lambda>u. u\<lparr>shutdown_exit_task := NULL, shutdown_exit_mask := 0\<rparr>) w5))
        })"

definition UnitTask_Start :: "kern \<Rightarrow> (world \<Rightarrow> world) \<Rightarrow> ptr \<Rightarrow> world \<Rightarrow> (bool \<times> world) option" where
  "UnitTask_Start K dev up w0 =
     (let rb = k_AllocSignal K (os_log w0) in
      if rb < 0 then Some (False, w0)
      else let w1 = os_emit (Acquire (RSignal rb)) w0;
               ready_mask = push_bit (nat rb) 1;
               parent = k_FindTask K (os_log w1);
               task = k_CreateTask K (os_log w1) in
      if task = NULL then Some (False, os_emit (Release (RSignal rb)) w1)
      else let (ok, w2) = unit_task_init K up parent ready_mask (os_emit (CreateTask task) w1);
               w3 = os_emit (Release (RSignal rb)) (os_emit (Wait ready_mask) w2) in
      if io_port (unit_mem w3 up) = NULL then Some (False, w3)
      else do {
        (pre, w4) \<leftarrow> preallocate_unit_dma K up w3;
        if pre then Some (True, w4)
        else map_option (Pair False) (UnitTask_Shutdown K dev up w4)
      })"

end
