(* ===== verification/Controller.thy ===== *)
theory Controller
  imports Unit_Task
begin

text \<open>
  The controller: PCI discovery (\<^verbatim>\<open>src/pci/\<close>), VirtIO initialisation
  (\<^verbatim>\<open>src/virtio/virtio_init.c\<close>) and the interrupt
  (\<^verbatim>\<open>src/virtio/virtio_irq.c\<close>). What the PCI library and the device registers
  return is a parameter, the record \<open>pci_bus\<close>; every access is recorded in the log.
\<close>

section \<open>The bus\<close>

record pci_bus =
  p_FindDevice :: "os_event list \<Rightarrow> u16 \<Rightarrow> ptr"      \<comment> \<open>vendor \<open>0x1AF4\<close>, device id\<close>
  p_OpenLibrary :: "os_event list \<Rightarrow> ptr"
  p_GetInterface :: "os_event list \<Rightarrow> ptr"
  p_ReadConfigByte :: "os_event list \<Rightarrow> u32 \<Rightarrow> u8"
  p_ReadConfigWord :: "os_event list \<Rightarrow> u32 \<Rightarrow> u16"
  p_ReadConfigLong :: "os_event list \<Rightarrow> u32 \<Rightarrow> u32"
  p_GetCapabilities :: "os_event list \<Rightarrow> u32"
  p_CAP_BUSMASTER :: u32
  p_CAP_SETCLR :: u32
  p_FirstCap :: ptr
  p_NextCap :: "ptr \<Rightarrow> ptr"
  p_CapType :: "ptr \<Rightarrow> u8"
  p_CapOffset :: "ptr \<Rightarrow> u32"
  p_GetResourceRange :: "os_event list \<Rightarrow> u8 \<Rightarrow> ptr"
  p_BaseAddress :: "ptr \<Rightarrow> u32"
  p_Physical :: "ptr \<Rightarrow> u32"
  p_InByte :: "os_event list \<Rightarrow> u32 \<Rightarrow> u8"
  p_InWord :: "os_event list \<Rightarrow> u32 \<Rightarrow> u16"
  p_InLong :: "os_event list \<Rightarrow> u32 \<Rightarrow> u32"
  p_r8 :: "os_event list \<Rightarrow> u32 \<Rightarrow> u8"
  p_r16 :: "os_event list \<Rightarrow> u32 \<Rightarrow> u16"
  p_r32 :: "os_event list \<Rightarrow> u32 \<Rightarrow> u32"
  p_MapInterrupt :: "os_event list \<Rightarrow> u32"
  p_AddIntServer :: "os_event list \<Rightarrow> u32 \<Rightarrow> bool"

definition pci_emit :: "pci_event \<Rightarrow> 'z os_scheme \<Rightarrow> 'z os_scheme" where
  "pci_emit e = os_emit (Pci e)"

definition pci_InByte :: "pci_bus \<Rightarrow> u32 \<Rightarrow> world \<Rightarrow> u8 \<times> world" where
  "pci_InByte B a w = (let v = p_InByte B (os_log w) a in (v, pci_emit (InByte a v) w))"
definition pci_InWord :: "pci_bus \<Rightarrow> u32 \<Rightarrow> world \<Rightarrow> u16 \<times> world" where
  "pci_InWord B a w = (let v = p_InWord B (os_log w) a in (v, pci_emit (InWord a v) w))"
definition pci_InLong :: "pci_bus \<Rightarrow> u32 \<Rightarrow> world \<Rightarrow> u32 \<times> world" where
  "pci_InLong B a w = (let v = p_InLong B (os_log w) a in (v, pci_emit (InLong a v) w))"
definition mmio_r8 :: "pci_bus \<Rightarrow> u32 \<Rightarrow> world \<Rightarrow> u8 \<times> world" where
  "mmio_r8 B a w = (let v = p_r8 B (os_log w) a in (v, pci_emit (Mmio_r8 a v) w))"
definition mmio_r16 :: "pci_bus \<Rightarrow> u32 \<Rightarrow> world \<Rightarrow> u16 \<times> world" where
  "mmio_r16 B a w = (let v = p_r16 B (os_log w) a in (v, pci_emit (Mmio_r16 a v) w))"
definition mmio_r32 :: "pci_bus \<Rightarrow> u32 \<Rightarrow> world \<Rightarrow> u32 \<times> world" where
  "mmio_r32 B a w = (let v = p_r32 B (os_log w) a in (v, pci_emit (Mmio_r32 a v) w))"
definition mmio_w8 :: "u32 \<Rightarrow> u8 \<Rightarrow> world \<Rightarrow> world" where "mmio_w8 a v = pci_emit (Mmio_w8 a v)"
definition mmio_w16 :: "u32 \<Rightarrow> u16 \<Rightarrow> world \<Rightarrow> world" where "mmio_w16 a v = pci_emit (Mmio_w16 a v)"
definition mmio_w32 :: "u32 \<Rightarrow> u32 \<Rightarrow> world \<Rightarrow> world" where "mmio_w32 a v = pci_emit (Mmio_w32 a v)"
definition pci_ReadConfigByte :: "pci_bus \<Rightarrow> u32 \<Rightarrow> world \<Rightarrow> u8 \<times> world" where
  "pci_ReadConfigByte B a w = (let v = p_ReadConfigByte B (os_log w) a in (v, pci_emit (ReadConfigByte a v) w))"
definition pci_ReadConfigWord :: "pci_bus \<Rightarrow> u32 \<Rightarrow> world \<Rightarrow> u16 \<times> world" where
  "pci_ReadConfigWord B a w = (let v = p_ReadConfigWord B (os_log w) a in (v, pci_emit (ReadConfigWord a v) w))"
definition pci_ReadConfigLong :: "pci_bus \<Rightarrow> u32 \<Rightarrow> world \<Rightarrow> u32 \<times> world" where
  "pci_ReadConfigLong B a w = (let v = p_ReadConfigLong B (os_log w) a in (v, pci_emit (ReadConfigLong a v) w))"
definition pci_GetResourceRange :: "pci_bus \<Rightarrow> u8 \<Rightarrow> world \<Rightarrow> ptr \<times> world" where
  "pci_GetResourceRange B n w =
     (let r = p_GetResourceRange B (os_log w) n in (r, if r \<noteq> NULL then os_emit (Acquire (RRange r)) w else w))"

section \<open>Registers\<close>

definition VIRTIO_PCI_HOST_FEATURES :: u32 where "VIRTIO_PCI_HOST_FEATURES = 0x00"
definition VIRTIO_PCI_GUEST_FEATURES :: u32 where "VIRTIO_PCI_GUEST_FEATURES = 0x04"
definition VIRTIO_PCI_QUEUE_PFN :: u32 where "VIRTIO_PCI_QUEUE_PFN = 0x08"
definition VIRTIO_PCI_QUEUE_NUM :: u32 where "VIRTIO_PCI_QUEUE_NUM = 0x0C"
definition VIRTIO_PCI_QUEUE_SEL :: u32 where "VIRTIO_PCI_QUEUE_SEL = 0x0E"
definition VIRTIO_PCI_STATUS :: u32 where "VIRTIO_PCI_STATUS = 0x12"
definition VIRTIO_PCI_ISR :: u32 where "VIRTIO_PCI_ISR = 0x13"
definition VIRTIO_STATUS_ACKNOWLEDGE :: u8 where "VIRTIO_STATUS_ACKNOWLEDGE = 1"
definition VIRTIO_STATUS_DRIVER :: u8 where "VIRTIO_STATUS_DRIVER = 2"
definition VIRTIO_STATUS_DRIVER_OK :: u8 where "VIRTIO_STATUS_DRIVER_OK = 4"
definition VIRTIO_STATUS_FEATURES_OK :: u8 where "VIRTIO_STATUS_FEATURES_OK = 8"
definition VIRTIO_STATUS_FAILED :: u8 where "VIRTIO_STATUS_FAILED = 128"

definition COMMON_DFSELECT :: u32 where "COMMON_DFSELECT = 0x00"
definition COMMON_DF :: u32 where "COMMON_DF = 0x04"
definition COMMON_DFSELECTG :: u32 where "COMMON_DFSELECTG = 0x08"
definition COMMON_DFG :: u32 where "COMMON_DFG = 0x0C"
definition COMMON_STATUS :: u32 where "COMMON_STATUS = 0x14"
definition COMMON_Q_SELECT :: u32 where "COMMON_Q_SELECT = 0x16"
definition COMMON_Q_SIZE :: u32 where "COMMON_Q_SIZE = 0x18"
definition COMMON_Q_ENABLE :: u32 where "COMMON_Q_ENABLE = 0x1C"
definition COMMON_Q_NOFF :: u32 where "COMMON_Q_NOFF = 0x1E"
definition COMMON_Q_DESCLO :: u32 where "COMMON_Q_DESCLO = 0x20"
definition COMMON_Q_DESCHI :: u32 where "COMMON_Q_DESCHI = 0x24"
definition COMMON_Q_AVAILLO :: u32 where "COMMON_Q_AVAILLO = 0x28"
definition COMMON_Q_AVAILHI :: u32 where "COMMON_Q_AVAILHI = 0x2C"
definition COMMON_Q_USEDLO :: u32 where "COMMON_Q_USEDLO = 0x30"
definition COMMON_Q_USEDHI :: u32 where "COMMON_Q_USEDHI = 0x34"

definition PCI_COMMAND :: u32 where "PCI_COMMAND = 0x04"
definition PCI_COMMAND_MEMORY :: u16 where "PCI_COMMAND_MEMORY = 2"
definition PCI_COMMAND_MASTER :: u16 where "PCI_COMMAND_MASTER = 4"
definition PCI_CAPABILITYID_VENDOR :: u8 where "PCI_CAPABILITYID_VENDOR = 0x09"

section \<open>Enabling memory space and bus mastering\<close>

definition enable_memory_master :: "pci_bus \<Rightarrow> world \<Rightarrow> world" where
  "enable_memory_master B w0 =
     (let (pci_cmd, w1) = pci_ReadConfigWord B PCI_COMMAND w0 in
      if pci_cmd AND (PCI_COMMAND_MEMORY OR PCI_COMMAND_MASTER) = 0
      then pci_emit (WriteConfigWord PCI_COMMAND (pci_cmd OR PCI_COMMAND_MEMORY OR PCI_COMMAND_MASTER)) w1
      else w1)"

section \<open>Detection of the modern interface\<close>

definition clear_modern :: "world \<Rightarrow> world" where
  "clear_modern w = w\<lparr>modern_mode := False, common_cfg_base := 0, notify_cfg_base := 0, notify_off_mult := 0,
     isr_cfg_base := 0, device_cfg_base := 0\<rparr>"

text \<open>One vendor-specific capability.\<close>

definition vendor_cap :: "pci_bus \<Rightarrow> u32 \<Rightarrow> world \<Rightarrow> world" where
  "vendor_cap B off w0 =
     (let (cfg_type, w1) = pci_ReadConfigByte B (off + 3) w0;
          (bar_num, w2) = pci_ReadConfigByte B (off + 4) w1;
          (offset, w3) = pci_ReadConfigLong B (off + 8) w2;
          (bar, w4) = pci_GetResourceRange B bar_num w3 in
      if bar = NULL then w4
      else let addr = p_BaseAddress B bar + offset; w5 = os_emit (Release (RRange bar)) w4 in
        if cfg_type = 1 then w5\<lparr>common_cfg_base := addr, modern_mode := True\<rparr>
        else if cfg_type = 2
        then let (mult, w6) = pci_ReadConfigLong B (off + 16) (w5\<lparr>notify_cfg_base := addr\<rparr>) in
          w6\<lparr>notify_off_mult := mult\<rparr>
        else if cfg_type = 3 then w5\<lparr>isr_cfg_base := addr\<rparr>
        else if cfg_type = 4 then w5\<lparr>device_cfg_base := addr\<rparr>
        else w5)"

text \<open>The walk, with the guard counter.\<close>

fun walk_caps :: "pci_bus \<Rightarrow> nat \<Rightarrow> ptr \<Rightarrow> world \<Rightarrow> world" where
  "walk_caps B 0 cap w = w"
| "walk_caps B (Suc n) cap w =
     (if cap = NULL then w
      else walk_caps B n (p_NextCap B cap)
             (if p_CapType B cap \<noteq> PCI_CAPABILITYID_VENDOR then w else vendor_cap B (p_CapOffset B cap) w))"

definition mmio_probe :: "pci_bus \<Rightarrow> world \<Rightarrow> world" where
  "mmio_probe B w0 =
     (if modern_mode w0 \<and> common_cfg_base w0 \<noteq> 0
      then let base = common_cfg_base w0;
               w1 = mmio_w8 (base + COMMON_STATUS) 0x01 (mmio_w8 (base + COMMON_STATUS) 0x00 (enable_memory_master B w0));
               (probe, w2) = mmio_r8 B (base + COMMON_STATUS) w1;
               w3 = mmio_w8 (base + COMMON_STATUS) 0x00 w2
           in if probe = 0x01 then w3 else w3\<lparr>modern_mode := False\<rparr>
      else w0)"

definition DetectModernVirtIO :: "pci_bus \<Rightarrow> world \<Rightarrow> bool \<times> world" where
  "DetectModernVirtIO B w0 =
     (let w1 = clear_modern w0 in
      if pciDevice w1 = NULL then (False, w1)
      else let w2 = mmio_probe B (walk_caps B 32 (p_FirstCap B) w1) in (modern_mode w2, w2))"

definition DiscoverVirtIOSCSI :: "pci_bus \<Rightarrow> world \<Rightarrow> bool \<times> world" where
  "DiscoverVirtIOSCSI B w0 =
     (if IPCI w0 = NULL then (False, w0)
      else let d1 = p_FindDevice B (os_log w0) 0x1004;
               device = (if d1 \<noteq> NULL then d1 else p_FindDevice B (os_log w0) 0x1048) in
      if device = NULL then (False, w0)
      else let w1 = os_emit (Acquire (RDevice device)) w0;
               (_, w2) = pci_ReadConfigWord B 0x00 w1;
               (_, w3) = pci_ReadConfigWord B 0x02 w2;
               (bar5, w4) = pci_ReadConfigLong B 0x24 w3;
               w5 = (if bar5 = 0xFFFFFFFF
                     then snd (pci_ReadConfigLong B 0x24 (pci_emit (WriteConfigLong 0x24 0) w4)) else w4);
               w6 = w5\<lparr>pciDevice := device\<rparr>;
               (b0, w7) = pci_GetResourceRange B 0 w6;
               (b4, w8) = pci_GetResourceRange B 4 (w7\<lparr>bar0 := b0, bar0_physical := p_Physical B b0\<rparr>);
               (_, w9) = DetectModernVirtIO B (w8\<lparr>bar4 := b4\<rparr>)
           in (True, w9))"

section \<open>Queue setup\<close>

text \<open>
  Allocate a queue and map its rings: the queue with \<open>dma_phys\<close> and
  \<open>dma_entries\<close> set, or \<open>Inl\<close> on failure with everything released.
\<close>

definition map_queue :: "kern \<Rightarrow> u16 \<Rightarrow> u16 \<Rightarrow> world \<Rightarrow> ((unit + virtqueue) \<times> world) option" where
  "map_queue K q q_max w0 =
     (case VirtQueue_Allocate K (ucast q) (ucast q_max) w0 of
        (None, w1) \<Rightarrow> Some (Inl (), w1)
      | (Some vq, w1) \<Rightarrow>
          let (ents, w2) = os_StartDMA K (vq_desc_addr vq) (mem_size vq) True w1 in
          if ents = 0 then Some (Inl (), VirtQueue_Free (Some vq) w2)
          else let (obj, w3) = os_AllocDMAEntries K ents w2 in
          if obj = NULL
          then Some (Inl (), VirtQueue_Free (Some vq) (os_emit (EndDMA (vq_desc_addr vq) (mem_size vq) True True) w3))
          else let w4 = os_GetDMAList K (vq_desc_addr vq) (mem_size vq) True obj w3 in
            do {
              e \<leftarrow> rd (dma_objs w4 obj) 0;
              Some (Inr (vq\<lparr>dma_phys := PhysicalAddress e, dma_entries := ents\<rparr>), os_emit (FreeDMAEntries obj) w4)
            })"

definition set_vq :: "nat \<Rightarrow> virtqueue \<Rightarrow> world \<Rightarrow> world" where
  "set_vq i vq w = w\<lparr>vqs := (vqs w)[i := Some vq]\<rparr>"

definition setup_queue_legacy ::
    "kern \<Rightarrow> pci_bus \<Rightarrow> u32 \<Rightarrow> bool \<Rightarrow> u16 \<Rightarrow> world \<Rightarrow> (bool \<times> world) option" where
  "setup_queue_legacy K B iobase event_idx q w0 =
     (let (q_max, w1) = pci_InWord B (iobase + VIRTIO_PCI_QUEUE_NUM) (pci_emit (OutWord (iobase + VIRTIO_PCI_QUEUE_SEL) q) w0) in
      if q_max = 0 then Some (True, w1)
      else do {
        (r, w2) \<leftarrow> map_queue K q q_max w1;
        case r of
          Inl _ \<Rightarrow> Some (False, w2)
        | Inr vq \<Rightarrow>
            Some (True,
              set_vq (unat q) (vq\<lparr>use_event_idx := event_idx, last_kick_avail_idx := 0xFFFF, use_indirect := False\<rparr>)
                (pci_emit (OutLong (iobase + VIRTIO_PCI_QUEUE_PFN) (dma_phys vq div 4096)) w2))
      })"

fun setup_queues :: "(u16 \<Rightarrow> world \<Rightarrow> (bool \<times> world) option) \<Rightarrow> u16 list \<Rightarrow> world \<Rightarrow> (bool \<times> world) option" where
  "setup_queues f [] w = Some (True, w)"
| "setup_queues f (q # qs) w =
     do { (ok, w1) \<leftarrow> f q w; if ok then setup_queues f qs w1 else Some (False, w1) }"

definition legacy_features :: "u32 \<Rightarrow> u32" where
  "legacy_features host = host AND push_bit 29 1"

definition InitVirtIOSCSI_Legacy :: "kern \<Rightarrow> pci_bus \<Rightarrow> world \<Rightarrow> (bool \<times> world) option" where
  "InitVirtIOSCSI_Legacy K B w0 =
     (let iobase = bar0_physical w0;
          w1 = pci_emit (OutByte (iobase + VIRTIO_PCI_STATUS) 0x00) w0;
          (_, w2) = pci_InByte B (iobase + VIRTIO_PCI_ISR) w1;
          w3 = pci_emit (OutByte (iobase + VIRTIO_PCI_STATUS) VIRTIO_STATUS_ACKNOWLEDGE) w2;
          w4 = pci_emit (OutByte (iobase + VIRTIO_PCI_STATUS) (VIRTIO_STATUS_ACKNOWLEDGE OR VIRTIO_STATUS_DRIVER)) w3;
          (host, w5) = pci_InLong B (iobase + VIRTIO_PCI_HOST_FEATURES) w4;
          guest = legacy_features host;
          w6 = pci_emit (OutLong (iobase + VIRTIO_PCI_GUEST_FEATURES) guest) w5 in
      do {
        (ok, w7) \<leftarrow> setup_queues (setup_queue_legacy K B iobase (bit guest 29)) [0, 1, 2] w6;
        if \<not> ok then Some (False, w7)
        else let w8 = pci_emit (OutByte (iobase + VIRTIO_PCI_STATUS)
                        (VIRTIO_STATUS_ACKNOWLEDGE OR VIRTIO_STATUS_DRIVER OR VIRTIO_STATUS_DRIVER_OK)) w7;
                 (_, w9) = pci_InByte B (iobase + VIRTIO_PCI_STATUS) w8
             in Some (True, w9)
      })"

section \<open>The modern interface\<close>

text \<open>The poll after the reset: at most 1000 reads.\<close>

fun poll_reset :: "pci_bus \<Rightarrow> u32 \<Rightarrow> nat \<Rightarrow> world \<Rightarrow> world" where
  "poll_reset B base 0 w = w"
| "poll_reset B base (Suc n) w =
     (let (rst, w1) = mmio_r8 B (base + COMMON_STATUS) w in if rst \<noteq> 0 then poll_reset B base n w1 else w1)"

definition modern_features_lo :: "u32 \<Rightarrow> u32" where
  "modern_features_lo lo = lo AND (push_bit 28 1 OR push_bit 29 1)"

definition modern_features_hi :: "u32 \<Rightarrow> u32" where
  "modern_features_hi hi = hi AND 1"

definition set_busmaster :: "pci_bus \<Rightarrow> world \<Rightarrow> world" where
  "set_busmaster B w =
     (if p_GetCapabilities B (os_log w) AND p_CAP_BUSMASTER B = 0
      then pci_emit (SetCapabilities (p_CAP_BUSMASTER B OR p_CAP_SETCLR B)) w else w)"

text \<open>Steps 1 to 5: reset, acknowledge, features; the result are the two negotiated bits.\<close>

definition modern_negotiate :: "pci_bus \<Rightarrow> u32 \<Rightarrow> world \<Rightarrow> (bool \<times> bool) \<times> world" where
  "modern_negotiate B base w0 =
     (let w1 = poll_reset B base 1000 (mmio_w8 (base + COMMON_STATUS) 0x00 (set_busmaster B (enable_memory_master B w0)));
          w2 = mmio_w8 (base + COMMON_STATUS) VIRTIO_STATUS_ACKNOWLEDGE w1;
          w3 = mmio_w8 (base + COMMON_STATUS) (VIRTIO_STATUS_ACKNOWLEDGE OR VIRTIO_STATUS_DRIVER) w2;
          (lo, w4) = mmio_r32 B (base + COMMON_DF) (mmio_w32 (base + COMMON_DFSELECT) 0 w3);
          (hi, w5) = mmio_r32 B (base + COMMON_DF) (mmio_w32 (base + COMMON_DFSELECT) 1 w4);
          dlo = modern_features_lo lo; dhi = modern_features_hi hi;
          w6 = mmio_w32 (base + COMMON_DFG) dlo (mmio_w32 (base + COMMON_DFSELECTG) 0 w5);
          w7 = mmio_w32 (base + COMMON_DFG) dhi (mmio_w32 (base + COMMON_DFSELECTG) 1 w6);
          w8 = mmio_w8 (base + COMMON_STATUS)
                 (VIRTIO_STATUS_ACKNOWLEDGE OR VIRTIO_STATUS_DRIVER OR VIRTIO_STATUS_FEATURES_OK) w7
      in ((bit dlo 29, bit dlo 28), w8))"

definition setup_queue_modern ::
    "kern \<Rightarrow> pci_bus \<Rightarrow> u32 \<Rightarrow> bool \<Rightarrow> bool \<Rightarrow> u16 \<Rightarrow> world \<Rightarrow> (bool \<times> world) option" where
  "setup_queue_modern K B base event_idx indirect q w0 =
     (let (q_max, w1) = mmio_r16 B (base + COMMON_Q_SIZE) (mmio_w16 (base + COMMON_Q_SELECT) q w0) in
      if q_max = 0 then Some (True, w1)
      else do {
        (r, w2) \<leftarrow> map_queue K q q_max w1;
        case r of
          Inl _ \<Rightarrow> Some (False, w2)
        | Inr vq \<Rightarrow>
            let desc_phys = dma_phys vq;
                desc_size = vring_desc_size (ucast q_max); avail_size = vring_avail_size (ucast q_max);
                used_offset = (desc_size + avail_size + 4095) AND NOT 4095;
                aphys = desc_phys + desc_size; uphys = desc_phys + used_offset;
                w3 = mmio_w32 (base + COMMON_Q_DESCHI) 0 (mmio_w32 (base + COMMON_Q_DESCLO) desc_phys w2);
                w4 = mmio_w32 (base + COMMON_Q_AVAILHI) 0 (mmio_w32 (base + COMMON_Q_AVAILLO) aphys w3);
                w5 = mmio_w32 (base + COMMON_Q_USEDHI) 0 (mmio_w32 (base + COMMON_Q_USEDLO) uphys w4);
                (q_noff, w6) = mmio_r16 B (base + COMMON_Q_NOFF) (mmio_w16 (base + COMMON_Q_ENABLE) 1 w5);
                mult = notify_off_mult w6
            in Some (True, set_vq (unat q)
                 (vq\<lparr>avail_phys := aphys, used_phys := uphys,
                    notify_addr := notify_cfg_base w6 + (if mult \<noteq> 0 then ucast q_noff * mult else 0),
                    vq_modern := True, use_event_idx := event_idx, last_kick_avail_idx := 0xFFFF,
                    use_indirect := (if q = 1 then False else indirect)\<rparr>) w6)
      })"

definition InitVirtIOSCSI_Modern :: "kern \<Rightarrow> pci_bus \<Rightarrow> world \<Rightarrow> (bool \<times> world) option" where
  "InitVirtIOSCSI_Modern K B w0 =
     (let base = common_cfg_base w0;
          ((event_idx, indirect), w1) = modern_negotiate B base w0;
          (status_check, w2) = mmio_r8 B (base + COMMON_STATUS) w1 in
      if status_check AND VIRTIO_STATUS_FEATURES_OK = 0
      then Some (False, mmio_w8 (base + COMMON_STATUS) VIRTIO_STATUS_FAILED w2)
      else do {
        (ok, w3) \<leftarrow> setup_queues (setup_queue_modern K B base event_idx indirect) [0, 1, 2] w2;
        if \<not> ok then Some (False, w3)
        else let w4 = mmio_w8 (base + COMMON_STATUS) (VIRTIO_STATUS_ACKNOWLEDGE OR VIRTIO_STATUS_DRIVER
                        OR VIRTIO_STATUS_FEATURES_OK OR VIRTIO_STATUS_DRIVER_OK) w3;
                 (_, w5) = mmio_r8 B (base + COMMON_STATUS) w4
             in Some (True, w5)
      })"

definition InitVirtIOSCSI :: "kern \<Rightarrow> pci_bus \<Rightarrow> world \<Rightarrow> (bool \<times> world) option" where
  "InitVirtIOSCSI K B w =
     (if pciDevice w = NULL then Some (False, w)
      else if modern_mode w then InitVirtIOSCSI_Modern K B w
      else if bar0 w = NULL then Some (False, w)
      else InitVirtIOSCSI_Legacy K B w)"

section \<open>Cleanup\<close>

fun free_queues :: "nat list \<Rightarrow> world \<Rightarrow> world" where
  "free_queues [] w = w"
| "free_queues (i # is) w =
     free_queues is
       (case vqs w ! i of
          None \<Rightarrow> w
        | Some vq \<Rightarrow> (VirtQueue_Free (Some vq) w)\<lparr>vqs := (vqs w)[i := None]\<rparr>)"

definition CleanupVirtIOSCSI :: "world \<Rightarrow> world" where
  "CleanupVirtIOSCSI w0 =
     free_queues [0, 1, 2]
       (if pciDevice w0 = NULL then w0
        else if modern_mode w0 \<and> common_cfg_base w0 \<noteq> 0
        then mmio_w8 (common_cfg_base w0 + COMMON_STATUS) 0x00 w0
        else if bar0 w0 \<noteq> NULL
        then pci_emit (OutByte (bar0_physical w0 + VIRTIO_PCI_STATUS) 0x00) w0
        else w0)"

section \<open>The interrupt\<close>

text \<open>Signal the waiting tasks of the units in the mask, in order.\<close>

fun signal_units :: "u8 \<Rightarrow> nat list \<Rightarrow> world \<Rightarrow> world" where
  "signal_units m [] w = w"
| "signal_units m (i # is) w =
     signal_units m is
       (if \<not> bit m i then w
        else let p = units w ! i in
          if p \<noteq> NULL \<and> io_wait_task (unit_mem w p) \<noteq> NULL
          then os_emit (Signal (io_wait_task (unit_mem w p)) (io_signal_mask (unit_mem w p))) w
          else w)"

definition VirtIOSCSI_InterruptHandler :: "pci_bus \<Rightarrow> world \<Rightarrow> (bool \<times> world) option" where
  "VirtIOSCSI_InterruptHandler B w0 =
     (if \<not> modern_mode w0 \<and> bar0 w0 = NULL then None
      else let (isr, w1) = (if modern_mode w0 then mmio_r8 B (isr_cfg_base w0) w0
                            else pci_InByte B (bar0_physical w0 + VIRTIO_PCI_ISR) w0) in
      if isr = 0 then Some (False, w1)
      else Some (True, if isr AND 1 \<noteq> 0 then signal_units (active_units_mask w1) [0..<MAX_UNITS] w1 else w1))"

definition InstallVirtIOInterrupt :: "pci_bus \<Rightarrow> world \<Rightarrow> bool \<times> world" where
  "InstallVirtIOInterrupt B w0 =
     (let n = p_MapInterrupt B (os_log w0); w1 = (pci_emit (MapInterrupt n) w0)\<lparr>irq_number := n\<rparr> in
      if n = 0 then (False, w1)
      else let ok = p_AddIntServer B (os_log w1) n; w2 = pci_emit (AddIntServer n ok) w1 in
      if \<not> ok then (False, w2) else (True, w2\<lparr>irq_installed := True\<rparr>))"

definition RemoveVirtIOInterrupt :: "world \<Rightarrow> world" where
  "RemoveVirtIOInterrupt w =
     (if irq_installed w then (pci_emit (RemIntServer (irq_number w)) w)\<lparr>irq_installed := False\<rparr> else w)"

end
