(* ===== verification/Device_Entry.thy ===== *)
theory Device_Entry
  imports Controller
begin

text \<open>
  The entry points of the device: \<^verbatim>\<open>src/Init.c\<close>,
  \<^verbatim>\<open>src/unit_discovery.c\<close>, \<^verbatim>\<open>src/Open.c\<close>,
  \<^verbatim>\<open>src/Close.c\<close>, \<^verbatim>\<open>src/Expunge.c\<close>, \<^verbatim>\<open>src/BeginIO.c\<close> and
  \<^verbatim>\<open>src/device.c\<close>, with the command names of \<^verbatim>\<open>src/cmd_names.c\<close>.
\<close>

section \<open>Names of commands\<close>

definition GetCommandName :: "command \<Rightarrow> string" where
  "GetCommandName c =
     (case c of
        CMD_READ \<Rightarrow> ''CMD_READ'' | CMD_WRITE \<Rightarrow> ''CMD_WRITE'' | CMD_UPDATE \<Rightarrow> ''CMD_UPDATE''
      | CMD_CLEAR \<Rightarrow> ''CMD_CLEAR'' | CMD_STOP \<Rightarrow> ''CMD_STOP'' | CMD_START \<Rightarrow> ''CMD_START''
      | CMD_FLUSH \<Rightarrow> ''CMD_FLUSH'' | TD_MOTOR \<Rightarrow> ''TD_MOTOR'' | TD_SEEK \<Rightarrow> ''TD_SEEK''
      | TD_FORMAT \<Rightarrow> ''TD_FORMAT'' | TD_REMOVE \<Rightarrow> ''TD_REMOVE'' | TD_CHANGENUM \<Rightarrow> ''TD_CHANGENUM''
      | TD_CHANGESTATE \<Rightarrow> ''TD_CHANGESTATE'' | TD_PROTSTATUS \<Rightarrow> ''TD_PROTSTATUS''
      | TD_GETDRIVETYPE \<Rightarrow> ''TD_GETDRIVETYPE'' | TD_GETNUMTRACKS \<Rightarrow> ''TD_GETNUMTRACKS''
      | TD_ADDCHANGEINT \<Rightarrow> ''TD_ADDCHANGEINT'' | TD_REMCHANGEINT \<Rightarrow> ''TD_REMCHANGEINT''
      | TD_GETGEOMETRY \<Rightarrow> ''TD_GETGEOMETRY'' | TD_EJECT \<Rightarrow> ''TD_EJECT'' | HD_SCSICMD \<Rightarrow> ''HD_SCSICMD''
      | TD_READ64 \<Rightarrow> ''TD_READ64'' | TD_WRITE64 \<Rightarrow> ''TD_WRITE64'' | TD_SEEK64 \<Rightarrow> ''TD_SEEK64''
      | TD_FORMAT64 \<Rightarrow> ''TD_FORMAT64'' | NSCMD_DEVICEQUERY \<Rightarrow> ''NSCMD_DEVICEQUERY''
      | NSCMD_TD_READ64 \<Rightarrow> ''NSCMD_TD_READ64'' | NSCMD_TD_WRITE64 \<Rightarrow> ''NSCMD_TD_WRITE64''
      | NSCMD_TD_SEEK64 \<Rightarrow> ''NSCMD_TD_SEEK64'' | NSCMD_TD_FORMAT64 \<Rightarrow> ''NSCMD_TD_FORMAT64''
      | NSCMD_TD_GETGEOMETRY64 \<Rightarrow> ''NSCMD_TD_GETGEOMETRY64''
      | NSCMD_TD_CHANGEUNIT \<Rightarrow> ''NSCMD_TD_CHANGEUNIT''
      | NSCMD_TD_ADDSTATCALLBACK \<Rightarrow> ''NSCMD_TD_ADDSTATCALLBACK''
      | NSCMD_TD_REMSTATCALLBACK \<Rightarrow> ''NSCMD_TD_REMSTATCALLBACK''
      | NSCMD_ETD_READ64 \<Rightarrow> ''NSCMD_ETD_READ64'' | NSCMD_ETD_WRITE64 \<Rightarrow> ''NSCMD_ETD_WRITE64''
      | NSCMD_ETD_SEEK64 \<Rightarrow> ''NSCMD_ETD_SEEK64'' | NSCMD_ETD_FORMAT64 \<Rightarrow> ''NSCMD_ETD_FORMAT64''
      | ETD_READ \<Rightarrow> ''ETD_READ'' | ETD_WRITE \<Rightarrow> ''ETD_WRITE'' | ETD_MOTOR \<Rightarrow> ''ETD_MOTOR''
      | ETD_SEEK \<Rightarrow> ''ETD_SEEK'' | ETD_FORMAT \<Rightarrow> ''ETD_FORMAT'' | ETD_UPDATE \<Rightarrow> ''ETD_UPDATE''
      | ETD_CLEAR \<Rightarrow> ''ETD_CLEAR''
      | _ \<Rightarrow> ''UNKNOWN'')"

section \<open>Beginning a request\<close>

text \<open>Reply, unless the caller polls (\<open>IOF_QUICK\<close>).\<close>

definition quick_reply :: "ptr \<Rightarrow> world \<Rightarrow> world" where
  "quick_reply ior w = (if io_Quick (ioreqs w ior) then w else os_emit (ReplyMsg ior) w)"

definition finish_with :: "ptr \<Rightarrow> io_err \<Rightarrow> world \<Rightarrow> world" where
  "finish_with ior e w = quick_reply ior (upd_ioreq ior (\<lambda>r. r\<lparr>io_Error := e\<rparr>) w)"

definition finish_actual :: "ptr \<Rightarrow> u32 \<Rightarrow> world \<Rightarrow> world" where
  "finish_actual ior n w = quick_reply ior (upd_ioreq ior (\<lambda>r. r\<lparr>io_Actual := n, io_Error := NO_ERROR\<rparr>) w)"

text \<open>Abort the request a unit already holds, if any.\<close>

definition abort_held :: "ptr \<Rightarrow> world \<Rightarrow> world" where
  "abort_held p w =
     (if p \<noteq> NULL then os_emit (ReplyMsg p) (upd_ioreq p (\<lambda>r. r\<lparr>io_Error := IOERR_ABORTED\<rparr>) w) else w)"

definition begin_addchangeint :: "ptr \<Rightarrow> ptr \<Rightarrow> world \<Rightarrow> world" where
  "begin_addchangeint up ior w =
     (if up = NULL then finish_with ior IOERR_OPENFAIL w
      else upd_ioreq ior (\<lambda>r. r\<lparr>io_Quick := False\<rparr>)
             (upd_unit up (\<lambda>u. u\<lparr>changeint_req := ior\<rparr>) (abort_held (changeint_req (unit_mem w up)) w)))"

definition begin_remove :: "ptr \<Rightarrow> ptr \<Rightarrow> world \<Rightarrow> world" where
  "begin_remove up ior w =
     (if up = NULL then finish_with ior IOERR_OPENFAIL w
      else upd_ioreq ior (\<lambda>r. r\<lparr>io_Quick := False\<rparr>)
             (upd_unit up (\<lambda>u. u\<lparr>remove_req := ior\<rparr>) (abort_held (remove_req (unit_mem w up)) w)))"

definition begin_remchangeint :: "ptr \<Rightarrow> ptr \<Rightarrow> world \<Rightarrow> world" where
  "begin_remchangeint up ior w =
     (let c = changeint_req (unit_mem w up) in
      finish_with ior NO_ERROR
        (if up \<noteq> NULL \<and> c \<noteq> NULL
         then upd_unit up (\<lambda>u. u\<lparr>changeint_req := NULL\<rparr>)
                (os_emit (ReplyMsg c) (upd_ioreq c (\<lambda>r. r\<lparr>io_Error := NO_ERROR\<rparr>) w))
         else w))"

definition begin_queued :: "ptr \<Rightarrow> ptr \<Rightarrow> world \<Rightarrow> world" where
  "begin_queued up ior w =
     (if up = NULL \<or> io_port (unit_mem w up) = NULL then finish_with ior IOERR_OPENFAIL w
      else let port = io_port (unit_mem w up); w1 = upd_ioreq ior (\<lambda>r. r\<lparr>io_Quick := False\<rparr>) w in
        os_emit (PutMsg port ior) (w1\<lparr>port_msgs := (port_msgs w1)(port := port_msgs w1 port @ [ior])\<rparr>))"

definition DRIVE3_5 :: u32 where "DRIVE3_5 = 1"

definition motor_cmds :: "command list" where "motor_cmds = [CMD_STOP, CMD_START, TD_MOTOR]"
definition inline_noops :: "command list" where
  "inline_noops = [TD_SEEK, TD_EJECT, TD_SEEK64, ETD_MOTOR, ETD_SEEK, CMD_CLEAR, ETD_CLEAR]"
definition queued_cmds :: "command list" where
  "queued_cmds =
     [CMD_READ, ETD_READ, CMD_WRITE, TD_FORMAT, ETD_FORMAT, ETD_WRITE, CMD_UPDATE, CMD_FLUSH, ETD_UPDATE,
      HD_SCSICMD, TD_GETGEOMETRY, TD_GETNUMTRACKS, TD_READ64, TD_WRITE64, TD_FORMAT64,
      NSCMD_TD_READ64, NSCMD_TD_WRITE64, NSCMD_TD_SEEK64, NSCMD_TD_FORMAT64, NSCMD_TD_GETGEOMETRY64,
      NSCMD_TD_CHANGEUNIT, NSCMD_TD_ADDSTATCALLBACK, NSCMD_TD_REMSTATCALLBACK,
      NSCMD_ETD_READ64, NSCMD_ETD_WRITE64, NSCMD_ETD_SEEK64, NSCMD_ETD_FORMAT64]"

definition BeginIO :: "kern \<Rightarrow> (world \<Rightarrow> world) \<Rightarrow> ptr \<Rightarrow> world \<Rightarrow> world option" where
  "BeginIO K dev ior w0 =
     (let w = upd_ioreq ior (\<lambda>r. r\<lparr>io_Error := NO_ERROR\<rparr>) w0;
          up = io_Unit (ioreqs w ior); u = unit_mem w up; c = io_Command (ioreqs w ior) in
      if c = TD_ADDCHANGEINT then Some (begin_addchangeint up ior w)
      else if c = TD_REMOVE then Some (begin_remove up ior w)
      else if c = TD_REMCHANGEINT then Some (begin_remchangeint up ior w)
      else if c \<in> set motor_cmds then Some (finish_actual ior 1 w)
      else if c \<in> set inline_noops then Some (finish_with ior NO_ERROR w)
      else if c = TD_CHANGENUM then Some (finish_actual ior (if up \<noteq> NULL then change_count u else 0) w)
      else if c = TD_CHANGESTATE
      then Some (finish_actual ior (if up \<noteq> NULL \<and> media_present u then 0 else 1) w)
      else if c = TD_PROTSTATUS then Some (finish_actual ior 0 w)
      else if c = TD_GETDRIVETYPE then Some (finish_actual ior DRIVE3_5 w)
      else if c = NSCMD_DEVICEQUERY then map_option (quick_reply ior) (Parse_NS_Command K dev ior w)
      else if c \<in> set queued_cmds then Some (begin_queued up ior w)
      else Some (finish_with ior IOERR_NOCMD w))"

section \<open>Aborting a request\<close>

definition AbortIO :: "ptr \<Rightarrow> world \<Rightarrow> io_err \<times> world" where
  "AbortIO ior w0 =
     (let up = io_Unit (ioreqs w0 ior); u = unit_mem w0 up; port = io_port u in
      if up = NULL \<or> port = NULL \<or> port_mutex u = NULL then (IOERR_NOCMD, w0)
      else let w1 = os_emit MutexObtain w0;
               found = (ior \<in> set (port_msgs w1 port));
               w2 = (if found
                     then os_emit (RemoveNode ior)
                            (w1\<lparr>port_msgs := (port_msgs w1)(port := remove1 ior (port_msgs w1 port))\<rparr>)
                     else w1);
               w3 = os_emit MutexRelease w2 in
      if found
      then (NO_ERROR, os_emit (ReplyMsg ior) (upd_ioreq ior (\<lambda>r. r\<lparr>io_Error := IOERR_ABORTED\<rparr>) w3))
      else (IOERR_NOCMD, w3))"

section \<open>Opening and closing\<close>

definition NO_PTR :: ptr where "NO_PTR = -1"

text \<open>The label \<^verbatim>\<open>bailout\<close> with an error.\<close>

definition open_fail :: "ptr \<Rightarrow> world \<Rightarrow> world" where
  "open_fail ior w =
     (let w1 = upd_ioreq ior (\<lambda>r. r\<lparr>io_Error := IOERR_OPENFAIL, io_Unit := NO_PTR, io_Device := NO_PTR\<rparr>) w
      in w1\<lparr>lib_OpenCnt := lib_OpenCnt w1 - 1\<rparr>)"

definition manager_Open :: "kern \<Rightarrow> (world \<Rightarrow> world) \<Rightarrow> ptr \<Rightarrow> u32 \<Rightarrow> world \<Rightarrow> (bool \<times> world) option" where
  "manager_Open K dev ior unitNum w0 =
     (let w1 = w0\<lparr>lib_OpenCnt := lib_OpenCnt w0 + 1\<rparr> in
      if of_nat MAX_UNITS \<le> unitNum then Some (False, open_fail ior w1)
      else do {
        up \<leftarrow> rd (units w1) (unat unitNum);
        if up = NULL then Some (False, open_fail ior w1)
        else do {
          (ok, w2) \<leftarrow> (if open_count (unit_mem w1 up) = 0 then UnitTask_Start K dev up w1 else Some (True, w1));
          if \<not> ok then Some (False, open_fail ior w2)
          else Some (True,
            (upd_ioreq ior (\<lambda>r. r\<lparr>io_Unit := up, io_Error := NO_ERROR\<rparr>)
              (upd_unit up (\<lambda>u. u\<lparr>open_count := open_count u + 1, unit_OpenCnt := unit_OpenCnt u + 1\<rparr>) w2))
              \<lparr>lib_DelExp := False\<rparr>)
        }
      })"

text \<open>Shutting down the units that are left, and freeing them.\<close>

fun expunge_units :: "(world \<Rightarrow> world) \<Rightarrow> kern \<Rightarrow> nat list \<Rightarrow> world \<Rightarrow> world option" where
  "expunge_units dev K [] w = Some w"
| "expunge_units dev K (i # is) w =
     (let up = units w ! i in
      if up = NULL then expunge_units dev K is w
      else do {
        w1 \<leftarrow> UnitTask_Shutdown K dev up w;
        let w2 = os_emit (FreeVec up) (Reply_Held_Async_Reqs up IOERR_ABORTED w1);
        expunge_units dev K is (w2\<lparr>units := (units w2)[i := NULL]\<rparr>)
      })"

definition release_if :: "ptr \<Rightarrow> resource \<Rightarrow> world \<Rightarrow> world" where
  "release_if p r w = (if p \<noteq> NULL then os_emit (Release r) w else w)"

definition expunge_pci :: "world \<Rightarrow> world" where
  "expunge_pci w =
     (if pciDevice w \<noteq> NULL
      then (os_emit (Release (RDevice (pciDevice w)))
              (release_if (bar4 w) (RRange (bar4 w)) (release_if (bar0 w) (RRange (bar0 w)) w)))\<lparr>pciDevice := NULL\<rparr>
      else w)"

definition expunge_libs :: "world \<Rightarrow> world" where
  "expunge_libs w =
     os_emit DeleteLibrary
       (release_if (ExpansionBase w) (RLib (ExpansionBase w))
         (release_if (IPCI w) (RIface (IPCI w))
           (release_if (UtilityBase w) (RLib (UtilityBase w))
             (release_if (IUtility w) (RIface (IUtility w)) w))))"

definition manager_Expunge :: "kern \<Rightarrow> (world \<Rightarrow> world) \<Rightarrow> ptr \<Rightarrow> world \<Rightarrow> (ptr \<times> world) option" where
  "manager_Expunge K dev libBase w0 =
     (if lib_OpenCnt w0 = 0
      then do {
        w1 \<leftarrow> expunge_units dev K [0..<MAX_UNITS]
                (CleanupVirtIOSCSI (RemoveVirtIOInterrupt (os_emit (RemoveNode libBase) w0)));
        Some (dev_SegList w0, expunge_libs (expunge_pci w1))
      }
      else Some (NULL, w0\<lparr>lib_DelExp := True\<rparr>))"

definition close_unit :: "kern \<Rightarrow> (world \<Rightarrow> world) \<Rightarrow> ptr \<Rightarrow> world \<Rightarrow> world option" where
  "close_unit K dev up w =
     (if up \<noteq> NULL \<and> up \<noteq> NO_PTR \<and> open_count (unit_mem w up) > 0
      then let w1 = upd_unit up (\<lambda>u. u\<lparr>open_count := open_count u - 1,
                      unit_OpenCnt := (if unit_OpenCnt u > 0 then unit_OpenCnt u - 1 else unit_OpenCnt u)\<rparr>) w
           in if open_count (unit_mem w1 up) = 0 then UnitTask_Shutdown K dev up w1 else Some w1
      else Some w)"

definition manager_Close :: "kern \<Rightarrow> (world \<Rightarrow> world) \<Rightarrow> ptr \<Rightarrow> ptr \<Rightarrow> world \<Rightarrow> (ptr \<times> world) option" where
  "manager_Close K dev libBase ior w0 =
     do {
       w1 \<leftarrow> close_unit K dev (io_Unit (ioreqs w0 ior)) w0;
       let w2 = upd_ioreq ior (\<lambda>r. r\<lparr>io_Unit := NO_PTR, io_Device := NO_PTR\<rparr>) w1;
       let w3 = w2\<lparr>lib_OpenCnt := lib_OpenCnt w2 - 1\<rparr>;
       if lib_OpenCnt w3 = 0 \<and> lib_DelExp w3 then manager_Expunge K dev libBase w3 else Some (NULL, w3)
     }"

section \<open>Discovering units\<close>

definition free_slot_rec :: inflight_slot where
  "free_slot_rec = \<lparr>if_ioreq = NULL, if_cookie = NULL, if_dma_addr = NULL, if_dma_size = 0, if_dma_flags = False,
     if_dma_list = NULL, if_dma_num_entries = 0, if_buf_slot = 0, if_using_bounce = False, if_is_write = False\<rparr>"

definition zero_unit :: devunit where
  "zero_unit =
     \<lparr>unit_MsgPort_ready = False, unit_active = False, unit_OpenCnt = 0, unit_num = 0, target_id = 0, lun_id = 0,
      open_count = 0, total_blocks = 0, block_size = 0, geometry_valid = False, rdb_phys_cyls = 0,
      rdb_phys_sectors = 0, rdb_phys_heads = 0, rdb_geometry_valid = False, changeint_req = NULL,
      remove_req = NULL, change_count = 0, media_present = False, unit_task = NULL, io_port = NULL,
      io_port_mask = 0, task_shutdown = False, isr_bit = 0, shutdown_exit_task = NULL, shutdown_exit_mask = 0,
      port_mutex = NULL, io_wait_task = NULL, io_signal_mask = 0, io_cookie = NULL, req_buf = NULL,
      resp_buf = NULL, dma_req_list = NULL, dma_req_entries = 0, dma_resp_list = NULL, dma_resp_entries = 0,
      doio_pending_cookie = NULL, doio_pending_written = 0, free_head = 0,
      inflight_next = replicate MAX_INFLIGHT 0, inflight_count = 0, inflight = replicate MAX_INFLIGHT free_slot_rec,
      req_bufs = replicate MAX_INFLIGHT NULL, resp_bufs = replicate MAX_INFLIGHT NULL,
      dma_req_lists = replicate MAX_INFLIGHT NULL, dma_req_entries_arr = replicate MAX_INFLIGHT 0,
      dma_resp_lists = replicate MAX_INFLIGHT NULL, dma_resp_entries_arr = replicate MAX_INFLIGHT 0,
      bounce_bufs = replicate MAX_INFLIGHT NULL, bounce_dma_phys = replicate MAX_INFLIGHT 0,
      bounce_dma_entries = replicate MAX_INFLIGHT 0, data_dma_pool = replicate MAX_INFLIGHT NULL\<rparr>"

definition init_dev_unit :: "devunit \<Rightarrow> devunit" where
  "init_dev_unit u = u\<lparr>unit_MsgPort_ready := True, unit_active := True, unit_OpenCnt := 0\<rparr>"

definition new_unit :: "u32 \<Rightarrow> u32 \<Rightarrow> u32 \<Rightarrow> devunit" where
  "new_unit n t l = init_dev_unit (zero_unit\<lparr>unit_num := n, target_id := t, lun_id := l, media_present := True\<rparr>)"

text \<open>What the INQUIRY data say: a present disk or CD-ROM.\<close>

definition accept_inquiry :: "u8 list \<Rightarrow> bool" where
  "accept_inquiry d \<longleftrightarrow> drop_bit 5 (d ! 0) \<noteq> 3 \<and> (d ! 0 AND 0x1F = 0x00 \<or> d ! 0 AND 0x1F = 0x05)"

definition inquiry_cdb :: "u8 list" where "inquiry_cdb = [0x12, 0, 0, 0, 36, 0]"

definition discover_one ::
    "kern \<Rightarrow> (world \<Rightarrow> world) \<Rightarrow> ptr \<Rightarrow> u32 \<Rightarrow> u32 \<Rightarrow> nat \<Rightarrow> world \<Rightarrow> (nat \<times> world) option" where
  "discover_one K dev inqData t l found w0 =
     (if MAX_UNITS \<le> found then Some (found, w0)
      else do {
        ((rc, scsi_status, _), w1) \<leftarrow> VirtIOSCSI_DoIO K dev NULL t l inquiry_cdb inqData 36 False w0;
        if rc = NO_ERROR \<and> scsi_status = 0 \<and> accept_inquiry (mem_bytes (w_mem w1) inqData 36)
        then let (up, w2) = os_AllocVecTags K (k_sizeof_unit K) w1 in
          if up = NULL then Some (found, w2)
          else Some (found + 1,
            w2\<lparr>unit_mem := (unit_mem w2)(up := new_unit (of_nat found) t l), units := (units w2)[found := up]\<rparr>)
        else Some (found, w1)
      })"

fun discover_loop ::
    "kern \<Rightarrow> (world \<Rightarrow> world) \<Rightarrow> ptr \<Rightarrow> (u32 \<times> u32) list \<Rightarrow> nat \<Rightarrow> world \<Rightarrow> (nat \<times> world) option" where
  "discover_loop K dev inqData [] found w = Some (found, w)"
| "discover_loop K dev inqData ((t, l) # tls) found w =
     do { (n, w1) \<leftarrow> discover_one K dev inqData t l found w; discover_loop K dev inqData tls n w1 }"

definition scan_order :: "(u32 \<times> u32) list" where
  "scan_order = concat (map (\<lambda>t. map (\<lambda>l. (of_nat t, of_nat l)) [0..<8]) [0..<8])"

definition DiscoverUnits :: "kern \<Rightarrow> (world \<Rightarrow> world) \<Rightarrow> world \<Rightarrow> (nat \<times> world) option" where
  "DiscoverUnits K dev w0 =
     (let (inqData, w1) = os_AllocVecTags K 36 w0 in
      if inqData = NULL then Some (0, w1)
      else do {
        (n, w2) \<leftarrow> discover_loop K dev inqData scan_order 0 (upd_mem inqData (replicate 36 0) w1);
        Some (n, os_emit (FreeVec inqData) w2)
      })"

section \<open>Initialisation\<close>

definition release_pci :: "world \<Rightarrow> world" where
  "release_pci w =
     release_if (pciDevice w) (RDevice (pciDevice w))
       (release_if (bar4 w) (RRange (bar4 w)) (release_if (bar0 w) (RRange (bar0 w)) w))"

definition drop_pci_libs :: "world \<Rightarrow> world" where
  "drop_pci_libs w = os_emit (Release (RLib (ExpansionBase w))) (os_emit (Release (RIface (IPCI w))) w)"

definition os_OpenLibrary :: "pci_bus \<Rightarrow> world \<Rightarrow> ptr \<times> world" where
  "os_OpenLibrary B w =
     (let p = p_OpenLibrary B (os_log w) in (p, if p \<noteq> NULL then os_emit (Acquire (RLib p)) w else w))"

definition os_GetInterface :: "pci_bus \<Rightarrow> world \<Rightarrow> ptr \<times> world" where
  "os_GetInterface B w =
     (let p = p_GetInterface B (os_log w) in (p, if p \<noteq> NULL then os_emit (Acquire (RIface p)) w else w))"

text \<open>Opening \<^verbatim>\<open>utility.library\<close> and everything after it; the PCI device is held.\<close>

definition init_device ::
    "kern \<Rightarrow> pci_bus \<Rightarrow> (world \<Rightarrow> world) \<Rightarrow> world \<Rightarrow> (bool \<times> world) option" where
  "init_device K B dev w0 =
     (let (ub, w1) = os_OpenLibrary B w0; w1 = w1\<lparr>UtilityBase := ub\<rparr> in
      if ub = NULL then Some (False, drop_pci_libs (release_pci w1))
      else let (iu, w2) = os_GetInterface B w1; w2 = w2\<lparr>IUtility := iu\<rparr> in
      if iu = NULL then Some (False, drop_pci_libs (os_emit (Release (RLib ub)) (release_pci w2)))
      else do {
        (ok, w3) \<leftarrow> InitVirtIOSCSI K B w2;
        if \<not> ok
        then Some (False, drop_pci_libs (os_emit (Release (RLib ub)) (os_emit (Release (RIface iu))
               (release_pci (CleanupVirtIOSCSI w3)))))
        else let (_, w4) = InstallVirtIOInterrupt B w3 in
          do {
            (n, w5) \<leftarrow> DiscoverUnits K dev (w4\<lparr>lib_DelExp := False\<rparr>);
            Some (True, w5)
          }
      })"

definition manager_Init ::
    "kern \<Rightarrow> pci_bus \<Rightarrow> (world \<Rightarrow> world) \<Rightarrow> ptr \<Rightarrow> world \<Rightarrow> (bool \<times> world) option" where
  "manager_Init K B dev seglist w0 =
     (let w1 = w0\<lparr>dev_SegList := seglist, units := replicate MAX_UNITS NULL\<rparr>;
          (eb, w2) = os_OpenLibrary B w1; w2 = w2\<lparr>ExpansionBase := eb\<rparr> in
      if eb = NULL then Some (False, w2)
      else let (ip, w3) = os_GetInterface B w2; w3 = w3\<lparr>IPCI := ip\<rparr> in
      if ip = NULL then Some (False, os_emit (Release (RLib eb)) w3)
      else let (ok, w4) = DiscoverVirtIOSCSI B w3 in
      if \<not> ok then Some (False, drop_pci_libs w4)
      else init_device K B dev w4)"

section \<open>Reference counting of the interface\<close>

definition manager_Obtain :: "u32 \<Rightarrow> u32 \<times> u32" where
  "manager_Obtain refCount = (let n = refCount + 1 in (n, n))"

definition manager_Release :: "u32 \<Rightarrow> u32 \<times> u32" where
  "manager_Release refCount = (let n = refCount - 1 in (n, n))"

end
