(* ===== verification/Slot_Table.thy ===== *)
theory Slot_Table
  imports Device_Entry
begin

text \<open>
  The invariant of a unit and the effect of the steps of \<^verbatim>\<open>VirtIOSCSI_Submit\<close> on it.
  The ghost value \<open>fs\<close> is the free list of the in-flight table.
\<close>

section \<open>The free list of a unit\<close>

definition slot_list :: "devunit \<Rightarrow> nat list \<Rightarrow> bool" where
  "slot_list u fs \<longleftrightarrow> length (inflight_next u) = 16 \<and> distinct fs \<and> set fs \<subseteq> {..<16}
     \<and> lseg int (\<lambda>s. inflight_next u ! s) (free_head u) fs (-1)"

lemma slot_list_Nil: "slot_list u [] \<Longrightarrow> free_head u = -1"
  by (simp add: slot_list_def)

lemma slot_list_Cons:
  "slot_list u (s # fs) \<Longrightarrow> free_head u = int s \<and> s < 16 \<and> s \<notin> set fs
     \<and> slot_list (u\<lparr>free_head := inflight_next u ! s\<rparr>) fs"
  by (auto simp: slot_list_def)

lemma slot_list_push:
  assumes "slot_list u fs" and "s < 16" and "s \<notin> set fs"
  shows "slot_list (u\<lparr>inflight_next := (inflight_next u)[s := free_head u], free_head := int s\<rparr>) (s # fs)"
proof -
  have "lseg int (\<lambda>k. (inflight_next u)[s := free_head u] ! k) (free_head u) fs (-1)"
    using assms by (subst lseg_frame [of _ _ "\<lambda>s. inflight_next u ! s"]) (auto simp: slot_list_def nth_list_update)
  with assms show ?thesis by (auto simp: slot_list_def)
qed

lemma slot_list_cong:
  "inflight_next u' = inflight_next u \<Longrightarrow> free_head u' = free_head u \<Longrightarrow> slot_list u' fs = slot_list u fs"
  by (simp add: slot_list_def)

text \<open>The list built at start-up.\<close>

lemma slot_list_init: "slot_list (u\<lparr>inflight_next := init_free_list, free_head := 0\<rparr>) [0..<16]"
proof -
  have n: "init_free_list ! k = int (Suc k)" if "k < 15" for k
    using that by (simp add: init_free_list_def MAX_INFLIGHT_def nth_append)
  have l: "init_free_list ! 15 = -1" "length init_free_list = 16"
    by (simp_all add: init_free_list_def MAX_INFLIGHT_def nth_append)
  have "lseg int (\<lambda>s. init_free_list ! s) (int 0) [0..<16] (init_free_list ! (16 - 1))"
    by (rule lseg_upt) (use n in auto)
  with l show ?thesis by (auto simp: slot_list_def)
qed

section \<open>Taking and returning a slot\<close>

lemma submit_pop_slot_Nil:
  "slot_list (unit_mem w up) [] \<Longrightarrow>
     submit_pop_slot up w = Some (None, os_emit ReleaseSemaphore (os_emit ObtainSemaphore w))"
  by (auto simp: submit_pop_slot_def Let_def dest: slot_list_Nil)

lemma submit_pop_slot_Cons:
  assumes "slot_list (unit_mem w up) (s # fs)"
  shows "submit_pop_slot up w = Some (Some s, os_emit ReleaseSemaphore
           (upd_unit up (\<lambda>u. u\<lparr>free_head := inflight_next u ! s\<rparr>) (os_emit ObtainSemaphore w)))"
proof -
  note c = slot_list_Cons [OF assms]
  have "length (inflight_next (unit_mem w up)) = 16" using assms by (simp add: slot_list_def)
  then show ?thesis using c by (simp add: submit_pop_slot_def Let_def upd_unit_def)
qed

lemma submit_release_slot_ok:
  assumes "slot_list (unit_mem w up) fs" and "s < 16"
  shows "submit_release_slot up s w = Some (os_emit ReleaseSemaphore
           (upd_unit up (\<lambda>u. u\<lparr>inflight_next := (inflight_next u)[s := free_head u], free_head := int s\<rparr>)
              (os_emit ObtainSemaphore w)))"
  using assms by (simp add: submit_release_slot_def slot_list_def Let_def upd_unit_def)

text \<open>
  The table as a pool of slots: a client is \<open>VirtIOSCSI_Submit\<close>, which takes a slot and on
  an error gives it back with \<open>submit_release_slot\<close>.
\<close>

type_synonym slot_state = "world \<times> nat list \<times> nat list"

fun slp_inv :: "ptr \<Rightarrow> slot_state \<Rightarrow> bool" where
  "slp_inv up (w, fs, hs) \<longleftrightarrow> slot_list (unit_mem w up) fs \<and> distinct (fs @ hs) \<and> set (fs @ hs) = {..<16}
     \<and> length (inflight (unit_mem w up)) = 16"

definition slp_cap :: "slot_state \<Rightarrow> nat" where "slp_cap s = 16"
fun slp_free :: "slot_state \<Rightarrow> nat list" where "slp_free (w, fs, hs) = fs"
fun slp_held :: "slot_state \<Rightarrow> nat list list" where "slp_held (w, fs, hs) = map (\<lambda>s. [s]) hs"
definition slp_need :: "unit \<Rightarrow> nat" where "slp_need r = 1"

fun slp_acquire :: "ptr \<Rightarrow> unit \<Rightarrow> slot_state \<Rightarrow> slot_state option" where
  "slp_acquire up r (w, fs, hs) =
     (case submit_pop_slot up w of
        Some (Some s, w') \<Rightarrow> Some (w', tl fs, s # hs)
      | _ \<Rightarrow> None)"

fun slp_release :: "ptr \<Rightarrow> nat list \<Rightarrow> slot_state \<Rightarrow> slot_state option" where
  "slp_release up c (w, fs, hs) =
     map_option (\<lambda>w'. (w', hd c # fs, remove1 (hd c) hs)) (submit_release_slot up (hd c) w)"

text \<open>The same table with completion, which also clears the entry and counts, as the release.\<close>

fun slc_release :: "ptr \<Rightarrow> nat list \<Rightarrow> slot_state \<Rightarrow> slot_state option" where
  "slc_release up c (w, fs, hs) =
     map_option (\<lambda>w'. (w', hd c # fs, remove1 (hd c) hs)) (complete_free up (hd c) w)"

lemma concat_singletons: "concat (map (\<lambda>s. [s]) hs) = hs"
  by (induction hs) auto

lemma slp_partition:
  "slp_inv up s \<Longrightarrow> distinct (slp_free s @ concat (slp_held s)) \<and> set (slp_free s @ concat (slp_held s)) = {..<slp_cap s}"
  by (cases s) (simp add: concat_singletons slp_cap_def)

lemma slp_held_ne: "slp_inv up s \<Longrightarrow> [] \<notin> set (slp_held s)"
  by (cases s) auto

lemma slp_acquire_ok:
  assumes "slp_inv up s" and "0 < slp_need r" and "slp_need r \<le> length (slp_free s)"
  shows "\<exists>s'. slp_acquire up r s = Some s' \<and> slp_inv up s' \<and> slp_cap s' = slp_cap s
     \<and> slp_free s' = drop (slp_need r) (slp_free s) \<and> slp_held s' = take (slp_need r) (slp_free s) # slp_held s"
proof -
  obtain w fs hs where s: "s = (w, fs, hs)" by (cases s)
  with assms(3) obtain k fs' where fs: "fs = k # fs'" by (cases fs) (auto simp: slp_need_def)
  have "slot_list (unit_mem w up) (k # fs')" using assms(1) s fs by simp
  with slot_list_Cons [OF this] submit_pop_slot_Cons [OF this] assms(1) s fs show ?thesis
    by (auto simp: slp_need_def slp_cap_def)
qed

lemma remove1_map_singleton: "remove1 [k] (map (\<lambda>s. [s]) hs) = map (\<lambda>s. [s]) (remove1 k hs)"
  by (induction hs) auto

lemma slp_held_facts:
  assumes "slp_inv up (w, fs, hs)" and "c \<in> set (slp_held (w, fs, hs))"
  obtains k where "c = [k]" "k < 16" "k \<notin> set fs" "k \<in> set hs" "slot_list (unit_mem w up) fs"
proof -
  from assms(2) obtain k where k: "c = [k]" "k \<in> set hs" by auto
  moreover have "k < 16" "k \<notin> set fs" using assms(1) k by auto
  ultimately show thesis using that assms(1) by simp
qed

lemma slp_release_ok:
  assumes "slp_inv up s" and "c \<in> set (slp_held s)"
  shows "\<exists>s'. slp_release up c s = Some s' \<and> slp_inv up s' \<and> slp_cap s' = slp_cap s
     \<and> slp_free s' = rev c @ slp_free s \<and> slp_held s' = remove1 c (slp_held s)"
proof -
  obtain w fs hs where s: "s = (w, fs, hs)" by (cases s)
  from slp_held_facts [OF assms [unfolded s]] obtain k where
    k: "c = [k]" "k < 16" "k \<notin> set fs" "k \<in> set hs" "slot_list (unit_mem w up) fs" .
  from submit_release_slot_ok [OF k(5,2)] slot_list_push [OF k(5,2,3)] k assms(1) s show ?thesis
    by (auto simp: slp_cap_def remove1_map_singleton)
qed

text \<open>What completion does to the unit.\<close>

definition complete_unit :: "nat \<Rightarrow> devunit \<Rightarrow> devunit" where
  "complete_unit s u =
     u\<lparr>inflight := (inflight u)[s := (inflight u ! s)\<lparr>if_ioreq := NULL, if_cookie := NULL\<rparr>],
       inflight_next := (inflight_next u)[s := free_head u], free_head := int s,
       inflight_count := (if inflight_count u > 0 then inflight_count u - 1 else inflight_count u)\<rparr>"

lemma complete_free_ok:
  assumes "s < length (inflight (unit_mem w up))" and "s < length (inflight_next (unit_mem w up))"
  shows "\<exists>w'. complete_free up s w = Some w'
     \<and> unit_mem w' = (unit_mem w)(up := complete_unit s (unit_mem w up))
     \<and> os_log w' = os_log w @ [ObtainSemaphore, ReleaseSemaphore]
     \<and> ioreqs w' = ioreqs w \<and> w_mem w' = w_mem w \<and> vqs w' = vqs w \<and> units w' = units w
     \<and> req_mem w' = req_mem w \<and> resp_mem w' = resp_mem w \<and> port_msgs w' = port_msgs w
     \<and> occupied_count w' = (if occupied_count w > 0 then occupied_count w - 1 else occupied_count w)
     \<and> active_units_mask w' = (if inflight_count (unit_mem w up) = 1
          then active_units_mask w AND NOT (unit_bit (unit_num (unit_mem w up))) else active_units_mask w)"
proof -
  have e: "x - 1 = 0 \<longleftrightarrow> x = 1" for x :: u32 by auto
  show ?thesis using assms
    by (simp add: complete_free_def upd_slot_def complete_counters_def Let_def e complete_unit_def upd_unit_def)
qed

lemma slc_release_ok:
  assumes "slp_inv up s" and "c \<in> set (slp_held s)"
  shows "\<exists>s'. slc_release up c s = Some s' \<and> slp_inv up s' \<and> slp_cap s' = slp_cap s
     \<and> slp_free s' = rev c @ slp_free s \<and> slp_held s' = remove1 c (slp_held s)"
proof -
  obtain w fs hs where s: "s = (w, fs, hs)" by (cases s)
  from slp_held_facts [OF assms [unfolded s]] obtain k where
    k: "c = [k]" "k < 16" "k \<notin> set fs" "k \<in> set hs" "slot_list (unit_mem w up) fs" .
  have l: "length (inflight (unit_mem w up)) = 16" "length (inflight_next (unit_mem w up)) = 16"
    using assms(1) s k(5) by (simp_all add: slot_list_def)
  obtain w' where w': "complete_free up k w = Some w'"
      "unit_mem w' = (unit_mem w)(up := complete_unit k (unit_mem w up))"
    using complete_free_ok [of k w up] k(2) l by auto
  have "slot_list (unit_mem w' up) (k # fs)"
    using slot_list_push [OF k(5,2,3)] k(2) l by (simp add: w'(2) slot_list_def complete_unit_def)
  with w' k assms(1) s l show ?thesis
    by (auto simp: slp_cap_def remove1_map_singleton complete_unit_def)
qed

interpretation slp: slot_pool "slp_inv up" slp_cap slp_free slp_held slp_need "slp_acquire up" "slp_release up"
  for up :: ptr
  by unfold_locales (rule slp_partition slp_held_ne slp_acquire_ok slp_release_ok; assumption)+

interpretation slc: slot_pool "slp_inv up" slp_cap slp_free slp_held slp_need "slp_acquire up" "slc_release up"
  for up :: ptr
  by unfold_locales (rule slp_partition slp_held_ne slp_acquire_ok slc_release_ok; assumption)+

end
