(* ===== verification/Submit_Spec.thy ===== *)
theory Submit_Spec
  imports Slot_Table
begin

text \<open>
  Submitting a block request: the state each step of \<^verbatim>\<open>VirtIOSCSI_Submit\<close> leaves, and
  the result of the whole function on the bounce-buffer path and on the direct path.
\<close>

section \<open>What the queue operations leave alone\<close>

text \<open>\<open>quiet es\<close>: no lock operation, wait or reply among \<open>es\<close>.\<close>

definition quiet :: "os_event list \<Rightarrow> bool" where
  "quiet es \<longleftrightarrow> replies es = [] \<and> (\<forall>h. lock_run es h = Some h)"

definition same_world :: "world \<Rightarrow> world \<Rightarrow> bool" where
  "same_world w w' \<longleftrightarrow> unit_mem w' = unit_mem w \<and> ioreqs w' = ioreqs w \<and> w_mem w' = w_mem w
     \<and> req_mem w' = req_mem w \<and> resp_mem w' = resp_mem w \<and> vqs w' = vqs w \<and> units w' = units w
     \<and> port_msgs w' = port_msgs w \<and> occupied_count w' = occupied_count w
     \<and> active_units_mask w' = active_units_mask w \<and> irq_installed w' = irq_installed w
     \<and> pciDevice w' = pciDevice w \<and> bar0 w' = bar0 w \<and> bar0_physical w' = bar0_physical w
     \<and> (\<exists>es. os_log w' = os_log w @ es \<and> quiet es)"

lemma quiet_Nil [simp]: "quiet []"
  by (simp add: quiet_def)

lemma itbl_setup_same:
  assumes "itbl_setup K m sgs o1 (w :: world) = (r, w')"
  shows "same_world w w'"
  using assms
  by (auto simp: itbl_setup_def os_AllocVecTags_def os_StartDMA_def os_AllocDMAEntries_def os_GetDMAList_def
      Let_def same_world_def quiet_def lock_step_def os_emit_def split: if_splits list.splits)

lemma AddBuf_same:
  assumes "VirtQueue_AddBuf K vq sg o1 i1 ck (w :: world) = Some (ok, vq', w')"
  shows "same_world w w'"
proof -
  have r: "same_world w w" by (simp add: same_world_def)
  show ?thesis using assms r
    by (auto simp: VirtQueue_AddBuf_def Let_def bind_eq_Some_conv split: if_splits option.splits prod.splits
        dest!: itbl_setup_same)
qed

lemma same_world_refl [simp]: "same_world w w"
  by (simp add: same_world_def)

lemma quiet_append: "quiet xs \<Longrightarrow> quiet ys \<Longrightarrow> quiet (xs @ ys)"
  by (simp add: quiet_def)

lemma same_world_emit:
  assumes "same_world w w'" and "quiet [e]"
  shows "same_world w (os_emit e w')"
proof -
  from assms(1) obtain es where es: "os_log w' = os_log w @ es" "quiet es" unfolding same_world_def by blast
  with assms(2) have "quiet (es @ [e])" by (intro quiet_append)
  with assms(1) es show ?thesis unfolding same_world_def by (auto simp: os_emit_def)
qed

lemma GetBuf_state:
  assumes "VirtQueue_GetBuf vq s = Some (ck, l, vq', s')"
  shows "s' = s \<or> (\<exists>p n. s' = os_emit (FreeVec p) (os_emit (EndDMA p n True True) s))"
proof (rule disjCI)
  assume n: "\<nexists>p n. s' = os_emit (FreeVec p) (os_emit (EndDMA p n True True) s)"
  show "s' = s" using assms n
    by (simp add: VirtQueue_GetBuf_def Let_def bind_eq_Some_conv split: if_splits) blast+
qed

lemma GetBuf_same:
  assumes "VirtQueue_GetBuf vq (w :: world) = Some (ck, l, vq', w')"
  shows "same_world w w'"
proof -
  have q: "quiet [FreeVec p]" "quiet [EndDMA p n f g]" for p n f g by (simp_all add: quiet_def lock_step_def)
  from GetBuf_state [OF assms] show ?thesis by (auto intro!: same_world_emit q)
qed

section \<open>The chain a submission builds\<close>

definition to_sg :: "dma_entry \<Rightarrow> vring_sg" where
  "to_sg e = \<lparr>sg_addr = PhysicalAddress e, sg_len = BlockLength e\<rparr>"

text \<open>What the device sees of a readable and of a writable piece.\<close>

definition rdv :: "vring_sg list \<Rightarrow> view" where "rdv = map (\<lambda>g. (ucast (sg_addr g), sg_len g, False))"
definition wrv :: "vring_sg list \<Rightarrow> view" where "wrv = map (\<lambda>g. (ucast (sg_addr g), sg_len g, True))"

lemma sg_view_append: "sg_view o1 n (xs @ ys) = sg_view o1 n xs @ sg_view o1 (n + length xs) ys"
  by (induction xs arbitrary: n) (simp_all add: sg_view_Cons)

lemma sg_view_rd: "n + length xs \<le> o1 \<Longrightarrow> sg_view o1 n xs = rdv xs"
  by (induction xs arbitrary: n) (auto simp: sg_view_Cons rdv_def)

lemma sg_view_wr: "o1 \<le> n \<Longrightarrow> sg_view o1 n xs = wrv xs"
  by (induction xs arbitrary: n) (auto simp: sg_view_Cons wrv_def)

definition hdr_sgs :: "world \<Rightarrow> ptr list \<Rightarrow> u32 list \<Rightarrow> nat \<Rightarrow> vring_sg list" where
  "hdr_sgs w ls ns s = map to_sg (take (unat (ns ! s)) (dma_objs w (ls ! s)))"

definition req_sgs :: "world \<Rightarrow> ptr \<Rightarrow> nat \<Rightarrow> vring_sg list" where
  "req_sgs w up s = hdr_sgs w (dma_req_lists (unit_mem w up)) (dma_req_entries_arr (unit_mem w up)) s"

definition resp_sgs :: "world \<Rightarrow> ptr \<Rightarrow> nat \<Rightarrow> vring_sg list" where
  "resp_sgs w up s = hdr_sgs w (dma_resp_lists (unit_mem w up)) (dma_resp_entries_arr (unit_mem w up)) s"

definition data_sgs :: "world \<Rightarrow> ptr \<Rightarrow> nat \<Rightarrow> vring_sg list" where
  "data_sgs w up s =
     (let f = inflight (unit_mem w up) ! s in
      if if_using_bounce f then [\<lparr>sg_addr = bounce_dma_phys (unit_mem w up) ! s, sg_len = if_dma_size f\<rparr>]
      else map to_sg (take (unat (if_dma_num_entries f)) (dma_objs w (if_dma_list f))))"

text \<open>The buffers of a unit that is open: the arrays, and DMA lists as long as their counts.\<close>

definition lists_ok :: "world \<Rightarrow> ptr list \<Rightarrow> u32 list \<Rightarrow> bool" where
  "lists_ok w ls ns \<longleftrightarrow> length ls = 16 \<and> length ns = 16
     \<and> (\<forall>s < 16. 0 < unat (ns ! s) \<and> unat (ns ! s) \<le> length (dma_objs w (ls ! s)))"

definition unit_bufs :: "world \<Rightarrow> ptr \<Rightarrow> bool" where
  "unit_bufs w up \<longleftrightarrow>
     (let u = unit_mem w up in
      lists_ok w (dma_req_lists u) (dma_req_entries_arr u) \<and> lists_ok w (dma_resp_lists u) (dma_resp_entries_arr u)
      \<and> length (req_bufs u) = 16 \<and> length (resp_bufs u) = 16 \<and> length (bounce_bufs u) = 16
      \<and> length (bounce_dma_phys u) = 16 \<and> length (data_dma_pool u) = 16 \<and> length (inflight u) = 16)"

lemma dma_read_ok: "unat n \<le> length (dma_objs w p) \<Longrightarrow> dma_read w p n = Some (map to_sg (take (unat n) (dma_objs w p)))"
  by (simp add: dma_read_def Let_def to_sg_def)

lemma sg_append_ok: "length sg + length xs \<le> 64 \<Longrightarrow> sg_append sg xs = Some (sg @ xs)"
  by (simp add: sg_append_def MAX_SG_ENTRIES_def)

lemma unat_add_small: "unat a + unat b \<le> 1000 \<Longrightarrow> unat (a + b :: u32) = unat a + unat b"
  by (simp add: unat_word_ariths)

definition chain_view :: "bool \<Rightarrow> vring_sg list \<Rightarrow> vring_sg list \<Rightarrow> vring_sg list \<Rightarrow> view" where
  "chain_view is_write req dat resp = (if is_write then rdv (req @ dat) @ wrv resp else rdv req @ wrv (resp @ dat))"

lemma submit_sg_ok:
  assumes "unit_bufs w up" and s: "s < 16"
    and "\<not> if_using_bounce (inflight (unit_mem w up) ! s) \<Longrightarrow>
      unat (if_dma_num_entries (inflight (unit_mem w up) ! s))
        \<le> length (dma_objs w (if_dma_list (inflight (unit_mem w up) ! s)))"
    and len: "length (req_sgs w up s) + length (data_sgs w up s) + length (resp_sgs w up s) \<le> 64"
  shows "\<exists>sg o1 i1. submit_sg up s is_write w = Some (sg, o1, i1) \<and> 0 < unat o1 \<and> unat o1 + unat i1 = length sg
     \<and> length sg = length (req_sgs w up s) + length (data_sgs w up s) + length (resp_sgs w up s)
     \<and> sg_view (unat o1) 0 sg = chain_view is_write (req_sgs w up s) (data_sgs w up s) (resp_sgs w up s)"
proof -
  define u f where "u = unit_mem w up" and "f = inflight u ! s"
  note ub = assms(1) [unfolded unit_bufs_def Let_def lists_ok_def, folded u_def]
  have rq: "unat (dma_req_entries_arr u ! s) \<le> length (dma_objs w (dma_req_lists u ! s))"
    "0 < unat (dma_req_entries_arr u ! s)" and rp: "unat (dma_resp_entries_arr u ! s) \<le> length (dma_objs w (dma_resp_lists u ! s))"
    using ub s by auto
  have lrq: "length (req_sgs w up s) = unat (dma_req_entries_arr u ! s)"
    using rq by (simp add: req_sgs_def hdr_sgs_def u_def)
  have lrp: "length (resp_sgs w up s) = unat (dma_resp_entries_arr u ! s)"
    using rp by (simp add: resp_sgs_def hdr_sgs_def u_def)
  have drq: "dma_read w (dma_req_lists u ! s) (dma_req_entries_arr u ! s) = Some (req_sgs w up s)"
    using rq by (simp add: dma_read_ok req_sgs_def hdr_sgs_def u_def)
  have drp: "dma_read w (dma_resp_lists u ! s) (dma_resp_entries_arr u ! s) = Some (resp_sgs w up s)"
    using rp by (simp add: dma_read_ok resp_sgs_def hdr_sgs_def u_def)
  have len_simps: "s < length (inflight u)" "s < length (dma_req_lists u)" "s < length (dma_req_entries_arr u)"
    "s < length (dma_resp_lists u)" "s < length (dma_resp_entries_arr u)" "s < length (bounce_dma_phys u)"
    using ub s by auto
  define n where "n = (if if_using_bounce f then 1 else if_dma_num_entries f)"
  have dat: "length (data_sgs w up s) = unat n"
    and drd: "\<not> if_using_bounce f \<Longrightarrow> dma_read w (if_dma_list f) (if_dma_num_entries f) = Some (data_sgs w up s)"
    and bnc: "if_using_bounce f \<Longrightarrow> data_sgs w up s = [\<lparr>sg_addr = bounce_dma_phys u ! s, sg_len = if_dma_size f\<rparr>]"
    using assms(3) by (auto simp: data_sgs_def Let_def u_def [symmetric] f_def [symmetric] n_def dma_read_ok)
  note ln = len [unfolded dat lrq lrp]
  have ar: "unat (dma_req_entries_arr u ! s + n) = unat (dma_req_entries_arr u ! s) + unat n"
    "unat (dma_resp_entries_arr u ! s + n) = unat (dma_resp_entries_arr u ! s) + unat n"
    using ln by (simp_all add: unat_add_small)
  have ap: "sg_append [] (req_sgs w up s) = Some (req_sgs w up s)"
    "sg_append (req_sgs w up s) (data_sgs w up s) = Some (req_sgs w up s @ data_sgs w up s)"
    "sg_append (req_sgs w up s @ data_sgs w up s) (resp_sgs w up s) = Some (req_sgs w up s @ data_sgs w up s @ resp_sgs w up s)"
    "sg_append (req_sgs w up s) (resp_sgs w up s) = Some (req_sgs w up s @ resp_sgs w up s)"
    "sg_append (req_sgs w up s @ resp_sgs w up s) (data_sgs w up s) = Some (req_sgs w up s @ resp_sgs w up s @ data_sgs w up s)"
    using ln by (simp_all add: sg_append_ok dat lrq lrp)
  have res: "submit_sg up s is_write w =
     Some (if is_write then req_sgs w up s @ data_sgs w up s @ resp_sgs w up s
           else req_sgs w up s @ resp_sgs w up s @ data_sgs w up s,
           if is_write then dma_req_entries_arr u ! s + n else dma_req_entries_arr u ! s,
           if is_write then dma_resp_entries_arr u ! s else dma_resp_entries_arr u ! s + n)"
  proof (cases "if_using_bounce f")
    case True
    with ap drq drp len_simps show ?thesis
      by (simp add: submit_sg_def Let_def u_def [symmetric] f_def [symmetric] n_def bnc [OF True, symmetric])
  next
    case False
    with ap drq drp len_simps drd show ?thesis
      by (simp add: submit_sg_def Let_def u_def [symmetric] f_def [symmetric] n_def)
  qed
  show ?thesis
    unfolding res using rq(2) ar
    by (cases is_write) (simp_all add: lrq lrp dat chain_view_def sg_view_append sg_view_rd sg_view_wr
        rdv_def wrv_def)
qed

end
