(* ===== verification/Submit_Result.thy ===== *)
theory Submit_Result
  imports Submit_Spec
begin

text \<open>
  The result of a successful submission, from the results of its steps: the chain the device
  reads, the slot, the counters, the memory and the log. The free list of the queue is
  \<open>fl\<close> and its outstanding chains are \<open>os\<close>; the free list of the unit is \<open>s # fs\<close>.
\<close>

section \<open>Entering the request\<close>

definition enter_slot :: "nat \<Rightarrow> ptr \<Rightarrow> devunit \<Rightarrow> devunit" where
  "enter_slot s ior u =
     u\<lparr>inflight := (inflight u)[s := (inflight u ! s)\<lparr>if_ioreq := ior, if_cookie := req_bufs u ! s, if_buf_slot := of_nat s\<rparr>],
       inflight_count := inflight_count u + 1\<rparr>"

lemma upd_slot_ok:
  "s < length (inflight (unit_mem w up)) \<Longrightarrow>
     upd_slot up s g w = Some (upd_unit up (\<lambda>u. u\<lparr>inflight := (inflight u)[s := g (inflight u ! s)]\<rparr>) w)"
  by (simp add: upd_slot_def upd_unit_def)

lemma same_world_requestq: "same_world w w' \<Longrightarrow> requestq w' = requestq w"
  by (simp add: same_world_def requestq_def)

lemma submit_queue_ok:
  assumes len: "length (req_bufs (unit_mem w up)) = 16" "length (inflight (unit_mem w up)) = 16" "s < 16"
    and rq: "requestq w = Some vq" "vq_inv vq fl os"
    and t: "0 < unat o1" "unat o1 + unat i1 = length sg" "length sg \<le> length fl"
  shows "\<exists>w' vq' c. submit_queue K up s ior sg o1 i1 w = Some (Submitted, w') \<and> requestq w' = Some vq'
     \<and> c \<noteq> [] \<and> c @ drop (length c) fl = fl \<and> published vq (hd c) vq' \<and> vq_frame vq vq' \<and> last_used_idx vq' = last_used_idx vq
     \<and> vq_inv vq' (drop (length c) fl) ((c, req_bufs (unit_mem w up) ! s, sg_view (unat o1) 0 sg) # os)
     \<and> dev_reads vq' (\<lambda>_. itbl_mem w' (indirect_tables vq' ! hd c)) (hd c) = sg_view (unat o1) 0 sg
     \<and> unit_mem w' = (unit_mem w)(up := enter_slot s ior (unit_mem w up))
     \<and> occupied_count w' = occupied_count w + 1
     \<and> active_units_mask w' = active_units_mask w OR unit_bit (unit_num (unit_mem w up))
     \<and> ioreqs w' = ioreqs w \<and> w_mem w' = w_mem w \<and> req_mem w' = req_mem w \<and> resp_mem w' = resp_mem w
     \<and> (\<exists>es. os_log w' = os_log w @ ObtainSemaphore # es @ [ReleaseSemaphore] \<and> quiet es)"
proof -
  define rb where "rb = req_bufs (unit_mem w up) ! s"
  define w2 where "w2 = os_emit ObtainSemaphore (upd_unit up (\<lambda>u. u\<lparr>inflight := (inflight u)[s := (inflight u ! s)
     \<lparr>if_ioreq := ior, if_cookie := rb, if_buf_slot := of_nat s\<rparr>]\<rparr>) w)"
  have rq2: "requestq w2 = Some vq" using rq(1) by (simp add: w2_def)
  have "0 < unat o1 + unat i1" "unat o1 + unat i1 \<le> length sg" "unat o1 + unat i1 \<le> length fl" using t by auto
  from AddBuf_ok [OF rq(2) this, of K rb w2] t(2) obtain vq' w3 c where a:
    "VirtQueue_AddBuf K vq sg o1 i1 rb w2 = Some (True, vq', w3)"
    "c \<noteq> []" "c @ drop (length c) fl = fl" "published vq (hd c) vq'" "vq_frame vq vq'" "last_used_idx vq' = last_used_idx vq"
    "vq_inv vq' (drop (length c) fl) ((c, rb, sg_view (unat o1) 0 sg) # os)"
    "dev_reads vq' (\<lambda>_. itbl_mem w3 (indirect_tables vq' ! hd c)) (hd c) = sg_view (unat o1) 0 sg"
    by auto
  note sw = AddBuf_same [OF a(1)]
  then obtain es where es: "os_log w3 = os_log w2 @ es" "quiet es" by (auto simp: same_world_def)
  have um: "unit_mem w3 = unit_mem w2" "ioreqs w3 = ioreqs w2" "w_mem w3 = w_mem w2" "req_mem w3 = req_mem w2"
    "resp_mem w3 = resp_mem w2" "occupied_count w3 = occupied_count w2" "active_units_mask w3 = active_units_mask w2"
    using sw by (simp_all add: same_world_def)
  have rq3: "requestq w3 \<noteq> None" using same_world_requestq [OF sw] rq2 by simp
  define w' where "w' = os_emit ReleaseSemaphore
     ((upd_unit up (\<lambda>u. u\<lparr>inflight_count := inflight_count u + 1\<rparr>)
        ((set_requestq vq' w3)\<lparr>occupied_count := occupied_count w3 + 1\<rparr>))
      \<lparr>active_units_mask := active_units_mask w3 OR unit_bit (unit_num (unit_mem w3 up))\<rparr>)"
  have q: "submit_queue K up s ior sg o1 i1 w = Some (Submitted, w')"
    using len rq(1) rq2 a(1) unfolding submit_queue_def
    by (simp add: upd_slot_ok rb_def [symmetric] w2_def [symmetric] w'_def Let_def)
  have r: "requestq w' = Some vq'"
    using rq3 by (simp add: w'_def requestq_def upd_unit_def set_requestq_def rd_def split: if_splits option.splits)
  have "itbl_mem w' = itbl_mem w3" by (simp add: w'_def)
  with a q r es show ?thesis
    by (intro exI [of _ w'] exI [of _ vq'] exI [of _ c])
      (auto simp: w'_def w2_def um enter_slot_def rb_def fun_eq_iff)
qed

section \<open>Mapping the data\<close>

definition bounce_slot :: "ptr \<Rightarrow> u32 \<Rightarrow> bool \<Rightarrow> inflight_slot \<Rightarrow> inflight_slot" where
  "bounce_slot data len is_write f =
     f\<lparr>if_is_write := is_write, if_using_bounce := True, if_dma_addr := data, if_dma_size := len,
       if_dma_flags := False, if_dma_list := NULL, if_dma_num_entries := 0\<rparr>"

definition direct_slot :: "ptr \<Rightarrow> u32 \<Rightarrow> ptr \<Rightarrow> u32 \<Rightarrow> bool \<Rightarrow> inflight_slot \<Rightarrow> inflight_slot" where
  "direct_slot data len dlist n is_write f =
     f\<lparr>if_is_write := is_write, if_using_bounce := False, if_dma_addr := data, if_dma_size := len,
       if_dma_flags := is_write, if_dma_list := dlist, if_dma_num_entries := n\<rparr>"

definition put_slot :: "nat \<Rightarrow> (inflight_slot \<Rightarrow> inflight_slot) \<Rightarrow> devunit \<Rightarrow> devunit" where
  "put_slot s g u = u\<lparr>inflight := (inflight u)[s := g (inflight u ! s)]\<rparr>"

text \<open>What the data step leaves: memory, log and the slot.\<close>

definition mapped :: "ptr \<Rightarrow> nat \<Rightarrow> (inflight_slot \<Rightarrow> inflight_slot) \<Rightarrow> (ptr \<Rightarrow> u8) \<Rightarrow> os_event list \<Rightarrow> world \<Rightarrow> world \<Rightarrow> bool" where
  "mapped up s g m es w w' \<longleftrightarrow>
     unit_mem w' = (unit_mem w)(up := put_slot s g (unit_mem w up)) \<and> w_mem w' = m \<and> os_log w' = os_log w @ es
     \<and> ioreqs w' = ioreqs w \<and> req_mem w' = req_mem w \<and> resp_mem w' = resp_mem w \<and> vqs w' = vqs w
     \<and> occupied_count w' = occupied_count w \<and> active_units_mask w' = active_units_mask w \<and> itbl_mem w' = itbl_mem w"

lemma submit_map_bounce:
  assumes "length (inflight (unit_mem w up)) = 16" "length (bounce_bufs (unit_mem w up)) = 16" "s < 16"
    and "data \<noteq> NULL" "0 < len" "len \<le> BOUNCE_BUF_SIZE"
  shows "\<exists>w' es. submit_map K up s data len is_write w = Some (None, w') \<and> dma_objs w' = dma_objs w
     \<and> mapped up s (bounce_slot data len is_write)
          (if is_write then copy_mem data (bounce_bufs (unit_mem w up) ! s) len (w_mem w) else w_mem w) es w w'
     \<and> quiet es \<and> (is_write \<longrightarrow> es = [CopyMem data (bounce_bufs (unit_mem w up) ! s) len,
                          CacheClearE (bounce_bufs (unit_mem w up) ! s) len CACRF_ClearD])"
  using assms
  by (simp add: submit_map_def upd_slot_ok Let_def mapped_def put_slot_def bounce_slot_def quiet_def lock_step_def
      fun_eq_iff)

lemma submit_map_direct:
  assumes "length (inflight (unit_mem w up)) = 16" "length (data_dma_pool (unit_mem w up)) = 16" "s < 16"
    and "data \<noteq> NULL" "BOUNCE_BUF_SIZE < len" "data_dma_pool (unit_mem w up) ! s \<noteq> NULL"
    and "k_StartDMA K (os_log w) data len is_write = n" "0 < n" "n \<le> MAX_SG_ENTRIES"
  shows "\<exists>w' es. submit_map K up s data len is_write w = Some (None, w')
     \<and> dma_objs w' = (dma_objs w)(data_dma_pool (unit_mem w up) ! s :=
           k_GetDMAList K (os_log w @ [StartDMA data len is_write n]) data len is_write)
     \<and> mapped up s (direct_slot data len (data_dma_pool (unit_mem w up) ! s) n is_write) (w_mem w) es w w' \<and> quiet es
     \<and> es = [StartDMA data len is_write n, GetDMAList data len is_write (data_dma_pool (unit_mem w up) ! s)]"
proof -
  have ne: "n \<noteq> 0" "len \<noteq> 0" "\<not> len \<le> BOUNCE_BUF_SIZE" "\<not> MAX_SG_ENTRIES < n" using assms by auto
  show ?thesis using assms(1-4,6,7) ne
    by (simp add: submit_map_def upd_slot_ok Let_def mapped_def put_slot_def direct_slot_def quiet_def lock_step_def
      fun_eq_iff os_StartDMA_def os_GetDMAList_def os_emit_def word_gt_0 upd_unit_def)
qed

section \<open>The whole submission\<close>

definition filled :: "ptr \<Rightarrow> nat \<Rightarrow> u8 list \<Rightarrow> world \<Rightarrow> world" where
  "filled up s cdb w =
     (let w1 = os_emit ReleaseSemaphore
                 (upd_unit up (\<lambda>u. u\<lparr>free_head := inflight_next u ! s\<rparr>) (os_emit ObtainSemaphore w));
          u = unit_mem w up in
      w1\<lparr>resp_mem := (resp_mem w)(resp_bufs u ! s := reset_resp (resp_mem w (resp_bufs u ! s))),
         req_mem := (req_mem w)(req_bufs u ! s := fill_req (target_id u) (lun_id u) (slot_id (unit_num u) s) cdb)\<rparr>)"

definition submitted_unit :: "nat \<Rightarrow> (inflight_slot \<Rightarrow> inflight_slot) \<Rightarrow> ptr \<Rightarrow> devunit \<Rightarrow> devunit" where
  "submitted_unit s g ior u = enter_slot s ior (put_slot s g (u\<lparr>free_head := inflight_next u ! s\<rparr>))"

lemma filled_simps:
  "unit_mem (filled up s cdb w) = (unit_mem w)(up := (unit_mem w up)\<lparr>free_head := inflight_next (unit_mem w up) ! s\<rparr>)"
  "w_mem (filled up s cdb w) = w_mem w" "ioreqs (filled up s cdb w) = ioreqs w"
  "dma_objs (filled up s cdb w) = dma_objs w" "vqs (filled up s cdb w) = vqs w" "itbl_mem (filled up s cdb w) = itbl_mem w"
  "os_log (filled up s cdb w) = os_log w @ [ObtainSemaphore, ReleaseSemaphore]"
  "occupied_count (filled up s cdb w) = occupied_count w"
  "active_units_mask (filled up s cdb w) = active_units_mask w"
  "req_mem (filled up s cdb w) = (req_mem w)(req_bufs (unit_mem w up) ! s :=
     fill_req (target_id (unit_mem w up)) (lun_id (unit_mem w up)) (slot_id (unit_num (unit_mem w up)) s) cdb)"
  "resp_mem (filled up s cdb w) = (resp_mem w)(resp_bufs (unit_mem w up) ! s :=
     reset_resp (resp_mem w (resp_bufs (unit_mem w up) ! s)))"
  by (simp_all add: filled_def Let_def)

lemma Submit_ok:
  assumes ub: "unit_bufs w up" and sl: "slot_list (unit_mem w up) (s # fs)"
    and rq: "requestq w = Some vq" "vq_inv vq fl os"
    and mp: "submit_map K up s (io_Data (ioreqs w ior)) (io_Length (ioreqs w ior)) is_write (filled up s cdb w) = Some (None, w3)"
      "mapped up s g m es (filled up s cdb w) w3" "quiet es"
    and dm: "\<And>t. t < 16 \<Longrightarrow> dma_objs w3 (dma_req_lists (unit_mem w up) ! t) = dma_objs w (dma_req_lists (unit_mem w up) ! t)"
      "\<And>t. t < 16 \<Longrightarrow> dma_objs w3 (dma_resp_lists (unit_mem w up) ! t) = dma_objs w (dma_resp_lists (unit_mem w up) ! t)"
    and dat: "\<not> if_using_bounce (inflight (unit_mem w3 up) ! s) \<Longrightarrow>
      unat (if_dma_num_entries (inflight (unit_mem w3 up) ! s))
        \<le> length (dma_objs w3 (if_dma_list (inflight (unit_mem w3 up) ! s)))"
    and len: "length (req_sgs w up s) + length (data_sgs w3 up s) + length (resp_sgs w up s) \<le> 64"
      "length (req_sgs w up s) + length (data_sgs w3 up s) + length (resp_sgs w up s) \<le> length fl"
  defines "v \<equiv> chain_view is_write (req_sgs w up s) (data_sgs w3 up s) (resp_sgs w up s)"
  shows "\<exists>w' vq' c. VirtIOSCSI_Submit K up ior cdb is_write w = Some (Submitted, w') \<and> requestq w' = Some vq'
     \<and> c \<noteq> [] \<and> c @ drop (length c) fl = fl \<and> published vq (hd c) vq' \<and> vq_frame vq vq' \<and> last_used_idx vq' = last_used_idx vq
     \<and> vq_inv vq' (drop (length c) fl) ((c, req_bufs (unit_mem w up) ! s, v) # os)
     \<and> dev_reads vq' (\<lambda>_. itbl_mem w' (indirect_tables vq' ! hd c)) (hd c) = v
     \<and> unit_mem w' = (unit_mem w)(up := submitted_unit s g ior (unit_mem w up))
     \<and> slot_list (unit_mem w' up) fs
     \<and> occupied_count w' = occupied_count w + 1
     \<and> active_units_mask w' = active_units_mask w OR unit_bit (unit_num (unit_mem w up))
     \<and> ioreqs w' = ioreqs w \<and> w_mem w' = m \<and> req_mem w' = req_mem (filled up s cdb w) \<and> resp_mem w' = resp_mem (filled up s cdb w)
     \<and> (\<exists>new. os_log w' = os_log w @ new \<and> replies new = [] \<and> lock_run new False = Some False)"
proof -
  define u where "u = unit_mem w up"
  note ubl = ub [unfolded unit_bufs_def Let_def lists_ok_def, folded u_def]
  note sc = slot_list_Cons [OF sl]
  note mpd = mp(2) [unfolded mapped_def filled_simps]
  have s16: "s < 16" using sc by simp
  have um3: "unit_mem w3 up = put_slot s g (u\<lparr>free_head := inflight_next u ! s\<rparr>)"
    using mpd by (simp add: u_def)
  have fld: "submit_fill up s cdb (os_emit ReleaseSemaphore
      (upd_unit up (\<lambda>u. u\<lparr>free_head := inflight_next u ! s\<rparr>) (os_emit ObtainSemaphore w))) = Some (filled up s cdb w)"
    using ubl s16 by (simp add: submit_fill_def Let_def filled_def u_def)
  have ub3: "unit_bufs w3 up"
    using ub dm s16 by (auto simp: unit_bufs_def Let_def lists_ok_def um3 put_slot_def u_def)
  have rs: "req_sgs w3 up s = req_sgs w up s" "resp_sgs w3 up s = resp_sgs w up s"
    using dm s16 by (simp_all add: req_sgs_def resp_sgs_def hdr_sgs_def um3 put_slot_def u_def)
  have "\<exists>sg o1 i1. submit_sg up s is_write w3 = Some (sg, o1, i1) \<and> 0 < unat o1 \<and> unat o1 + unat i1 = length sg
     \<and> length sg = length (req_sgs w3 up s) + length (data_sgs w3 up s) + length (resp_sgs w3 up s)
     \<and> sg_view (unat o1) 0 sg = chain_view is_write (req_sgs w3 up s) (data_sgs w3 up s) (resp_sgs w3 up s)"
    by (rule submit_sg_ok [OF ub3 s16]) (use dat len rs in auto)
  then obtain sg o1 i1 where sg: "submit_sg up s is_write w3 = Some (sg, o1, i1)" "0 < unat o1"
    "unat o1 + unat i1 = length sg"
    "length sg = length (req_sgs w up s) + length (data_sgs w3 up s) + length (resp_sgs w up s)"
    "sg_view (unat o1) 0 sg = v" unfolding rs v_def by blast
  have small: "length sg \<le> 64" "length sg \<le> length fl" using sg(4) len by simp_all
  have "unat (o1 + i1) = length sg" using sg(3) small by (simp add: unat_add_small)
  then have notbig: "\<not> MAX_SG_ENTRIES < o1 + i1" using small by (simp add: word_less_nat_alt MAX_SG_ENTRIES_def)
  have lens: "length (req_bufs (unit_mem w3 up)) = 16" "length (inflight (unit_mem w3 up)) = 16"
    using ub3 by (simp_all add: unit_bufs_def Let_def)
  have rq3: "requestq w3 = Some vq" using rq(1) mpd by (simp add: requestq_def)
  obtain w' vq' c where q: "submit_queue K up s ior sg o1 i1 w3 = Some (Submitted, w')" "requestq w' = Some vq'"
     "c \<noteq> []" "c @ drop (length c) fl = fl" "published vq (hd c) vq'" "vq_frame vq vq'" "last_used_idx vq' = last_used_idx vq"
     "vq_inv vq' (drop (length c) fl) ((c, req_bufs (unit_mem w3 up) ! s, v) # os)"
     "dev_reads vq' (\<lambda>_. itbl_mem w' (indirect_tables vq' ! hd c)) (hd c) = v"
     "unit_mem w' = (unit_mem w3)(up := enter_slot s ior (unit_mem w3 up))"
     "occupied_count w' = occupied_count w3 + 1"
     "active_units_mask w' = active_units_mask w3 OR unit_bit (unit_num (unit_mem w3 up))"
     "ioreqs w' = ioreqs w3" "w_mem w' = w_mem w3" "req_mem w' = req_mem w3" "resp_mem w' = resp_mem w3"
     "\<exists>es. os_log w' = os_log w3 @ ObtainSemaphore # es @ [ReleaseSemaphore] \<and> quiet es"
    using submit_queue_ok [OF lens s16 rq3 rq(2) sg(2,3) small(2), of K ior] unfolding sg(5) by blast
  have sub: "VirtIOSCSI_Submit K up ior cdb is_write w = Some (Submitted, w')"
    using sg(1) notbig q(1) mp(1)
    by (simp add: VirtIOSCSI_Submit_def submit_pop_slot_Cons [OF sl] fld filled_simps)
  have sl': "slot_list (unit_mem w' up) fs"
    using sc by (simp add: q(10) um3 slot_list_def enter_slot_def put_slot_def u_def)
  from q(17) obtain es' where lg: "os_log w' = os_log w3 @ ObtainSemaphore # es' @ [ReleaseSemaphore]" "quiet es'" by blast
  have "\<exists>new. os_log w' = os_log w @ new \<and> replies new = [] \<and> lock_run new False = Some False"
    using lg mp(3) mpd by (intro exI [of _ "[ObtainSemaphore, ReleaseSemaphore] @ es @ ObtainSemaphore # es' @ [ReleaseSemaphore]"])
      (simp add: quiet_def lock_step_def)
  moreover have "req_bufs (unit_mem w3 up) ! s = req_bufs (unit_mem w up) ! s" "unit_num (unit_mem w3 up) = unit_num (unit_mem w up)"
    by (simp_all add: um3 put_slot_def u_def)
  moreover have "unit_mem w' = (unit_mem w)(up := submitted_unit s g ior (unit_mem w up))"
    using q(10) mpd by (simp add: submitted_unit_def um3 u_def fun_eq_iff)
  ultimately show ?thesis
    using sub q(2-9,11-16) sl' mpd by (intro exI [of _ w'] exI [of _ vq'] exI [of _ c]) (simp add: filled_simps)
qed

end
