(* ===== verification/Harvest_Spec.thy ===== *)
theory Harvest_Spec
  imports Submit_Result
begin

text \<open>
  The effect of \<^verbatim>\<open>complete_inflight_slot\<close>, the routing of completions by the
  \<open>id\<close> field, and \<^verbatim>\<open>VirtIOSCSI_Harvest\<close> on a used ring with any number of
  completions.
\<close>

section \<open>Completing one slot\<close>

definition completed_slot :: "inflight_slot \<Rightarrow> inflight_slot" where
  "completed_slot f =
     (if if_dma_list f \<noteq> NULL then f\<lparr>if_dma_list := NULL, if_dma_num_entries := 0\<rparr> else f)
       \<lparr>if_ioreq := NULL, if_cookie := NULL\<rparr>"

definition completed_unit :: "nat \<Rightarrow> devunit \<Rightarrow> devunit" where
  "completed_unit s u =
     u\<lparr>inflight := (inflight u)[s := completed_slot (inflight u ! s)],
       inflight_next := (inflight_next u)[s := free_head u], free_head := int s,
       inflight_count := (if inflight_count u > 0 then inflight_count u - 1 else inflight_count u)\<rparr>"

definition readback_mem :: "inflight_slot \<Rightarrow> ptr \<Rightarrow> io_err \<Rightarrow> u32 \<Rightarrow> (ptr \<Rightarrow> u8) \<Rightarrow> ptr \<Rightarrow> u8" where
  "readback_mem f bounce e actual m =
     (if if_using_bounce f \<and> \<not> if_is_write f \<and> e = NO_ERROR \<and> actual > 0
      then copy_mem bounce (if_dma_addr f) actual m else m)"

lemma complete_unmap_ok:
  assumes "s < length (inflight (unit_mem w up))" and "f = inflight (unit_mem w up) ! s"
  shows "\<exists>w' es. complete_unmap up s f w = Some w' \<and> os_log w' = os_log w @ es \<and> quiet es
     \<and> unit_mem w' = (unit_mem w)(up := put_slot s (\<lambda>f. if if_dma_list f \<noteq> NULL
            then f\<lparr>if_dma_list := NULL, if_dma_num_entries := 0\<rparr> else f) (unit_mem w up))
     \<and> ioreqs w' = ioreqs w \<and> w_mem w' = w_mem w \<and> vqs w' = vqs w \<and> units w' = units w
     \<and> req_mem w' = req_mem w \<and> resp_mem w' = resp_mem w
     \<and> occupied_count w' = occupied_count w \<and> active_units_mask w' = active_units_mask w"
  using assms
  by (auto simp: complete_unmap_def upd_slot_ok put_slot_def quiet_def lock_step_def fun_eq_iff)

lemma completion_result_ok:
  assumes "2 < length (rs_sense resp)"
  obtains e a where "completion_result modern resp len = Some (e, a)"
    and "e = map_scsi_error (rs_response resp) (rs_status resp) (rs_sense resp ! 2 AND 0x0F)"
    and "a \<le> len" and "e \<noteq> NO_ERROR \<Longrightarrow> a = 0"
    and "e = NO_ERROR \<Longrightarrow> unat a = (if unat (virtio_scsi_resp_residual modern resp) > unat len then 0
             else unat len - unat (virtio_scsi_resp_residual modern resp))"
proof (rule that)
  show "completion_result modern resp len =
    Some (map_scsi_error (rs_response resp) (rs_status resp) (rs_sense resp ! 2 AND 0x0F),
      if map_scsi_error (rs_response resp) (rs_status resp) (rs_sense resp ! 2 AND 0x0F) \<noteq> NO_ERROR then 0
      else if virtio_scsi_resp_residual modern resp > len then 0 else len - virtio_scsi_resp_residual modern resp)"
    using assms by (simp add: completion_result_def Let_def)
qed (auto simp: word_less_nat_alt not_less word_le_nat_alt unat_sub)

lemma complete_ok:
  assumes l: "length (inflight (unit_mem w up)) = 16" "length (resp_bufs (unit_mem w up)) = 16"
      "length (bounce_bufs (unit_mem w up)) = 16" "slot_list (unit_mem w up) fs" "s < 16" "s \<notin> set fs"
    and f: "f = inflight (unit_mem w up) ! s" "if_ioreq f \<noteq> NULL"
    and rq: "requestq w = Some vq"
    and cr: "completion_result (vq_modern vq) (resp_mem w (resp_bufs (unit_mem w up) ! s)) (io_Length (ioreqs w (if_ioreq f))) = Some (e, a)"
  shows "\<exists>w' es. complete_inflight_slot up s w = Some w'
     \<and> os_log w' = os_log w @ es @ [ObtainSemaphore, ReleaseSemaphore, ReplyMsg (if_ioreq f)] \<and> quiet es
     \<and> unit_mem w' = (unit_mem w)(up := completed_unit s (unit_mem w up))
     \<and> slot_list (unit_mem w' up) (s # fs)
     \<and> ioreqs w' = (ioreqs w)(if_ioreq f := (ioreqs w (if_ioreq f))\<lparr>io_Error := e, io_Actual := a\<rparr>)
     \<and> w_mem w' = readback_mem f (bounce_bufs (unit_mem w up) ! s) e a (w_mem w)
     \<and> vqs w' = vqs w \<and> units w' = units w \<and> req_mem w' = req_mem w \<and> resp_mem w' = resp_mem w
     \<and> occupied_count w' = (if occupied_count w > 0 then occupied_count w - 1 else occupied_count w)
     \<and> active_units_mask w' = (if inflight_count (unit_mem w up) = 1
          then active_units_mask w AND NOT (unit_bit (unit_num (unit_mem w up))) else active_units_mask w)"
proof -
  define w1 where "w1 = complete_readback f (bounce_bufs (unit_mem w up) ! s) e a
    (upd_ioreq (if_ioreq f) (\<lambda>r. r\<lparr>io_Error := e, io_Actual := a\<rparr>) w)"
  have w1: "unit_mem w1 = unit_mem w" "vqs w1 = vqs w" "units w1 = units w" "req_mem w1 = req_mem w"
    "resp_mem w1 = resp_mem w" "occupied_count w1 = occupied_count w" "active_units_mask w1 = active_units_mask w"
    "ioreqs w1 = (ioreqs w)(if_ioreq f := (ioreqs w (if_ioreq f))\<lparr>io_Error := e, io_Actual := a\<rparr>)"
    "w_mem w1 = readback_mem f (bounce_bufs (unit_mem w up) ! s) e a (w_mem w)"
    by (simp_all add: w1_def complete_readback_def readback_mem_def)
  have "\<exists>es. os_log w1 = os_log w @ es \<and> quiet es"
    by (simp add: w1_def complete_readback_def quiet_def lock_step_def)
  then obtain es1 where es1: "os_log w1 = os_log w @ es1" "quiet es1" by blast
  have ln: "length (inflight_next (unit_mem w up)) = 16" using l(4) by (simp add: slot_list_def)
  obtain w2 es2 where w2: "complete_unmap up s f w1 = Some w2" "os_log w2 = os_log w1 @ es2" "quiet es2"
    "unit_mem w2 = (unit_mem w1)(up := put_slot s (\<lambda>f. if if_dma_list f \<noteq> NULL
            then f\<lparr>if_dma_list := NULL, if_dma_num_entries := 0\<rparr> else f) (unit_mem w1 up))"
    "ioreqs w2 = ioreqs w1" "w_mem w2 = w_mem w1" "vqs w2 = vqs w1" "units w2 = units w1"
    "req_mem w2 = req_mem w1" "resp_mem w2 = resp_mem w1"
    "occupied_count w2 = occupied_count w1" "active_units_mask w2 = active_units_mask w1"
    using complete_unmap_ok [of s w1 up f] l(1,5) f(1) w1(1) by auto
  have l2: "s < length (inflight (unit_mem w2 up))" "s < length (inflight_next (unit_mem w2 up))"
    using l ln w1 by (simp_all add: w2(4) put_slot_def)
  from complete_free_ok [OF l2] obtain w3 where w3: "complete_free up s w2 = Some w3"
     "unit_mem w3 = (unit_mem w2)(up := complete_unit s (unit_mem w2 up))"
     "os_log w3 = os_log w2 @ [ObtainSemaphore, ReleaseSemaphore]"
     "ioreqs w3 = ioreqs w2" "w_mem w3 = w_mem w2" "vqs w3 = vqs w2" "units w3 = units w2"
     "req_mem w3 = req_mem w2" "resp_mem w3 = resp_mem w2"
     "occupied_count w3 = (if occupied_count w2 > 0 then occupied_count w2 - 1 else occupied_count w2)"
     "active_units_mask w3 = (if inflight_count (unit_mem w2 up) = 1
          then active_units_mask w2 AND NOT (unit_bit (unit_num (unit_mem w2 up))) else active_units_mask w2)"
    by blast
  have um: "unit_mem w3 = (unit_mem w)(up := completed_unit s (unit_mem w up))"
    using l(1,5) by (simp add: w3(2) w2(4) w1(1) put_slot_def complete_unit_def completed_unit_def completed_slot_def fun_eq_iff)
  have sl: "slot_list (unit_mem w3 up) (s # fs)"
    using slot_list_push [OF l(4,5,6)] ln l(5) by (simp add: um completed_unit_def slot_list_def)
  have u2: "inflight_count (unit_mem w2 up) = inflight_count (unit_mem w up)" "unit_num (unit_mem w2 up) = unit_num (unit_mem w up)"
    by (simp_all add: w2(4) w1(1) put_slot_def)
  have "complete_inflight_slot up s w = Some (os_emit (ReplyMsg (if_ioreq f)) w3)"
    using l f rq cr w2(1) w3(1) by (simp add: complete_inflight_slot_def w1_def)
  moreover have "quiet (es1 @ es2)" using es1 w2 by (simp add: quiet_append)
  ultimately show ?thesis
    using um sl w1 w2 w3 es1 u2 by (intro exI [of _ "os_emit (ReplyMsg (if_ioreq f)) w3"] exI [of _ "es1 @ es2"]) auto
qed

section \<open>Routing by the id field\<close>

lemma slot_id_decode:
  assumes "s < 16"
  shows "unat (ucast (drop_bit 16 (slot_id num s)) :: u32) = unat num"
    and "unat (ucast (slot_id num s AND 0xFFFF) :: u32) = s"
proof -
  have m: "(0xFFFF :: u64) = mask 16" by (simp add: mask_eq_decr_exp)
  have s: "take_bit 16 s = s" using assms by (simp add: take_bit_nat_eq_self)
  have sb: "bit s n \<Longrightarrow> n < 16" for n using s by (metis bit_take_bit_iff)
  have "(ucast (drop_bit 16 (slot_id num s)) :: u32) = num"
    by (rule bit_word_eqI) (auto simp: slot_id_def bit_simps dest: sb)
  then show "unat (ucast (drop_bit 16 (slot_id num s)) :: u32) = unat num" by simp
  have "(ucast (slot_id num s AND mask 16) :: u32) = of_nat s"
    by (rule bit_word_eqI) (auto simp: slot_id_def bit_simps dest: sb)
  then show "unat (ucast (slot_id num s AND 0xFFFF) :: u32) = s"
    using assms m by (simp add: unat_of_nat32)
qed

text \<open>The entry of a request in flight: cookie, request and id agree.\<close>

definition busy_slot :: "world \<Rightarrow> ptr \<Rightarrow> nat \<Rightarrow> ptr \<Rightarrow> bool" where
  "busy_slot w up s ck \<longleftrightarrow>
     (let u = unit_mem w up; f = inflight u ! s in
      s < 16 \<and> ck \<noteq> NULL \<and> if_ioreq f \<noteq> NULL \<and> if_cookie f = ck \<and> rq_id (req_mem w ck) = slot_id (unit_num u) s
      \<and> 2 < length (rs_sense (resp_mem w (resp_bufs u ! s))))"

lemma decode_slot_busy:
  assumes "busy_slot w up s ck" and "length (inflight (unit_mem w up)) = 16"
    and "unat (unit_num (unit_mem w up)) < 8" and "lk (unat (unit_num (unit_mem w up))) = Some up" and "up \<noteq> NULL"
  shows "decode_slot lk ck w = Some (Some (up, s))"
proof -
  have s: "s < 16" and id: "rq_id (req_mem w ck) = slot_id (unit_num (unit_mem w up)) s"
    using assms(1) by (simp_all add: busy_slot_def Let_def)
  show ?thesis
    using assms s unfolding decode_slot_def Let_def id slot_id_decode [OF s]
    by (simp add: MAX_INFLIGHT_def MAX_UNITS_def busy_slot_def Let_def)
qed

section \<open>Draining the used ring\<close>

text \<open>The heads of the chains the device has completed, from position \<open>lui\<close> of the used ring on.\<close>

fun ring_holds :: "virtqueue \<Rightarrow> u16 \<Rightarrow> nat list \<Rightarrow> bool" where
  "ring_holds vq lui [] \<longleftrightarrow> lui = vr16 (vq_modern vq) (used_idx vq)"
| "ring_holds vq lui (h # hs) \<longleftrightarrow> lui \<noteq> vr16 (vq_modern vq) (used_idx vq)
     \<and> vr32 (vq_modern vq) (ue_id (used_ring vq ! (unat lui mod unat (vq_num vq)))) = of_nat h
     \<and> ring_holds vq (lui + 1) hs"

lemma ring_holds_frame: "vq_frame vq vq' \<Longrightarrow> ring_holds vq' lui hs = ring_holds vq lui hs"
  by (induction hs arbitrary: lui) (auto simp: vq_frame_def)

definition ior_of :: "world \<Rightarrow> ptr \<Rightarrow> nat \<Rightarrow> ptr" where
  "ior_of w up s = if_ioreq (inflight (unit_mem w up) ! s)"

text \<open>The result a completed request gets: from the response of its own slot.\<close>

definition result_of :: "bool \<Rightarrow> world \<Rightarrow> ptr \<Rightarrow> nat \<Rightarrow> (io_err \<times> u32) option" where
  "result_of m w up s = completion_result m (resp_mem w (resp_bufs (unit_mem w up) ! s)) (io_Length (ioreqs w (ior_of w up s)))"

definition unit_ready :: "world \<Rightarrow> ptr \<Rightarrow> bool" where
  "unit_ready w up \<longleftrightarrow> up \<noteq> NULL \<and> unat (unit_num (unit_mem w up)) < 8 \<and> length (inflight (unit_mem w up)) = 16
     \<and> length (resp_bufs (unit_mem w up)) = 16 \<and> length (bounce_bufs (unit_mem w up)) = 16"

lemma unit_ready_cong:
  "unit_num (unit_mem w' up) = unit_num (unit_mem w up) \<Longrightarrow> length (inflight (unit_mem w' up)) = length (inflight (unit_mem w up))
   \<Longrightarrow> resp_bufs (unit_mem w' up) = resp_bufs (unit_mem w up) \<Longrightarrow> bounce_bufs (unit_mem w' up) = bounce_bufs (unit_mem w up)
   \<Longrightarrow> unit_ready w' up = unit_ready w up"
  by (simp add: unit_ready_def)

lemma getbuf_ok:
  assumes "requestq w = Some vq" and inv: "vq_inv vq fl os" and x: "(c, ck, v) \<in> set os"
    and pend: "pending vq" and ent: "used_id vq = of_nat (hd c)"
  shows "\<exists>w1 vq1. getbuf w = Some (ck, Some (used_len vq), w1) \<and> requestq w1 = Some vq1
     \<and> vq_inv vq1 (rev c @ fl) (remove1 (c, ck, v) os) \<and> last_used_idx vq1 = last_used_idx vq + 1 \<and> vq_frame vq vq1
     \<and> unit_mem w1 = unit_mem w \<and> ioreqs w1 = ioreqs w \<and> w_mem w1 = w_mem w \<and> req_mem w1 = req_mem w
     \<and> resp_mem w1 = resp_mem w \<and> units w1 = units w \<and> occupied_count w1 = occupied_count w
     \<and> active_units_mask w1 = active_units_mask w \<and> (\<exists>es. os_log w1 = os_log w @ es \<and> quiet es)"
proof -
  from GetBuf_spec [OF inv x pend ent, of w] obtain vq1 w1 where g:
    "VirtQueue_GetBuf vq w = Some (ck, Some (used_len vq), vq1, w1)"
    "vq_inv vq1 (rev c @ fl) (remove1 (c, ck, v) os)" "last_used_idx vq1 = last_used_idx vq + 1" "vq_frame vq vq1" by blast
  note sw = GetBuf_same [OF g(1)]
  have "requestq w1 \<noteq> None" using same_world_requestq [OF sw] assms(1) by simp
  with assms(1) g sw show ?thesis
    by (intro exI [of _ "set_requestq vq1 w1"] exI [of _ vq1])
      (simp add: getbuf_def same_world_def)
qed

lemma harvest_one_ok:
  assumes b: "busy_slot w up s ck" and r: "unit_ready w up" and sl: "slot_list (unit_mem w up) fs" "s \<notin> set fs"
    and rq: "requestq w = Some vq"
  shows "\<exists>w' e a es. harvest_one up ck n w = Some w' \<and> result_of (vq_modern vq) w up s = Some (e, a)
     \<and> os_log w' = os_log w @ es @ [ObtainSemaphore, ReleaseSemaphore, ReplyMsg (ior_of w up s)] \<and> quiet es
     \<and> unit_mem w' = (unit_mem w)(up := completed_unit s (unit_mem w up)) \<and> slot_list (unit_mem w' up) (s # fs)
     \<and> ioreqs w' = (ioreqs w)(ior_of w up s := (ioreqs w (ior_of w up s))\<lparr>io_Error := e, io_Actual := a\<rparr>)
     \<and> vqs w' = vqs w \<and> units w' = units w \<and> req_mem w' = req_mem w \<and> resp_mem w' = resp_mem w
     \<and> w_mem w' = readback_mem (inflight (unit_mem w up) ! s) (bounce_bufs (unit_mem w up) ! s) e a (w_mem w)
     \<and> occupied_count w' = (if occupied_count w > 0 then occupied_count w - 1 else occupied_count w)"
proof -
  have u: "length (inflight (unit_mem w up)) = 16" "length (resp_bufs (unit_mem w up)) = 16"
    "length (bounce_bufs (unit_mem w up)) = 16" "unat (unit_num (unit_mem w up)) < 8" "up \<noteq> NULL"
    using r by (auto simp: unit_ready_def)
  have bs: "s < 16" "if_ioreq (inflight (unit_mem w up) ! s) \<noteq> NULL" "2 < length (rs_sense (resp_mem w (resp_bufs (unit_mem w up) ! s)))"
    using b by (simp_all add: busy_slot_def Let_def)
  obtain e a where cr: "result_of (vq_modern vq) w up s = Some (e, a)"
    using completion_result_ok [OF bs(3)] unfolding result_of_def by blast
  have d: "decode_slot (\<lambda>cu. if of_nat cu = unit_num (unit_mem w up) then Some up else rd (units w) cu) ck w = Some (Some (up, s))"
    by (rule decode_slot_busy [OF b u(1,4) _ u(5)]) simp
  from complete_ok [OF u(1-3) sl(1) bs(1) sl(2) refl bs(2) rq cr [unfolded result_of_def ior_of_def]]
  obtain w' es where w': "complete_inflight_slot up s w = Some w'"
     "os_log w' = os_log w @ es @ [ObtainSemaphore, ReleaseSemaphore, ReplyMsg (ior_of w up s)]" "quiet es"
     "unit_mem w' = (unit_mem w)(up := completed_unit s (unit_mem w up))" "slot_list (unit_mem w' up) (s # fs)"
     "ioreqs w' = (ioreqs w)(ior_of w up s := (ioreqs w (ior_of w up s))\<lparr>io_Error := e, io_Actual := a\<rparr>)"
     "vqs w' = vqs w" "units w' = units w" "req_mem w' = req_mem w" "resp_mem w' = resp_mem w"
     "w_mem w' = readback_mem (inflight (unit_mem w up) ! s) (bounce_bufs (unit_mem w up) ! s) e a (w_mem w)"
     "occupied_count w' = (if occupied_count w > 0 then occupied_count w - 1 else occupied_count w)"
    unfolding ior_of_def by blast
  have "harvest_one up ck n w = Some w'" using d w'(1) by (simp add: harvest_one_def)
  with w' cr show ?thesis by blast
qed

lemma completed_unit_other:
  assumes "t \<noteq> s" and "t < 16" and "length (inflight u) = 16"
  shows "inflight (completed_unit s u) ! t = inflight u ! t"
  using assms by (simp add: completed_unit_def nth_list_update)

lemma completed_unit_fields [simp]:
  "unit_num (completed_unit s u) = unit_num u" "length (inflight (completed_unit s u)) = length (inflight u)"
  "resp_bufs (completed_unit s u) = resp_bufs u" "bounce_bufs (completed_unit s u) = bounce_bufs u"
  "req_bufs (completed_unit s u) = req_bufs u"
  by (simp_all add: completed_unit_def)

text \<open>
  A used ring with any number of completions \<open>ds\<close>, each a chain that is outstanding and the
  slot it belongs to: all are completed, in ring order, each with the result of its own
  response.
\<close>

lemma harvest_loop_ok:
  assumes "requestq w = Some vq" and "vq_inv vq fl os" and "unit_ready w up" and "slot_list (unit_mem w up) fs"
    and "ring_holds vq (last_used_idx vq) (map (\<lambda>(x, s). hd (fst x)) ds)"
    and "\<forall>(x, s) \<in> set ds. x \<in> set os \<and> busy_slot w up s (fst (snd x)) \<and> s \<notin> set fs"
    and "distinct (map fst ds)" and "distinct (map snd ds)" and "distinct (map (\<lambda>(x, s). ior_of w up s) ds)"
  shows "\<exists>w' new vq' fl'. harvest_loop up w = Some w' \<and> requestq w' = Some vq' \<and> vq_frame vq vq' \<and> \<not> pending vq'
     \<and> vq_inv vq' fl' (fold (remove1 \<circ> fst) ds os)
     \<and> os_log w' = os_log w @ new \<and> replies new = map (\<lambda>(x, s). ior_of w up s) ds \<and> lock_run new True = Some True
     \<and> slot_list (unit_mem w' up) (rev (map snd ds) @ fs)
     \<and> (\<forall>p. p \<notin> (\<lambda>(x, s). ior_of w up s) ` set ds \<longrightarrow> ioreqs w' p = ioreqs w p)
     \<and> (\<forall>(x, s) \<in> set ds. \<exists>e a. result_of (vq_modern vq) w up s = Some (e, a)
           \<and> ioreqs w' (ior_of w up s) = (ioreqs w (ior_of w up s))\<lparr>io_Error := e, io_Actual := a\<rparr>)"
  using assms
proof (induction ds arbitrary: w vq fl os fs)
  case Nil
  then have "\<not> pending vq" by (simp add: pending_def)
  then have g: "getbuf w = Some (NULL, None, set_requestq vq w)"
    using Nil(1) by (simp add: getbuf_def)
  have "harvest_loop up w = Some (set_requestq vq w)" by (subst harvest_loop.simps) (simp add: g)
  then show ?case using Nil \<open>\<not> pending vq\<close>
    by (intro exI [of _ "set_requestq vq w"] exI [of _ "[]"] exI [of _ vq] exI [of _ fl])
      (auto simp: vq_frame_def)
next
  case (Cons d ds)
  obtain c ck v s where d: "d = ((c, ck, v), s)" by (cases d) auto
  have x: "(c, ck, v) \<in> set os" and b: "busy_slot w up s ck" and sf: "s \<notin> set fs"
    using Cons.prems(6) d by auto
  have pend: "pending vq" and ent: "used_id vq = of_nat (hd c)"
    and rh: "ring_holds vq (last_used_idx vq + 1) (map (\<lambda>(x, s). hd (fst x)) ds)"
    using Cons.prems(5) d by (auto simp: pending_def used_id_def used_entry_def)
  obtain w1 vq1 es1 where g: "getbuf w = Some (ck, Some (used_len vq), w1)" "requestq w1 = Some vq1"
     "vq_inv vq1 (rev c @ fl) (remove1 (c, ck, v) os)" "last_used_idx vq1 = last_used_idx vq + 1" "vq_frame vq vq1"
     "unit_mem w1 = unit_mem w" "ioreqs w1 = ioreqs w" "req_mem w1 = req_mem w"
     "resp_mem w1 = resp_mem w" "units w1 = units w" "os_log w1 = os_log w @ es1" "quiet es1"
    using getbuf_ok [OF Cons.prems(1,2) x pend ent] by blast
  define w2 where "w2 = os_emit ReleaseSemaphore w1"
  have w2: "unit_mem w2 = unit_mem w" "ioreqs w2 = ioreqs w" "req_mem w2 = req_mem w" "resp_mem w2 = resp_mem w"
    "requestq w2 = Some vq1" "os_log w2 = os_log w @ es1 @ [ReleaseSemaphore]"
    using g by (simp_all add: w2_def)
  have b2: "busy_slot w2 up t k = busy_slot w up t k" and ior2: "ior_of w2 up t = ior_of w up t"
    and res2: "result_of m w2 up t = result_of m w up t" for t k m
    by (simp_all add: busy_slot_def ior_of_def result_of_def w2)
  have r2: "unit_ready w2 up" using Cons.prems(3) by (simp add: unit_ready_def w2)
  have sl2: "slot_list (unit_mem w2 up) fs" using Cons.prems(4) by (simp add: w2)
  obtain w3 e a es3 where h: "harvest_one up ck (used_len vq) w2 = Some w3" "result_of (vq_modern vq1) w up s = Some (e, a)"
     "os_log w3 = os_log w2 @ es3 @ [ObtainSemaphore, ReleaseSemaphore, ReplyMsg (ior_of w up s)]" "quiet es3"
     "unit_mem w3 = (unit_mem w)(up := completed_unit s (unit_mem w up))" "slot_list (unit_mem w3 up) (s # fs)"
     "ioreqs w3 = (ioreqs w)(ior_of w up s := (ioreqs w (ior_of w up s))\<lparr>io_Error := e, io_Actual := a\<rparr>)"
     "vqs w3 = vqs w2" "units w3 = units w2" "req_mem w3 = req_mem w" "resp_mem w3 = resp_mem w"
    using harvest_one_ok [OF b [folded b2] r2 sl2 sf w2(5), of "used_len vq"] unfolding ior2 res2 w2(1-4) by blast
  define w4 where "w4 = os_emit ObtainSemaphore w3"
  have m1: "vq_modern vq1 = vq_modern vq" using g(5) by (simp add: vq_frame_def)
  have l16: "length (inflight (unit_mem w up)) = 16" using Cons.prems(3) by (simp add: unit_ready_def)
  have rest: "t < 16 \<and> t \<noteq> s \<and> ior_of w up t \<noteq> ior_of w up s" if "(y, t) \<in> set ds" for y t
    using that Cons.prems(6,8,9) d by (auto simp: busy_slot_def Let_def rev_image_eqI)
  have um4: "unit_mem w4 up = completed_unit s (unit_mem w up)" by (simp add: w4_def h)
  have ior4: "ior_of w4 up t = ior_of w up t" and b4: "busy_slot w4 up t k = busy_slot w up t k"
    and res4: "result_of m w4 up t = result_of m w up t" if "t < 16" "t \<noteq> s" "ior_of w up t \<noteq> ior_of w up s" for t k m
    using that l16 by (simp_all add: ior_of_def busy_slot_def Let_def result_of_def um4 completed_unit_other w4_def h)
  have iors: "map (\<lambda>(x, s). ior_of w4 up s) ds = map (\<lambda>(x, s). ior_of w up s) ds"
    using rest ior4 by (intro map_cong) auto
  have "\<exists>w' new vq' fl'. harvest_loop up w4 = Some w' \<and> requestq w' = Some vq' \<and> vq_frame vq1 vq' \<and> \<not> pending vq'
     \<and> vq_inv vq' fl' (fold (remove1 \<circ> fst) ds (remove1 (c, ck, v) os))
     \<and> os_log w' = os_log w4 @ new \<and> replies new = map (\<lambda>(x, s). ior_of w4 up s) ds \<and> lock_run new True = Some True
     \<and> slot_list (unit_mem w' up) (rev (map snd ds) @ s # fs)
     \<and> (\<forall>p. p \<notin> (\<lambda>(x, s). ior_of w4 up s) ` set ds \<longrightarrow> ioreqs w' p = ioreqs w4 p)
     \<and> (\<forall>(x, s) \<in> set ds. \<exists>e a. result_of (vq_modern vq1) w4 up s = Some (e, a)
           \<and> ioreqs w' (ior_of w4 up s) = (ioreqs w4 (ior_of w4 up s))\<lparr>io_Error := e, io_Actual := a\<rparr>)"
  proof (rule Cons.IH)
    show "requestq w4 = Some vq1" using h(8) w2(5) by (simp add: w4_def requestq_def)
    show "unit_ready w4 up" using Cons.prems(3) by (simp add: unit_ready_def um4)
    show "slot_list (unit_mem w4 up) (s # fs)" using h(6) by (simp add: w4_def)
    show "ring_holds vq1 (last_used_idx vq1) (map (\<lambda>(x, s). hd (fst x)) ds)"
      using rh ring_holds_frame [OF g(5)] by (simp add: g(4))
    show "\<forall>(x, t) \<in> set ds. x \<in> set (remove1 (c, ck, v) os) \<and> busy_slot w4 up t (fst (snd x)) \<and> t \<notin> set (s # fs)"
    proof (clarify)
      fix c' ck' v' t assume m: "((c', ck', v'), t) \<in> set ds"
      then have "(c', ck', v') \<noteq> (c, ck, v)" using Cons.prems(7) d by (auto simp: image_iff)
      moreover have "(c', ck', v') \<in> set os" "busy_slot w up t ck'" "t \<notin> set fs" using Cons.prems(6) m by auto
      ultimately show "(c', ck', v') \<in> set (remove1 (c, ck, v) os) \<and> busy_slot w4 up t (fst (snd (c', ck', v'))) \<and> t \<notin> set (s # fs)"
        using rest [OF m] b4 by (simp add: in_set_remove1)
    qed
    show "distinct (map (\<lambda>(x, s). ior_of w4 up s) ds)" unfolding iors using Cons.prems(9) by simp
  qed (use g(3) Cons.prems(7,8) in auto)
  then obtain w' new vq' fl' where ih: "harvest_loop up w4 = Some w'" "requestq w' = Some vq'" "vq_frame vq1 vq'" "\<not> pending vq'"
     "vq_inv vq' fl' (fold (remove1 \<circ> fst) ds (remove1 (c, ck, v) os))"
     "os_log w' = os_log w4 @ new" "replies new = map (\<lambda>(x, s). ior_of w up s) ds" "lock_run new True = Some True"
     "slot_list (unit_mem w' up) (rev (map snd ds) @ s # fs)"
     "\<forall>p. p \<notin> (\<lambda>(x, s). ior_of w4 up s) ` set ds \<longrightarrow> ioreqs w' p = ioreqs w4 p"
     "\<forall>(x, s) \<in> set ds. \<exists>e a. result_of (vq_modern vq1) w4 up s = Some (e, a)
           \<and> ioreqs w' (ior_of w4 up s) = (ioreqs w4 (ior_of w4 up s))\<lparr>io_Error := e, io_Actual := a\<rparr>"
    unfolding iors by blast
  have ckn: "ck \<noteq> NULL" using b by (simp add: busy_slot_def Let_def)
  have run: "harvest_loop up w = Some w'"
    by (subst harvest_loop.simps) (simp add: g(1) ckn w2_def [symmetric] h(1) w4_def [symmetric] ih(1))
  have im: "(\<lambda>(x, s). ior_of w4 up s) ` set ds = (\<lambda>(x, s). ior_of w up s) ` set ds"
    using rest ior4 by (intro image_cong) auto
  have i4: "ioreqs w4 = (ioreqs w)(ior_of w up s := (ioreqs w (ior_of w up s))\<lparr>io_Error := e, io_Actual := a\<rparr>)"
    by (simp add: w4_def h)
  have notin: "ior_of w up s \<notin> (\<lambda>(x, s). ior_of w up s) ` set ds" using Cons.prems(9) d by (auto simp: image_iff)
  define new' where "new' = es1 @ [ReleaseSemaphore] @ es3 @ [ObtainSemaphore, ReleaseSemaphore, ReplyMsg (ior_of w up s), ObtainSemaphore] @ new"
  have lg: "os_log w' = os_log w @ new'" by (simp add: ih(6) w4_def h(3) w2(6) new'_def)
  have rp: "replies new' = map (\<lambda>(x, s). ior_of w up s) (d # ds)"
    using g(12) h(4) ih(7) by (simp add: new'_def quiet_def d)
  have lk: "lock_run new' True = Some True"
    using g(12) h(4) ih(8) by (simp add: new'_def quiet_def lock_step_def)
  have res: "\<forall>(x, s) \<in> set (d # ds). \<exists>e a. result_of (vq_modern vq) w up s = Some (e, a)
           \<and> ioreqs w' (ior_of w up s) = (ioreqs w (ior_of w up s))\<lparr>io_Error := e, io_Actual := a\<rparr>"
  proof (clarify)
    fix c' ck' v' t assume m: "((c', ck', v'), t) \<in> set (d # ds)"
    show "\<exists>e a. result_of (vq_modern vq) w up t = Some (e, a)
           \<and> ioreqs w' (ior_of w up t) = (ioreqs w (ior_of w up t))\<lparr>io_Error := e, io_Actual := a\<rparr>"
    proof (cases "((c', ck', v'), t) \<in> set ds")
      case True
      note rt = rest [OF True]
      with ih(11) True obtain e' a' where "result_of (vq_modern vq1) w4 up t = Some (e', a')"
        "ioreqs w' (ior_of w4 up t) = (ioreqs w4 (ior_of w4 up t))\<lparr>io_Error := e', io_Actual := a'\<rparr>" by blast
      with rt ior4 res4 m1 i4 show ?thesis by auto
    next
      case False
      then have t: "t = s" using m d by simp
      have "ioreqs w' (ior_of w up s) = ioreqs w4 (ior_of w up s)" using ih(10) notin im by simp
      then show ?thesis using h(2) m1 i4 t by simp
    qed
  qed
  have fr: "vq_frame vq vq'" using g(5) ih(3) by (simp add: vq_frame_def)
  have ot: "\<forall>p. p \<notin> (\<lambda>(x, s). ior_of w up s) ` set (d # ds) \<longrightarrow> ioreqs w' p = ioreqs w p"
    using ih(10) im i4 d by auto
  show ?case
    using run ih(2,4,5,9) fr lg rp lk res ot
    by (intro exI [of _ w'] exI [of _ new'] exI [of _ vq'] exI [of _ fl']) (simp add: d comp_def)
qed

text \<open>A single completion, with the memory and the counters.\<close>

lemma harvest_single:
  assumes "requestq w = Some vq" and "vq_inv vq fl os" and "unit_ready w up" and "slot_list (unit_mem w up) fs"
    and "ring_holds vq (last_used_idx vq) [hd c]" and "(c, ck, v) \<in> set os" and "busy_slot w up s ck" and "s \<notin> set fs"
  shows "\<exists>w' vq' e a new. harvest_loop up w = Some w' \<and> requestq w' = Some vq' \<and> \<not> pending vq' \<and> vq_frame vq vq'
     \<and> vq_inv vq' (rev c @ fl) (remove1 (c, ck, v) os) \<and> slot_list (unit_mem w' up) (s # fs)
     \<and> result_of (vq_modern vq) w up s = Some (e, a)
     \<and> ioreqs w' = (ioreqs w)(ior_of w up s := (ioreqs w (ior_of w up s))\<lparr>io_Error := e, io_Actual := a\<rparr>)
     \<and> w_mem w' = readback_mem (inflight (unit_mem w up) ! s) (bounce_bufs (unit_mem w up) ! s) e a (w_mem w)
     \<and> occupied_count w' = (if occupied_count w > 0 then occupied_count w - 1 else occupied_count w)
     \<and> unit_mem w' = (unit_mem w)(up := completed_unit s (unit_mem w up))
     \<and> os_log w' = os_log w @ new \<and> replies new = [ior_of w up s] \<and> lock_run new True = Some True"
proof -
  have pend: "pending vq" and ent: "used_id vq = of_nat (hd c)" and rh: "ring_holds vq (last_used_idx vq + 1) []"
    using assms(5) by (auto simp: pending_def used_id_def used_entry_def)
  obtain w1 vq1 es1 where g: "getbuf w = Some (ck, Some (used_len vq), w1)" "requestq w1 = Some vq1"
     "vq_inv vq1 (rev c @ fl) (remove1 (c, ck, v) os)" "last_used_idx vq1 = last_used_idx vq + 1" "vq_frame vq vq1"
     "unit_mem w1 = unit_mem w" "ioreqs w1 = ioreqs w" "w_mem w1 = w_mem w" "req_mem w1 = req_mem w"
     "resp_mem w1 = resp_mem w" "occupied_count w1 = occupied_count w" "os_log w1 = os_log w @ es1" "quiet es1"
    using getbuf_ok [OF assms(1,2,6) pend ent] by blast
  define w2 where "w2 = os_emit ReleaseSemaphore w1"
  have w2: "unit_mem w2 = unit_mem w" "ioreqs w2 = ioreqs w" "req_mem w2 = req_mem w" "resp_mem w2 = resp_mem w"
    "w_mem w2 = w_mem w" "occupied_count w2 = occupied_count w"
    "requestq w2 = Some vq1" "os_log w2 = os_log w @ es1 @ [ReleaseSemaphore]"
    using g by (simp_all add: w2_def)
  have b2: "busy_slot w2 up s ck" and ior2: "ior_of w2 up s = ior_of w up s" and res2: "result_of m w2 up s = result_of m w up s" for m
    using assms(7) by (simp_all add: busy_slot_def ior_of_def result_of_def w2)
  have r2: "unit_ready w2 up" and sl2: "slot_list (unit_mem w2 up) fs" using assms(3,4) by (simp_all add: unit_ready_def w2)
  obtain w3 e a es3 where h: "harvest_one up ck (used_len vq) w2 = Some w3" "result_of (vq_modern vq1) w up s = Some (e, a)"
     "os_log w3 = os_log w2 @ es3 @ [ObtainSemaphore, ReleaseSemaphore, ReplyMsg (ior_of w up s)]" "quiet es3"
     "unit_mem w3 = (unit_mem w)(up := completed_unit s (unit_mem w up))" "slot_list (unit_mem w3 up) (s # fs)"
     "ioreqs w3 = (ioreqs w)(ior_of w up s := (ioreqs w (ior_of w up s))\<lparr>io_Error := e, io_Actual := a\<rparr>)"
     "vqs w3 = vqs w2"
     "w_mem w3 = readback_mem (inflight (unit_mem w up) ! s) (bounce_bufs (unit_mem w up) ! s) e a (w_mem w)"
     "occupied_count w3 = (if occupied_count w > 0 then occupied_count w - 1 else occupied_count w)"
    using harvest_one_ok [OF b2 r2 sl2 assms(8) w2(7), of "used_len vq"] unfolding ior2 res2 w2(1-6) by blast
  define w4 where "w4 = os_emit ObtainSemaphore w3"
  have rq4: "requestq w4 = Some vq1" using h(8) w2(7) by (simp add: w4_def requestq_def)
  have np: "\<not> pending vq1" using rh g(4,5) by (simp add: pending_def vq_frame_def)
  have g4: "getbuf w4 = Some (NULL, None, set_requestq vq1 w4)" using rq4 np by (simp add: getbuf_def)
  have "ck \<noteq> NULL" using assms(7) by (simp add: busy_slot_def Let_def)
  have "harvest_loop up w4 = Some (set_requestq vq1 w4)" by (subst harvest_loop.simps) (simp add: g4)
  with \<open>ck \<noteq> NULL\<close> have run: "harvest_loop up w = Some (set_requestq vq1 w4)"
    by (subst harvest_loop.simps) (simp add: g(1) w2_def [symmetric] h(1) w4_def [symmetric])
  define new where "new = es1 @ ReleaseSemaphore # es3 @ [ObtainSemaphore, ReleaseSemaphore, ReplyMsg (ior_of w up s), ObtainSemaphore]"
  have "replies new = [ior_of w up s]" "lock_run new True = Some True"
    using g(13) h(4) by (simp_all add: new_def quiet_def lock_step_def)
  moreover have "w_mem (set_requestq vq1 w4) = w_mem w3" "os_log (set_requestq vq1 w4) = os_log w @ new"
    by (simp_all add: w4_def h(3) w2(8) new_def)
  moreover have "vq_modern vq1 = vq_modern vq" using g(5) by (simp add: vq_frame_def)
  ultimately show ?thesis
    using run rq4 np g(3,5) h by (intro exI [of _ "set_requestq vq1 w4"] exI [of _ vq1] exI [of _ e] exI [of _ a] exI [of _ new])
      (simp add: w4_def)
qed

section \<open>Coalescing\<close>

text \<open>The device interrupts when the used index moves from \<open>old\<close> to \<open>idx\<close> past the event.\<close>

definition vring_need_event :: "u16 \<Rightarrow> u16 \<Rightarrow> u16 \<Rightarrow> bool" where
  "vring_need_event event idx old \<longleftrightarrow> idx - event - 1 < idx - old"

lemma need_event_step: "vring_need_event event (old + 1) old \<longleftrightarrow> old = event"
proof -
  have "old + 1 - event - 1 = old - event" "old + 1 - old = (1 :: u16)" by simp_all
  moreover have "x < 1 \<longleftrightarrow> x = 0" for x :: u16 by (simp add: word_less_nat_alt unat_eq_zero)
  ultimately show ?thesis by (simp add: vring_need_event_def)
qed

lemma harvest_coalesce_ok:
  assumes "requestq w = Some vq" and "length (avail_ring vq) = unat (vq_num vq) + 1"
  shows "\<exists>w' vq'. harvest_coalesce w = Some w' \<and> requestq w' = Some vq' \<and> os_log w' = os_log w
     \<and> unit_mem w' = unit_mem w \<and> ioreqs w' = ioreqs w \<and> w_mem w' = w_mem w \<and> occupied_count w' = occupied_count w
     \<and> vq' = (if use_event_idx vq \<and> 2 \<le> (ucast (occupied_count w) :: u16)
           then vq\<lparr>avail_ring := (avail_ring vq)[unat (vq_num vq) :=
                   vr16 (vq_modern vq) (last_used_idx vq + (ucast (occupied_count w) - 1))]\<rparr> else vq)"
proof -
  have "requestq w \<noteq> None" using assms(1) by simp
  with assms show ?thesis by (simp add: harvest_coalesce_def Let_def)
qed

end
