(* ===== verification/Demo_World.thy ===== *)
theory Demo_World
  imports Harvest_Spec Virtqueue_Props
begin

text \<open>
  A world with one open unit, all sixteen slots free, and a request queue of four descriptors:
  the concrete input of the witnesses.
\<close>

section \<open>A sample world\<close>

definition DU :: ptr where "DU = 0x900000"
definition DIO :: ptr where "DIO = 0xA000"

definition demo_unit :: devunit where
  "demo_unit = (new_unit 0 3 1)\<lparr>inflight_next := init_free_list, free_head := 0,
     req_bufs := map (\<lambda>s. 0x10000 + 0x100 * of_nat s) [0..<16], resp_bufs := map (\<lambda>s. 0x20000 + 0x100 * of_nat s) [0..<16],
     dma_req_lists := replicate 16 0x30000, dma_req_entries_arr := replicate 16 1,
     dma_resp_lists := replicate 16 0x30100, dma_resp_entries_arr := replicate 16 1,
     bounce_bufs := map (\<lambda>s. 0x1000000 + 0x10000 * of_nat s) [0..<16],
     bounce_dma_phys := map (\<lambda>s. 0x41000000 + 0x10000 * of_nat s) [0..<16],
     data_dma_pool := replicate 16 0x30200,
     req_buf := 0x10000, resp_buf := 0x20000, dma_req_list := 0x30000, dma_req_entries := 1,
     dma_resp_list := 0x30100, dma_resp_entries := 1, geometry_valid := True, block_size := 512, total_blocks := 1000,
     io_port := 0x5000, port_mutex := 0x5100, io_signal_mask := 0x10000, io_port_mask := 0x20000, io_wait_task := 0x6000\<rparr>"

definition demo_ioreq :: "command \<Rightarrow> u32 \<Rightarrow> ioreq" where
  "demo_ioreq c len = \<lparr>io_Device = 0x1000, io_Unit = DU, io_Command = c, io_Quick = False, io_Error = NO_ERROR, io_Actual = 0,
     io_Length = len, io_Data = 0xB0000, io_Offset = 1024\<rparr>"

definition demo_world :: "command \<Rightarrow> u32 \<Rightarrow> world" where
  "demo_world c len =
     vq_os.extend (os.extend \<lparr>os_log = [],
          dma_objs = (\<lambda>p. [\<lparr>PhysicalAddress = p + 0x40000000, BlockLength = (if p = 0x30000 then 51 else 108)\<rparr>])\<rparr>
        \<lparr>itbl_mem = (\<lambda>_. [])\<rparr>)
      \<lparr>w_mem = (\<lambda>_. 0), req_mem = (\<lambda>_. zero_req), resp_mem = (\<lambda>_. zero_resp), ioreqs = (\<lambda>_. demo_ioreq c len),
       unit_mem = (\<lambda>_. demo_unit), port_msgs = (\<lambda>_. []), geom_mem = (\<lambda>_. zero_geom), geom64_mem = (\<lambda>_. zero_geom64),
       nsq_mem = (\<lambda>_. \<lparr>DevQueryFormat = 0, SizeAvailable = 0, DeviceType_trackdisk = False, DeviceSubType = 0, SupportedCommands = []\<rparr>),
       scsi_mem = (\<lambda>_. \<lparr>scsi_Data = 0xB0000, scsi_Length = 512, scsi_Actual = 0, scsi_Command = 0xC0000, scsi_CmdLength = 10,
          scsi_CmdActual = 0, scsi_Autosense = True, scsi_Status = 0, scsi_SenseData = 0xD0000, scsi_SenseLength = 18, scsi_SenseActual = 0\<rparr>),
       pciDevice = 0x2000, bar0 = 0x2100, bar0_physical = 0x8000, bar4 = 0, modern_mode = False, common_cfg_base = 0,
       notify_cfg_base = 0, notify_off_mult = 0, isr_cfg_base = 0, device_cfg_base = 0,
       vqs = [None, None, Some demo_vq], units = DU # replicate 7 NULL, occupied_count = 0, active_units_mask = 0,
       irq_number = 11, irq_installed = True, lib_OpenCnt = 1, lib_DelExp = False, dev_SegList = 0x3000,
       ExpansionBase = 0x3100, IPCI = 0x3200, UtilityBase = 0x3300, IUtility = 0x3400\<rparr>"

lemma demo_world_sel [simp]:
  "unit_mem (demo_world c len) p = demo_unit" "requestq (demo_world c len) = Some demo_vq"
  "ioreqs (demo_world c len) p = demo_ioreq c len" "os_log (demo_world c len) = []"
  "dma_objs (demo_world c len) q = [\<lparr>PhysicalAddress = q + 0x40000000, BlockLength = (if q = 0x30000 then 51 else 108)\<rparr>]"
  "w_mem (demo_world c len) q = 0" "units (demo_world c len) = DU # replicate 7 NULL"
  "irq_installed (demo_world c len)" "pciDevice (demo_world c len) = 0x2000"
  "port_msgs (demo_world c len) q = []" "req_mem (demo_world c len) q = zero_req" "resp_mem (demo_world c len) q = zero_resp"
  "occupied_count (demo_world c len) = 0" "active_units_mask (demo_world c len) = 0" "modern_mode (demo_world c len) = False"
  by (simp_all add: demo_world_def requestq_def vq_os.defs os.defs rd_def)

lemma demo_unit_lists:
  "length (req_bufs demo_unit) = 16" "length (resp_bufs demo_unit) = 16" "length (inflight demo_unit) = 16"
  "length (bounce_bufs demo_unit) = 16" "length (bounce_dma_phys demo_unit) = 16" "length (data_dma_pool demo_unit) = 16"
  "dma_req_lists demo_unit = replicate 16 0x30000" "dma_req_entries_arr demo_unit = replicate 16 1"
  "dma_resp_lists demo_unit = replicate 16 0x30100" "dma_resp_entries_arr demo_unit = replicate 16 1"
  "inflight demo_unit = replicate 16 free_slot_rec" "data_dma_pool demo_unit = replicate 16 0x30200"
  "unit_num demo_unit = 0" "target_id demo_unit = 3" "lun_id demo_unit = 1"
  by (simp_all add: demo_unit_def new_unit_def init_dev_unit_def zero_unit_def MAX_INFLIGHT_def)

lemma demo_unit_bufs: "unit_bufs (demo_world c len) DU"
  by (simp add: unit_bufs_def Let_def lists_ok_def demo_unit_lists)

lemma demo_slot_list: "slot_list demo_unit [0..<16]"
  using slot_list_init [of demo_unit] by (simp add: slot_list_def demo_unit_def)

lemma demo_sgs_req: "s < 16 \<Longrightarrow> req_sgs (demo_world c len) DU s = [\<lparr>sg_addr = 0x40030000, sg_len = 51\<rparr>]"
  by (simp add: req_sgs_def hdr_sgs_def demo_unit_lists to_sg_def)

lemma demo_sgs_resp: "s < 16 \<Longrightarrow> resp_sgs (demo_world c len) DU s = [\<lparr>sg_addr = 0x40030100, sg_len = 108\<rparr>]"
  by (simp add: resp_sgs_def hdr_sgs_def demo_unit_lists to_sg_def)

end
