(* ===== verification/Submit_Cases.thy ===== *)
theory Submit_Cases
  imports Submit_Result
begin

text \<open>
  The cases of a submission: through the bounce buffer, a full ring, and a scatter-gather list
  that does not fit the array.
\<close>

section \<open>Through the bounce buffer\<close>

lemma Submit_bounce_ok:
  fixes is_write :: bool and cdb :: "u8 list"
  assumes "unit_bufs w up" and "slot_list (unit_mem w up) (s # fs)" and "requestq w = Some vq" and "vq_inv vq fl os"
    and "io_Data (ioreqs w ior) \<noteq> NULL" and "0 < io_Length (ioreqs w ior)" and "io_Length (ioreqs w ior) \<le> BOUNCE_BUF_SIZE"
    and "length (req_sgs w up s) + 1 + length (resp_sgs w up s) \<le> min 64 (length fl)"
  defines "bounce \<equiv> bounce_bufs (unit_mem w up) ! s"
  defines "v \<equiv> chain_view is_write (req_sgs w up s)
      [\<lparr>sg_addr = bounce_dma_phys (unit_mem w up) ! s, sg_len = io_Length (ioreqs w ior)\<rparr>] (resp_sgs w up s)"
  shows "\<exists>w' vq' c. VirtIOSCSI_Submit K up ior cdb is_write w = Some (Submitted, w') \<and> requestq w' = Some vq'
     \<and> c \<noteq> [] \<and> c @ drop (length c) fl = fl
     \<and> published vq (hd c) vq' \<and> vq_frame vq vq' \<and> last_used_idx vq' = last_used_idx vq
     \<and> resp_mem w' (resp_bufs (unit_mem w up) ! s) = reset_resp (resp_mem w (resp_bufs (unit_mem w up) ! s))
     \<and> dev_reads vq' (\<lambda>_. itbl_mem w' (indirect_tables vq' ! hd c)) (hd c) = v
     \<and> vq_inv vq' (drop (length c) fl) ((c, req_bufs (unit_mem w up) ! s, v) # os)
     \<and> req_mem w' (req_bufs (unit_mem w up) ! s)
         = fill_req (target_id (unit_mem w up)) (lun_id (unit_mem w up)) (slot_id (unit_num (unit_mem w up)) s) cdb
     \<and> unit_mem w' = (unit_mem w)(up := submitted_unit s
          (bounce_slot (io_Data (ioreqs w ior)) (io_Length (ioreqs w ior)) is_write) ior (unit_mem w up))
     \<and> slot_list (unit_mem w' up) fs \<and> occupied_count w' = occupied_count w + 1 \<and> ioreqs w' = ioreqs w
     \<and> w_mem w' = (if is_write then copy_mem (io_Data (ioreqs w ior)) bounce (io_Length (ioreqs w ior)) (w_mem w) else w_mem w)
     \<and> (\<exists>new. os_log w' = os_log w @ new \<and> replies new = [] \<and> lock_run new False = Some False)"
proof -
  note sc = slot_list_Cons [OF assms(2)]
  let ?w2 = "filled up s cdb w"
  have "length (inflight (unit_mem ?w2 up)) = 16" "length (bounce_bufs (unit_mem ?w2 up)) = 16" "s < 16"
    using assms(1) sc by (simp_all add: filled_simps unit_bufs_def Let_def)
  moreover have bb: "bounce_bufs (unit_mem ?w2 up) ! s = bounce" "w_mem ?w2 = w_mem w" "dma_objs ?w2 = dma_objs w"
    by (simp_all add: filled_simps bounce_def)
  ultimately obtain w3 es where m:
    "submit_map K up s (io_Data (ioreqs w ior)) (io_Length (ioreqs w ior)) is_write ?w2 = Some (None, w3)"
    "dma_objs w3 = dma_objs w"
    "mapped up s (bounce_slot (io_Data (ioreqs w ior)) (io_Length (ioreqs w ior)) is_write)
       (if is_write then copy_mem (io_Data (ioreqs w ior)) bounce (io_Length (ioreqs w ior)) (w_mem w) else w_mem w) es ?w2 w3"
    "quiet es" using submit_map_bounce [of ?w2 up s, OF _ _ _ assms(5-7), of K is_write] unfolding bb by blast
  have i3: "inflight (unit_mem w3 up) ! s
      = bounce_slot (io_Data (ioreqs w ior)) (io_Length (ioreqs w ior)) is_write (inflight (unit_mem w up) ! s)"
    and b3: "bounce_dma_phys (unit_mem w3 up) = bounce_dma_phys (unit_mem w up)"
    using m(3) sc assms(1) by (simp_all add: mapped_def filled_simps put_slot_def unit_bufs_def Let_def)
  have d3: "data_sgs w3 up s = [\<lparr>sg_addr = bounce_dma_phys (unit_mem w up) ! s, sg_len = io_Length (ioreqs w ior)\<rparr>]"
    by (simp add: data_sgs_def Let_def i3 b3 bounce_slot_def)
  have ub: "if_using_bounce (inflight (unit_mem w3 up) ! s)" by (simp add: i3 bounce_slot_def)
  have rm: "req_mem ?w2 (req_bufs (unit_mem w up) ! s)
         = fill_req (target_id (unit_mem w up)) (lun_id (unit_mem w up)) (slot_id (unit_num (unit_mem w up)) s) cdb"
    "resp_mem ?w2 (resp_bufs (unit_mem w up) ! s) = reset_resp (resp_mem w (resp_bufs (unit_mem w up) ! s))"
    by (simp_all add: filled_simps)
  from Submit_ok [OF assms(1-4) m(1,3,4), unfolded d3 m(2), folded v_def] ub assms(8) rm show ?thesis by auto
qed


section \<open>Submission that fails\<close>

text \<open>The array of 64 pieces is filled before the total is checked.\<close>

lemma submit_sg_overflow:
  assumes "unit_bufs w up" and "s < 16" and "\<not> if_using_bounce (inflight (unit_mem w up) ! s)"
    and "64 < length (req_sgs w up s) + unat (if_dma_num_entries (inflight (unit_mem w up) ! s)) + length (resp_sgs w up s)"
    and "unat (if_dma_num_entries (inflight (unit_mem w up) ! s)) \<le> length (dma_objs w (if_dma_list (inflight (unit_mem w up) ! s)))"
  shows "submit_sg up s is_write w = None"
proof -
  define u f where "u = unit_mem w up" and "f = inflight u ! s"
  note ub = assms(1) [unfolded unit_bufs_def Let_def lists_ok_def, folded u_def]
  have n: "unat (dma_req_entries_arr u ! s) \<le> length (dma_objs w (dma_req_lists u ! s))"
    "unat (dma_resp_entries_arr u ! s) \<le> length (dma_objs w (dma_resp_lists u ! s))"
    using ub assms(2) by auto
  have l: "s < length (inflight u)" "s < length (dma_req_lists u)" "s < length (dma_req_entries_arr u)"
    "s < length (dma_resp_lists u)" "s < length (dma_resp_entries_arr u)"
    using ub assms(2) by auto
  have a: "sg_append xs ys = None" if "64 < length xs + length ys" for xs ys
    using that by (simp add: sg_append_def MAX_SG_ENTRIES_def)
  have b: "sg_append xs ys = Some zs \<longleftrightarrow> length xs + length ys \<le> 64 \<and> zs = xs @ ys" for xs ys zs
    by (auto simp: sg_append_def MAX_SG_ENTRIES_def)
  have r: "dma_read w (dma_req_lists u ! s) (dma_req_entries_arr u ! s) = Some (req_sgs w up s)"
    "dma_read w (dma_resp_lists u ! s) (dma_resp_entries_arr u ! s) = Some (resp_sgs w up s)"
    using n by (simp_all add: dma_read_ok req_sgs_def resp_sgs_def hdr_sgs_def u_def)
  define dl where "dl = map to_sg (take (unat (if_dma_num_entries f)) (dma_objs w (if_dma_list f)))"
  have d: "dma_read w (if_dma_list f) (if_dma_num_entries f) = Some dl" "length dl = unat (if_dma_num_entries f)"
    using assms(5) by (simp_all add: dma_read_ok f_def u_def dl_def)
  have big: "64 < length (req_sgs w up s) + length dl + length (resp_sgs w up s)"
    using assms(4) d(2) by (simp add: f_def u_def)
  have "submit_sg up s is_write w \<noteq> Some x" for x
    using assms(3) l r d big
    by (auto simp: submit_sg_def Let_def u_def [symmetric] f_def [symmetric] b bind_eq_Some_conv)
  then show ?thesis by (cases "submit_sg up s is_write w") auto
qed

lemma submit_rollback_ok:
  assumes "length (inflight (unit_mem w up)) = 16" and "slot_list (unit_mem w up) fs" and "s < 16" and "s \<notin> set fs"
    and "f = inflight (unit_mem w up) ! s"
  shows "\<exists>w' es. submit_rollback up s w = Some w' \<and> os_log w' = os_log w @ es \<and> slot_list (unit_mem w' up) (s # fs)
     \<and> es = (if if_dma_list f \<noteq> NULL then [EndDMA (if_dma_addr f) (if_dma_size f) (if_dma_flags f) True] else [])
          @ [ObtainSemaphore, ReleaseSemaphore]
     \<and> vqs w' = vqs w \<and> occupied_count w' = occupied_count w \<and> active_units_mask w' = active_units_mask w
     \<and> ioreqs w' = ioreqs w \<and> inflight_count (unit_mem w' up) = inflight_count (unit_mem w up)
     \<and> if_ioreq (inflight (unit_mem w' up) ! s) = if_ioreq f"
proof -
  let ?w1 = "if if_dma_list f \<noteq> NULL
      then upd_unit up (\<lambda>u. u\<lparr>inflight := (inflight u)[s := (inflight u ! s)\<lparr>if_dma_list := NULL, if_dma_num_entries := 0\<rparr>]\<rparr>)
             (os_emit (EndDMA (if_dma_addr f) (if_dma_size f) (if_dma_flags f) True) w)
      else w"
  have s1: "slot_list (unit_mem ?w1 up) fs" using assms(2) by (simp add: slot_list_def)
  have "submit_rollback up s w = submit_release_slot up s ?w1"
    using assms(1,3,5) by (simp add: submit_rollback_def upd_slot_ok)
  with submit_release_slot_ok [OF s1 assms(3)] slot_list_push [OF s1 assms(3,4)] assms(1,3,5) show ?thesis
    by auto
qed

lemma submit_queue_full:
  assumes l: "length (req_bufs (unit_mem w up)) = 16" "length (inflight (unit_mem w up)) = 16"
    and sl: "slot_list (unit_mem w up) fs" "s < 16" "s \<notin> set fs" and rq: "requestq w = Some vq" "vq_inv vq fl os"
    and t: "unat o1 + unat i1 = k" "k \<le> 64"
      "if use_indirect vq \<and> 1 < k then fl = [] else length fl < k"
    and f: "f = inflight (unit_mem w up) ! s"
  shows "\<exists>w' es. submit_queue K up s ior sg o1 i1 w = Some (HardErr TDERR_NotSpecified, w') \<and> slot_list (unit_mem w' up) (s # fs)
     \<and> os_log w' = os_log w @ [ObtainSemaphore, ReleaseSemaphore] @ es
     \<and> es = (if if_dma_list f \<noteq> NULL then [EndDMA (if_dma_addr f) (if_dma_size f) (if_dma_flags f) True] else [])
          @ [ObtainSemaphore, ReleaseSemaphore]
     \<and> vqs w' = vqs w \<and> occupied_count w' = occupied_count w \<and> active_units_mask w' = active_units_mask w
     \<and> ioreqs w' = ioreqs w \<and> inflight_count (unit_mem w' up) = inflight_count (unit_mem w up)
     \<and> if_ioreq (inflight (unit_mem w' up) ! s) = NULL"
proof -
  define rb where "rb = req_bufs (unit_mem w up) ! s"
  define w2 where "w2 = os_emit ObtainSemaphore (upd_unit up (\<lambda>u. u\<lparr>inflight := (inflight u)[s := (inflight u ! s)
     \<lparr>if_ioreq := ior, if_cookie := rb, if_buf_slot := of_nat s\<rparr>]\<rparr>) w)"
  have a: "VirtQueue_AddBuf K vq sg o1 i1 rb w2 = Some (False, vq, w2)"
    by (rule AddBuf_full [OF rq(2)]) (use t in auto)
  define w4 where "w4 = upd_unit up (\<lambda>u. u\<lparr>inflight := (inflight u)[s := (inflight u ! s)\<lparr>if_ioreq := NULL, if_cookie := NULL\<rparr>]\<rparr>)
     (os_emit ReleaseSemaphore w2)"
  have l4: "length (inflight (unit_mem w4 up)) = 16" "slot_list (unit_mem w4 up) fs"
    using l sl by (simp_all add: w4_def w2_def slot_list_def)
  have f4: "inflight (unit_mem w4 up) ! s = f\<lparr>if_ioreq := NULL, if_cookie := NULL, if_buf_slot := of_nat s\<rparr>"
    using l sl f by (simp add: w4_def w2_def)
  obtain w5 es where r: "submit_rollback up s w4 = Some w5" "os_log w5 = os_log w4 @ es" "slot_list (unit_mem w5 up) (s # fs)"
     "es = (if if_dma_list f \<noteq> NULL then [EndDMA (if_dma_addr f) (if_dma_size f) (if_dma_flags f) True] else [])
          @ [ObtainSemaphore, ReleaseSemaphore]"
     "vqs w5 = vqs w4" "occupied_count w5 = occupied_count w4" "active_units_mask w5 = active_units_mask w4"
     "ioreqs w5 = ioreqs w4" "inflight_count (unit_mem w5 up) = inflight_count (unit_mem w4 up)"
     "if_ioreq (inflight (unit_mem w5 up) ! s) = NULL"
    using submit_rollback_ok [OF l4 sl(2,3) refl] unfolding f4 by auto
  have "submit_queue K up s ior sg o1 i1 w = Some (HardErr TDERR_NotSpecified, w5)"
    using l sl(2) rq(1) a r(1) unfolding submit_queue_def
    by (simp add: upd_slot_ok rb_def [symmetric] w2_def [symmetric] w4_def [symmetric] Let_def)
      (simp add: upd_slot_ok w2_def w4_def)
  with r show ?thesis by (intro exI [of _ w5] exI [of _ es]) (simp add: w4_def w2_def)
qed

text \<open>The rest of the submission once the data is mapped.\<close>

lemma Submit_unfold:
  assumes "unit_bufs w up" and "slot_list (unit_mem w up) (s # fs)"
    and "submit_map K up s (io_Data (ioreqs w ior)) (io_Length (ioreqs w ior)) is_write (filled up s cdb w) = Some (None, w3)"
  shows "VirtIOSCSI_Submit K up ior cdb is_write w =
     do {
       (sg, o1, i1) \<leftarrow> submit_sg up s is_write w3;
       if MAX_SG_ENTRIES < o1 + i1 then do { w4 \<leftarrow> submit_rollback up s w3; Some (HardErr HFERR_DMA, w4) }
       else submit_queue K up s ior sg o1 i1 w3
     }"
proof -
  have "submit_fill up s cdb (os_emit ReleaseSemaphore
      (upd_unit up (\<lambda>u. u\<lparr>free_head := inflight_next u ! s\<rparr>) (os_emit ObtainSemaphore w))) = Some (filled up s cdb w)"
    using assms(1) slot_list_Cons [OF assms(2)] by (simp add: submit_fill_def Let_def filled_def unit_bufs_def)
  with assms(3) show ?thesis
    by (simp add: VirtIOSCSI_Submit_def submit_pop_slot_Cons [OF assms(2)] filled_simps)
qed

text \<open>What a mapped direct transfer of \<open>n\<close> pieces has in its slot.\<close>

lemma direct_mapped_facts:
  assumes "unit_bufs w up" and "slot_list (unit_mem w up) (s # fs)"
    and "mapped up s (direct_slot dat len dl n is_write) (w_mem w) ev (filled up s cdb w) w3"
    and "dma_objs w3 = (dma_objs w)(dl := es)" and "length es = unat n"
    and "dl \<notin> set (dma_req_lists (unit_mem w up)) \<union> set (dma_resp_lists (unit_mem w up))"
  shows "inflight (unit_mem w3 up) ! s = direct_slot dat len dl n is_write (inflight (unit_mem w up) ! s)"
    and "data_sgs w3 up s = map to_sg es" and "unit_bufs w3 up"
    and "req_sgs w3 up s = req_sgs w up s" and "resp_sgs w3 up s = resp_sgs w up s"
    and "slot_list (unit_mem w3 up) fs"
    and "vqs w3 = vqs w" "occupied_count w3 = occupied_count w" "active_units_mask w3 = active_units_mask w" "ioreqs w3 = ioreqs w"
    and "inflight_count (unit_mem w3 up) = inflight_count (unit_mem w up)"
    and "os_log w3 = os_log w @ [ObtainSemaphore, ReleaseSemaphore] @ ev"
proof -
  note sc = slot_list_Cons [OF assms(2)]
  note md = assms(3) [unfolded mapped_def filled_simps]
  have um: "unit_mem w3 up = put_slot s (direct_slot dat len dl n is_write)
      ((unit_mem w up)\<lparr>free_head := inflight_next (unit_mem w up) ! s\<rparr>)" using md by simp
  have ub: "length (dma_req_lists (unit_mem w up)) = 16" "length (dma_resp_lists (unit_mem w up)) = 16"
    "length (inflight (unit_mem w up)) = 16" using assms(1) by (simp_all add: unit_bufs_def Let_def lists_ok_def)
  have ne: "dma_req_lists (unit_mem w up) ! t \<noteq> dl" "dma_resp_lists (unit_mem w up) ! t \<noteq> dl" if "t < 16" for t
    using that assms(6) ub by (metis UnI1 UnI2 nth_mem)+
  show i: "inflight (unit_mem w3 up) ! s = direct_slot dat len dl n is_write (inflight (unit_mem w up) ! s)"
    using ub sc by (simp add: um put_slot_def)
  show "data_sgs w3 up s = map to_sg es"
    using assms(5) by (simp add: data_sgs_def Let_def i direct_slot_def assms(4))
  show "unit_bufs w3 up"
    using assms(1) ne by (simp add: unit_bufs_def Let_def lists_ok_def um put_slot_def assms(4))
  show "req_sgs w3 up s = req_sgs w up s" "resp_sgs w3 up s = resp_sgs w up s"
    using ne sc by (simp_all add: req_sgs_def resp_sgs_def hdr_sgs_def um put_slot_def assms(4))
  show "slot_list (unit_mem w3 up) fs" using sc by (simp add: um put_slot_def slot_list_def)
qed (use assms(3) in \<open>auto simp: mapped_def filled_simps put_slot_def\<close>)

end
