(* ===== verification/Pipeline_Props.thy ===== *)
theory Pipeline_Props
  imports Demo_World Submit_Cases
begin

text \<open>
  The properties of the asynchronous pipeline, each with a witness on the sample world.
\<close>

section \<open>Submission\<close>

text \<open>
  C9. For a transfer up to BOUNCE_BUF_SIZE with a free slot and room in the ring, Submit
  succeeds: it publishes one chain that the device reads as request header, bounce buffer
  and response header in the order of the direction, records the request in the slot under
  the cookie that the header carries, copies the data of a write, takes the slot off the
  free list, counts it, replies nothing and leaves io_lock free.
\<close>

lemma Submit_bounce_chain:
  fixes is_write :: bool and cdb :: "u8 list"
  assumes "unit_bufs w up" and "slot_list (unit_mem w up) (s # fs)" and "requestq w = Some vq" and "vq_inv vq fl os"
    and "io_Data (ioreqs w ior) \<noteq> NULL" and "0 < io_Length (ioreqs w ior)" and "io_Length (ioreqs w ior) \<le> BOUNCE_BUF_SIZE"
    and "length (req_sgs w up s) + 1 + length (resp_sgs w up s) \<le> min 64 (length fl)"
  defines "v \<equiv> chain_view is_write (req_sgs w up s)
      [\<lparr>sg_addr = bounce_dma_phys (unit_mem w up) ! s, sg_len = io_Length (ioreqs w ior)\<rparr>] (resp_sgs w up s)"
  shows "\<exists>w' vq' c. VirtIOSCSI_Submit K up ior cdb is_write w = Some (Submitted, w') \<and> requestq w' = Some vq'
     \<and> c \<noteq> [] \<and> c @ drop (length c) fl = fl
     \<and> published vq (hd c) vq' \<and> dev_reads vq' (\<lambda>_. itbl_mem w' (indirect_tables vq' ! hd c)) (hd c) = v
     \<and> vq_inv vq' (drop (length c) fl) ((c, req_bufs (unit_mem w up) ! s, v) # os)
     \<and> req_mem w' (req_bufs (unit_mem w up) ! s)
         = fill_req (target_id (unit_mem w up)) (lun_id (unit_mem w up)) (slot_id (unit_num (unit_mem w up)) s) cdb
     \<and> unit_mem w' = (unit_mem w)(up := submitted_unit s
          (bounce_slot (io_Data (ioreqs w ior)) (io_Length (ioreqs w ior)) is_write) ior (unit_mem w up))
     \<and> slot_list (unit_mem w' up) fs \<and> occupied_count w' = occupied_count w + 1 \<and> ioreqs w' = ioreqs w
     \<and> w_mem w' = (if is_write then copy_mem (io_Data (ioreqs w ior)) (bounce_bufs (unit_mem w up) ! s) (io_Length (ioreqs w ior)) (w_mem w) else w_mem w)
     \<and> (\<exists>new. os_log w' = os_log w @ new \<and> replies new = [] \<and> lock_run new False = Some False)"
  using Submit_bounce_ok [OF assms(1-8), of K cdb is_write, folded v_def] by blast

lemma Submit_bounce_chain_witness:
  "\<exists>w' vq'. VirtIOSCSI_Submit demo_kern DU DIO (block_cdb True 2 1) True (demo_world CMD_WRITE 512) = Some (Submitted, w')
     \<and> requestq w' = Some vq' \<and> dev_reads vq' (\<lambda>_. itbl_mem w' (indirect_tables vq' ! 0)) 0
         = [(0x40030000, 51, False), (0x41000000, 512, False), (0x40030100, 108, True)]
     \<and> slot_list (unit_mem w' DU) [1..<16]"
proof -
  let ?w = "demo_world CMD_WRITE 512"
  have sl: "slot_list (unit_mem ?w DU) (0 # [1..<16])" using demo_slot_list by (simp add: upt_conv_Cons)
  have "bounce_dma_phys demo_unit ! 0 = 0x41000000" by (simp add: demo_unit_def)
  then have v: "chain_view True (req_sgs ?w DU 0) [\<lparr>sg_addr = bounce_dma_phys (unit_mem ?w DU) ! 0,
        sg_len = io_Length (ioreqs ?w DIO)\<rparr>] (resp_sgs ?w DU 0)
      = [(0x40030000, 51, False), (0x41000000, 512, False), (0x40030100, 108, True)]"
    by (simp add: demo_sgs_req demo_sgs_resp chain_view_def rdv_def wrv_def demo_ioreq_def)
  obtain w' vq' c where r: "VirtIOSCSI_Submit demo_kern DU DIO (block_cdb True 2 1) True ?w = Some (Submitted, w')"
    "requestq w' = Some vq'" "c \<noteq> []" "c @ drop (length c) [0, 1, 2, 3] = [0, 1, 2, 3]"
    "dev_reads vq' (\<lambda>_. itbl_mem w' (indirect_tables vq' ! hd c)) (hd c)
       = [(0x40030000, 51, False), (0x41000000, 512, False), (0x40030100, 108, True)]"
    "slot_list (unit_mem w' DU) [1..<16]"
    using Submit_bounce_chain [OF demo_unit_bufs sl _ demo_vq_inv, of DIO demo_kern "block_cdb True 2 1" True, unfolded v]
    by (auto simp: demo_ioreq_def BOUNCE_BUF_SIZE_def demo_sgs_req demo_sgs_resp)
  have "hd c = 0" using r(3,4) by (metis hd_append2 list.sel(1))
  with r show ?thesis by auto
qed

text \<open>The direct path: the buffer is mapped, and its pieces are in the chain.\<close>

text \<open>
  C10. For a larger transfer Submit maps the buffer, and the device reads the request
  header, the response header and the pieces of the caller's buffer in the order of the
  direction; the slot records the mapping so that completion can end it.
\<close>

lemma Submit_direct_chain:
  fixes is_write :: bool and cdb :: "u8 list"
  assumes "unit_bufs w up" and "slot_list (unit_mem w up) (s # fs)" and "requestq w = Some vq" and "vq_inv vq fl os"
    and "io_Data (ioreqs w ior) \<noteq> NULL" and "BOUNCE_BUF_SIZE < io_Length (ioreqs w ior)"
    and "data_dma_pool (unit_mem w up) ! s \<noteq> NULL"
    and "data_dma_pool (unit_mem w up) ! s \<notin> set (dma_req_lists (unit_mem w up)) \<union> set (dma_resp_lists (unit_mem w up))"
    and "k_StartDMA K (os_log w @ [ObtainSemaphore, ReleaseSemaphore]) (io_Data (ioreqs w ior)) (io_Length (ioreqs w ior)) is_write = n"
    and "0 < n" and "n \<le> MAX_SG_ENTRIES"
    and "k_GetDMAList K (os_log w @ [ObtainSemaphore, ReleaseSemaphore, StartDMA (io_Data (ioreqs w ior)) (io_Length (ioreqs w ior)) is_write n])
           (io_Data (ioreqs w ior)) (io_Length (ioreqs w ior)) is_write = es" and "length es = unat n"
    and "length (req_sgs w up s) + unat n + length (resp_sgs w up s) \<le> min 64 (length fl)"
  defines "v \<equiv> chain_view is_write (req_sgs w up s) (map to_sg es) (resp_sgs w up s)"
  shows "\<exists>w' vq' c. VirtIOSCSI_Submit K up ior cdb is_write w = Some (Submitted, w') \<and> requestq w' = Some vq'
     \<and> c \<noteq> [] \<and> c @ drop (length c) fl = fl \<and> published vq (hd c) vq'
     \<and> dev_reads vq' (\<lambda>_. itbl_mem w' (indirect_tables vq' ! hd c)) (hd c) = v
     \<and> vq_inv vq' (drop (length c) fl) ((c, req_bufs (unit_mem w up) ! s, v) # os)
     \<and> unit_mem w' = (unit_mem w)(up := submitted_unit s (direct_slot (io_Data (ioreqs w ior)) (io_Length (ioreqs w ior))
          (data_dma_pool (unit_mem w up) ! s) n is_write) ior (unit_mem w up))
     \<and> slot_list (unit_mem w' up) fs \<and> w_mem w' = w_mem w \<and> ioreqs w' = ioreqs w"
proof -
  note sc = slot_list_Cons [OF assms(2)]
  let ?w2 = "filled up s cdb w" and ?r = "ioreqs w ior" let ?dl = "data_dma_pool (unit_mem w up) ! s"
  have l2: "length (inflight (unit_mem ?w2 up)) = 16" "length (data_dma_pool (unit_mem ?w2 up)) = 16" "s < 16"
    using assms(1) sc by (simp_all add: filled_simps unit_bufs_def Let_def)
  have fs: "data_dma_pool (unit_mem ?w2 up) ! s = ?dl" "os_log ?w2 = os_log w @ [ObtainSemaphore, ReleaseSemaphore]"
    "w_mem ?w2 = w_mem w" "dma_objs ?w2 = dma_objs w"
    by (simp_all add: filled_simps)
  obtain w3 ev where m: "submit_map K up s (io_Data ?r) (io_Length ?r) is_write ?w2 = Some (None, w3)"
    "dma_objs w3 = (dma_objs w)(?dl := es)"
    "mapped up s (direct_slot (io_Data ?r) (io_Length ?r) ?dl n is_write) (w_mem w) ev ?w2 w3" "quiet ev"
    using submit_map_direct [of ?w2 up s, OF l2 assms(5,6), of K is_write n] assms(7-12) unfolding fs by auto
  have i3: "inflight (unit_mem w3 up) ! s = direct_slot (io_Data ?r) (io_Length ?r) ?dl n is_write (inflight (unit_mem w up) ! s)"
    using m(3) sc assms(1) by (simp add: mapped_def filled_simps put_slot_def unit_bufs_def Let_def)
  have d3: "data_sgs w3 up s = map to_sg es"
    using assms(13) by (simp add: data_sgs_def Let_def i3 direct_slot_def m(2))
  have ll: "length (dma_req_lists (unit_mem w up)) = 16" "length (dma_resp_lists (unit_mem w up)) = 16"
    using assms(1) by (simp_all add: unit_bufs_def Let_def lists_ok_def)
  have dm: "dma_objs w3 (dma_req_lists (unit_mem w up) ! t) = dma_objs w (dma_req_lists (unit_mem w up) ! t)"
    "dma_objs w3 (dma_resp_lists (unit_mem w up) ! t) = dma_objs w (dma_resp_lists (unit_mem w up) ! t)" if "t < 16" for t
  proof -
    have "dma_req_lists (unit_mem w up) ! t \<noteq> ?dl" "dma_resp_lists (unit_mem w up) ! t \<noteq> ?dl"
      using that assms(8) ll by (metis UnI1 UnI2 nth_mem)+
    then show "dma_objs w3 (dma_req_lists (unit_mem w up) ! t) = dma_objs w (dma_req_lists (unit_mem w up) ! t)"
      "dma_objs w3 (dma_resp_lists (unit_mem w up) ! t) = dma_objs w (dma_resp_lists (unit_mem w up) ! t)"
      by (simp_all add: m(2))
  qed
  have dc: "unat (if_dma_num_entries (inflight (unit_mem w3 up) ! s)) \<le> length (dma_objs w3 (if_dma_list (inflight (unit_mem w3 up) ! s)))"
    using assms(13) by (simp add: i3 direct_slot_def m(2))
  from Submit_ok [OF assms(1-4) m(1,3,4) dm dc, unfolded d3, folded v_def] assms(13,14) show ?thesis
    unfolding length_map by auto
qed

lemma Submit_direct_chain_witness:
  "\<exists>w' vq'. VirtIOSCSI_Submit demo_kern DU DIO (block_cdb False 2 200) False (demo_world CMD_READ 102400) = Some (Submitted, w')
     \<and> requestq w' = Some vq' \<and> dev_reads vq' (\<lambda>_. itbl_mem w' (indirect_tables vq' ! 0)) 0
         = [(0x40030000, 51, False), (0x40030100, 108, True), (0x400B0000, 102400, True)]"
proof -
  let ?w = "demo_world CMD_READ 102400"
  have sl: "slot_list (unit_mem ?w DU) (0 # [1..<16])" using demo_slot_list by (simp add: upt_conv_Cons)
  have v: "chain_view False (req_sgs ?w DU 0) (map to_sg [\<lparr>PhysicalAddress = 0x400B0000, BlockLength = 102400\<rparr>]) (resp_sgs ?w DU 0)
      = [(0x40030000, 51, False), (0x40030100, 108, True), (0x400B0000, 102400, True)]"
    by (simp add: demo_sgs_req demo_sgs_resp chain_view_def rdv_def wrv_def to_sg_def)
  obtain w' vq' c where r: "VirtIOSCSI_Submit demo_kern DU DIO (block_cdb False 2 200) False ?w = Some (Submitted, w')"
    "requestq w' = Some vq'" "c \<noteq> []" "c @ drop (length c) [0, 1, 2, 3] = [0, 1, 2, 3]"
    "dev_reads vq' (\<lambda>_. itbl_mem w' (indirect_tables vq' ! hd c)) (hd c)
       = [(0x40030000, 51, False), (0x40030100, 108, True), (0x400B0000, 102400, True)]"
    using Submit_direct_chain [OF demo_unit_bufs sl _ demo_vq_inv, of DIO demo_kern False 1
        "[\<lparr>PhysicalAddress = 0x400B0000, BlockLength = 102400\<rparr>]" "block_cdb False 2 200", unfolded v]
    by (auto simp: demo_ioreq_def BOUNCE_BUF_SIZE_def demo_sgs_req demo_sgs_resp demo_unit_lists demo_kern_def MAX_SG_ENTRIES_def)
  have "hd c = 0" using r(3,4) by (metis hd_append2 list.sel(1))
  with r show ?thesis by auto
qed

section \<open>Submission that fails\<close>

lemma Submit_no_slot:
  assumes "slot_list (unit_mem w up) []"
  shows "VirtIOSCSI_Submit K up ior cdb is_write w = Some (NoSlot, os_emit ReleaseSemaphore (os_emit ObtainSemaphore w))"
  using assms by (simp add: VirtIOSCSI_Submit_def submit_pop_slot_Nil)

text \<open>
  C11. When the ring has no room for the chain of a direct transfer, Submit returns
  TDERR_NotSpecified and undoes everything: the slot is back at the head of the free list,
  the mapping is ended, nothing allocated or mapped is left over, the queue and all counters
  are as before, nothing was replied and io_lock is free.
\<close>

lemma Submit_ring_full_undoes:
  fixes is_write :: bool and cdb :: "u8 list"
  assumes "unit_bufs w up" and "slot_list (unit_mem w up) (s # fs)" and "requestq w = Some vq" and "vq_inv vq fl os"
    and "io_Data (ioreqs w ior) \<noteq> NULL" and "BOUNCE_BUF_SIZE < io_Length (ioreqs w ior)"
    and "data_dma_pool (unit_mem w up) ! s \<noteq> NULL"
    and "data_dma_pool (unit_mem w up) ! s \<notin> set (dma_req_lists (unit_mem w up)) \<union> set (dma_resp_lists (unit_mem w up))"
    and "k_StartDMA K (os_log w @ [ObtainSemaphore, ReleaseSemaphore]) (io_Data (ioreqs w ior)) (io_Length (ioreqs w ior)) is_write = n"
    and "0 < n" and "n \<le> MAX_SG_ENTRIES"
    and "length (k_GetDMAList K (os_log w @ [ObtainSemaphore, ReleaseSemaphore, StartDMA (io_Data (ioreqs w ior)) (io_Length (ioreqs w ior)) is_write n])
           (io_Data (ioreqs w ior)) (io_Length (ioreqs w ior)) is_write) = unat n"
    and "length (req_sgs w up s) + unat n + length (resp_sgs w up s) \<le> 64"
    and "if use_indirect vq then fl = [] else length fl < length (req_sgs w up s) + unat n + length (resp_sgs w up s)"
  shows "\<exists>w' new. VirtIOSCSI_Submit K up ior cdb is_write w = Some (HardErr TDERR_NotSpecified, w')
     \<and> slot_list (unit_mem w' up) (s # fs) \<and> if_ioreq (inflight (unit_mem w' up) ! s) = NULL
     \<and> vqs w' = vqs w \<and> occupied_count w' = occupied_count w \<and> active_units_mask w' = active_units_mask w
     \<and> inflight_count (unit_mem w' up) = inflight_count (unit_mem w up) \<and> ioreqs w' = ioreqs w
     \<and> os_log w' = os_log w @ new \<and> ledger new m = Some m \<and> replies new = [] \<and> lock_run new False = Some False"
proof -
  note sc = slot_list_Cons [OF assms(2)]
  let ?w2 = "filled up s cdb w" and ?r = "ioreqs w ior" let ?dl = "data_dma_pool (unit_mem w up) ! s"
  let ?ev = "[StartDMA (io_Data ?r) (io_Length ?r) is_write n, GetDMAList (io_Data ?r) (io_Length ?r) is_write ?dl]"
  have l2: "length (inflight (unit_mem ?w2 up)) = 16" "length (data_dma_pool (unit_mem ?w2 up)) = 16" "s < 16"
    using assms(1) sc by (simp_all add: filled_simps unit_bufs_def Let_def)
  have fs: "data_dma_pool (unit_mem ?w2 up) ! s = ?dl" "os_log ?w2 = os_log w @ [ObtainSemaphore, ReleaseSemaphore]"
    "w_mem ?w2 = w_mem w" "dma_objs ?w2 = dma_objs w"
    by (simp_all add: filled_simps)
  obtain w3 es where m: "submit_map K up s (io_Data ?r) (io_Length ?r) is_write ?w2 = Some (None, w3)"
    "mapped up s (direct_slot (io_Data ?r) (io_Length ?r) ?dl n is_write) (w_mem w) ?ev ?w2 w3"
    "dma_objs w3 = (dma_objs w)(?dl := es)" "length es = unat n"
    using submit_map_direct [of ?w2 up s, OF l2 assms(5,6), of K is_write n] assms(7-12) unfolding fs by auto
  note df = direct_mapped_facts [OF assms(1,2) m(2-4) assms(8)]
  have n3: "unat (if_dma_num_entries (inflight (unit_mem w3 up) ! s)) \<le> length (dma_objs w3 (if_dma_list (inflight (unit_mem w3 up) ! s)))"
    unfolding df(1) by (simp add: direct_slot_def m(3,4))
  have tot: "length (req_sgs w3 up s) + length (data_sgs w3 up s) + length (resp_sgs w3 up s)
      = length (req_sgs w up s) + unat n + length (resp_sgs w up s)"
    unfolding df(2,4,5) by (simp add: m(4))
  obtain sg o1 i1 where sg: "submit_sg up s is_write w3 = Some (sg, o1, i1)" "0 < unat o1" "unat o1 + unat i1 = length sg"
      "length sg = length (req_sgs w up s) + unat n + length (resp_sgs w up s)"
    using submit_sg_ok [OF df(3) l2(3) n3, of is_write] assms(13) unfolding tot by blast
  have u: "unat (o1 + i1) = length sg" using sg(3,4) assms(13) by (simp add: unat_add_small)
  have nb: "\<not> MAX_SG_ENTRIES < o1 + i1" using u sg(4) assms(13) by (simp add: word_less_nat_alt MAX_SG_ENTRIES_def)
  have full: "if use_indirect vq \<and> 1 < length sg then fl = [] else length fl < length sg"
    using assms(14) sg(2,3) by (auto simp: sg(4) split: if_splits)
  have l3: "length (req_bufs (unit_mem w3 up)) = 16" "length (inflight (unit_mem w3 up)) = 16"
    using df(3) by (simp_all add: unit_bufs_def Let_def)
  have rq3: "requestq w3 = Some vq" using assms(3) df(7) by (simp add: requestq_def)
  have "s \<notin> set fs" "length sg \<le> 64" using sc sg(4) assms(13) by simp_all
  from submit_queue_full [OF l3 df(6) l2(3) this(1) rq3 assms(4) sg(3) this(2) full refl, of K ior sg]
  obtain w' where q: "submit_queue K up s ior sg o1 i1 w3 = Some (HardErr TDERR_NotSpecified, w')" "slot_list (unit_mem w' up) (s # fs)"
     "os_log w' = os_log w3 @ [ObtainSemaphore, ReleaseSemaphore] @ EndDMA (io_Data ?r) (io_Length ?r) is_write True
         # [ObtainSemaphore, ReleaseSemaphore]"
     "vqs w' = vqs w3" "occupied_count w' = occupied_count w3" "active_units_mask w' = active_units_mask w3"
     "ioreqs w' = ioreqs w3" "inflight_count (unit_mem w' up) = inflight_count (unit_mem w3 up)"
     "if_ioreq (inflight (unit_mem w' up) ! s) = NULL"
    unfolding df(1) using assms(7) by (auto simp: direct_slot_def)
  have "VirtIOSCSI_Submit K up ior cdb is_write w = Some (HardErr TDERR_NotSpecified, w')"
    using Submit_unfold [OF assms(1,2) m(1)] sg(1) nb q(1) by simp
  moreover define new where "new = [ObtainSemaphore, ReleaseSemaphore] @ ?ev @ [ObtainSemaphore, ReleaseSemaphore]
     @ EndDMA (io_Data ?r) (io_Length ?r) is_write True # [ObtainSemaphore, ReleaseSemaphore]"
  moreover have "os_log w' = os_log w @ new" using q(3) df(12) by (simp add: new_def)
  moreover have "ledger new m = Some m" "replies new = []" "lock_run new False = Some False"
    using assms(10) by (auto simp: new_def lock_step_def)
  ultimately show ?thesis using q df(7-11) by auto
qed

definition sg_kern :: "nat \<Rightarrow> kern" where
  "sg_kern n = demo_kern\<lparr>k_StartDMA := (\<lambda>h a sz f. of_nat n),
     k_GetDMAList := (\<lambda>h a sz f. replicate n \<lparr>PhysicalAddress = a, BlockLength = 4096\<rparr>)\<rparr>"

lemma Submit_ring_full_undoes_witness:
  "\<exists>w'. VirtIOSCSI_Submit (sg_kern 3) DU DIO (block_cdb False 2 200) False (demo_world CMD_READ 102400)
       = Some (HardErr TDERR_NotSpecified, w') \<and> slot_list (unit_mem w' DU) [0..<16] \<and> ledger (os_log w') {#} = Some {#}"
proof -
  let ?w = "demo_world CMD_READ 102400"
  have sl: "slot_list (unit_mem ?w DU) (0 # [1..<16])" using demo_slot_list by (simp add: upt_conv_Cons)
  have e: "0 # [1..<16] = [0..<16]" by (simp add: upt_conv_Cons)
  show ?thesis
    using Submit_ring_full_undoes [OF demo_unit_bufs sl _ demo_vq_inv, of DIO "sg_kern 3" False 3 "block_cdb False 2 200" "{#}"]
    unfolding e by (auto simp: demo_ioreq_def BOUNCE_BUF_SIZE_def demo_sgs_req demo_sgs_resp demo_unit_lists sg_kern_def
        MAX_SG_ENTRIES_def demo_vq_def)
qed

text \<open>
  C12. The check of the chain length comes after the array was filled: with a mapping of at
  most MAX_SG_ENTRIES pieces whose total with the headers exceeds 64, Submit writes past the
  end of the array sg[MAX_SG_ENTRIES] (the model has no result).
\<close>

lemma Submit_sg_overflow:
  fixes is_write :: bool and cdb :: "u8 list"
  assumes "unit_bufs w up" and "slot_list (unit_mem w up) (s # fs)"
    and "io_Data (ioreqs w ior) \<noteq> NULL" and "BOUNCE_BUF_SIZE < io_Length (ioreqs w ior)"
    and "data_dma_pool (unit_mem w up) ! s \<noteq> NULL"
    and "data_dma_pool (unit_mem w up) ! s \<notin> set (dma_req_lists (unit_mem w up)) \<union> set (dma_resp_lists (unit_mem w up))"
    and "k_StartDMA K (os_log w @ [ObtainSemaphore, ReleaseSemaphore]) (io_Data (ioreqs w ior)) (io_Length (ioreqs w ior)) is_write = n"
    and "0 < n" and "n \<le> MAX_SG_ENTRIES"
    and "length (k_GetDMAList K (os_log w @ [ObtainSemaphore, ReleaseSemaphore, StartDMA (io_Data (ioreqs w ior)) (io_Length (ioreqs w ior)) is_write n])
           (io_Data (ioreqs w ior)) (io_Length (ioreqs w ior)) is_write) = unat n"
    and "64 < length (req_sgs w up s) + unat n + length (resp_sgs w up s)"
  shows "VirtIOSCSI_Submit K up ior cdb is_write w = None"
proof -
  note sc = slot_list_Cons [OF assms(2)]
  let ?w2 = "filled up s cdb w" and ?r = "ioreqs w ior" let ?dl = "data_dma_pool (unit_mem w up) ! s"
  have l2: "length (inflight (unit_mem ?w2 up)) = 16" "length (data_dma_pool (unit_mem ?w2 up)) = 16" "s < 16"
    using assms(1) sc by (simp_all add: filled_simps unit_bufs_def Let_def)
  have fs: "data_dma_pool (unit_mem ?w2 up) ! s = ?dl" "os_log ?w2 = os_log w @ [ObtainSemaphore, ReleaseSemaphore]"
    "w_mem ?w2 = w_mem w" "dma_objs ?w2 = dma_objs w"
    by (simp_all add: filled_simps)
  obtain w3 es ev where m: "submit_map K up s (io_Data ?r) (io_Length ?r) is_write ?w2 = Some (None, w3)"
    "mapped up s (direct_slot (io_Data ?r) (io_Length ?r) ?dl n is_write) (w_mem w) ev ?w2 w3"
    "dma_objs w3 = (dma_objs w)(?dl := es)" "length es = unat n"
    using submit_map_direct [of ?w2 up s, OF l2 assms(3,4), of K is_write n] assms(5,7-10) unfolding fs by auto
  note df = direct_mapped_facts [OF assms(1,2) m(2-4) assms(6)]
  have "submit_sg up s is_write w3 = None"
    by (rule submit_sg_overflow [OF df(3) l2(3)]; unfold df(1,4,5))
      (use assms(11) m(3,4) in \<open>simp_all add: direct_slot_def\<close>)
  then show ?thesis using Submit_unfold [OF assms(1,2) m(1)] by simp
qed

lemma Submit_sg_overflow_witness:
  "VirtIOSCSI_Submit (sg_kern 63) DU DIO (block_cdb False 2 500) False (demo_world CMD_READ 256000) = None"
proof -
  have sl: "slot_list (unit_mem (demo_world CMD_READ 256000) DU) (0 # [1..<16])"
    using demo_slot_list by (simp add: upt_conv_Cons)
  show ?thesis
    by (rule Submit_sg_overflow [OF demo_unit_bufs sl, where n = 63])
      (simp_all add: demo_ioreq_def BOUNCE_BUF_SIZE_def demo_sgs_req demo_sgs_resp demo_unit_lists sg_kern_def MAX_SG_ENTRIES_def)
qed

end
