(* ===== verification/Spec2Isabelle.thy ===== *)
theory Spec2Isabelle
  imports Virtqueue_Props Pipeline_Props
begin

text \<open>
  VirtualSCSIDevice: a VirtIO SCSI driver for AmigaOS 4.1.
\<close>

end
